(* ===== verification/Prelude.thy ===== *)
theory Prelude
  imports Complex_Main "HOL-Library.Word" "HOL-Library.Signed_Division"
begin

text \<open>
  What every component shares: the collections of facts the proofs use, the machine
  integers of Rust, its \<open>Option\<close> and \<open>Result\<close> values and panics, and the interfaces
  (locales) that several components provide.

  Unsigned integers are words of their width. Signed integers are \<open>int\<close> with the range
  of their width written out: the workspace builds with \<open>overflow-checks = true\<close>
  (root \<open>Cargo.toml\<close>), so a signed operation never wraps, it panics, and every such
  operation below has a panicking branch.
\<close>

named_theorems result_simps \<open>how results and options compose\<close>
named_theorems int_ranges \<open>the ranges of the signed machine integers\<close>

section \<open>Machine integers\<close>

type_synonym u8 = "8 word"
type_synonym u16 = "16 word"
type_synonym u32 = "32 word"
type_synonym u64 = "64 word"
type_synonym u128 = "128 word"

definition in_i32 :: "int \<Rightarrow> bool" where
  [int_ranges]: "in_i32 z \<longleftrightarrow> - 2147483648 \<le> z \<and> z \<le> 2147483647"

definition in_i64 :: "int \<Rightarrow> bool" where
  [int_ranges]: "in_i64 z \<longleftrightarrow> - 9223372036854775808 \<le> z \<and> z \<le> 9223372036854775807"

definition in_i128 :: "int \<Rightarrow> bool" where
  [int_ranges]: "in_i128 z \<longleftrightarrow>
     - 170141183460469231731687303715884105728 \<le> z
     \<and> z \<le> 170141183460469231731687303715884105727"

text \<open>\<open>i128::checked_mul\<close>, \<open>checked_add\<close> and \<open>checked_pow\<close>.\<close>

definition checked_mul_i128 :: "int \<Rightarrow> int \<Rightarrow> int option" where
  "checked_mul_i128 a b = (if in_i128 (a * b) then Some (a * b) else None)"

definition checked_add_i128 :: "int \<Rightarrow> int \<Rightarrow> int option" where
  "checked_add_i128 a b = (if in_i128 (a + b) then Some (a + b) else None)"

definition checked_pow_i128 :: "int \<Rightarrow> nat \<Rightarrow> int option" where
  "checked_pow_i128 b n = (if in_i128 (b ^ n) then Some (b ^ n) else None)"

text \<open>\<open>i64::saturating_mul\<close>.\<close>

definition saturating_mul_i64 :: "int \<Rightarrow> int \<Rightarrow> int" where
  "saturating_mul_i64 a b =
     max (- 9223372036854775808) (min 9223372036854775807 (a * b))"

lemma saturating_mul_i64_range [simp]: "in_i64 (saturating_mul_i64 a b)"
  by (auto simp: saturating_mul_i64_def in_i64_def)

lemma saturating_mul_i64_exact: "in_i64 (a * b) \<Longrightarrow> saturating_mul_i64 a b = a * b"
  by (simp add: saturating_mul_i64_def in_i64_def)

text \<open>The checked operations on unsigned words.\<close>

definition checked_add_w :: "'a::len word \<Rightarrow> 'a word \<Rightarrow> 'a word option" where
  "checked_add_w a b = (if uint a + uint b < 2 ^ LENGTH('a) then Some (a + b) else None)"

definition checked_sub_w :: "'a::len word \<Rightarrow> 'a word \<Rightarrow> 'a word option" where
  "checked_sub_w a b = (if b \<le> a then Some (a - b) else None)"

definition checked_mul_w :: "'a::len word \<Rightarrow> 'a word \<Rightarrow> 'a word option" where
  "checked_mul_w a b = (if uint a * uint b < 2 ^ LENGTH('a) then Some (a * b) else None)"

lemma checked_add_w_Some:
  "checked_add_w a b = Some c \<longleftrightarrow> uint c = uint a + uint b"
proof
  assume "checked_add_w a b = Some c"
  then show "uint c = uint a + uint b"
    by (auto simp: checked_add_w_def uint_word_ariths split: if_splits)
next
  assume eq: "uint c = uint a + uint b"
  then have "uint a + uint b < 2 ^ LENGTH('a)"
    using uint_lt2p [of c] by simp
  moreover have "c = a + b"
    using eq calculation by (intro word_uint_eqI) (simp add: uint_word_ariths)
  ultimately show "checked_add_w a b = Some c" by (simp add: checked_add_w_def)
qed

lemma checked_mul_w_Some:
  "checked_mul_w a b = Some c \<longleftrightarrow> uint c = uint a * uint b"
proof
  assume "checked_mul_w a b = Some c"
  then show "uint c = uint a * uint b"
    by (auto simp: checked_mul_w_def uint_word_ariths split: if_splits)
next
  assume eq: "uint c = uint a * uint b"
  then have "uint a * uint b < 2 ^ LENGTH('a)"
    using uint_lt2p [of c] by simp
  moreover have "c = a * b"
    using eq calculation by (intro word_uint_eqI) (simp add: uint_word_ariths)
  ultimately show "checked_mul_w a b = Some c" by (simp add: checked_mul_w_def)
qed

lemma checked_sub_w_Some:
  "checked_sub_w a b = Some c \<longleftrightarrow> uint c = uint a - uint b"
proof
  assume "checked_sub_w a b = Some c"
  then show "uint c = uint a - uint b"
    by (auto simp: checked_sub_w_def uint_sub_if' word_le_def split: if_splits)
next
  assume eq: "uint c = uint a - uint b"
  then have "b \<le> a"
    using uint_ge_0 [of c] by (simp add: word_le_def)
  moreover have "c = a - b"
    using eq calculation by (intro word_uint_eqI) (simp add: uint_sub_if' word_le_def)
  ultimately show "checked_sub_w a b = Some c" by (simp add: checked_sub_w_def)
qed

lemma checked_add_w_None: "checked_add_w (a :: 'a::len word) b = None
    \<longleftrightarrow> 2 ^ LENGTH('a) \<le> uint a + uint b"
  by (auto simp: checked_add_w_def)

lemma checked_mul_w_None: "checked_mul_w (a :: 'a::len word) b = None
    \<longleftrightarrow> 2 ^ LENGTH('a) \<le> uint a * uint b"
  by (auto simp: checked_mul_w_def)

lemma checked_sub_w_None: "checked_sub_w a b = None \<longleftrightarrow> uint a < uint b"
  by (auto simp: checked_sub_w_def word_le_def)

lemmas checked_w_Some = checked_add_w_Some checked_mul_w_Some checked_sub_w_Some
lemmas checked_w_None = checked_add_w_None checked_mul_w_None checked_sub_w_None

section \<open>Results, options and panics\<close>

text \<open>
  \<open>Result<A, E>\<close> is \<open>'e + 'a\<close>; a function that may also panic has \<open>'e fault + 'a\<close>.
  A function with result type \<open>Option\<close> that may panic has \<open>unit fault + 'a\<close>, its
  \<open>None\<close> being \<open>Inl (Raised ())\<close>. \<open>bindR\<close> is the operator \<open>?\<close>.
\<close>

datatype 'e fault = Panic | Raised 'e

type_synonym 'a maybe = "unit fault + 'a"

abbreviation nothing :: "'a maybe" where
  "nothing \<equiv> Inl (Raised ())"

fun bindR :: "'e + 'a \<Rightarrow> ('a \<Rightarrow> 'e + 'b) \<Rightarrow> 'e + 'b" where
  "bindR (Inl e) f = Inl e"
| "bindR (Inr x) f = f x"

definition ok_or :: "'a option \<Rightarrow> 'e \<Rightarrow> 'e + 'a" where
  "ok_or m e = (case m of None \<Rightarrow> Inl e | Some x \<Rightarrow> Inr x)"

definition ok :: "'e + 'a \<Rightarrow> 'a option" where
  "ok r = (case r of Inl _ \<Rightarrow> None | Inr x \<Rightarrow> Some x)"

definition map_err :: "('e \<Rightarrow> 'f) \<Rightarrow> 'e + 'a \<Rightarrow> 'f + 'a" where
  "map_err f r = (case r of Inl e \<Rightarrow> Inl (f e) | Inr x \<Rightarrow> Inr x)"

abbreviation some_or_nothing :: "'a option \<Rightarrow> 'a maybe" where
  "some_or_nothing m \<equiv> ok_or m (Raised ())"

lemma bindR_Inr [result_simps]: "bindR m f = Inr y \<longleftrightarrow> (\<exists>x. m = Inr x \<and> f x = Inr y)"
  by (cases m) auto

lemma bindR_Inl [result_simps]:
  "bindR m f = Inl e \<longleftrightarrow> m = Inl e \<or> (\<exists>x. m = Inr x \<and> f x = Inl e)"
  by (cases m) auto

lemma bindR_cong [fundef_cong]:
  "m = m' \<Longrightarrow> (\<And>x. m' = Inr x \<Longrightarrow> f x = g x) \<Longrightarrow> bindR m f = bindR m' g"
  by (cases m') auto

lemma ok_or_simps [simp]: "ok_or None e = Inl e" "ok_or (Some x) e = Inr x"
  by (simp_all add: ok_or_def)

lemma ok_or_Inr [result_simps]: "ok_or m e = Inr x \<longleftrightarrow> m = Some x"
  by (cases m) auto

lemma ok_or_Inl [result_simps]: "ok_or m e = Inl e' \<longleftrightarrow> m = None \<and> e' = e"
  by (cases m) auto

lemma ok_simps [simp]: "ok (Inl e) = None" "ok (Inr x) = Some x"
  by (simp_all add: ok_def)

lemma ok_Some [result_simps]: "ok r = Some x \<longleftrightarrow> r = Inr x"
  by (cases r) auto

lemma map_err_simps [simp]: "map_err f (Inl e) = Inl (f e)" "map_err f (Inr x) = Inr x"
  by (simp_all add: map_err_def)

lemma map_err_Inr [result_simps]: "map_err f r = Inr x \<longleftrightarrow> r = Inr x"
  by (cases r) auto

text \<open>\<open>iter().map(f).collect::<Result<Vec<_>>>()\<close>: stops at the first error.\<close>

fun traverseR :: "('a \<Rightarrow> 'e + 'b) \<Rightarrow> 'a list \<Rightarrow> 'e + 'b list" where
  "traverseR f [] = Inr []"
| "traverseR f (x # xs) = bindR (f x) (\<lambda>y. bindR (traverseR f xs) (\<lambda>ys. Inr (y # ys)))"

lemma traverseR_Inr_length: "traverseR f xs = Inr ys \<Longrightarrow> length ys = length xs"
  by (induction xs arbitrary: ys) (auto simp: result_simps)

lemma traverseR_Inr_nth:
  "traverseR f xs = Inr ys \<Longrightarrow> i < length xs \<Longrightarrow> f (xs ! i) = Inr (ys ! i)"
proof (induction xs arbitrary: ys i)
  case Nil
  then show ?case by simp
next
  case (Cons x xs)
  then show ?case by (cases i) (auto simp: result_simps)
qed

text \<open>Iteration that stops at the first failure, for the loops written with \<open>?\<close>.\<close>

fun foldR :: "('a \<Rightarrow> 's \<Rightarrow> 'e + 's) \<Rightarrow> 'a list \<Rightarrow> 's \<Rightarrow> 'e + 's" where
  "foldR f [] s = Inr s"
| "foldR f (x # xs) s = bindR (f x s) (foldR f xs)"

lemma foldR_append: "foldR f (xs @ ys) s = bindR (foldR f xs s) (foldR f ys)"
proof (induction xs arbitrary: s)
  case Nil
  show ?case by simp
next
  case (Cons x xs)
  then show ?case by (cases "f x s") auto
qed

lemma foldR_invariant:
  assumes "foldR f xs s = Inr t" and "P s"
    and "\<And>x s s'. x \<in> set xs \<Longrightarrow> P s \<Longrightarrow> f x s = Inr s' \<Longrightarrow> P s'"
  shows "P t"
  using assms
proof (induction xs arbitrary: s)
  case Nil
  then show ?case by simp
next
  case (Cons x xs)
  from Cons.prems(1) obtain s' where s': "f x s = Inr s'" and rest: "foldR f xs s' = Inr t"
    by (auto simp: result_simps)
  from s' Cons.prems(2,3) have "P s'" by (meson list.set_intros(1))
  with rest show ?case using Cons.IH Cons.prems(3) by (meson list.set_intros(2))
qed

section \<open>Interfaces\<close>

text \<open>
  A step function with an invariant: every run of admissible steps keeps it. The components that
  react to a sequence of events (the pricing engine, the price store, the coalescing feed)
  provide this interface.
\<close>

locale stepper =
  fixes step :: "'s \<Rightarrow> 'e \<Rightarrow> 's"
    and good :: "'s \<Rightarrow> bool"
    and admissible :: "'e \<Rightarrow> bool"
  assumes step_inv: "good s \<Longrightarrow> admissible e \<Longrightarrow> good (step s e)"
begin

lemma run_inv: "good s \<Longrightarrow> list_all admissible es \<Longrightarrow> good (foldl step s es)"
  by (induction es arbitrary: s) (auto intro: step_inv)

lemma run_prefix_inv: "good s \<Longrightarrow> list_all admissible es \<Longrightarrow> good (foldl step s (take n es))"
  by (rule run_inv) (auto simp: list_all_iff dest: in_set_takeD)

end

text \<open>
  A keyed store: what a lookup returns after an insert. The price table behind the HTTP
  API and the engine's table of underlying snapshots provide it.
\<close>

locale keyed_store =
  fixes lookup :: "'s \<Rightarrow> 'k \<Rightarrow> 'v option"
    and insert :: "'s \<Rightarrow> 'k \<Rightarrow> 'v \<Rightarrow> 's"
  assumes lookup_insert: "lookup (insert s k v) k' = (if k' = k then Some v else lookup s k')"
begin

lemma lookup_insert_same: "lookup (insert s k v) k = Some v"
  by (simp add: lookup_insert)

lemma lookup_insert_other: "k' \<noteq> k \<Longrightarrow> lookup (insert s k v) k' = lookup s k'"
  by (simp add: lookup_insert)

text \<open>After a run of inserts a key holds its last value: the inserts read backwards.\<close>

lemma lookup_inserts:
  "lookup (foldl (\<lambda>s (k, v). insert s k v) s kvs) k =
     (case map_of (rev kvs) k of None \<Rightarrow> lookup s k | Some v \<Rightarrow> Some v)"
proof (induction kvs rule: rev_induct)
  case Nil
  show ?case by simp
next
  case (snoc kv kvs)
  then show ?case by (cases kv) (simp add: lookup_insert)
qed

end

text \<open>
  An encoding with a decoder that undoes it on the values that are \<open>valid\<close>. Price texts,
  wire mantissas, little-endian integers and Pyth pairs provide it.
\<close>

locale codec =
  fixes encode :: "'a \<Rightarrow> 'b"
    and decode :: "'b \<Rightarrow> 'a option"
    and valid :: "'a \<Rightarrow> bool"
  assumes decode_encode: "valid x \<Longrightarrow> decode (encode x) = Some x"
begin

lemma encode_injective: "valid x \<Longrightarrow> valid y \<Longrightarrow> encode x = encode y \<Longrightarrow> x = y"
  by (metis decode_encode option.inject)

lemma encode_eq_iff: "valid x \<Longrightarrow> valid y \<Longrightarrow> encode x = encode y \<longleftrightarrow> x = y"
  by (auto dest: encode_injective)

end

end
