(* ===== verification/Rust_Text.thy ===== *)
theory Rust_Text
  imports Prelude
begin

text \<open>
  The text operations of Rust's standard library that the source uses: decimal printing
  and parsing of integers, zero padding, splitting at the first separator and trimming.
  A \<open>String\<close> is its list of UTF-8 bytes, a HOL \<open>string\<close>; every text of this program is
  ASCII.
\<close>

section \<open>Decimal digits\<close>

definition digit_char :: "nat \<Rightarrow> char" where
  "digit_char d = char_of (48 + d)"

definition digit_val :: "char \<Rightarrow> nat option" where
  "digit_val c = (let n = of_char c :: nat in if 48 \<le> n \<and> n \<le> 57 then Some (n - 48) else None)"

definition is_digit :: "char \<Rightarrow> bool" where
  "is_digit c = (digit_val c \<noteq> None)"

lemma of_char_digit_char [simp]: "d < 10 \<Longrightarrow> of_char (digit_char d) = (48 + d :: nat)"
  by (simp add: digit_char_def)

lemma digit_val_digit_char [simp]: "d < 10 \<Longrightarrow> digit_val (digit_char d) = Some d"
  by (simp add: digit_val_def Let_def)

lemma is_digit_digit_char [simp]: "d < 10 \<Longrightarrow> is_digit (digit_char d)"
  by (simp add: is_digit_def)

lemma digit_char_neq:
  assumes "d < 10" and "of_char c < (48 :: nat) \<or> (57 :: nat) < of_char c"
  shows "digit_char d \<noteq> c"
  using assms of_char_digit_char [OF assms(1)] by auto

lemma not_digit [simp]:
  "\<not> is_digit (CHR ''-'')" "\<not> is_digit (CHR ''+'')" "\<not> is_digit (CHR ''.'')"
  "\<not> is_digit (CHR ''e'')"
  by (simp_all add: is_digit_def digit_val_def)

lemma zero_char: "CHR ''0'' = digit_char 0"
  by (simp add: digit_char_def char_of_def bit_0)

text \<open>The ten digits, for evaluating texts.\<close>

lemma digit_chars:
  "digit_char 0 = CHR ''0''" "digit_char 1 = CHR ''1''" "digit_char (Suc 0) = CHR ''1''"
  "digit_char 2 = CHR ''2''" "digit_char 3 = CHR ''3''" "digit_char 4 = CHR ''4''"
  "digit_char 5 = CHR ''5''" "digit_char 6 = CHR ''6''" "digit_char 7 = CHR ''7''"
  "digit_char 8 = CHR ''8''" "digit_char 9 = CHR ''9''"
  by code_simp+

section \<open>Printing\<close>

text \<open>\<open>{}\<close> on an unsigned integer.\<close>

fun show_nat :: "nat \<Rightarrow> string" where
  "show_nat n =
     (if n < 10 then [digit_char n] else show_nat (n div 10) @ [digit_char (n mod 10)])"

declare show_nat.simps [simp del]

text \<open>\<open>{}\<close> on a signed integer.\<close>

definition show_int :: "int \<Rightarrow> string" where
  "show_int z = (if z < 0 then CHR ''-'' # show_nat (nat (- z)) else show_nat (nat z))"

text \<open>\<open>{:0w$}\<close> on an unsigned integer.\<close>

definition show_nat_padded :: "nat \<Rightarrow> nat \<Rightarrow> string" where
  "show_nat_padded w n =
     (let s = show_nat n in replicate (w - length s) (CHR ''0'') @ s)"

section \<open>Parsing\<close>

text \<open>
  The value of a run of digits, read left to right; \<open>None\<close> on any other byte. The
  accumulator never overflows before the result does, so \<open>from_str\<close> below checks the
  range once, on the result.
\<close>

fun digits_val :: "nat \<Rightarrow> string \<Rightarrow> nat option" where
  "digits_val acc [] = Some acc"
| "digits_val acc (c # cs) =
     (case digit_val c of None \<Rightarrow> None | Some d \<Rightarrow> digits_val (10 * acc + d) cs)"

text \<open>
  \<open>str::parse\<close> into a signed integer type with range \<open>lo .. hi\<close>: an optional sign, then at
  least one digit, then the range check.
\<close>

definition parse_signed :: "int \<Rightarrow> int \<Rightarrow> string \<Rightarrow> int option" where
  "parse_signed lo hi s =
     (let (neg, ds) =
        (case s of
           [] \<Rightarrow> (False, [])
         | c # cs \<Rightarrow> if c = CHR ''-'' then (True, cs)
                    else if c = CHR ''+'' then (False, cs) else (False, s))
      in if ds = [] then None
         else case digits_val 0 ds of
             None \<Rightarrow> None
           | Some n \<Rightarrow> let z = (if neg then - int n else int n)
                      in if lo \<le> z \<and> z \<le> hi then Some z else None)"

definition parse_i128 :: "string \<Rightarrow> int option" where
  "parse_i128 = parse_signed (- 170141183460469231731687303715884105728)
     170141183460469231731687303715884105727"

definition parse_i64 :: "string \<Rightarrow> int option" where
  "parse_i64 = parse_signed (- 9223372036854775808) 9223372036854775807"

text \<open>\<open>str::parse::<u64>\<close>: a plus sign is accepted, a minus sign is not a digit.\<close>

definition parse_u64 :: "string \<Rightarrow> u64 option" where
  "parse_u64 s =
     (let ds = (case s of [] \<Rightarrow> [] | c # cs \<Rightarrow> if c = CHR ''+'' then cs else s)
      in if ds = [] then None
         else case digits_val 0 ds of
             None \<Rightarrow> None
           | Some n \<Rightarrow> if n < 2 ^ 64 then Some (of_nat n) else None)"

section \<open>Splitting and trimming\<close>

text \<open>\<open>str::split_once(c)\<close>.\<close>

fun split_once :: "char \<Rightarrow> string \<Rightarrow> (string \<times> string) option" where
  "split_once c [] = None"
| "split_once c (x # xs) =
     (if x = c then Some ([], xs)
      else map_option (\<lambda>(a, b). (x # a, b)) (split_once c xs))"

text \<open>\<open>str::trim_start_matches(p)\<close> removes the prefix as often as it repeats.\<close>

fun trim_start_0x :: "string \<Rightarrow> string" where
  "trim_start_0x (a # b # cs) =
     (if a = CHR ''0'' \<and> b = CHR ''x'' then trim_start_0x cs else a # b # cs)"
| "trim_start_0x s = s"

text \<open>\<open>str::to_lowercase\<close> on ASCII text.\<close>

definition lower_char :: "char \<Rightarrow> char" where
  "lower_char c = (let n = of_char c :: nat in if 65 \<le> n \<and> n \<le> 90 then char_of (n + 32) else c)"

definition to_lowercase :: "string \<Rightarrow> string" where
  "to_lowercase s = map lower_char s"

section \<open>Printing and parsing undo each other\<close>

lemma show_nat_digits: "list_all is_digit (show_nat n)"
proof (induction n rule: show_nat.induct)
  case (1 n)
  then show ?case by (subst show_nat.simps) auto
qed

lemma show_nat_not_Nil [simp]: "show_nat n \<noteq> []"
  by (subst show_nat.simps) simp

lemma digits_val_append:
  "digits_val acc (xs @ ys) = (case digits_val acc xs of None \<Rightarrow> None | Some a \<Rightarrow> digits_val a ys)"
  by (induction xs arbitrary: acc) (auto split: option.splits)

lemma digits_val_show_nat: "digits_val 0 (show_nat n) = Some n"
proof (induction n rule: show_nat.induct)
  case (1 n)
  then show ?case
    by (subst show_nat.simps) (simp add: digits_val_append)
qed

lemma digits_val_acc: "digits_val acc xs = map_option (\<lambda>v. acc * 10 ^ length xs + v) (digits_val 0 xs)"
proof (induction xs arbitrary: acc)
  case Nil
  show ?case by simp
next
  case (Cons c cs)
  show ?case
  proof (cases "digit_val c")
    case None
    then show ?thesis by simp
  next
    case (Some d)
    then have l: "digits_val acc (c # cs) = map_option (\<lambda>v. (10 * acc + d) * 10 ^ length cs + v) (digits_val 0 cs)"
      by (simp add: Cons.IH [of "10 * acc + d"])
    from Some have r: "digits_val 0 (c # cs) = map_option (\<lambda>v. d * 10 ^ length cs + v) (digits_val 0 cs)"
      by (simp add: Cons.IH [of d])
    show ?thesis unfolding l r by (cases "digits_val 0 cs") (simp_all add: algebra_simps)
  qed
qed

lemma digits_val_zeros: "digits_val 0 (replicate k (CHR ''0'') @ xs) = digits_val 0 xs"
  by (induction k) (simp_all add: zero_char)

lemma digits_val_padded: "digits_val 0 (show_nat_padded w n) = Some n"
  by (simp add: show_nat_padded_def Let_def digits_val_zeros digits_val_show_nat)

lemma length_show_nat_le: "n < 10 ^ w \<Longrightarrow> 0 < w \<Longrightarrow> length (show_nat n) \<le> w"
proof (induction n arbitrary: w rule: show_nat.induct)
  case (1 n)
  show ?case
  proof (cases "n < 10")
    case True
    with "1.prems"(2) show ?thesis by (subst show_nat.simps) simp
  next
    case False
    with "1.prems" obtain v where v: "w = Suc v" "0 < v"
      by (cases w; cases "w - 1") auto
    with "1.prems"(1) have "n div 10 < 10 ^ v" by (simp add: less_mult_imp_div_less mult.commute)
    with "1.IH" False v(2) have "length (show_nat (n div 10)) \<le> v" by blast
    with False v(1) show ?thesis by (subst show_nat.simps) simp
  qed
qed

lemma length_show_nat_padded: "n < 10 ^ w \<Longrightarrow> 0 < w \<Longrightarrow> length (show_nat_padded w n) = w"
  using length_show_nat_le [of n w] by (simp add: show_nat_padded_def Let_def)

lemma show_nat_padded_digits: "list_all is_digit (show_nat_padded w n)"
  using show_nat_digits [of n]
  by (auto simp: show_nat_padded_def Let_def list_all_iff zero_char)

lemma digit_list_hd:
  "list_all is_digit s \<Longrightarrow> s = c # cs \<Longrightarrow> c \<noteq> CHR ''-'' \<and> c \<noteq> CHR ''+''"
  by auto

lemma parse_signed_digits:
  assumes "list_all is_digit s" "s \<noteq> []" "digits_val 0 s = Some n" "lo \<le> int n" "int n \<le> hi"
  shows "parse_signed lo hi s = Some (int n)"
  using assms digit_list_hd [OF assms(1)]
  by (cases s) (auto simp: parse_signed_def Let_def)

lemma parse_signed_neg_digits:
  assumes "list_all is_digit s" "s \<noteq> []" "digits_val 0 s = Some n" "lo \<le> - int n" "- int n \<le> hi"
  shows "parse_signed lo hi (CHR ''-'' # s) = Some (- int n)"
  using assms by (simp add: parse_signed_def Let_def)

lemma parse_signed_range:
  "parse_signed lo hi s = Some z \<Longrightarrow> lo \<le> z \<and> z \<le> hi"
  by (auto simp: parse_signed_def Let_def split: if_splits option.splits prod.splits list.splits)

lemma parse_signed_show_int:
  "lo \<le> z \<Longrightarrow> z \<le> hi \<Longrightarrow> parse_signed lo hi (show_int z) = Some z"
  using parse_signed_digits [OF show_nat_digits show_nat_not_Nil digits_val_show_nat, of lo "nat z" hi]
    parse_signed_neg_digits [OF show_nat_digits show_nat_not_Nil digits_val_show_nat, of lo "nat (- z)" hi]
  by (simp add: show_int_def)

lemma parse_i128_show_int: "in_i128 z \<Longrightarrow> parse_i128 (show_int z) = Some z"
  unfolding parse_i128_def in_i128_def by (rule parse_signed_show_int) simp_all

lemma parse_i64_show_int: "in_i64 z \<Longrightarrow> parse_i64 (show_int z) = Some z"
  unfolding parse_i64_def in_i64_def by (rule parse_signed_show_int) simp_all

lemma parse_i128_range: "parse_i128 s = Some z \<Longrightarrow> in_i128 z"
  using parse_signed_range unfolding parse_i128_def in_i128_def by blast

lemma parse_i64_range: "parse_i64 s = Some z \<Longrightarrow> in_i64 z"
  using parse_signed_range unfolding parse_i64_def in_i64_def by blast

lemma parse_u64_show_nat: "n < 2 ^ 64 \<Longrightarrow> parse_u64 (show_nat n) = Some (of_nat n)"
  using digit_list_hd [OF show_nat_digits, of n] digits_val_show_nat [of n]
  by (cases "show_nat n") (auto simp: parse_u64_def Let_def simp del: digits_val.simps)

lemmas show_eval = show_int_def show_nat_padded_def show_nat.simps digit_chars

text \<open>A byte that is neither a sign nor a digit makes every parse fail.\<close>

lemma digits_val_None: "\<not> list_all is_digit s \<Longrightarrow> digits_val acc s = None"
  by (induction s arbitrary: acc) (auto simp: is_digit_def split: option.splits)

lemma parse_signed_bad:
  assumes "x \<in> set s" "\<not> is_digit x" "x \<noteq> CHR ''-''" "x \<noteq> CHR ''+''"
  shows "parse_signed lo hi s = None"
proof (cases s)
  case Nil
  with assms(1) show ?thesis by simp
next
  case (Cons c cs)
  have bad: "digits_val 0 ds = None" if "x \<in> set ds" for ds
    using digits_val_None [of ds 0] that assms(2) by (auto simp: list_all_iff)
  have "x \<in> set cs" if "c = CHR ''-'' \<or> c = CHR ''+''"
    using that assms Cons by auto
  then show ?thesis
    using bad [of cs] bad [of s] assms(1) Cons
    by (simp add: parse_signed_def Let_def del: digits_val.simps)
qed

lemma split_once_append: "c \<notin> set a \<Longrightarrow> split_once c (a @ c # b) = Some (a, b)"
  by (induction a) auto

lemma split_once_None: "split_once c s = None \<longleftrightarrow> c \<notin> set s"
  by (induction s) auto

lemma split_once_Some: "split_once c s = Some (a, b) \<longleftrightarrow> s = a @ c # b \<and> c \<notin> set a"
proof (induction s arbitrary: a)
  case Nil
  show ?case by simp
next
  case (Cons x xs)
  show ?case by (cases a) (auto simp: Cons.IH)
qed

interpretation i128_text: codec show_int parse_i128 in_i128
  by unfold_locales (rule parse_i128_show_int)

end
