(* ===== verification/Externals.thy ===== *)
theory Externals
  imports Rust_Text
begin

text \<open>
  The third-party numeric types the program computes with: \<open>rust_decimal::Decimal\<close>, a
  parameter of every definition that uses it, and \<open>f64\<close>, whose \<open>exp\<close>, \<open>powi\<close> and \<open>powf\<close>
  the standard library leaves to the platform. Both are records of the operations the source
  calls. \<open>dec_exact\<close> collects what the documentation of \<open>Decimal\<close> promises (96-bit mantissa,
  scale at most 28, exact results where they are representable); the theorems that rely on it
  say so. \<open>rat_dec\<close> is one concrete instance, used to evaluate witnesses.
\<close>

section \<open>The operations\<close>

record 'f f64_ops =
  f_zero :: 'f
  f_ten :: 'f
  f_one :: 'f
  f_half :: 'f
  f_ln2 :: 'f
  f_of_int :: "int \<Rightarrow> 'f"               \<comment> \<open>\<open>as f64\<close>, \<open>f64::from\<close>\<close>
  f_to_i128 :: "'f \<Rightarrow> int"              \<comment> \<open>\<open>as i128\<close> (saturating)\<close>
  f_add :: "'f \<Rightarrow> 'f \<Rightarrow> 'f"
  f_sub :: "'f \<Rightarrow> 'f \<Rightarrow> 'f"
  f_mul :: "'f \<Rightarrow> 'f \<Rightarrow> 'f"
  f_div :: "'f \<Rightarrow> 'f \<Rightarrow> 'f"
  f_neg :: "'f \<Rightarrow> 'f"
  f_abs :: "'f \<Rightarrow> 'f"
  f_round :: "'f \<Rightarrow> 'f"
  f_exp :: "'f \<Rightarrow> 'f"
  f_sqrt :: "'f \<Rightarrow> 'f"
  f_powi :: "'f \<Rightarrow> int \<Rightarrow> 'f"
  f_powf :: "'f \<Rightarrow> 'f \<Rightarrow> 'f"
  f_is_finite :: "'f \<Rightarrow> bool"
  f_le :: "'f \<Rightarrow> 'f \<Rightarrow> bool"            \<comment> \<open>\<open><=\<close>, false on NaN\<close>
  f_show :: "'f \<Rightarrow> string"

record ('d, 'f) dec_ops =
  dec_zero :: 'd
  dec_one :: 'd
  dec_two :: 'd
  dec_ten :: 'd
  dec_le :: "'d \<Rightarrow> 'd \<Rightarrow> bool"
  dec_add :: "'d \<Rightarrow> 'd \<Rightarrow> 'd option"    \<comment> \<open>\<open>checked_add\<close>, and so on\<close>
  dec_sub :: "'d \<Rightarrow> 'd \<Rightarrow> 'd option"
  dec_mul :: "'d \<Rightarrow> 'd \<Rightarrow> 'd option"
  dec_div :: "'d \<Rightarrow> 'd \<Rightarrow> 'd option"
  dec_abs :: "'d \<Rightarrow> 'd"
  dec_round :: "'d \<Rightarrow> 'd"
  dec_floor :: "'d \<Rightarrow> 'd"
  dec_fract :: "'d \<Rightarrow> 'd"
  dec_sqrt :: "'d \<Rightarrow> 'd option"
  dec_of_i128 :: "int \<Rightarrow> nat \<Rightarrow> 'd option"  \<comment> \<open>\<open>try_from_i128_with_scale\<close>\<close>
  dec_of_u128 :: "u128 \<Rightarrow> 'd option"
  dec_of_u64 :: "u64 \<Rightarrow> 'd"
  dec_to_i128 :: "'d \<Rightarrow> int option"
  dec_to_u64 :: "'d \<Rightarrow> u64 option"
  dec_to_u128 :: "'d \<Rightarrow> u128 option"
  dec_to_f64 :: "'d \<Rightarrow> 'f option"
  dec_of_f64 :: "'f \<Rightarrow> 'd option"
  dec_parse :: "string \<Rightarrow> 'd option"

abbreviation dec_lt :: "('d, 'f) dec_ops \<Rightarrow> 'd \<Rightarrow> 'd \<Rightarrow> bool" where
  "dec_lt D a b \<equiv> \<not> dec_le D b a"

abbreviation dec_eq :: "('d, 'f) dec_ops \<Rightarrow> 'd \<Rightarrow> 'd \<Rightarrow> bool" where
  "dec_eq D a b \<equiv> dec_le D a b \<and> dec_le D b a"

section \<open>What the documentation of Decimal promises\<close>

definition dec_repr :: "rat \<Rightarrow> bool" where
  "dec_repr r \<longleftrightarrow> (\<exists>m s. s \<le> 28 \<and> \<bar>m\<bar> < 2 ^ 96 \<and> r = of_int m / 10 ^ s)"

definition dec_order :: "('d, 'f) dec_ops \<Rightarrow> ('d \<Rightarrow> rat) \<Rightarrow> bool" where
  "dec_order D val \<longleftrightarrow>
     (\<forall>a b. dec_le D a b \<longleftrightarrow> val a \<le> val b)
     \<and> val (dec_zero D) = 0 \<and> val (dec_one D) = 1 \<and> val (dec_two D) = 2 \<and> val (dec_ten D) = 10"

definition dec_exact_op ::
    "('d \<Rightarrow> rat) \<Rightarrow> ('d \<Rightarrow> 'd \<Rightarrow> 'd option) \<Rightarrow> (rat \<Rightarrow> rat \<Rightarrow> rat) \<Rightarrow> bool" where
  "dec_exact_op val f g \<longleftrightarrow>
     (\<forall>a b. dec_repr (g (val a) (val b)) \<longrightarrow> (\<exists>c. f a b = Some c \<and> val c = g (val a) (val b)))"

definition dec_exact :: "('d, 'f) dec_ops \<Rightarrow> ('d \<Rightarrow> rat) \<Rightarrow> bool" where
  "dec_exact D val \<longleftrightarrow>
     dec_exact_op val (dec_add D) (+)
     \<and> dec_exact_op val (dec_sub D) (-)
     \<and> dec_exact_op val (dec_mul D) (*)
     \<and> (\<forall>a b. val b \<noteq> 0 \<longrightarrow> dec_repr (val a / val b)
              \<longrightarrow> (\<exists>c. dec_div D a b = Some c \<and> val c = val a / val b))
     \<and> (\<forall>a. val (dec_abs D a) = \<bar>val a\<bar>)"

text \<open>Conversions: exact from an integer with a scale; rounding is to the nearest integer,
  ties to even; to an integer truncates.\<close>

definition round_half_even :: "rat \<Rightarrow> int" where
  "round_half_even r =
     (let d = r - of_int \<lfloor>r\<rfloor>
      in if d < 1 / 2 \<or> (d = 1 / 2 \<and> even \<lfloor>r\<rfloor>) then \<lfloor>r\<rfloor> else \<lfloor>r\<rfloor> + 1)"

definition trunc_rat :: "rat \<Rightarrow> int" where
  "trunc_rat r = (if 0 \<le> r then \<lfloor>r\<rfloor> else - \<lfloor>- r\<rfloor>)"

definition dec_convert :: "('d, 'f) dec_ops \<Rightarrow> ('d \<Rightarrow> rat) \<Rightarrow> bool" where
  "dec_convert D val \<longleftrightarrow>
     (\<forall>m s. dec_of_i128 D m s =
              (if s \<le> 28 \<and> \<bar>m\<bar> < 2 ^ 96 then dec_of_i128 D m s else None))
     \<and> (\<forall>m s. s \<le> 28 \<longrightarrow> \<bar>m\<bar> < 2 ^ 96
              \<longrightarrow> (\<exists>d. dec_of_i128 D m s = Some d \<and> val d = of_int m / 10 ^ s))
     \<and> (\<forall>a. val (dec_round D a) = of_int (round_half_even (val a)))
     \<and> (\<forall>a. dec_to_i128 D a = Some (trunc_rat (val a)))"

lemma dec_convert_of_i128:
  assumes "dec_convert D val"
  shows "dec_of_i128 D m s = Some d \<Longrightarrow> s \<le> 28 \<and> \<bar>m\<bar> < 2 ^ 96 \<and> val d = of_int m / 10 ^ s"
    and "s \<le> 28 \<Longrightarrow> \<bar>m\<bar> < 2 ^ 96 \<Longrightarrow> \<exists>d. dec_of_i128 D m s = Some d \<and> val d = of_int m / 10 ^ s"
proof -
  assume s: "dec_of_i128 D m s = Some d"
  have "dec_of_i128 D m s = (if s \<le> 28 \<and> \<bar>m\<bar> < 2 ^ 96 then dec_of_i128 D m s else None)"
    using assms unfolding dec_convert_def by blast
  with s have r: "s \<le> 28 \<and> \<bar>m\<bar> < 2 ^ 96" by (metis option.distinct(1))
  moreover have "\<exists>d. dec_of_i128 D m s = Some d \<and> val d = of_int m / 10 ^ s"
    using assms r unfolding dec_convert_def by blast
  ultimately show "s \<le> 28 \<and> \<bar>m\<bar> < 2 ^ 96 \<and> val d = of_int m / 10 ^ s" using s by auto
next
  assume "s \<le> 28" "\<bar>m\<bar> < 2 ^ 96"
  then show "\<exists>d. dec_of_i128 D m s = Some d \<and> val d = of_int m / 10 ^ s"
    using assms unfolding dec_convert_def by blast
qed

lemma dec_exact_mul:
  "dec_exact D val \<Longrightarrow> dec_repr (val a * val b) \<Longrightarrow>
     \<exists>c. dec_mul D a b = Some c \<and> val c = val a * val b"
  by (simp add: dec_exact_def dec_exact_op_def)

lemma dec_exact_add:
  "dec_exact D val \<Longrightarrow> dec_repr (val a + val b) \<Longrightarrow>
     \<exists>c. dec_add D a b = Some c \<and> val c = val a + val b"
  by (simp add: dec_exact_def dec_exact_op_def)

lemma dec_exact_sub:
  "dec_exact D val \<Longrightarrow> dec_repr (val a - val b) \<Longrightarrow>
     \<exists>c. dec_sub D a b = Some c \<and> val c = val a - val b"
  by (simp add: dec_exact_def dec_exact_op_def)

lemma dec_exact_div:
  "dec_exact D val \<Longrightarrow> val b \<noteq> 0 \<Longrightarrow> dec_repr (val a / val b) \<Longrightarrow>
     \<exists>c. dec_div D a b = Some c \<and> val c = val a / val b"
  by (simp add: dec_exact_def)

lemma dec_exact_abs: "dec_exact D val \<Longrightarrow> val (dec_abs D a) = \<bar>val a\<bar>"
  by (simp add: dec_exact_def)

lemma dec_repr_int: "\<bar>m\<bar> < 2 ^ 96 \<Longrightarrow> dec_repr (of_int m)"
  unfolding dec_repr_def by (rule exI [of _ m], rule exI [of _ 0]) simp

lemma dec_repr_frac: "\<bar>m\<bar> < 2 ^ 96 \<Longrightarrow> s \<le> 28 \<Longrightarrow> r = of_int m / 10 ^ s \<Longrightarrow> dec_repr r"
  unfolding dec_repr_def by blast

lemma dec_repr_abs: "dec_repr r \<Longrightarrow> \<bar>r\<bar> < 2 ^ 96"
proof -
  assume "dec_repr r"
  then obtain m s where m: "\<bar>m\<bar> < 2 ^ 96" and r: "r = of_int m / 10 ^ s"
    unfolding dec_repr_def by blast
  have "\<bar>r\<bar> = \<bar>of_int m\<bar> / 10 ^ s" using r by (simp add: abs_divide)
  also have "\<dots> \<le> \<bar>of_int m\<bar>"
    by (simp add: divide_le_eq mult_le_cancel_left1 one_le_power)
  also have "\<dots> < 2 ^ 96"
    using m by (metis of_int_abs of_int_less_iff of_int_numeral of_int_power)
  finally show ?thesis .
qed

lemma round_half_even_int [simp]: "round_half_even (of_int z) = z"
  by (simp add: round_half_even_def Let_def)

lemma round_half_even_near: "\<bar>of_int (round_half_even r) - r\<bar> \<le> 1 / 2"
proof -
  have "of_int \<lfloor>r\<rfloor> \<le> r" "r < of_int \<lfloor>r\<rfloor> + 1" by linarith+
  then show ?thesis
    unfolding round_half_even_def Let_def by (auto simp: abs_le_iff)
qed

lemma trunc_rat_int [simp]: "trunc_rat (of_int z) = z"
proof -
  have "\<lfloor>- (of_int z :: rat)\<rfloor> = - z" by (metis floor_of_int of_int_minus)
  then show ?thesis by (simp add: trunc_rat_def)
qed

section \<open>A concrete instance\<close>

text \<open>Rationals bounded as a 96-bit mantissa bounds them; texts parse as integers.\<close>

definition bounded :: "rat \<Rightarrow> rat option" where
  "bounded r = (if \<bar>r\<bar> < 2 ^ 96 then Some r else None)"

definition rat_dec :: "(rat, rat) dec_ops" where
  "rat_dec = \<lparr> dec_zero = 0, dec_one = 1, dec_two = 2, dec_ten = 10, dec_le = (\<le>),
     dec_add = (\<lambda>a b. bounded (a + b)), dec_sub = (\<lambda>a b. bounded (a - b)),
     dec_mul = (\<lambda>a b. bounded (a * b)),
     dec_div = (\<lambda>a b. if b = 0 then None else bounded (a / b)),
     dec_abs = abs, dec_round = (\<lambda>a. of_int (round_half_even a)),
     dec_floor = (\<lambda>a. of_int \<lfloor>a\<rfloor>), dec_fract = (\<lambda>a. a - of_int (trunc_rat a)),
     dec_sqrt = (\<lambda>a. if a < 0 then None else Some a),
     dec_of_i128 = (\<lambda>m s. if s \<le> 28 \<and> \<bar>m\<bar> < 2 ^ 96 then Some (of_int m / 10 ^ s) else None),
     dec_of_u128 = (\<lambda>w. if uint w < 2 ^ 96 then Some (of_int (uint w)) else None),
     dec_of_u64 = (\<lambda>w. of_int (uint w)),
     dec_to_i128 = (\<lambda>a. Some (trunc_rat a)),
     dec_to_u64 = (\<lambda>a. if 0 \<le> trunc_rat a \<and> trunc_rat a < 2 ^ 64 then Some (word_of_int (trunc_rat a)) else None),
     dec_to_u128 = (\<lambda>a. if 0 \<le> trunc_rat a then Some (word_of_int (trunc_rat a)) else None),
     dec_to_f64 = Some, dec_of_f64 = bounded,
     dec_parse = (\<lambda>s. map_option of_int (parse_i128 s)) \<rparr>"

lemma rat_dec_simps [simp]:
  "dec_zero rat_dec = 0" "dec_one rat_dec = 1" "dec_two rat_dec = 2" "dec_ten rat_dec = 10"
  "dec_le rat_dec a b = (a \<le> b)" "dec_add rat_dec a b = bounded (a + b)"
  "dec_sub rat_dec a b = bounded (a - b)" "dec_mul rat_dec a b = bounded (a * b)"
  "dec_div rat_dec a b = (if b = 0 then None else bounded (a / b))"
  "dec_abs rat_dec a = \<bar>a\<bar>" "dec_round rat_dec a = of_int (round_half_even a)"
  "dec_floor rat_dec a = of_int \<lfloor>a\<rfloor>" "dec_fract rat_dec a = a - of_int (trunc_rat a)"
  "dec_of_i128 rat_dec m s = (if s \<le> 28 \<and> \<bar>m\<bar> < 2 ^ 96 then Some (of_int m / 10 ^ s) else None)"
  "dec_of_u128 rat_dec w = (if uint w < 2 ^ 96 then Some (of_int (uint w)) else None)"
  "dec_of_u64 rat_dec v = of_int (uint v)" "dec_to_i128 rat_dec a = Some (trunc_rat a)"
  "dec_to_u64 rat_dec a = (if 0 \<le> trunc_rat a \<and> trunc_rat a < 2 ^ 64
     then Some (word_of_int (trunc_rat a)) else None)"
  "dec_to_u128 rat_dec a = (if 0 \<le> trunc_rat a then Some (word_of_int (trunc_rat a)) else None)"
  "dec_sqrt rat_dec a = (if a < 0 then None else Some a)"
  "dec_to_f64 rat_dec a = Some a" "dec_of_f64 rat_dec a = bounded a"
  "dec_parse rat_dec t = map_option of_int (parse_i128 t)"
  by (simp_all add: rat_dec_def)

lemma floor_rat_numeral [simp]:
  "\<lfloor>numeral a / numeral b :: rat\<rfloor> = numeral a div numeral b"
  by (metis floor_divide_of_int_eq of_int_numeral)

lemma rat_dec_order: "dec_order rat_dec id"
  by (simp add: dec_order_def)

lemma dec_repr_bounded: "dec_repr r \<Longrightarrow> bounded r = Some r"
  unfolding bounded_def using dec_repr_abs [of r] by simp

lemma rat_dec_exact: "dec_exact rat_dec id"
  by (simp add: dec_exact_def dec_exact_op_def dec_repr_bounded)

lemma rat_dec_convert: "dec_convert rat_dec id"
  by (simp add: dec_convert_def)

text \<open>Rational stand-ins for the floating-point operations and for \<open>sqrt\<close>: they only have to
  compute in a witness.\<close>

definition rat_f64 :: "rat f64_ops" where
  "rat_f64 = \<lparr> f_zero = 0, f_ten = 10, f_one = 1, f_half = 1 / 2, f_ln2 = 693 / 1000,
     f_of_int = of_int, f_to_i128 = trunc_rat, f_add = (+), f_sub = (-), f_mul = (*),
     f_div = (/), f_neg = uminus, f_abs = abs, f_round = (\<lambda>a. sgn a * of_int \<lfloor>\<bar>a\<bar> + 1 / 2\<rfloor>),
     f_exp = (\<lambda>a. 1 + a), f_sqrt = (\<lambda>a. a), f_powi = (\<lambda>a n. a powi n), f_powf = (\<lambda>a b. a),
     f_is_finite = (\<lambda>_. True), f_le = (\<le>), f_show = (\<lambda>_. ''f64'') \<rparr>"

end
