(* ===== verification/Price.thy ===== *)
theory Price
  imports Externals
begin

text \<open>
  \<open>crates/mtm-math/src/lib.rs\<close>: the canonical fixed-point price \<open>mantissa * 10^expo\<close>,
  its scaling, its text form and its wire form. \<open>price_ok\<close> is the range of the Rust fields
  (\<open>i128\<close>, \<open>i32\<close>); every operation keeps it.
\<close>

section \<open>Data\<close>

datatype math_error = Overflow | Parse string

record price =
  mantissa :: int
  expo :: int

definition price_ok :: "price \<Rightarrow> bool" where
  "price_ok p \<longleftrightarrow> in_i128 (mantissa p) \<and> in_i32 (expo p)"

definition price_value :: "price \<Rightarrow> rat" where
  "price_value p = of_int (mantissa p) * 10 powi expo p"

definition new_price :: "int \<Rightarrow> int \<Rightarrow> price" where
  "new_price m e = \<lparr>mantissa = m, expo = e\<rparr>"

definition from_pyth :: "int \<Rightarrow> int \<Rightarrow> price" where
  "from_pyth m e = new_price m e"

definition to_pyth :: "price \<Rightarrow> (int \<times> int) option" where
  "to_pyth p = (if in_i64 (mantissa p) then Some (mantissa p, expo p) else None)"

definition to_f64 :: "'f f64_ops \<Rightarrow> price \<Rightarrow> 'f" where
  "to_f64 F p = f_mul F (f_of_int F (mantissa p)) (f_powi F (f_ten F) (expo p))"

definition pow10 :: "nat \<Rightarrow> int option" where
  "pow10 e = checked_pow_i128 10 e"

section \<open>Conversion to and from Decimal and f64\<close>

text \<open>The loop of \<open>to_decimal\<close> that multiplies by ten \<open>n\<close> times.\<close>

fun mul_ten :: "('d, 'f) dec_ops \<Rightarrow> nat \<Rightarrow> 'd \<Rightarrow> 'd option" where
  "mul_ten D 0 d = Some d"
| "mul_ten D (Suc n) d = Option.bind (dec_mul D d (dec_ten D)) (mul_ten D n)"

definition to_decimal :: "('d, 'f) dec_ops \<Rightarrow> price \<Rightarrow> 'd option" where
  "to_decimal D p =
     (if expo p \<le> 0 then dec_of_i128 D (mantissa p) (nat (- expo p))
      else Option.bind (dec_of_i128 D (mantissa p) 0) (mul_ten D (nat (expo p))))"

definition from_decimal :: "('d, 'f) dec_ops \<Rightarrow> 'd \<Rightarrow> int \<Rightarrow> math_error + price" where
  "from_decimal D v e =
     bindR (ok_or (Option.bind (pow10 (nat \<bar>e\<bar>)) (\<lambda>f. dec_of_i128 D f 0)) Overflow) (\<lambda>factor.
     bindR (if e \<le> 0 then ok_or (dec_mul D v factor) Overflow
            else ok_or (dec_div D v factor) Overflow) (\<lambda>shifted.
     bindR (ok_or (dec_to_i128 D (dec_round D shifted)) Overflow) (\<lambda>m.
     Inr (new_price m e))))"

definition from_f64_lossy :: "'f f64_ops \<Rightarrow> 'f \<Rightarrow> int \<Rightarrow> math_error fault + price" where
  "from_f64_lossy F v e =
     (if \<not> f_is_finite F v then Inl (Raised (Parse (f_show F v)))
      else if \<not> in_i32 (- e) then Inl Panic
      else let scaled = f_mul F v (f_powi F (f_ten F) (- e)) in
        if \<not> f_is_finite F scaled
           \<or> f_le F (f_of_int F 170141183460469231731687303715884105727) (f_abs F scaled)
        then Inl (Raised Overflow)
        else Inr (new_price (f_to_i128 F (f_round F scaled)) e))"

section \<open>Scaling\<close>

definition checked_scale :: "price \<Rightarrow> int \<Rightarrow> math_error fault + price" where
  "checked_scale p new_expo =
     (let diff = expo p - new_expo in
      if \<not> in_i32 diff then Inl Panic
      else if diff = 0 then Inr p
      else bindR (ok_or (pow10 (nat \<bar>diff\<bar>)) (Raised Overflow)) (\<lambda>factor.
        if 0 < diff then
          bindR (ok_or (checked_mul_i128 (mantissa p) factor) (Raised Overflow)) (\<lambda>m.
            Inr (new_price m new_expo))
        else Inr (new_price (mantissa p sdiv factor) new_expo)))"

definition apply_bps :: "price \<Rightarrow> int \<Rightarrow> math_error + price" where
  "apply_bps p bps =
     bindR (ok_or (checked_add_i128 10000 bps) Overflow) (\<lambda>num.
     bindR (ok_or (checked_mul_i128 (mantissa p) num) Overflow) (\<lambda>scaled.
     Inr (new_price (scaled sdiv 10000) (expo p))))"

section \<open>Text form\<close>

definition exp_form :: "price \<Rightarrow> string" where
  "exp_form p = show_int (mantissa p) @ ''e'' @ show_int (expo p)"

definition display :: "price \<Rightarrow> string" where
  "display p =
     (if 0 \<le> expo p then
        (case Option.bind (pow10 (nat (expo p))) (checked_mul_i128 (mantissa p)) of
           Some v \<Rightarrow> show_int v
         | None \<Rightarrow> exp_form p)
      else
        (case pow10 (nat \<bar>expo p\<bar>) of
           None \<Rightarrow> exp_form p
         | Some scale \<Rightarrow>
             (let sign = (if mantissa p < 0 then ''-'' else '''');
                  a = nat \<bar>mantissa p\<bar>; s = nat scale; width = nat \<bar>expo p\<bar>
              in sign @ show_nat (a div s) @ ''.'' @ show_nat_padded width (a mod s))))"

definition from_str :: "string \<Rightarrow> math_error + price" where
  "from_str s =
     (let (int_part, frac_part) = (case split_once (CHR ''.'') s of None \<Rightarrow> (s, '''') | Some ab \<Rightarrow> ab)
      in bindR (ok_or (parse_i128 (int_part @ frac_part)) (Parse s)) (\<lambda>m.
         if in_i32 (int (length frac_part)) then Inr (new_price m (- int (length frac_part)))
         else Inl (Parse s)))"

section \<open>Wire form of the mantissa\<close>

datatype scalar = JStr string | JI64 int | JU64 u64 | JI128 int | JOther

datatype serde_error = InvalidMantissaString | InvalidType

definition serialize_mantissa :: "int \<Rightarrow> scalar" where
  "serialize_mantissa v = JStr (show_int v)"

fun deserialize_mantissa :: "scalar \<Rightarrow> serde_error + int" where
  "deserialize_mantissa (JStr v) = ok_or (parse_i128 v) InvalidMantissaString"
| "deserialize_mantissa (JI64 v) = Inr v"
| "deserialize_mantissa (JU64 v) = Inr (uint v)"
| "deserialize_mantissa (JI128 v) = Inr v"
| "deserialize_mantissa JOther = Inl InvalidType"

section \<open>Powers of ten and truncating division\<close>

lemma in_i128_pow10: "in_i128 (10 ^ n) \<longleftrightarrow> n \<le> 38"
proof (cases "n \<le> 38")
  case True
  then have "(10::int) ^ n \<le> 10 ^ 38" by (intro power_increasing) auto
  also have "(10::int) ^ 38 \<le> 170141183460469231731687303715884105727" by simp
  finally have "(10::int) ^ n \<le> 170141183460469231731687303715884105727" .
  moreover have "- 170141183460469231731687303715884105728 \<le> (0::int)" "(0::int) \<le> 10 ^ n"
    by simp_all
  ultimately have "in_i128 (10 ^ n)" unfolding in_i128_def by (blast intro: order_trans)
  with True show ?thesis by simp
next
  case False
  then have "(10::int) ^ 39 \<le> 10 ^ n" by (intro power_increasing) auto
  then show ?thesis using False by (simp add: in_i128_def)
qed

lemma pow10_eq: "pow10 n = (if n \<le> 38 then Some (10 ^ n) else None)"
  by (simp add: pow10_def checked_pow_i128_def in_i128_pow10)

lemma sdiv_bounds:
  fixes a b :: int
  assumes "0 < b"
  shows "\<bar>a sdiv b\<bar> \<le> \<bar>a\<bar>" "\<bar>a - (a sdiv b) * b\<bar> < b" "\<bar>(a sdiv b) * b\<bar> \<le> \<bar>a\<bar>"
    "min 0 a \<le> a sdiv b" "a sdiv b \<le> max 0 a"
proof -
  have q: "\<bar>a sdiv b\<bar> = \<bar>a\<bar> div b" and e: "(a sdiv b) * b = sgn a * ((\<bar>a\<bar> div b) * b)"
    using assms by (auto simp: signed_divide_int_def abs_mult abs_sgn_eq pos_imp_zdiv_nonneg_iff)
  have d: "(\<bar>a\<bar> div b) * b \<le> \<bar>a\<bar>" "\<bar>a\<bar> - (\<bar>a\<bar> div b) * b < b" "0 \<le> (\<bar>a\<bar> div b) * b"
    using assms by (auto simp: minus_div_mult_eq_mod pos_imp_zdiv_nonneg_iff)
       (metis add.commute div_mult_mod_eq le_add_same_cancel1 pos_mod_sign)
  show "\<bar>a sdiv b\<bar> \<le> \<bar>a\<bar>" unfolding q using assms
    by (metis abs_ge_zero div_by_1 zdiv_mono2 zero_less_one_class.zero_less_one int_one_le_iff_zero_less)
  show "\<bar>a - (a sdiv b) * b\<bar> < b"
    unfolding e using d by (cases "0 \<le> a") (auto simp: sgn_if)
  show "\<bar>(a sdiv b) * b\<bar> \<le> \<bar>a\<bar>"
    unfolding e using d by (cases "0 \<le> a") (auto simp: sgn_if)
  have s: "0 \<le> a \<Longrightarrow> 0 \<le> a sdiv b" "a \<le> 0 \<Longrightarrow> a sdiv b \<le> 0"
    using assms by (auto simp: signed_divide_int_def pos_imp_zdiv_nonneg_iff sgn_if)
  show "min 0 a \<le> a sdiv b" "a sdiv b \<le> max 0 a"
    using s \<open>\<bar>a sdiv b\<bar> \<le> \<bar>a\<bar>\<close> by (auto simp: min_def max_def abs_le_iff)
qed

lemma sdiv_i128: "in_i128 a \<Longrightarrow> 0 < b \<Longrightarrow> in_i128 (a sdiv b)"
  using sdiv_bounds(4,5) [of b a] by (auto simp: in_i128_def min_def max_def split: if_splits)

lemma sdiv_exact:
  fixes a b :: int
  assumes "0 < b"
  shows "(a * b) sdiv b = a"
proof -
  let ?q = "(a * b) sdiv b"
  have "\<bar>a - ?q\<bar> * b = \<bar>a * b - ?q * b\<bar>"
    using assms by (simp add: abs_mult flip: left_diff_distrib)
  also have "\<dots> < 1 * b" using sdiv_bounds(2) [OF assms, of "a * b"] by simp
  finally have "\<bar>a - ?q\<bar> < 1" using assms by (simp add: mult_less_cancel_right)
  then show ?thesis by simp
qed

section \<open>Values\<close>

lemma price_ok_new [simp]: "price_ok (new_price m e) \<longleftrightarrow> in_i128 m \<and> in_i32 e"
  by (simp add: price_ok_def new_price_def)

lemma new_price_fields [simp]:
  "mantissa (new_price m e) = m" "expo (new_price m e) = e"
  by (simp_all add: new_price_def)

lemma new_price_eq: "new_price m e = p \<longleftrightarrow> mantissa p = m \<and> expo p = e"
  by (cases p) (auto simp: new_price_def)

lemma price_value_new: "price_value (new_price m e) = of_int m * 10 powi e"
  by (simp add: price_value_def)

lemma powi_diff: "e \<le> e' \<Longrightarrow> (10::rat) powi e' = 10 ^ nat (e' - e) * 10 powi e"
  using power_int_add [of "10::rat" "e' - e" e] by (simp add: power_int_def)

lemma of_int_abs_mono: "\<bar>a\<bar> \<le> \<bar>b\<bar> \<Longrightarrow> \<bar>rat_of_int a\<bar> \<le> \<bar>rat_of_int b\<bar>"
  by (metis of_int_abs of_int_le_iff)

lemma checked_scale_cases:
  assumes "price_ok p"
  shows "checked_scale p e =
    (if \<not> in_i32 (expo p - e) then Inl Panic
     else if e \<le> expo p then
       (if expo p - e \<le> 38 \<and> in_i128 (mantissa p * 10 ^ nat (expo p - e))
        then Inr (new_price (mantissa p * 10 ^ nat (expo p - e)) e)
        else Inl (Raised Overflow))
     else if e - expo p \<le> 38
       then Inr (new_price (mantissa p sdiv 10 ^ nat (e - expo p)) e)
       else Inl (Raised Overflow))"
proof -
  have nn: "nat \<bar>expo p - e\<bar> = (if e \<le> expo p then nat (expo p - e) else nat (e - expo p))"
    by simp
  have "in_i128 (mantissa p)" using assms by (simp add: price_ok_def)
  moreover have "new_price (mantissa p) (expo p) = p" by (simp add: new_price_eq)
  ultimately show ?thesis
    unfolding checked_scale_def Let_def pow10_eq nn checked_mul_i128_def
    by (cases "expo p = e") (auto simp: nat_le_iff)
qed

text \<open>
  C17. Rescaling keeps the requested exponent and the range of the fields; to a finer
  exponent it is exact, to a coarser one it truncates towards zero, by less than one unit of
  the new exponent.
\<close>

theorem checked_scale_value:
  assumes "price_ok p" and "in_i32 e" and "checked_scale p e = Inr q"
  shows "price_ok q \<and> expo q = e
    \<and> (e \<le> expo p \<longrightarrow> price_value q = price_value p)
    \<and> \<bar>price_value q\<bar> \<le> \<bar>price_value p\<bar>
    \<and> \<bar>price_value p - price_value q\<bar> < 10 powi e"
proof (cases "e \<le> expo p")
  case True
  with assms have q: "q = new_price (mantissa p * 10 ^ nat (expo p - e)) e"
    and r: "in_i128 (mantissa p * 10 ^ nat (expo p - e))"
    by (auto simp: checked_scale_cases split: if_splits)
  have "price_value q = price_value p"
    unfolding q price_value_new by (simp add: price_value_def powi_diff [OF True])
  then show ?thesis using q r assms(2) by simp
next
  case False
  let ?k = "nat (expo q - expo p)" and ?f = "10 ^ nat (e - expo p) :: int"
  from False assms have q: "q = new_price (mantissa p sdiv ?f) e"
    by (auto simp: checked_scale_cases split: if_splits)
  let ?u = "10 powi expo p :: rat"
  have u: "0 < ?u" by simp
  have e: "10 powi e = of_int ?f * ?u"
    using powi_diff [of "expo p" e] False by simp
  have vq: "price_value q = of_int ((mantissa p sdiv ?f) * ?f) * ?u"
    unfolding q price_value_new e by simp
  have vp: "price_value p = of_int (mantissa p) * ?u" by (simp add: price_value_def)
  have f: "0 < ?f" by simp
  note b = sdiv_bounds [OF f, of "mantissa p"]
  have "in_i128 (mantissa q)"
    using assms(1) sdiv_i128 q by (simp add: price_ok_def)
  moreover have "\<bar>price_value q\<bar> \<le> \<bar>price_value p\<bar>"
    unfolding vq vp abs_mult using b(3) u
    by (intro mult_right_mono of_int_abs_mono) simp_all
  moreover have "\<bar>price_value p - price_value q\<bar> < 10 powi e"
  proof -
    have "price_value p - price_value q = of_int (mantissa p - (mantissa p sdiv ?f) * ?f) * ?u"
      unfolding vq vp by (simp add: left_diff_distrib)
    then have "\<bar>price_value p - price_value q\<bar> = of_int \<bar>mantissa p - (mantissa p sdiv ?f) * ?f\<bar> * ?u"
      by (simp add: abs_mult)
    also have "\<dots> < of_int ?f * ?u"
      using b(2) u by (intro mult_strict_right_mono) (simp only: of_int_less_iff, simp)
    finally show ?thesis unfolding e .
  qed
  ultimately show ?thesis using q assms(2) False by (simp add: price_ok_def)
qed

theorem checked_scale_value_witness:
  "price_ok (new_price 15327 (-2)) \<and> checked_scale (new_price 15327 (-2)) (-1) = Inr (new_price 1532 (-1))
   \<and> \<bar>price_value (new_price 15327 (-2)) - price_value (new_price 1532 (-1))\<bar> < 10 powi (-1)"
proof -
  have ok: "price_ok (new_price 15327 (-2))" by (simp add: in_i128_def in_i32_def)
  have r: "checked_scale (new_price 15327 (-2)) (-1) = Inr (new_price 1532 (-1))"
    by (simp add: checked_scale_cases [OF ok] in_i32_def signed_divide_int_def)
  from checked_scale_value [OF ok _ r] ok r show ?thesis by (simp add: in_i32_def)
qed

text \<open>
  \<open>checked_scale\<close> fails in exactly these ways: it panics when the difference of the
  exponents leaves \<open>i32\<close> (the subtraction is not a checked one), and it reports an overflow when
  the factor exceeds \<open>10^38\<close> or a finer mantissa leaves \<open>i128\<close>.
\<close>

theorem checked_scale_errors:
  assumes "price_ok p"
  shows "(checked_scale p e = Inl Panic \<longleftrightarrow> \<not> in_i32 (expo p - e))
    \<and> (checked_scale p e = Inl (Raised Overflow) \<longleftrightarrow>
         in_i32 (expo p - e)
         \<and> (38 < \<bar>expo p - e\<bar>
            \<or> (e < expo p \<and> \<not> in_i128 (mantissa p * 10 ^ nat (expo p - e)))))"
proof -
  have "\<not> in_i128 (mantissa p * 10 ^ nat (expo p - e)) \<Longrightarrow> e \<le> expo p \<Longrightarrow> e < expo p"
    using assms by (cases "e = expo p") (simp_all add: price_ok_def)
  then show ?thesis by (auto simp: checked_scale_cases [OF assms])
qed

theorem checked_scale_errors_witness:
  "price_ok (new_price 1 2147483647)
   \<and> checked_scale (new_price 1 2147483647) (-8) = Inl Panic
   \<and> checked_scale (new_price 1 31) (-8) = Inl (Raised Overflow)"
proof -
  have ok: "price_ok (new_price 1 2147483647)" "price_ok (new_price 1 31)"
    by (simp_all add: in_i128_def in_i32_def)
  from checked_scale_errors [OF ok(1), THEN conjunct1, of "-8"]
  have "checked_scale (new_price 1 2147483647) (-8) = Inl Panic" by (simp add: in_i32_def)
  moreover from checked_scale_errors [OF ok(2), THEN conjunct2, of "-8"]
  have "checked_scale (new_price 1 31) (-8) = Inl (Raised Overflow)" by (simp add: in_i32_def)
  ultimately show ?thesis using ok(1) by blast
qed

text \<open>
  Rescaling to a finer exponent is undone by rescaling back: no information is lost.
\<close>

theorem checked_scale_roundtrip:
  assumes "price_ok p" and "e \<le> expo p" and "checked_scale p e = Inr q"
  shows "checked_scale q (expo p) = Inr p"
proof -
  let ?f = "10 ^ nat (expo p - e) :: int"
  from assms have q: "q = new_price (mantissa p * ?f) e" and d: "expo p - e \<le> 38"
    and r: "in_i128 (mantissa p * ?f)"
    by (auto simp: checked_scale_cases split: if_splits)
  show ?thesis
  proof (cases "expo p = e")
    case True
    then show ?thesis using q
      by (simp add: checked_scale_def Let_def in_i32_def new_price_eq)
  next
    case False
    with assms(2) d have "\<not> in_i32 (e - expo p) \<longrightarrow> False" "nat \<bar>e - expo p\<bar> = nat (expo p - e)"
      by (auto simp: in_i32_def)
    then show ?thesis using q False assms(2) d
      by (auto simp: checked_scale_def Let_def pow10_eq sdiv_exact new_price_eq)
  qed
qed

theorem checked_scale_roundtrip_witness:
  "checked_scale (new_price 15327 (-2)) (-4) = Inr (new_price 1532700 (-4))
   \<and> checked_scale (new_price 1532700 (-4)) (-2) = Inr (new_price 15327 (-2))"
proof -
  have ok: "price_ok (new_price 15327 (-2))" by (simp add: in_i128_def in_i32_def)
  have r: "checked_scale (new_price 15327 (-2)) (-4) = Inr (new_price 1532700 (-4))"
    by (simp add: checked_scale_cases [OF ok] in_i32_def in_i128_def)
  from checked_scale_roundtrip [OF ok _ r] r show ?thesis by simp
qed

text \<open>
  \<open>apply_bps\<close> keeps the exponent and multiplies the mantissa by \<open>(10000 + bps) / 10000\<close>,
  truncating towards zero by less than one unit; a price stays non-negative for any discount
  of at most 100 percent; it never panics and fails only when the product leaves \<open>i128\<close>.
\<close>

theorem apply_bps_spec:
  assumes "price_ok p" and "in_i64 bps"
  shows "case apply_bps p bps of
      Inl e \<Rightarrow> e = Overflow \<and> \<not> in_i128 (mantissa p * (10000 + bps))
    | Inr q \<Rightarrow> price_ok q \<and> expo q = expo p
        \<and> \<bar>mantissa p * (10000 + bps) - mantissa q * 10000\<bar> < 10000
        \<and> \<bar>mantissa q * 10000\<bar> \<le> \<bar>mantissa p * (10000 + bps)\<bar>
        \<and> (0 \<le> mantissa p \<and> - 10000 \<le> bps \<longrightarrow> 0 \<le> mantissa q)"
proof -
  let ?n = "mantissa p * (10000 + bps)"
  have add: "checked_add_i128 10000 bps = Some (10000 + bps)"
    using assms(2) by (simp add: checked_add_i128_def in_i128_def in_i64_def)
  note b = sdiv_bounds [of 10000 ?n, simplified]
  have "0 \<le> ?n sdiv 10000" if "0 \<le> mantissa p" "- 10000 \<le> bps"
    using that b(4) by (simp add: min_def split: if_splits)
  then show ?thesis
    using assms(1) b sdiv_i128 [of ?n 10000]
    by (auto simp: apply_bps_def add checked_mul_i128_def price_ok_def)
qed

theorem apply_bps_spec_witness:
  "price_ok (new_price 1000000 (-4)) \<and> apply_bps (new_price 1000000 (-4)) 10 = Inr (new_price 1001000 (-4))"
proof -
  have ok: "price_ok (new_price 1000000 (-4))" and b: "in_i64 10"
    by (simp_all add: in_i128_def in_i32_def in_i64_def)
  have "apply_bps (new_price 1000000 (-4)) 10 = Inr (new_price 1001000 (-4))"
    by (simp add: apply_bps_def checked_add_i128_def checked_mul_i128_def in_i128_def
        signed_divide_int_def)
  with apply_bps_spec [OF ok b] ok show ?thesis by simp
qed

section \<open>Round trips\<close>

interpretation pyth_pair: codec "\<lambda>(m, e). from_pyth m e" to_pyth "\<lambda>(m, e). in_i64 m"
  by unfold_locales (auto simp: from_pyth_def to_pyth_def)

lemma deserialize_serialize: "in_i128 v \<Longrightarrow> deserialize_mantissa (serialize_mantissa v) = Inr v"
  by (simp add: serialize_mantissa_def parse_i128_show_int)

interpretation wire_mantissa:
  codec serialize_mantissa "\<lambda>j. ok (deserialize_mantissa j)" in_i128
  by unfold_locales (simp add: deserialize_serialize)

text \<open>
  On the wire a mantissa is a decimal string; the reader accepts it back exactly, accepts the
  integer forms too, and two mantissas with the same wire form are equal.
\<close>

theorem mantissa_wire:
  "in_i128 v \<Longrightarrow>
     (\<exists>s. serialize_mantissa v = JStr s) \<and> deserialize_mantissa (serialize_mantissa v) = Inr v
     \<and> (in_i64 v \<longrightarrow> deserialize_mantissa (JI64 v) = deserialize_mantissa (serialize_mantissa v))
     \<and> (\<forall>w. in_i128 w \<longrightarrow> serialize_mantissa w = serialize_mantissa v \<longrightarrow> w = v)"
  using wire_mantissa.encode_injective deserialize_serialize by (simp add: serialize_mantissa_def)

theorem mantissa_wire_witness:
  "in_i128 9755868041 \<and> deserialize_mantissa (serialize_mantissa 9755868041) = Inr 9755868041"
  using mantissa_wire [of 9755868041] by (simp add: in_i128_def)

text \<open>
  Narrowing to Pyth's 64-bit mantissa succeeds exactly when the mantissa fits and loses
  nothing: widening the pair gives the price back.
\<close>

theorem to_pyth_from_pyth:
  "(to_pyth p = Some (m, e) \<longleftrightarrow> in_i64 (mantissa p) \<and> p = from_pyth m e)
   \<and> (in_i64 m \<longrightarrow> to_pyth (from_pyth m e) = Some (m, e))"
  using pyth_pair.decode_encode [of "(m, e)"] by (auto simp: to_pyth_def from_pyth_def new_price_eq)

theorem to_pyth_from_pyth_witness:
  "in_i64 9700000000 \<and> to_pyth (from_pyth 9700000000 (-8)) = Some (9700000000, -8)"
  using to_pyth_from_pyth [of "from_pyth 9700000000 (-8)" 9700000000 "-8"] by (simp add: in_i64_def)

section \<open>Printing and parsing a price\<close>

lemma show_int_no_point: "CHR ''.'' \<notin> set (show_int z)"
  by (auto simp: show_int_def) (metis not_digit(3) show_nat_digits list_all_iff)+

lemma parse_exp_form: "from_str (exp_form p) = Inl (Parse (exp_form p))"
proof -
  have "CHR ''.'' \<notin> set (exp_form p)"
    using show_int_no_point by (simp add: exp_form_def)
  then have "split_once (CHR ''.'') (exp_form p) = None" by (simp add: split_once_None)
  moreover have "parse_i128 (exp_form p) = None"
    unfolding parse_i128_def by (rule parse_signed_bad [of "CHR ''e''"]) (simp_all add: exp_form_def)
  ultimately show ?thesis by (simp add: from_str_def)
qed

lemma parse_integer_text: "in_i128 v \<Longrightarrow> from_str (show_int v) = Inr (new_price v 0)"
  using show_int_no_point [of v]
  by (simp add: from_str_def split_once_None [THEN iffD2] parse_i128_show_int in_i32_def)

text \<open>The digits of a decimal fraction, read as one integer, are its mantissa.\<close>

lemma parse_fraction_text:
  fixes a w :: nat
  assumes "0 < w" "w \<le> 38" and "in_i128 (if neg then - int a else int a)"
  shows "from_str ((if neg then ''-'' else '''') @ show_nat (a div 10 ^ w) @ ''.''
            @ show_nat_padded w (a mod 10 ^ w))
    = Inr (new_price (if neg then - int a else int a) (- int w))"
proof -
  let ?I = "show_nat (a div 10 ^ w)" and ?F = "show_nat_padded w (a mod 10 ^ w)"
  let ?sign = "if neg then ''-'' else ''''"
  have dI: "list_all is_digit ?I" and dF: "list_all is_digit ?F"
    by (rule show_nat_digits, rule show_nat_padded_digits)
  have len: "length ?F = w" using assms(1) by (intro length_show_nat_padded) simp_all
  have "CHR ''.'' \<notin> set (?sign @ ?I)" using dI by (auto simp: list_all_iff)
  then have split: "split_once (CHR ''.'') ((?sign @ ?I) @ CHR ''.'' # ?F) = Some (?sign @ ?I, ?F)"
    by (rule split_once_append)
  have "digits_val 0 (?I @ ?F) = map_option (\<lambda>v. (a div 10 ^ w) * 10 ^ w + v) (digits_val 0 ?F)"
    by (simp add: digits_val_append digits_val_show_nat digits_val_acc [of "a div 10 ^ w" ?F] len)
  then have val: "digits_val 0 (?I @ ?F) = Some a"
    by (simp add: digits_val_padded div_mult_mod_eq)
  have "parse_i128 (?sign @ ?I @ ?F) = Some (if neg then - int a else int a)"
  proof (cases neg)
    case True
    then show ?thesis
      using parse_signed_neg_digits [OF _ _ val, of "- 170141183460469231731687303715884105728"
          "170141183460469231731687303715884105727"] dI dF assms(3)
      by (simp add: parse_i128_def in_i128_def)
  next
    case False
    then show ?thesis
      using parse_signed_digits [OF _ _ val, of "- 170141183460469231731687303715884105728"
          "170141183460469231731687303715884105727"] dI dF assms(3)
      by (simp add: parse_i128_def in_i128_def)
  qed
  moreover have "in_i32 (int w)" using assms(2) by (simp add: in_i32_def)
  ultimately show ?thesis using split len by (simp add: from_str_def)
qed



text \<open>
  A parsed price is in range, its exponent is minus the number of bytes after the first
  point (zero without a point), and its mantissa is what the remaining text reads as.
\<close>

theorem from_str_sound:
  assumes "from_str s = Inr p"
  shows "price_ok p \<and> expo p \<le> 0
    \<and> (CHR ''.'' \<notin> set s \<longrightarrow> expo p = 0 \<and> parse_i128 s = Some (mantissa p))
    \<and> (\<forall>a b. s = a @ ''.'' @ b \<longrightarrow> CHR ''.'' \<notin> set a \<longrightarrow>
         expo p = - int (length b) \<and> parse_i128 (a @ b) = Some (mantissa p))"
proof (cases "CHR ''.'' \<in> set s")
  case False
  with assms have "parse_i128 s = Some (mantissa p)" "expo p = 0"
    by (auto simp: from_str_def split_once_None [THEN iffD2] result_simps split: if_splits)
  then show ?thesis using False parse_i128_range by (auto simp: price_ok_def in_i32_def)
next
  case True
  then obtain a b where ab: "split_once (CHR ''.'') s = Some (a, b)"
    using split_once_None [of "CHR ''.''" s] by (cases "split_once (CHR ''.'') s") auto
  with assms have m: "parse_i128 (a @ b) = Some (mantissa p)" and e: "expo p = - int (length b)"
    and r: "in_i32 (int (length b))"
    by (auto simp: from_str_def result_simps split: if_splits)
  from r have "in_i32 (- int (length b))" by (simp add: in_i32_def)
  then have ok: "price_ok p" using parse_i128_range [OF m] e by (simp add: price_ok_def)
  have "a' = a \<and> b' = b" if "s = a' @ ''.'' @ b'" "CHR ''.'' \<notin> set a'" for a' b'
    using ab that split_once_append [of "CHR ''.''" a' b'] by simp
  then show ?thesis using ok m e True by auto
qed

theorem from_str_sound_witness:
  "from_str ''153.27'' = Inr (new_price 15327 (-2)) \<and> price_ok (new_price 15327 (-2))"
proof -
  have r: "from_str ''153.27'' = Inr (new_price 15327 (-2))" by code_simp
  from from_str_sound [OF r] r show ?thesis by simp
qed

text \<open>
  The parser joins the two sides of the point before reading the sign, so a sign right
  after the point is taken as the sign of the number while its byte counts as a digit of the
  fraction: \<open>".-5"\<close> reads as \<open>-0.05\<close> and \<open>".+5"\<close> as \<open>0.05\<close> instead of being rejected.
\<close>

theorem from_str_sign_after_point:
  "from_str ''.-5'' = Inr (new_price (-5) (-2)) \<and> from_str ''.+5'' = Inr (new_price 5 (-2))
   \<and> from_str ''-.5'' = Inr (new_price (-5) (-1)) \<and> from_str ''1.-5'' = Inl (Parse ''1.-5'')"
  by code_simp

section \<open>Decimals\<close>

lemma decimal_roundtrip_exact:
  assumes "dec_exact D val" and "dec_convert D val"
    and "- 28 \<le> expo p" and "expo p \<le> 0" and "\<bar>mantissa p\<bar> < 2 ^ 96"
  shows "\<exists>d. to_decimal D p = Some d \<and> val d = price_value p \<and> from_decimal D d (expo p) = Inr p"
proof -
  let ?s = "nat (- expo p)"
  from assms(3,4) have s: "?s \<le> 28" "nat \<bar>expo p\<bar> = ?s" by auto
  from dec_convert_of_i128(2) [OF assms(2) s(1) assms(5)] obtain d
    where d: "dec_of_i128 D (mantissa p) ?s = Some d" and vd: "val d = of_int (mantissa p) / 10 ^ ?s"
    by blast
  have pv: "price_value p = of_int (mantissa p) / 10 ^ ?s"
    using assms(4) by (simp add: price_value_def power_int_def field_simps)
  have "(10::int) ^ ?s \<le> 10 ^ 28" using s(1) by (intro power_increasing) auto
  then have f96: "\<bar>10 ^ ?s\<bar> < (2::int) ^ 96" by (simp add: order_le_less_trans)
  from dec_convert_of_i128(2) [OF assms(2) _ f96, of 0] obtain f
    where f: "dec_of_i128 D (10 ^ ?s) 0 = Some f" and vf: "val f = 10 ^ ?s" by auto
  have "val d * val f = of_int (mantissa p)" by (simp add: vd vf)
  with dec_exact_mul [OF assms(1), of d f] dec_repr_int [OF assms(5)] obtain c
    where c: "dec_mul D d f = Some c" and vc: "val c = of_int (mantissa p)" by auto
  have "dec_to_i128 D (dec_round D c) = Some (mantissa p)"
    using assms(2) vc by (simp add: dec_convert_def)
  then have "from_decimal D d (expo p) = Inr p"
    using s assms(4) f c by (simp add: from_decimal_def pow10_eq new_price_eq)
  then show ?thesis using d vd pv assms(4) by (simp add: to_decimal_def)
qed

text \<open>
  C19. For an exponent from \<open>-28\<close> to \<open>0\<close> and a mantissa of fewer than 96 bits, conversion to a
  decimal is exact and converting the decimal back at the same exponent gives the price.
\<close>

theorem decimal_roundtrip:
  assumes "dec_exact D val" and "dec_convert D val"
    and "- 28 \<le> expo p" and "expo p \<le> 0" and "\<bar>mantissa p\<bar> < 2 ^ 96"
  shows "\<exists>d. to_decimal D p = Some d \<and> val d = price_value p \<and> from_decimal D d (expo p) = Inr p"
  using assms by (rule decimal_roundtrip_exact)

theorem decimal_roundtrip_witness:
  "to_decimal rat_dec (new_price 9755868041 (-8)) = Some (9755868041 / 10 ^ 8)
   \<and> from_decimal rat_dec (9755868041 / 10 ^ 8) (-8) = Inr (new_price 9755868041 (-8))"
proof -
  have v: "price_value (new_price 9755868041 (-8)) = 9755868041 / 10 ^ 8"
    by (simp add: price_value_new power_int_def field_simps)
  have "\<bar>mantissa (new_price 9755868041 (-8))\<bar> < 2 ^ 96" by simp
  from decimal_roundtrip [OF rat_dec_exact rat_dec_convert _ _ this]
  show ?thesis by (auto simp: v simp del: power_numeral)
qed

text \<open>
  Quantising a decimal whose scaled value is representable rounds to the nearest multiple
  of \<open>10^expo\<close>: the error is at most half a unit, and the exponent is the requested one.
\<close>

theorem from_decimal_nearest:
  assumes "dec_exact D val" and "dec_convert D val" and "- 28 \<le> e" and "e \<le> 0"
    and "dec_repr (val d * 10 ^ nat (- e))" and "from_decimal D d e = Inr p"
  shows "expo p = e \<and> \<bar>price_value p - val d\<bar> \<le> 10 powi e / 2"
proof -
  let ?s = "nat (- e)"
  from assms(3,4) have s: "?s \<le> 28" "nat \<bar>e\<bar> = ?s" by auto
  have "(10::int) ^ ?s \<le> 10 ^ 28" using s(1) by (intro power_increasing) auto
  then have f96: "\<bar>10 ^ ?s\<bar> < (2::int) ^ 96" by (simp add: order_le_less_trans)
  from dec_convert_of_i128(2) [OF assms(2) _ f96, of 0] obtain f
    where f: "dec_of_i128 D (10 ^ ?s) 0 = Some f" and vf: "val f = 10 ^ ?s" by auto
  from dec_exact_mul [OF assms(1), of d f] assms(5) vf obtain c
    where c: "dec_mul D d f = Some c" and vc: "val c = val d * 10 ^ ?s" by auto
  have r: "dec_to_i128 D (dec_round D c) = Some (round_half_even (val c))"
    using assms(2) by (simp add: dec_convert_def)
  have p: "p = new_price (round_half_even (val c)) e"
    using assms(4,6) s f c r by (simp add: from_decimal_def pow10_eq)
  let ?u = "10 powi e :: rat"
  have u: "0 < ?u" "10 ^ ?s * ?u = 1"
    using assms(4) by (simp_all add: power_int_def field_simps)
  have "price_value p - val d = (of_int (round_half_even (val c)) - val c) * ?u"
    using u(2) by (simp add: p price_value_new vc left_diff_distrib mult.assoc)
  then have "\<bar>price_value p - val d\<bar> = \<bar>of_int (round_half_even (val c)) - val c\<bar> * ?u"
    using u(1) by (simp add: abs_mult)
  also have "\<dots> \<le> 1 / 2 * ?u"
    using round_half_even_near [of "val c"] u(1) by (intro mult_right_mono) simp_all
  finally show ?thesis using p by simp
qed

theorem from_decimal_nearest_witness:
  "from_decimal rat_dec (97558680415 / 10 ^ 9) (-8) = Inr (new_price 9755868042 (-8))
   \<and> \<bar>price_value (new_price 9755868042 (-8)) - 97558680415 / 10 ^ 9\<bar> \<le> 10 powi (-8) / 2"
proof -
  have r: "from_decimal rat_dec (97558680415 / 10 ^ 9) (-8) = Inr (new_price 9755868042 (-8))"
    by (simp add: from_decimal_def pow10_eq bounded_def round_half_even_def Let_def)
  have "dec_repr (id (97558680415 / 10 ^ 9 :: rat) * 10 ^ nat (- (- 8)))"
    by (rule dec_repr_frac [of 97558680415 1]) simp_all
  from from_decimal_nearest [OF rat_dec_exact rat_dec_convert _ _ this r] r show ?thesis by simp
qed

end
