(* ===== verification/Oracle_Types.thy ===== *)
theory Oracle_Types
  imports Price "HOL-Library.Monad_Syntax"
begin

text \<open>
  The leaf types of \<open>crates/mtm-common/src/types.rs\<close>, the wire types of
  \<open>crates/oracle-client/src/types.rs\<close> with their JSON form (the serde attributes of the source,
  over parsed JSON documents) and the URLs and stream filter of
  \<open>crates/oracle-client/src/lib.rs\<close>.
\<close>

section \<open>Symbols and clusters\<close>

type_synonym symbol = string

definition symbol_new :: "string \<Rightarrow> symbol" where
  "symbol_new s = s"

datatype cluster = Local | Devnet | Testnet | MainnetBeta

fun default_rpc_url :: "cluster \<Rightarrow> string" where
  "default_rpc_url Local = ''http://127.0.0.1:8899''"
| "default_rpc_url Devnet = ''https://api.devnet.solana.com''"
| "default_rpc_url Testnet = ''https://api.testnet.solana.com''"
| "default_rpc_url MainnetBeta = ''https://api.mainnet-beta.solana.com''"

fun cluster_name :: "cluster \<Rightarrow> string" where
  "cluster_name Local = ''local''"
| "cluster_name Devnet = ''devnet''"
| "cluster_name Testnet = ''testnet''"
| "cluster_name MainnetBeta = ''mainnet-beta''"

section \<open>Observations\<close>

datatype price_data =
    Aggregate (agg_price: price) (agg_conf: "price option") (agg_ema: "price option")
  | TopOfBook (tob_bid: price) (tob_bid_qty: price) (tob_ask: price) (tob_ask_qty: price)
  | Trade (trade_price: price) (trade_qty: price)

datatype price_source =
  PythHermes | PythLazer | Binance | Coinbase | Kraken | Okx | CoinGecko | Derived

record instrument_info =
  info_symbol :: symbol
  info_mint :: "string option"
  info_base :: string
  info_transforms :: "string list"

record price_point =
  pt_symbol :: symbol
  pt_data :: price_data
  pt_publish_us :: "int option"
  pt_received_us :: int
  pt_slot :: "u64 option"
  pt_source :: price_source

definition opt_ok :: "('a \<Rightarrow> bool) \<Rightarrow> 'a option \<Rightarrow> bool" where
  "opt_ok P m \<longleftrightarrow> (case m of None \<Rightarrow> True | Some x \<Rightarrow> P x)"

fun data_ok :: "price_data \<Rightarrow> bool" where
  "data_ok (Aggregate p c e) \<longleftrightarrow> price_ok p \<and> opt_ok price_ok c \<and> opt_ok price_ok e"
| "data_ok (TopOfBook b bq a aq) \<longleftrightarrow> price_ok b \<and> price_ok bq \<and> price_ok a \<and> price_ok aq"
| "data_ok (Trade p q) \<longleftrightarrow> price_ok p \<and> price_ok q"

definition point_ok :: "price_point \<Rightarrow> bool" where
  "point_ok p \<longleftrightarrow> data_ok (pt_data p) \<and> opt_ok in_i64 (pt_publish_us p) \<and> in_i64 (pt_received_us p)"

lemma opt_ok_simps [simp]: "opt_ok P None" "opt_ok P (Some x) = P x"
  by (simp_all add: opt_ok_def)

section \<open>JSON form\<close>

text \<open>
  A parsed document. Integers keep their value; every other scalar the wire types do not use
  is one constructor. A struct is read from an object; the positional form as an array, which
  \<open>serde\<close> also accepts and no peer writes, is left out.
\<close>

datatype json = JNull | JNum int | JText string | JObj "(string \<times> json) list" | JList "json list" | JRest

fun source_name :: "price_source \<Rightarrow> string" where
  "source_name PythHermes = ''pyth-hermes''"
| "source_name PythLazer = ''pyth-lazer''"
| "source_name Binance = ''binance''"
| "source_name Coinbase = ''coinbase''"
| "source_name Kraken = ''kraken''"
| "source_name Okx = ''okx''"
| "source_name CoinGecko = ''coingecko''"
| "source_name Derived = ''derived''"

definition parse_source :: "string \<Rightarrow> price_source option" where
  "parse_source s =
     find (\<lambda>c. source_name c = s)
       [PythHermes, PythLazer, Binance, Coinbase, Kraken, Okx, CoinGecko, Derived]"

text \<open>The scalar the mantissa visitor sees: integers that fit \<open>u64\<close> or \<open>i64\<close>, else a float.\<close>

fun json_scalar :: "json \<Rightarrow> scalar" where
  "json_scalar (JText s) = JStr s"
| "json_scalar (JNum n) =
     (if 0 \<le> n \<and> n < 2 ^ 64 then JU64 (word_of_int n) else if in_i64 n then JI64 n else JOther)"
| "json_scalar _ = JOther"

fun mantissa_json :: "int \<Rightarrow> json" where
  "mantissa_json v = (case serialize_mantissa v of JStr s \<Rightarrow> JText s | _ \<Rightarrow> JRest)"

definition price_to_json :: "price \<Rightarrow> json" where
  "price_to_json p = JObj [(''mantissa'', mantissa_json (mantissa p)), (''expo'', JNum (expo p))]"

text \<open>
  Reading a field: a repeated field is an error; a missing one reads as \<open>null\<close>, which the
  optional fields (all \<open>#[serde(default)]\<close>) accept as \<open>None\<close> and the others reject.
\<close>

definition field :: "string \<Rightarrow> (string \<times> json) list \<Rightarrow> json option" where
  "field k fs = (case filter (\<lambda>kv. fst kv = k) fs of
       [] \<Rightarrow> Some JNull | [kv] \<Rightarrow> Some (snd kv) | _ \<Rightarrow> None)"

fun json_int :: "(int \<Rightarrow> bool) \<Rightarrow> json \<Rightarrow> int option" where
  "json_int P (JNum n) = (if P n then Some n else None)"
| "json_int P _ = None"

fun json_u64 :: "json \<Rightarrow> u64 option" where
  "json_u64 (JNum n) = (if 0 \<le> n \<and> n < 2 ^ 64 then Some (word_of_int n) else None)"
| "json_u64 _ = None"

fun json_text :: "json \<Rightarrow> string option" where
  "json_text (JText s) = Some s"
| "json_text _ = None"

fun json_opt :: "(json \<Rightarrow> 'a option) \<Rightarrow> json \<Rightarrow> 'a option option" where
  "json_opt f JNull = Some None"
| "json_opt f j = map_option Some (f j)"

fun json_obj :: "json \<Rightarrow> (string \<times> json) list option" where
  "json_obj (JObj fs) = Some fs"
| "json_obj _ = None"

fun option_all :: "('a \<Rightarrow> 'b option) \<Rightarrow> 'a list \<Rightarrow> 'b list option" where
  "option_all f [] = Some []"
| "option_all f (x # xs) =
     (case f x of None \<Rightarrow> None | Some y \<Rightarrow> map_option (\<lambda>ys. y # ys) (option_all f xs))"

fun json_list :: "(json \<Rightarrow> 'a option) \<Rightarrow> json \<Rightarrow> 'a list option" where
  "json_list f (JList js) = option_all f js"
| "json_list f _ = None"

definition price_from_json :: "json \<Rightarrow> price option" where
  "price_from_json j = do {
     fs \<leftarrow> json_obj j;
     m \<leftarrow> field ''mantissa'' fs \<bind> (\<lambda>v. ok (deserialize_mantissa (json_scalar v)));
     e \<leftarrow> field ''expo'' fs \<bind> json_int in_i32;
     Some (new_price m e) }"

definition skip_none :: "string \<Rightarrow> ('a \<Rightarrow> json) \<Rightarrow> 'a option \<Rightarrow> (string \<times> json) list" where
  "skip_none k f m = (case m of None \<Rightarrow> [] | Some x \<Rightarrow> [(k, f x)])"

fun data_to_json :: "price_data \<Rightarrow> json" where
  "data_to_json (Aggregate p c e) =
     JObj ([(''kind'', JText ''aggregate''), (''price'', price_to_json p)]
       @ skip_none ''conf'' price_to_json c @ skip_none ''ema'' price_to_json e)"
| "data_to_json (TopOfBook b bq a aq) =
     JObj [(''kind'', JText ''top_of_book''), (''bid'', price_to_json b),
       (''bid_qty'', price_to_json bq), (''ask'', price_to_json a), (''ask_qty'', price_to_json aq)]"
| "data_to_json (Trade p q) =
     JObj [(''kind'', JText ''trade''), (''price'', price_to_json p), (''qty'', price_to_json q)]"

definition data_from_json :: "json \<Rightarrow> price_data option" where
  "data_from_json j = do {
     fs \<leftarrow> json_obj j;
     kind \<leftarrow> field ''kind'' fs \<bind> json_text;
     if kind = ''aggregate'' then do {
       p \<leftarrow> field ''price'' fs \<bind> price_from_json;
       c \<leftarrow> field ''conf'' fs \<bind> json_opt price_from_json;
       e \<leftarrow> field ''ema'' fs \<bind> json_opt price_from_json;
       Some (Aggregate p c e) }
     else if kind = ''top_of_book'' then do {
       b \<leftarrow> field ''bid'' fs \<bind> price_from_json;
       bq \<leftarrow> field ''bid_qty'' fs \<bind> price_from_json;
       a \<leftarrow> field ''ask'' fs \<bind> price_from_json;
       aq \<leftarrow> field ''ask_qty'' fs \<bind> price_from_json;
       Some (TopOfBook b bq a aq) }
     else if kind = ''trade'' then do {
       p \<leftarrow> field ''price'' fs \<bind> price_from_json;
       q \<leftarrow> field ''qty'' fs \<bind> price_from_json;
       Some (Trade p q) }
     else None }"

definition point_to_json :: "price_point \<Rightarrow> json" where
  "point_to_json p = JObj
     ([(''symbol'', JText (pt_symbol p)), (''data'', data_to_json (pt_data p))]
      @ skip_none ''publish_time_us'' JNum (pt_publish_us p)
      @ [(''received_at_us'', JNum (pt_received_us p))]
      @ skip_none ''slot'' (\<lambda>w. JNum (uint w)) (pt_slot p)
      @ [(''source'', JText (source_name (pt_source p)))])"

definition point_from_json :: "json \<Rightarrow> price_point option" where
  "point_from_json j = do {
     fs \<leftarrow> json_obj j;
     s \<leftarrow> field ''symbol'' fs \<bind> json_text;
     d \<leftarrow> field ''data'' fs \<bind> data_from_json;
     pub \<leftarrow> field ''publish_time_us'' fs \<bind> json_opt (json_int in_i64);
     rec \<leftarrow> field ''received_at_us'' fs \<bind> json_int in_i64;
     sl \<leftarrow> field ''slot'' fs \<bind> json_opt json_u64;
     src \<leftarrow> field ''source'' fs \<bind> json_text \<bind> parse_source;
     Some \<lparr>pt_symbol = s, pt_data = d, pt_publish_us = pub, pt_received_us = rec,
           pt_slot = sl, pt_source = src\<rparr> }"

text \<open>
  \<open>InstrumentInfo\<close>: a missing list of transforms reads as the empty one; a \<open>null\<close> does not.
\<close>

definition info_to_json :: "instrument_info \<Rightarrow> json" where
  "info_to_json i = JObj
     ([(''symbol'', JText (info_symbol i))] @ skip_none ''mint'' JText (info_mint i)
      @ [(''base'', JText (info_base i)), (''transforms'', JList (map JText (info_transforms i)))])"

definition info_from_json :: "json \<Rightarrow> instrument_info option" where
  "info_from_json j = do {
     fs \<leftarrow> json_obj j;
     s \<leftarrow> field ''symbol'' fs \<bind> json_text;
     m \<leftarrow> field ''mint'' fs \<bind> json_opt json_text;
     b \<leftarrow> field ''base'' fs \<bind> json_text;
     ts \<leftarrow> (if ''transforms'' \<in> fst ` set fs then field ''transforms'' fs \<bind> json_list json_text
            else Some []);
     Some \<lparr>info_symbol = s, info_mint = m, info_base = b, info_transforms = ts\<rparr> }"

section \<open>HTTP\<close>

text \<open>
  What the programs use of \<open>reqwest\<close>: a request, what comes back (its status, and its body when
  that is JSON), \<open>error_for_status\<close> and \<open>json\<close>. Sending is a parameter.
\<close>

record http_request =
  rq_url :: string
  rq_query :: "(string \<times> string) list"
  rq_headers :: "(string \<times> string) list"

record http_response =
  rs_status :: nat
  rs_body :: "json option"

datatype http_error = NoResponse string | BadStatus nat | BadBody

type_synonym http_send = "http_request \<Rightarrow> string + http_response"

definition http_checked :: "http_send \<Rightarrow> http_request \<Rightarrow> http_error + http_response" where
  "http_checked send q =
     bindR (map_err NoResponse (send q)) (\<lambda>r.
     if 400 \<le> rs_status r \<and> rs_status r < 600 then Inl (BadStatus (rs_status r)) else Inr r)"

definition http_json :: "http_send \<Rightarrow> (json \<Rightarrow> 'a option) \<Rightarrow> http_request \<Rightarrow> http_error + 'a" where
  "http_json send read q =
     bindR (http_checked send q) (\<lambda>r. ok_or (Option.bind (rs_body r) read) BadBody)"

section \<open>The typed client\<close>

text \<open>\<open>str::trim_end_matches('/')\<close> and \<open>str::replacen(from, to, 1)\<close>.\<close>

definition trim_end_slash :: "string \<Rightarrow> string" where
  "trim_end_slash s = rev (dropWhile (\<lambda>c. c = CHR ''/'') (rev s))"

fun replace_first :: "string \<Rightarrow> string \<Rightarrow> string \<Rightarrow> string" where
  "replace_first from to [] = (if from = [] then to else [])"
| "replace_first from to (c # cs) =
     (if take (length from) (c # cs) = from then to @ drop (length from) (c # cs)
      else c # replace_first from to cs)"

definition client_new :: "string \<Rightarrow> string" where
  "client_new base = trim_end_slash base"

definition ws_url :: "string \<Rightarrow> string" where
  "ws_url base = replace_first ''http'' ''ws'' base @ ''/v1/ws''"

datatype client_request = Health | Prices | PriceBySymbol symbol | PriceByMint string | Instruments

text \<open>The URL and the query of each request.\<close>

fun request_url :: "string \<Rightarrow> client_request \<Rightarrow> string \<times> (string \<times> string) list" where
  "request_url base Health = (base @ ''/health'', [])"
| "request_url base Prices = (base @ ''/v1/prices'', [])"
| "request_url base (PriceBySymbol s) = (base @ ''/v1/price'', [(''symbol'', s)])"
| "request_url base (PriceByMint m) = (base @ ''/v1/price'', [(''mint'', m)])"
| "request_url base Instruments = (base @ ''/v1/instruments'', [])"

text \<open>The errors of the client; a request that fails in any way is \<open>Http\<close>.\<close>

datatype ('w, 'd) client_error = Http http_error | Ws 'w | Decode 'd

definition client_request_of :: "string \<Rightarrow> client_request \<Rightarrow> http_request" where
  "client_request_of base r =
     \<lparr>rq_url = fst (request_url base r), rq_query = snd (request_url base r), rq_headers = []\<rparr>"

definition client_health :: "http_send \<Rightarrow> string \<Rightarrow> ('w, 'd) client_error + unit" where
  "client_health send base =
     bindR (map_err Http (http_checked send (client_request_of base Health))) (\<lambda>_. Inr ())"

definition client_prices :: "http_send \<Rightarrow> string \<Rightarrow> ('w, 'd) client_error + price_point list" where
  "client_prices send base =
     map_err Http (http_json send (json_list point_from_json) (client_request_of base Prices))"

definition client_price :: "http_send \<Rightarrow> string \<Rightarrow> symbol \<Rightarrow> ('w, 'd) client_error + price_point" where
  "client_price send base s =
     map_err Http (http_json send point_from_json (client_request_of base (PriceBySymbol s)))"

definition client_price_by_mint ::
    "http_send \<Rightarrow> string \<Rightarrow> string \<Rightarrow> ('w, 'd) client_error + price_point" where
  "client_price_by_mint send base m =
     map_err Http (http_json send point_from_json (client_request_of base (PriceByMint m)))"

definition client_instruments ::
    "http_send \<Rightarrow> string \<Rightarrow> ('w, 'd) client_error + instrument_info list" where
  "client_instruments send base =
     map_err Http (http_json send (json_list info_from_json) (client_request_of base Instruments))"

datatype ws_message = WsText string | WsOther

text \<open>\<open>subscribe\<close>: what the filter makes of one frame, \<open>parse\<close> being serde's text parser.\<close>

fun stream_item ::
    "(string \<Rightarrow> 'd + price_point) \<Rightarrow> 'w + ws_message \<Rightarrow> (('w, 'd) client_error + price_point) option" where
  "stream_item parse (Inr (WsText t)) = Some (map_err Decode (parse t))"
| "stream_item parse (Inr WsOther) = None"
| "stream_item parse (Inl e) = Some (Inl (Ws e))"

definition subscribe_stream ::
    "(string \<Rightarrow> 'd + price_point) \<Rightarrow> ('w + ws_message) list \<Rightarrow> (('w, 'd) client_error + price_point) list" where
  "subscribe_stream parse msgs = List.map_filter (stream_item parse) msgs"

section \<open>The wire form is read back\<close>

lemma parse_source_name [simp]: "parse_source (source_name c) = Some c"
  by (cases c) (simp_all add: parse_source_def)

interpretation source_text: codec source_name parse_source "\<lambda>_. True"
  by unfold_locales simp

lemma filter_key_Nil: "filter (\<lambda>kv. fst kv = k) fs = [] \<longleftrightarrow> k \<notin> fst ` set fs"
  by (auto simp: filter_empty_conv)

lemma field_Nil [simp]: "field k [] = Some JNull"
  by (simp add: field_def)

lemma field_Cons [simp]:
  "field k ((k', v) # fs) =
     (if k' = k then (if k \<in> fst ` set fs then None else Some v) else field k fs)"
proof (cases "filter (\<lambda>kv. fst kv = k) fs")
  case Nil
  then show ?thesis using filter_key_Nil [of k fs] by (simp add: field_def)
next
  case (Cons x xs)
  then have "k \<in> fst ` set fs" using filter_key_Nil [of k fs] by auto
  with Cons show ?thesis by (simp add: field_def)
qed

lemma skip_none_simps [simp]:
  "skip_none k f None = []" "skip_none k f (Some x) = [(k, f x)]"
  by (simp_all add: skip_none_def)

lemma price_json [simp]: "price_ok p \<Longrightarrow> price_from_json (price_to_json p) = Some p"
  by (simp add: price_from_json_def price_to_json_def serialize_mantissa_def parse_i128_show_int
      price_ok_def new_price_eq)

lemma price_json_not_null [simp]: "json_opt price_from_json (price_to_json p) = map_option Some (price_from_json (price_to_json p))"
  by (simp add: price_to_json_def)

lemma data_json [simp]: "data_ok d \<Longrightarrow> data_from_json (data_to_json d) = Some d"
proof (cases d)
  case (Aggregate p c e)
  then show "data_ok d \<Longrightarrow> data_from_json (data_to_json d) = Some d"
    by (cases c; cases e) (simp_all add: data_from_json_def)
qed (simp_all add: data_from_json_def)

lemma point_json: "point_ok p \<Longrightarrow> point_from_json (point_to_json p) = Some p"
  using uint_lt2p [where 'a = 64]
  by (cases "pt_publish_us p"; cases "pt_slot p")
     (simp_all add: point_from_json_def point_to_json_def point_ok_def)

lemma option_all_map: "(\<And>x. x \<in> set xs \<Longrightarrow> f (g x) = Some x) \<Longrightarrow> option_all f (map g xs) = Some xs"
  by (induction xs) simp_all

lemma info_json [simp]: "info_from_json (info_to_json i) = Some i"
  by (cases "info_mint i") (simp_all add: info_from_json_def info_to_json_def option_all_map)

interpretation price_wire: codec price_to_json price_from_json price_ok
  by unfold_locales (rule price_json)

interpretation point_wire: codec point_to_json point_from_json point_ok
  by unfold_locales (rule point_json)

interpretation info_wire: codec info_to_json info_from_json "\<lambda>_. True"
  by unfold_locales simp

section \<open>Properties of the wire and the client\<close>

lemma keys_skip_none: "fst ` set (skip_none k f m) = (if m = None then {} else {k})"
  by (cases m) auto

text \<open>
  C20. A price point survives its JSON form: what the server writes the client reads back as the
  same point, two points with one JSON form are equal, and an absent publish time or slot is
  left out of the document.
\<close>

theorem point_wire_roundtrip:
  assumes "point_ok p"
  shows "point_from_json (point_to_json p) = Some p
    \<and> (\<forall>q. point_ok q \<longrightarrow> point_to_json q = point_to_json p \<longrightarrow> q = p)
    \<and> (\<forall>fs. point_to_json p = JObj fs \<longrightarrow>
          (''publish_time_us'' \<in> fst ` set fs \<longleftrightarrow> pt_publish_us p \<noteq> None)
          \<and> (''slot'' \<in> fst ` set fs \<longleftrightarrow> pt_slot p \<noteq> None))"
  using assms point_wire.decode_encode [OF assms] point_wire.encode_injective
  by (auto simp: point_to_json_def image_Un keys_skip_none split: if_splits)

theorem point_wire_roundtrip_witness:
  "point_from_json (point_to_json \<lparr>pt_symbol = ''SOL/USD'',
      pt_data = Aggregate (new_price 9755868041 (-8)) (Some (new_price 4306041 (-8))) None,
      pt_publish_us = Some 1787678802000000, pt_received_us = 1787678802123456,
      pt_slot = Some 310563706, pt_source = PythHermes\<rparr>)
   = Some \<lparr>pt_symbol = ''SOL/USD'',
      pt_data = Aggregate (new_price 9755868041 (-8)) (Some (new_price 4306041 (-8))) None,
      pt_publish_us = Some 1787678802000000, pt_received_us = 1787678802123456,
      pt_slot = Some 310563706, pt_source = PythHermes\<rparr>"
  by (rule point_wire_roundtrip [THEN conjunct1])
     (simp add: point_ok_def in_i64_def in_i128_def in_i32_def)

text \<open>
  The websocket URL of a client keeps the host and the security of its base URL:
  \<open>http\<close> becomes \<open>ws\<close>, \<open>https\<close> becomes \<open>wss\<close>, and the trailing slashes of the base are dropped.
\<close>

theorem ws_url_schemes:
  "ws_url (client_new (''http://'' @ h @ ''/'')) = ws_url (client_new (''http://'' @ h))
   \<and> (h \<noteq> [] \<and> last h \<noteq> CHR ''/'' \<longrightarrow>
        ws_url (client_new (''http://'' @ h)) = ''ws://'' @ h @ ''/v1/ws''
      \<and> ws_url (client_new (''https://'' @ h)) = ''wss://'' @ h @ ''/v1/ws'')"
proof -
  have keep: "trim_end_slash (a @ h) = a @ h" if "h \<noteq> []" "last h \<noteq> CHR ''/''" for a
    using that by (cases h rule: rev_cases) (simp_all add: trim_end_slash_def)
  then show ?thesis
    using keep [of "''http://''"] keep [of "''https://''"]
    by (simp add: ws_url_def client_new_def) (simp add: trim_end_slash_def)
qed

theorem ws_url_schemes_witness:
  "ws_url (client_new ''http://localhost:8080/'') = ''ws://localhost:8080/v1/ws''"
  using ws_url_schemes [of "''localhost:8080''"] by simp

end
