(* ===== verification/Oracle_Config.thy ===== *)
theory Oracle_Config
  imports Oracle_Types
begin

text \<open>
  The configuration types of \<open>services/oracle/src/config.rs\<close> and
  \<open>services/oracle/src/pricing/spec.rs\<close>, with the functions over them: the split of the
  underlyings by provider and the registry entries of the instruments.
\<close>

section \<open>Underlyings\<close>

record underlying_config =
  und_symbol :: symbol
  pyth_feed_id :: "string option"
  coingecko_id :: "string option"
  binance_symbol :: "string option"

type_synonym provider_feeds = "(symbol \<times> string) list"

record partitioned_feeds =
  pyth_feeds :: provider_feeds
  coingecko_feeds :: provider_feeds
  binance_feeds :: provider_feeds

datatype config_error =
    SetExactlyOne symbol
  | UnknownFeed symbol
  | NeedsSymbolOrMint nat
  | DuplicateSymbol symbol
  | InvalidDecimal string string
  | OutOfF64 string
  | LagTooLarge

definition no_feeds :: partitioned_feeds where
  "no_feeds = \<lparr>pyth_feeds = [], coingecko_feeds = [], binance_feeds = []\<rparr>"

definition push_underlying ::
    "underlying_config \<Rightarrow> partitioned_feeds \<Rightarrow> config_error + partitioned_feeds" where
  "push_underlying u out =
     (case (pyth_feed_id u, coingecko_id u, binance_symbol u) of
        (Some i, None, None) \<Rightarrow> Inr (out\<lparr>pyth_feeds := pyth_feeds out @ [(und_symbol u, i)]\<rparr>)
      | (None, Some i, None) \<Rightarrow>
          Inr (out\<lparr>coingecko_feeds := coingecko_feeds out @ [(und_symbol u, i)]\<rparr>)
      | (None, None, Some i) \<Rightarrow>
          Inr (out\<lparr>binance_feeds := binance_feeds out @ [(und_symbol u, i)]\<rparr>)
      | _ \<Rightarrow> Inl (SetExactlyOne (und_symbol u)))"

definition partition_underlyings ::
    "underlying_config list \<Rightarrow> config_error + partitioned_feeds" where
  "partition_underlyings us = foldR push_underlying us no_feeds"

section \<open>Instruments\<close>

datatype base_config =
    UnderlyingCfg symbol
  | CrossCfg symbol symbol
  | BasketCfg "(symbol \<times> string) list" "string option"
  | PegCfg string
  | GbmCfg string u32 int u64 u64  \<comment> \<open>initial, volatility, drift, seed, tick in ms\<close>

datatype 'f transform_config =
    ScaleCfg string "string option"
  | InvertCfg
  | BetaCfg 'f string string  \<comment> \<open>beta, anchor, initial\<close>
  | LagCfg u64
  | NoiseCfg u32 u64 u64  \<comment> \<open>sigma in bps, half-life in s, seed\<close>

record 'f instrument_config =
  cfg_symbol :: "symbol option"
  cfg_mint :: "string option"
  cfg_expo :: int
  cfg_base :: base_config
  cfg_transforms :: "'f transform_config list"

definition default_expo :: int where
  "default_expo = - 8"

definition default_tick_ms :: u64 where
  "default_tick_ms = 1000"

definition resolved_symbol :: "'f instrument_config \<Rightarrow> symbol option" where
  "resolved_symbol c =
     (case cfg_symbol c of Some s \<Rightarrow> Some s | None \<Rightarrow> map_option symbol_new (cfg_mint c))"

fun base_kind_name :: "base_config \<Rightarrow> string" where
  "base_kind_name (UnderlyingCfg _) = ''underlying''"
| "base_kind_name (CrossCfg _ _) = ''cross''"
| "base_kind_name (BasketCfg _ _) = ''basket''"
| "base_kind_name (PegCfg _) = ''peg''"
| "base_kind_name (GbmCfg _ _ _ _ _) = ''gbm''"

fun transform_kind_name :: "'f transform_config \<Rightarrow> string" where
  "transform_kind_name (ScaleCfg _ _) = ''scale''"
| "transform_kind_name InvertCfg = ''invert''"
| "transform_kind_name (BetaCfg _ _ _) = ''beta''"
| "transform_kind_name (LagCfg _) = ''lag''"
| "transform_kind_name (NoiseCfg _ _ _) = ''noise''"

text \<open>The registry entry of an instrument (\<open>services/oracle/src/lib.rs\<close>).\<close>

definition registry_entry :: "'f instrument_config \<Rightarrow> instrument_info option" where
  "registry_entry c = map_option (\<lambda>s.
     \<lparr>info_symbol = s, info_mint = cfg_mint c, info_base = base_kind_name (cfg_base c),
      info_transforms = map transform_kind_name (cfg_transforms c)\<rparr>) (resolved_symbol c)"

section \<open>The split by provider\<close>

definition provider_ids :: "underlying_config \<Rightarrow> string option list" where
  "provider_ids u = [pyth_feed_id u, coingecko_id u, binance_symbol u]"

definition exactly_one_id :: "underlying_config \<Rightarrow> bool" where
  "exactly_one_id u \<longleftrightarrow> length (filter (\<lambda>m. m \<noteq> None) (provider_ids u)) = 1"

definition feeds_by ::
    "(underlying_config \<Rightarrow> string option) \<Rightarrow> underlying_config list \<Rightarrow> provider_feeds" where
  "feeds_by f us = List.map_filter (\<lambda>u. map_option (\<lambda>i. (und_symbol u, i)) (f u)) us"

lemma feeds_by_Cons [simp]:
  "feeds_by f [] = []"
  "feeds_by f (u # us) = (case f u of None \<Rightarrow> [] | Some i \<Rightarrow> [(und_symbol u, i)]) @ feeds_by f us"
  by (auto simp: feeds_by_def List.map_filter_simps split: option.splits)

lemma push_underlying_cases:
  "push_underlying u out =
     (if exactly_one_id u then
        Inr \<lparr>pyth_feeds = pyth_feeds out @ feeds_by pyth_feed_id [u],
             coingecko_feeds = coingecko_feeds out @ feeds_by coingecko_id [u],
             binance_feeds = binance_feeds out @ feeds_by binance_symbol [u]\<rparr>
      else Inl (SetExactlyOne (und_symbol u)))"
  by (auto simp: push_underlying_def exactly_one_id_def provider_ids_def split: option.splits)

lemma partition_fold:
  "foldR push_underlying us out =
     (case find (\<lambda>u. \<not> exactly_one_id u) us of
        Some u \<Rightarrow> Inl (SetExactlyOne (und_symbol u))
      | None \<Rightarrow> Inr \<lparr>pyth_feeds = pyth_feeds out @ feeds_by pyth_feed_id us,
             coingecko_feeds = coingecko_feeds out @ feeds_by coingecko_id us,
             binance_feeds = binance_feeds out @ feeds_by binance_symbol us\<rparr>)"
  by (induction us arbitrary: out)
     (auto simp: push_underlying_cases split: option.splits)

text \<open>
  The underlyings are split by provider: an underlying with no id or several is reported,
  the first one in order; otherwise each provider gets exactly the underlyings that name an id of
  it, in configuration order, and every underlying goes to exactly one provider.
\<close>

theorem partition_underlyings_spec:
  "partition_underlyings us =
     (case find (\<lambda>u. length (filter (\<lambda>m. m \<noteq> None)
                [pyth_feed_id u, coingecko_id u, binance_symbol u]) \<noteq> 1) us of
        Some u \<Rightarrow> Inl (SetExactlyOne (und_symbol u))
      | None \<Rightarrow> Inr \<lparr>pyth_feeds = feeds_by pyth_feed_id us,
                     coingecko_feeds = feeds_by coingecko_id us,
                     binance_feeds = feeds_by binance_symbol us\<rparr>)"
proof -
  have "foldR push_underlying us no_feeds =
     (case find (\<lambda>u. \<not> exactly_one_id u) us of
        Some u \<Rightarrow> Inl (SetExactlyOne (und_symbol u))
      | None \<Rightarrow> Inr \<lparr>pyth_feeds = feeds_by pyth_feed_id us,
                     coingecko_feeds = feeds_by coingecko_id us,
                     binance_feeds = feeds_by binance_symbol us\<rparr>)"
    using partition_fold [of us no_feeds] unfolding no_feeds_def
    by (simp del: filter.simps cong: option.case_cong)
  then show ?thesis
    unfolding partition_underlyings_def exactly_one_id_def provider_ids_def .
qed

end
