(* ===== verification/Feeds.thy ===== *)
theory Feeds
  imports Oracle_Config "HOL-Library.AList" "HOL-Library.Multiset"
begin

text \<open>
  The feed tasks of \<open>services/oracle/src/{hermes,feed_task,coingecko,binance}.rs\<close>: the request of
  each poll, the tick made of each observation, and the coalescing websocket loop. Responses
  are parameters (they come from the providers); \<open>now\<close> is the clock reading of the call, and
  sending to the engine's channel succeeds or not as the event says.
\<close>

section \<open>Hermes\<close>

record hermes_price =
  hp_price :: string
  hp_conf :: string
  hp_expo :: int
  hp_publish_time :: int

record hermes_metadata =
  md_slot :: "u64 option"
  md_proof_available_time :: "int option"
  md_prev_publish_time :: "int option"

record parsed_update =
  pu_id :: string
  pu_price :: hermes_price
  pu_ema :: hermes_price
  pu_metadata :: "hermes_metadata option"

datatype hermes_error = HermesHttp http_error | BadMantissa string

definition hermes_price_of :: "hermes_price \<Rightarrow> hermes_error + price" where
  "hermes_price_of h =
     bindR (ok_or (parse_i64 (hp_price h)) (BadMantissa (hp_price h))) (\<lambda>m.
     Inr (from_pyth m (hp_expo h)))"

definition hermes_conf_of :: "hermes_price \<Rightarrow> hermes_error + price" where
  "hermes_conf_of h =
     bindR (ok_or (parse_u64 (hp_conf h)) (BadMantissa (hp_conf h))) (\<lambda>m.
     Inr (new_price (uint m) (hp_expo h)))"

definition hermes_publish_time_us :: "hermes_price \<Rightarrow> int" where
  "hermes_publish_time_us h = saturating_mul_i64 (hp_publish_time h) 1000000"

definition normalize_feed_id :: "string \<Rightarrow> string" where
  "normalize_feed_id s = to_lowercase (trim_start_0x s)"

definition hermes_query :: "string list \<Rightarrow> (string \<times> string) list" where
  "hermes_query ids = map (\<lambda>i. (''ids[]'', i)) ids @ [(''encoding'', ''base64''), (''parsed'', ''true'')]"

text \<open>An empty key means no key.\<close>

definition api_key_filter :: "string option \<Rightarrow> string option" where
  "api_key_filter k = (case k of None \<Rightarrow> None | Some s \<Rightarrow> if s = [] then None else Some s)"

definition hermes_symbols :: "provider_feeds \<Rightarrow> string \<rightharpoonup> symbol" where
  "hermes_symbols feeds = map_of (rev (map (\<lambda>(s, i). (normalize_feed_id i, s)) feeds))"

definition hermes_tick :: "(string \<rightharpoonup> symbol) \<Rightarrow> parsed_update \<Rightarrow> int \<Rightarrow> price_point option" where
  "hermes_tick syms u now =
     (case syms (normalize_feed_id (pu_id u)) of
        None \<Rightarrow> None
      | Some s \<Rightarrow>
          (case hermes_price_of (pu_price u) of
             Inl _ \<Rightarrow> None
           | Inr p \<Rightarrow> Some \<lparr>pt_symbol = s,
               pt_data = Aggregate p (ok (hermes_conf_of (pu_price u))) (ok (hermes_price_of (pu_ema u))),
               pt_publish_us = Some (hermes_publish_time_us (pu_price u)),
               pt_received_us = now,
               pt_slot = Option.bind (pu_metadata u) md_slot,
               pt_source = PythHermes\<rparr>))"

text \<open>
  One poll: the updates in order, each with its clock reading and whether the send goes
  through; a failed send ends the task.
\<close>

fun hermes_poll ::
    "(string \<rightharpoonup> symbol) \<Rightarrow> (parsed_update \<times> int \<times> bool) list \<Rightarrow> price_point list \<times> bool" where
  "hermes_poll syms [] = ([], True)"
| "hermes_poll syms ((u, now, sent) # us) =
     (case hermes_tick syms u now of
        None \<Rightarrow> hermes_poll syms us
      | Some p \<Rightarrow> if sent then (let (ps, alive) = hermes_poll syms us in (p # ps, alive)) else ([], False))"

text \<open>The reader of \<open>crates/mtm-feeds/src/hermes.rs\<close>, whose mantissa is an \<open>i128\<close>.\<close>

definition feeds_price_of :: "parsed_update \<Rightarrow> hermes_error + price" where
  "feeds_price_of u =
     bindR (ok_or (parse_i128 (hp_price (pu_price u))) (BadMantissa (hp_price (pu_price u)))) (\<lambda>m.
     Inr (new_price m (hp_expo (pu_price u))))"

section \<open>CoinGecko\<close>

record 'f cg_quote =
  cg_usd :: 'f
  cg_last_updated_at :: "int option"

fun join :: "string \<Rightarrow> string list \<Rightarrow> string" where
  "join sep [] = []"
| "join sep [x] = x"
| "join sep (x # y # ys) = x @ sep @ join sep (y # ys)"

definition coingecko_query :: "string list \<Rightarrow> (string \<times> string) list" where
  "coingecko_query ids =
     [(''ids'', join '','' ids), (''vs_currencies'', ''usd''), (''precision'', ''full''),
      (''include_last_updated_at'', ''true'')]"

definition coingecko_tick ::
    "'f f64_ops \<Rightarrow> (string \<rightharpoonup> 'f cg_quote) \<Rightarrow> symbol \<times> string \<Rightarrow> int \<Rightarrow> price_point option" where
  "coingecko_tick F quotes si now =
     (case quotes (snd si) of
        None \<Rightarrow> None
      | Some q \<Rightarrow>
          (case from_f64_lossy F (cg_usd q) (- 8) of
             Inl _ \<Rightarrow> None
           | Inr p \<Rightarrow> Some \<lparr>pt_symbol = fst si, pt_data = Aggregate p None None,
               pt_publish_us = map_option (\<lambda>s. saturating_mul_i64 s 1000000) (cg_last_updated_at q),
               pt_received_us = now, pt_slot = None, pt_source = CoinGecko\<rparr>))"

fun coingecko_poll ::
    "'f f64_ops \<Rightarrow> (string \<rightharpoonup> 'f cg_quote) \<Rightarrow> ((symbol \<times> string) \<times> int \<times> bool) list
      \<Rightarrow> price_point list \<times> bool" where
  "coingecko_poll F quotes [] = ([], True)"
| "coingecko_poll F quotes ((si, now, sent) # fs) =
     (case coingecko_tick F quotes si now of
        None \<Rightarrow> coingecko_poll F quotes fs
      | Some p \<Rightarrow> if sent then (let (ps, alive) = coingecko_poll F quotes fs in (p # ps, alive))
                  else ([], False))"

section \<open>Binance\<close>

record book_ticker =
  bt_update_id :: u64
  bt_bid :: string
  bt_bid_qty :: string
  bt_ask :: string
  bt_ask_qty :: string

definition to_price_data :: "book_ticker \<Rightarrow> price_data option" where
  "to_price_data b = do {
     bid \<leftarrow> ok (from_str (bt_bid b));
     bid_qty \<leftarrow> ok (from_str (bt_bid_qty b));
     ask \<leftarrow> ok (from_str (bt_ask b));
     ask_qty \<leftarrow> ok (from_str (bt_ask_qty b));
     Some (TopOfBook bid bid_qty ask ask_qty) }"

definition binance_streams :: "provider_feeds \<Rightarrow> string \<rightharpoonup> symbol" where
  "binance_streams feeds = map_of (rev (map (\<lambda>(s, b). (to_lowercase b @ ''@bookTicker'', s)) feeds))"

text \<open>\<open>streams\<close>: the keys of that map, in the order the map lists them.\<close>

definition binance_url :: "string \<Rightarrow> string list \<Rightarrow> string" where
  "binance_url base streams = trim_end_slash base @ ''/stream?streams='' @ join ''/'' streams"

text \<open>
  The messages of one connection. An envelope that does not parse is \<open>Frame None\<close>. A flush
  sends the drained points in the order the hash map yields them until a send fails: the event
  carries that order as a list of keys (keys it does not list come after).
\<close>

type_synonym book_store = "(symbol \<times> price_point) list"

datatype binance_event =
    Frame "(string \<times> book_ticker) option" int
  | Ping bool
  | OtherFrame
  | Broken
  | Flush "symbol list" "nat option"
      \<comment> \<open>the order, and how many sends succeed before the engine is gone, if it is\<close>

datatype binance_task = Connected book_store | Reconnecting | TaskDone

definition binance_point :: "symbol \<Rightarrow> price_data \<Rightarrow> int \<Rightarrow> price_point" where
  "binance_point s d now = \<lparr>pt_symbol = s, pt_data = d, pt_publish_us = None,
     pt_received_us = now, pt_slot = None, pt_source = Binance\<rparr>"

definition book_insert :: "book_store \<Rightarrow> symbol \<Rightarrow> price_point \<Rightarrow> book_store" where
  "book_insert latest s p = AList.update s p latest"

definition on_frame ::
    "(string \<rightharpoonup> symbol) \<Rightarrow> book_store \<Rightarrow> (string \<times> book_ticker) option \<Rightarrow> int \<Rightarrow> book_store" where
  "on_frame streams latest msg now =
     (case msg of
        None \<Rightarrow> latest
      | Some (stream, b) \<Rightarrow>
          (case streams stream of
             None \<Rightarrow> latest
           | Some s \<Rightarrow>
               (case to_price_data b of
                  None \<Rightarrow> latest
                | Some d \<Rightarrow> book_insert latest s (binance_point s d now))))"

definition drain :: "symbol list \<Rightarrow> book_store \<Rightarrow> price_point list" where
  "drain order latest = List.map_filter (map_of latest) (remdups (order @ map fst latest))"

definition binance_step ::
    "(string \<rightharpoonup> symbol) \<Rightarrow> binance_task \<times> price_point list \<Rightarrow> binance_event
      \<Rightarrow> binance_task \<times> price_point list" where
  "binance_step streams ts ev =
     (case ts of
        (Connected latest, sent) \<Rightarrow>
          (case ev of
             Frame msg now \<Rightarrow> (Connected (on_frame streams latest msg now), sent)
           | Ping ponged \<Rightarrow> (if ponged then Connected latest else Reconnecting, sent)
           | OtherFrame \<Rightarrow> (Connected latest, sent)
           | Broken \<Rightarrow> (Reconnecting, sent)
           | Flush order fails \<Rightarrow>
               (let points = drain order latest in
                case fails of
                  None \<Rightarrow> (Connected [], sent @ points)
                | Some k \<Rightarrow> if k < length points then (TaskDone, sent @ take k points)
                            else (Connected [], sent @ points)))
      | (Reconnecting, sent) \<Rightarrow> (Connected [], sent)  \<comment> \<open>a fresh table after the backoff\<close>
      | (TaskDone, sent) \<Rightarrow> (TaskDone, sent))"

section \<open>Feed identifiers\<close>

text \<open>
  Feed identifiers are looked up in lower case with every leading \<open>0x\<close> dropped. The prefix
  is stripped before the case is folded, so an identifier written with \<open>0X\<close> keeps a
  (now lower-case) \<open>0x\<close> and does not meet the same feed written without it.
\<close>

theorem normalize_feed_id_prefix:
  "normalize_feed_id (''0x'' @ s) = normalize_feed_id s
   \<and> normalize_feed_id (''0X'' @ s) = ''0x'' @ to_lowercase s
   \<and> normalize_feed_id ''0XEF0D'' \<noteq> normalize_feed_id ''ef0d''"
proof -
  have "lower_char (CHR ''X'') = CHR ''x''" "lower_char (CHR ''0'') = CHR ''0''" by code_simp+
  moreover have "normalize_feed_id ''0XEF0D'' \<noteq> normalize_feed_id ''ef0d''" by code_simp
  ultimately show ?thesis by (simp add: normalize_feed_id_def to_lowercase_def)
qed

section \<open>Hermes ticks\<close>

lemma parse_signed_show_int_range:
  "parse_signed lo hi (show_int z) = (if lo \<le> z \<and> z \<le> hi then Some z else None)"
  using digit_list_hd [OF show_nat_digits, of "nat z"] digits_val_show_nat [of "nat z"]
    digits_val_show_nat [of "nat (- z)"]
  by (cases "show_nat (nat z)") (auto simp: parse_signed_def Let_def show_int_def show_nat_not_Nil simp del: digits_val.simps)

lemma parse_i64_show: "parse_i64 (show_int z) = (if in_i64 z then Some z else None)"
  by (simp add: parse_i64_def in_i64_def parse_signed_show_int_range)

lemma parse_u64_show: "parse_u64 (show_nat n) = (if n < 2 ^ 64 then Some (of_nat n) else None)"
  using digit_list_hd [OF show_nat_digits, of n] digits_val_show_nat [of n]
  by (cases "show_nat n") (auto simp: parse_u64_def Let_def simp del: digits_val.simps)

lemma saturating_mul_i64_clamp:
  "saturating_mul_i64 x y = max (- (2 ^ 63)) (min (2 ^ 63 - 1) (x * y))"
  by (simp add: saturating_mul_i64_def)

text \<open>
  C37. Let an update of Hermes quote its price and its moving average as integers and its confidence as
  a natural number, in decimal digits. If its feed is configured and the mantissa of the price fits
  64 bits, it becomes one tick that carries the price at the quoted exponent without loss, the
  confidence and the moving average too where they fit (and none where they do not), the publish time
  in microseconds saturated to 64 bits, and the slot of the metadata when there is one; if not, it
  becomes none. Whatever the other texts, an update whose mantissa does not read as a 64-bit integer
  becomes none.
\<close>

theorem hermes_tick_spec:
  assumes "hp_price (pu_price u) = show_int m" and "hp_conf (pu_price u) = show_nat c"
    and "hp_price (pu_ema u) = show_int a"
  shows "(case syms (normalize_feed_id (pu_id u)) of
      None \<Rightarrow> hermes_tick syms u now = None
    | Some s \<Rightarrow> if \<not> in_i64 m then hermes_tick syms u now = None
        else \<exists>p. hermes_tick syms u now = Some p \<and> pt_symbol p = s
          \<and> pt_data p = Aggregate (new_price m (hp_expo (pu_price u)))
               (if c < 2 ^ 64 then Some (new_price (int c) (hp_expo (pu_price u))) else None)
               (if in_i64 a then Some (new_price a (hp_expo (pu_ema u))) else None)
          \<and> pt_publish_us p = Some (max (- (2 ^ 63)) (min (2 ^ 63 - 1) (hp_publish_time (pu_price u) * 1000000)))
          \<and> pt_slot p = (case pu_metadata u of None \<Rightarrow> None | Some md \<Rightarrow> md_slot md)
          \<and> pt_received_us p = now \<and> pt_source p = PythHermes)
    \<and> (\<forall>v. parse_i64 (hp_price (pu_price v)) = None \<longrightarrow> hermes_tick syms v now = None)"
proof -
  have "uint (of_nat c :: u64) = int c" if "c < 2 ^ 64"
    using that by (simp add: uint_nat unat_of_nat)
  then show ?thesis using assms
    by (auto simp: hermes_tick_def hermes_price_of_def hermes_conf_of_def from_pyth_def
        parse_i64_show parse_u64_show hermes_publish_time_us_def saturating_mul_i64_clamp
        split: option.splits)
qed

definition sample_update :: parsed_update where
  "sample_update = \<lparr>pu_id = ''0xEF0D'',
     pu_price = \<lparr>hp_price = ''9755868041'', hp_conf = ''4306041'', hp_expo = - 8, hp_publish_time = 1787678802\<rparr>,
     pu_ema = \<lparr>hp_price = ''9700000000'', hp_conf = ''4306041'', hp_expo = - 8, hp_publish_time = 1787678802\<rparr>,
     pu_metadata = Some \<lparr>md_slot = Some 310563706, md_proof_available_time = None,
       md_prev_publish_time = None\<rparr>\<rparr>"

theorem hermes_tick_spec_witness:
  "\<exists>p. hermes_tick (hermes_symbols [(''SOL/USD'', ''ef0d'')]) sample_update 7 = Some p
     \<and> pt_symbol p = ''SOL/USD'' \<and> pt_publish_us p = Some 1787678802000000 \<and> pt_slot p = Some 310563706"
proof -
  have s: "hermes_symbols [(''SOL/USD'', ''ef0d'')] (normalize_feed_id (pu_id sample_update)) = Some ''SOL/USD''"
    by code_simp
  have "show_int 9755868041 = ''9755868041''" "show_nat 4306041 = ''4306041''"
    "show_int 9700000000 = ''9700000000''"
    by (simp_all add: show_eval)
  with hermes_tick_spec [of sample_update 9755868041 4306041 9700000000
      "hermes_symbols [(''SOL/USD'', ''ef0d'')]" 7] s
  show ?thesis by (auto simp: sample_update_def in_i64_def)
qed

lemma hermes_poll_unfold:
  "hermes_poll syms us =
     (List.map_filter (\<lambda>(u, now, _). hermes_tick syms u now)
        (takeWhile (\<lambda>(u, now, sent). sent \<or> hermes_tick syms u now = None) us),
      list_all (\<lambda>(u, now, sent). sent \<or> hermes_tick syms u now = None) us)"
  by (induction syms us rule: hermes_poll.induct)
     (auto simp: List.map_filter_simps split: option.splits)

lemma coingecko_poll_unfold:
  "coingecko_poll F quotes fs =
     (List.map_filter (\<lambda>(si, now, _). coingecko_tick F quotes si now)
        (takeWhile (\<lambda>(si, now, sent). sent \<or> coingecko_tick F quotes si now = None) fs),
      list_all (\<lambda>(si, now, sent). sent \<or> coingecko_tick F quotes si now = None) fs)"
  by (induction F quotes fs rule: coingecko_poll.induct)
     (auto simp: List.map_filter_simps split: option.splits)

text \<open>
  A poll of either polling source forwards the ticks of its updates in order, and a bad update
  does not hide the others: the points sent are exactly the ticks before the first failed send,
  and the task goes on unless a send failed.
\<close>

theorem polls_forward_in_order:
  "hermes_poll syms us =
     (List.map_filter (\<lambda>(u, now, _). hermes_tick syms u now)
        (takeWhile (\<lambda>(u, now, sent). sent \<or> hermes_tick syms u now = None) us),
      list_all (\<lambda>(u, now, sent). sent \<or> hermes_tick syms u now = None) us)
   \<and> coingecko_poll F quotes fs =
     (List.map_filter (\<lambda>(si, now, _). coingecko_tick F quotes si now)
        (takeWhile (\<lambda>(si, now, sent). sent \<or> coingecko_tick F quotes si now = None) fs),
      list_all (\<lambda>(si, now, sent). sent \<or> coingecko_tick F quotes si now = None) fs)"
  using hermes_poll_unfold coingecko_poll_unfold by blast

section \<open>The coalescing loop\<close>

interpretation book: keyed_store map_of book_insert
  by unfold_locales (simp add: book_insert_def update_conv')

definition frame_tick ::
    "(string \<rightharpoonup> symbol) \<Rightarrow> (string \<times> book_ticker) option \<times> int \<Rightarrow> price_point option" where
  "frame_tick streams f = do {
     (stream, b) \<leftarrow> fst f;
     s \<leftarrow> streams stream;
     d \<leftarrow> to_price_data b;
     Some (binance_point s d (snd f)) }"

lemma on_frame_tick:
  "on_frame streams latest msg now =
     (case frame_tick streams (msg, now) of None \<Rightarrow> latest
      | Some p \<Rightarrow> book_insert latest (pt_symbol p) p)"
  by (auto simp: on_frame_def frame_tick_def binance_point_def split: option.splits)

definition book_ok :: "book_store \<Rightarrow> bool" where
  "book_ok latest \<longleftrightarrow> distinct (map fst latest) \<and>
     list_all (\<lambda>(s, p). pt_symbol p = s \<and> pt_source p = Binance \<and> pt_publish_us p = None) latest"

lemma set_update_subset: "set (AList.update k v al) \<subseteq> insert (k, v) (set al)"
  by (induction al) auto

lemma book_ok_insert:
  "book_ok latest \<Longrightarrow> pt_source p = Binance \<Longrightarrow> pt_publish_us p = None
    \<Longrightarrow> book_ok (book_insert latest (pt_symbol p) p)"
  using set_update_subset [of "pt_symbol p" p latest]
  by (auto simp: book_ok_def book_insert_def distinct_update list_all_iff)

lemma frame_tick_fields:
  "frame_tick streams f = Some p \<Longrightarrow> pt_source p = Binance \<and> pt_publish_us p = None"
  by (auto simp: frame_tick_def binance_point_def bind_eq_Some_conv split: prod.splits)

lemma on_frame_ok: "book_ok latest \<Longrightarrow> book_ok (on_frame streams latest msg now)"
  using frame_tick_fields [of streams "(msg, now)"]
  by (auto simp: on_frame_tick book_ok_insert split: option.splits)

text \<open>A drained table, whose points are stored under their own symbols, yields each of them once.\<close>

definition keyed_points :: "book_store \<Rightarrow> bool" where
  "keyed_points latest \<longleftrightarrow> distinct (map fst latest) \<and> list_all (\<lambda>(s, p). pt_symbol p = s) latest"

lemma keyed_book: "book_ok latest \<Longrightarrow> keyed_points latest"
  by (auto simp: book_ok_def keyed_points_def list_all_iff)

lemma keyed_insert: "keyed_points latest \<Longrightarrow> keyed_points (AList.update (pt_symbol p) p latest)"
  using set_update_subset [of "pt_symbol p" p latest]
  by (auto simp: keyed_points_def distinct_update list_all_iff)

lemma map_filter_map_of:
  "distinct ks \<Longrightarrow> keyed_points latest
    \<Longrightarrow> map pt_symbol (List.map_filter (map_of latest) ks) = filter (\<lambda>k. k \<in> fst ` set latest) ks"
proof (induction ks)
  case Nil
  then show ?case by (simp add: List.map_filter_simps)
next
  case (Cons k ks)
  show ?case
  proof (cases "map_of latest k")
    case None
    moreover from None have "k \<notin> fst ` set latest" by (simp add: map_of_eq_None_iff)
    ultimately show ?thesis using Cons by (simp add: List.map_filter_simps)
  next
    case (Some p)
    then have "(k, p) \<in> set latest" by (rule map_of_SomeD)
    with Cons.prems(2) have "pt_symbol p = k" "k \<in> fst ` set latest"
      by (auto simp: keyed_points_def list_all_iff rev_image_eqI)
    with Cons Some show ?thesis by (simp add: List.map_filter_simps)
  qed
qed

lemma drain_distinct: "keyed_points latest \<Longrightarrow> distinct (map pt_symbol (drain order latest))"
  by (simp add: drain_def map_filter_map_of)

lemma set_drain: "p \<in> set (drain order latest) \<longleftrightarrow> (\<exists>k. map_of latest k = Some p)"
proof -
  have "map_of latest k = Some p \<Longrightarrow> k \<in> set (order @ map fst latest)" for k
    by (force dest: map_of_SomeD)
  then show ?thesis
    by (fastforce simp: drain_def List.map_filter_def image_iff simp del: set_append)
qed

lemma set_drain_ok:
  assumes "keyed_points latest"
  shows "p \<in> set (drain order latest) \<longleftrightarrow> map_of latest (pt_symbol p) = Some p"
proof -
  have "pt_symbol p = k" if "map_of latest k = Some p" for k
    using map_of_SomeD [OF that] assms by (auto simp: keyed_points_def list_all_iff)
  then show ?thesis unfolding set_drain by blast
qed

text \<open>The invariant of the task: what is stored and what is sent are untimestamped Binance ticks.\<close>

fun task_ok :: "binance_task \<times> price_point list \<Rightarrow> bool" where
  "task_ok (t, sent) \<longleftrightarrow>
     (case t of Connected latest \<Rightarrow> book_ok latest | _ \<Rightarrow> True)
     \<and> list_all (\<lambda>p. pt_source p = Binance \<and> pt_publish_us p = None) sent"

lemma drain_ok:
  "book_ok latest \<Longrightarrow> p \<in> set (drain order latest) \<Longrightarrow> pt_source p = Binance \<and> pt_publish_us p = None"
  by (auto simp: set_drain book_ok_def list_all_iff dest: map_of_SomeD)

lemma task_ok_step: "task_ok ts \<Longrightarrow> task_ok (binance_step streams ts ev)"
  by (cases ts)
     (auto simp: binance_step_def on_frame_ok list_all_iff Let_def book_ok_def [of "[]"]
       dest: drain_ok in_set_takeD split: binance_task.splits binance_event.splits option.splits)

interpretation binance_loop: stepper "binance_step streams" task_ok "\<lambda>_. True" for streams
  by unfold_locales (rule task_ok_step)

definition book_ticks ::
    "(string \<rightharpoonup> symbol) \<Rightarrow> ((string \<times> book_ticker) option \<times> int) list \<Rightarrow> price_point list" where
  "book_ticks streams frames = List.map_filter (frame_tick streams) frames"

lemma binance_step_frame:
  "binance_step streams (Connected latest, sent) (Frame msg now) =
     (Connected (on_frame streams latest msg now), sent)"
  by (simp add: binance_step_def)

lemma run_frames:
  "foldl (binance_step streams) (Connected latest, sent) (map (\<lambda>(m, n). Frame m n) frames) =
     (Connected (foldl (\<lambda>s (k, v). book_insert s k v) latest
        (map (\<lambda>p. (pt_symbol p, p)) (book_ticks streams frames))), sent)"
proof (induction frames arbitrary: latest)
  case Nil
  show ?case by (simp add: book_ticks_def List.map_filter_simps)
next
  case (Cons f fs)
  show ?case
    by (cases f; cases "frame_tick streams f")
       (simp_all add: Cons.IH binance_step_frame on_frame_tick book_ticks_def List.map_filter_simps)
qed

lemma map_of_by_symbol:
  "map_of (map (\<lambda>p. (pt_symbol p, p)) ps) k = find (\<lambda>p. pt_symbol p = k) ps"
  by (induction ps) auto

text \<open>
  C35. Coalescing. However many book updates arrive between two flushes, the flush sends at most
  one tick per symbol, and it is the last readable update of that symbol: a symbol with no
  readable update since the last flush sends nothing. The table is empty afterwards.
\<close>

theorem binance_coalesces:
  "\<exists>ps. foldl (binance_step streams) (Connected [], sent)
            (map (\<lambda>(m, n). Frame m n) frames @ [Flush order None]) = (Connected [], sent @ ps)
     \<and> distinct (map pt_symbol ps)
     \<and> (\<forall>p. p \<in> set ps \<longleftrightarrow>
          find (\<lambda>q. pt_symbol q = pt_symbol p) (rev (book_ticks streams frames)) = Some p)"
proof -
  let ?l = "foldl (\<lambda>s (k, v). book_insert s k v) []
              (map (\<lambda>p. (pt_symbol p, p)) (book_ticks streams frames))"
  have "task_ok (Connected [], [])" by (simp add: book_ok_def)
  from binance_loop.run_inv [OF this, of "map (\<lambda>(m, n). Frame m n) frames" streams]
  have ok: "book_ok ?l" by (simp add: run_frames list_all_iff)
  have "map_of ?l k = find (\<lambda>q. pt_symbol q = k) (rev (book_ticks streams frames))" for k
    by (simp add: book.lookup_inserts map_of_by_symbol rev_map split: option.splits)
  then show ?thesis
    using set_drain_ok [OF keyed_book [OF ok]] drain_distinct [OF keyed_book [OF ok]]
    by (intro exI [of _ "drain order ?l"]) (simp add: run_frames binance_step_def Let_def)
qed

theorem binance_coalesces_witness:
  "\<exists>ps. foldl (binance_step (binance_streams [(''SOL/USD'', ''SOLUSDT'')])) (Connected [], [])
            (map (\<lambda>(m, n). Frame m n)
               [(Some (''solusdt@bookTicker'', \<lparr>bt_update_id = 1, bt_bid = ''96.75'',
                   bt_bid_qty = ''31.21'', bt_ask = ''96.76'', bt_ask_qty = ''40.66''\<rparr>), 5)]
             @ [Flush [] None]) = (Connected [], [] @ ps)
     \<and> distinct (map pt_symbol ps)"
  using binance_coalesces by blast

text \<open>
  Whatever the connection does, every tick the Binance task ever sends is marked as coming
  from Binance and carries no publish time, and after the engine is gone nothing more is sent.
\<close>

theorem binance_ticks_marked:
  "(\<forall>p \<in> set (snd (foldl (binance_step streams) (Reconnecting, []) evs)).
      pt_source p = Binance \<and> pt_publish_us p = None)
   \<and> (fst (foldl (binance_step streams) (Reconnecting, []) evs) = TaskDone \<longrightarrow>
        foldl (binance_step streams) (Reconnecting, []) (evs @ evs') =
        foldl (binance_step streams) (Reconnecting, []) evs)"
proof -
  let ?r = "foldl (binance_step streams) (Reconnecting, []) evs"
  have "task_ok ?r" by (rule binance_loop.run_inv) (simp_all add: list_all_iff)
  moreover have "foldl (binance_step streams) (TaskDone, sent) evs' = (TaskDone, sent)" for sent
    by (induction evs') (simp_all add: binance_step_def)
  ultimately show ?thesis by (cases ?r) (simp add: list_all_iff)
qed

theorem binance_ticks_marked_witness:
  "fst (foldl (binance_step Map.empty) (Reconnecting, []) [OtherFrame]) = Connected []
   \<and> (\<forall>p \<in> set (snd (foldl (binance_step Map.empty) (Reconnecting, []) [OtherFrame])).
      pt_source p = Binance \<and> pt_publish_us p = None)"
  using binance_ticks_marked [of Map.empty "[OtherFrame]" "[]"] by (simp add: binance_step_def)

end
