(* ===== verification/Pricing_Engine.thy ===== *)
theory Pricing_Engine
  imports Oracle_Config
begin

text \<open>
  \<open>services/oracle/src/pricing/mod.rs\<close>: the instrument registry compiled into runtime state
  (\<open>from_config\<close>), its evaluation against underlying ticks (\<open>on_underlying\<close>) and against its
  own clock (\<open>on_tick\<close>). Decimals, \<open>f64\<close> and the random generator are the parameter \<open>N\<close>.
  A function of the source that may panic (an index out of range, an \<open>i64\<close> overflow) has
  type \<open>unit + 'a\<close>, \<open>Inl ()\<close> being the panic; \<open>Option\<close> results stay options, paired
  with the state the function leaves behind in either case.
\<close>

section \<open>State\<close>

record ('d, 'f, 'r) numerics =
  decs :: "('d, 'f) dec_ops"
  flts :: "'f f64_ops"
  rng_seed :: "u64 \<Rightarrow> 'r"            \<comment> \<open>\<open>ChaCha8Rng::seed_from_u64\<close>\<close>
  rng_normal :: "'r \<Rightarrow> 'f \<times> 'r"       \<comment> \<open>\<open>StandardNormal.sample\<close>\<close>

definition engine_tick_ms :: int where
  "engine_tick_ms = 250"

record 'd snapshot =
  snap_value :: 'd
  snap_conf :: "'d option"
  snap_publish_us :: "int option"
  snap_slot :: "u64 option"
  snap_source :: price_source

record 'd eval_ctx =
  ctx_value :: 'd
  ctx_conf :: "'d option"
  ctx_publish_us :: "int option"
  ctx_slot :: "u64 option"
  ctx_source :: price_source
  ctx_derived :: bool

datatype ('d, 'f, 'r) base_state =
    UnderlyingB symbol
  | CrossB symbol symbol
  | BasketB "(symbol \<times> 'd) list" "'d option" "'d option"  \<comment> \<open>legs, rebase, factor\<close>
  | PegB 'd
  | GbmB 'f 'f 'f u64 'r  \<comment> \<open>price, daily sigma, daily drift, tick in ms, generator\<close>

type_synonym 'd lag_sample = "int \<times> 'd eval_ctx"

datatype ('d, 'f, 'r) transform_state =
    ScaleT 'd 'd
  | InvertT
  | BetaT 'f 'f 'f
  | LagT int "'d lag_sample list"
  | NoiseT 'f 'f 'f "int option" 'r  \<comment> \<open>sigma, half-life, x, last time, generator\<close>

record ('d, 'f, 'r) runtime =
  rt_symbol :: symbol
  rt_expo :: int
  rt_base :: "('d, 'f, 'r) base_state"
  rt_transforms :: "('d, 'f, 'r) transform_state list"
  rt_next_due_us :: int

record ('d, 'f, 'r) engine =
  eng_instruments :: "('d, 'f, 'r) runtime list"
  eng_by_feed :: "symbol \<rightharpoonup> nat list"
  eng_timed :: "nat list"
  eng_latest :: "symbol \<rightharpoonup> 'd snapshot"

section \<open>Compiling the registry\<close>

definition parse_decimal :: "('d, 'f, 'r) numerics \<Rightarrow> string \<Rightarrow> string \<Rightarrow> config_error + 'd" where
  "parse_decimal N s what = ok_or (dec_parse (decs N) s) (InvalidDecimal what s)"

definition parse_decimal_opt ::
    "('d, 'f, 'r) numerics \<Rightarrow> string option \<Rightarrow> string \<Rightarrow> config_error + 'd option" where
  "parse_decimal_opt N m what =
     (case m of None \<Rightarrow> Inr None | Some s \<Rightarrow> bindR (parse_decimal N s what) (\<lambda>d. Inr (Some d)))"

definition parse_decimal_f64 ::
    "('d, 'f, 'r) numerics \<Rightarrow> string \<Rightarrow> string \<Rightarrow> config_error + 'f" where
  "parse_decimal_f64 N s what =
     bindR (parse_decimal N s what) (\<lambda>d. ok_or (dec_to_f64 (decs N) d) (OutOfF64 what))"

definition check_feed :: "symbol list \<Rightarrow> symbol \<Rightarrow> config_error + unit" where
  "check_feed known feed = (if feed \<in> set known then Inr () else Inl (UnknownFeed feed))"

definition bps_f64 :: "('d, 'f, 'r) numerics \<Rightarrow> int \<Rightarrow> 'f" where
  "bps_f64 N b = f_div (flts N) (f_of_int (flts N) b) (f_of_int (flts N) 10000)"

text \<open>The base of an instrument with the feeds it reads, in the order they are registered.\<close>

fun base_of_config ::
    "('d, 'f, 'r) numerics \<Rightarrow> symbol list \<Rightarrow> base_config
      \<Rightarrow> config_error + ('d, 'f, 'r) base_state \<times> symbol list" where
  "base_of_config N known (UnderlyingCfg feed) =
     bindR (check_feed known feed) (\<lambda>_. Inr (UnderlyingB feed, [feed]))"
| "base_of_config N known (CrossCfg b q) =
     bindR (check_feed known b) (\<lambda>_. bindR (check_feed known q) (\<lambda>_. Inr (CrossB b q, [b, q])))"
| "base_of_config N known (BasketCfg legs rebase) =
     bindR (traverseR (\<lambda>(feed, w). bindR (check_feed known feed) (\<lambda>_.
              bindR (parse_decimal N w ''weight'') (\<lambda>d. Inr (feed, d)))) legs) (\<lambda>parsed.
     bindR (parse_decimal_opt N rebase ''rebase'') (\<lambda>r.
     Inr (BasketB parsed r None, map fst legs)))"
| "base_of_config N known (PegCfg target) =
     bindR (parse_decimal N target ''peg target'') (\<lambda>t. Inr (PegB t, []))"
| "base_of_config N known (GbmCfg initial vol drift seed tick_ms) =
     bindR (parse_decimal_f64 N initial ''gbm initial'') (\<lambda>p.
     Inr (GbmB p (bps_f64 N (uint vol)) (bps_f64 N drift)
            (max tick_ms (word_of_int engine_tick_ms)) (rng_seed N seed), []))"

fun transform_of_config ::
    "('d, 'f, 'r) numerics \<Rightarrow> 'f transform_config \<Rightarrow> config_error + ('d, 'f, 'r) transform_state" where
  "transform_of_config N (ScaleCfg factor offset) =
     bindR (parse_decimal N factor ''scale factor'') (\<lambda>f.
     bindR (parse_decimal_opt N offset ''scale offset'') (\<lambda>off.
     Inr (ScaleT f (case off of None \<Rightarrow> dec_zero (decs N) | Some d \<Rightarrow> d))))"
| "transform_of_config N InvertCfg = Inr InvertT"
| "transform_of_config N (BetaCfg beta anchor initial) =
     bindR (parse_decimal_f64 N anchor ''beta anchor'') (\<lambda>a.
     bindR (parse_decimal_f64 N initial ''beta initial'') (\<lambda>i. Inr (BetaT beta a i)))"
| "transform_of_config N (LagCfg ms) =
     (if in_i64 (uint ms) \<and> in_i64 (uint ms * 1000) then Inr (LagT (uint ms * 1000) [])
      else Inl LagTooLarge)"
| "transform_of_config N (NoiseCfg sigma halflife_s seed) =
     Inr (NoiseT (bps_f64 N (uint sigma))
            (f_mul (flts N) (f_of_int (flts N) (uint halflife_s)) (f_of_int (flts N) 1000000))
            (f_zero (flts N)) None (rng_seed N seed))"

record ('d, 'f, 'r) builder =
  bld_runtimes :: "('d, 'f, 'r) runtime list"
  bld_by_feed :: "symbol \<rightharpoonup> nat list"
  bld_timed :: "nat list"
  bld_seen :: "symbol set"

fun clock_driven :: "('d, 'f, 'r) base_state \<Rightarrow> bool" where
  "clock_driven (GbmB _ _ _ _ _) = True"
| "clock_driven (PegB _) = True"
| "clock_driven _ = False"

text \<open>\<open>by_feed.entry(feed).or_default().push(idx)\<close> for each feed in turn.\<close>

definition push_feed :: "nat \<Rightarrow> (symbol \<rightharpoonup> nat list) \<Rightarrow> symbol \<Rightarrow> (symbol \<rightharpoonup> nat list)" where
  "push_feed i m f = m(f \<mapsto> (case m f of None \<Rightarrow> [] | Some l \<Rightarrow> l) @ [i])"

definition add_instrument ::
    "('d, 'f, 'r) numerics \<Rightarrow> symbol list \<Rightarrow> nat \<times> 'f instrument_config
      \<Rightarrow> ('d, 'f, 'r) builder \<Rightarrow> config_error + ('d, 'f, 'r) builder" where
  "add_instrument N known ic b =
     (let cfg = snd ic; i = length (bld_runtimes b) in
      bindR (ok_or (resolved_symbol cfg) (NeedsSymbolOrMint (fst ic))) (\<lambda>s.
      if s \<in> bld_seen b then Inl (DuplicateSymbol s)
      else bindR (base_of_config N known (cfg_base cfg)) (\<lambda>(base, feeds).
           bindR (traverseR (transform_of_config N) (cfg_transforms cfg)) (\<lambda>ts.
           Inr \<lparr>bld_runtimes = bld_runtimes b @
                  [\<lparr>rt_symbol = s, rt_expo = cfg_expo cfg, rt_base = base, rt_transforms = ts,
                    rt_next_due_us = 0\<rparr>],
                bld_by_feed = foldl (push_feed i) (bld_by_feed b) feeds,
                bld_timed = (if clock_driven base then bld_timed b @ [i] else bld_timed b),
                bld_seen = insert s (bld_seen b)\<rparr>))))"

definition from_config ::
    "('d, 'f, 'r) numerics \<Rightarrow> 'f instrument_config list \<Rightarrow> symbol list
      \<Rightarrow> config_error + ('d, 'f, 'r) engine" where
  "from_config N cfgs known =
     bindR (foldR (add_instrument N known) (enumerate 0 cfgs)
              \<lparr>bld_runtimes = [], bld_by_feed = Map.empty, bld_timed = [], bld_seen = {}\<rparr>) (\<lambda>b.
     Inr \<lparr>eng_instruments = bld_runtimes b, eng_by_feed = bld_by_feed b,
          eng_timed = bld_timed b, eng_latest = Map.empty\<rparr>)"

section \<open>Evaluation of a base\<close>

fun older :: "int option \<Rightarrow> int option \<Rightarrow> int option" where
  "older (Some a) (Some b) = Some (min a b)"
| "older x None = x"
| "older None x = x"

text \<open>\<open>Iterator::max\<close> keeps the later of two equal maxima.\<close>

definition max_conf_ratio :: "('d, 'f) dec_ops \<Rightarrow> 'd option list \<Rightarrow> 'd option" where
  "max_conf_ratio D ratios =
     (case List.map_filter id ratios of
        [] \<Rightarrow> None
      | r # rs \<Rightarrow> Some (foldl (\<lambda>m x. if dec_le D m x then x else m) r rs))"

fun basket_sum ::
    "('d, 'f) dec_ops \<Rightarrow> (symbol \<rightharpoonup> 'd snapshot) \<Rightarrow> (symbol \<times> 'd) list
      \<Rightarrow> 'd \<times> 'd option list \<times> int option \<Rightarrow> ('d \<times> 'd option list \<times> int option) option" where
  "basket_sum D latest [] acc = Some acc"
| "basket_sum D latest ((feed, w) # legs) (s, ratios, publish) =
     (case latest feed of
        None \<Rightarrow> None
      | Some snap \<Rightarrow>
          (case Option.bind (dec_mul D (snap_value snap) w) (dec_add D s) of
             None \<Rightarrow> None
           | Some s' \<Rightarrow> basket_sum D latest legs
               (s', ratios @ [snap_conf snap], older publish (snap_publish_us snap))))"

text \<open>The factor in force: the stored one, else the first one, which is stored.\<close>

definition basket_factor :: "('d, 'f) dec_ops \<Rightarrow> 'd option \<Rightarrow> 'd option \<Rightarrow> 'd \<Rightarrow> 'd option" where
  "basket_factor D rebase factor s =
     (case factor of
        Some f \<Rightarrow> Some f
      | None \<Rightarrow> (case rebase of None \<Rightarrow> Some (dec_one D) | Some target \<Rightarrow> dec_div D target s))"

definition gbm_step :: "'f f64_ops \<Rightarrow> 'f \<Rightarrow> 'f \<Rightarrow> 'f \<Rightarrow> 'f \<Rightarrow> 'f \<Rightarrow> 'f" where
  "gbm_step F price sigma drift dt z =
     f_mul F price (f_exp F (f_add F
       (f_mul F (f_sub F drift (f_mul F (f_mul F (f_half F) sigma) sigma)) dt)
       (f_mul F (f_mul F sigma (f_sqrt F dt)) z)))"

fun eval_base ::
    "('d, 'f, 'r) numerics \<Rightarrow> ('d, 'f, 'r) base_state \<Rightarrow> (symbol \<rightharpoonup> 'd snapshot) \<Rightarrow> int
      \<Rightarrow> ('d, 'f, 'r) base_state \<times> 'd eval_ctx option" where
  "eval_base N (UnderlyingB feed) latest now =
     (UnderlyingB feed,
      map_option (\<lambda>snap. \<lparr>ctx_value = snap_value snap, ctx_conf = snap_conf snap,
         ctx_publish_us = snap_publish_us snap, ctx_slot = snap_slot snap,
         ctx_source = snap_source snap, ctx_derived = False\<rparr>) (latest feed))"
| "eval_base N (CrossB base quote) latest now =
     (CrossB base quote,
      (case latest base of
         None \<Rightarrow> None
       | Some b \<Rightarrow>
           (case latest quote of
              None \<Rightarrow> None
            | Some q \<Rightarrow>
                map_option (\<lambda>v. \<lparr>ctx_value = v,
                  ctx_conf = max_conf_ratio (decs N) [snap_conf b, snap_conf q],
                  ctx_publish_us = older (snap_publish_us b) (snap_publish_us q), ctx_slot = None,
                  ctx_source = snap_source b, ctx_derived = True\<rparr>)
                (dec_div (decs N) (snap_value b) (snap_value q)))))"
| "eval_base N (BasketB legs rebase factor) latest now =
     (case basket_sum (decs N) latest legs (dec_zero (decs N), [], None) of
        None \<Rightarrow> (BasketB legs rebase factor, None)
      | Some (s, ratios, publish) \<Rightarrow>
          (case basket_factor (decs N) rebase factor s of
             None \<Rightarrow> (BasketB legs rebase factor, None)
           | Some f \<Rightarrow>
               (BasketB legs rebase (Some f),
                map_option (\<lambda>v. \<lparr>ctx_value = v, ctx_conf = max_conf_ratio (decs N) ratios,
                  ctx_publish_us = publish, ctx_slot = None, ctx_source = Derived,
                  ctx_derived = True\<rparr>) (dec_mul (decs N) s f))))"
| "eval_base N (PegB target) latest now =
     (PegB target, Some \<lparr>ctx_value = target, ctx_conf = None, ctx_publish_us = Some now,
        ctx_slot = None, ctx_source = Derived, ctx_derived = True\<rparr>)"
| "eval_base N (GbmB price sigma drift tick_ms rng) latest now =
     (let dt = f_div (flts N) (f_of_int (flts N) (uint tick_ms)) (f_of_int (flts N) 86400000);
          (z, rng') = rng_normal N rng;
          price' = gbm_step (flts N) price sigma drift dt z
      in (GbmB price' sigma drift tick_ms rng',
          do {
            v \<leftarrow> dec_of_f64 (decs N) price';
            c \<leftarrow> dec_of_f64 (decs N) (f_mul (flts N) sigma (f_sqrt (flts N) dt));
            Some \<lparr>ctx_value = v, ctx_conf = Some c, ctx_publish_us = Some now,
              ctx_slot = None, ctx_source = Derived, ctx_derived = True\<rparr> }))"

section \<open>Transforms\<close>

text \<open>The loop of \<open>Lag\<close>: pop while the front is not newer than the cutoff, keeping the last.\<close>

fun pop_expired ::
    "int \<Rightarrow> 'd lag_sample list \<Rightarrow> 'd lag_sample option \<Rightarrow> 'd lag_sample option \<times> 'd lag_sample list" where
  "pop_expired cutoff [] chosen = (chosen, [])"
| "pop_expired cutoff (s # buf) chosen =
     (if fst s \<le> cutoff then pop_expired cutoff buf (Some s) else (chosen, s # buf))"

definition derived_value :: "'d eval_ctx \<Rightarrow> 'd option \<Rightarrow> 'd eval_ctx option" where
  "derived_value c m = map_option (\<lambda>v. c\<lparr>ctx_value := v, ctx_derived := True\<rparr>) m"

fun apply_transform ::
    "('d, 'f, 'r) numerics \<Rightarrow> ('d, 'f, 'r) transform_state \<Rightarrow> 'd eval_ctx \<Rightarrow> int
      \<Rightarrow> unit + ('d, 'f, 'r) transform_state \<times> 'd eval_ctx option" where
  "apply_transform N (ScaleT factor offset) c now =
     Inr (ScaleT factor offset,
       derived_value c (Option.bind (dec_mul (decs N) (ctx_value c) factor)
         (\<lambda>v. dec_add (decs N) v offset)))"
| "apply_transform N InvertT c now =
     Inr (InvertT, derived_value c (dec_div (decs N) (dec_one (decs N)) (ctx_value c)))"
| "apply_transform N (BetaT beta anchor initial) c now =
     Inr (BetaT beta anchor initial,
       do {
         v \<leftarrow> dec_to_f64 (decs N) (ctx_value c);
         let ratio = f_div (flts N) v anchor;
         if f_le (flts N) ratio (f_zero (flts N)) then None
         else derived_value c (dec_of_f64 (decs N)
                (f_mul (flts N) initial (f_powf (flts N) ratio beta))) })"
| "apply_transform N (LagT us buf) c now =
     (let cutoff = now - us in
      if \<not> in_i64 cutoff then Inl ()
      else let (chosen, buf') = pop_expired cutoff (buf @ [(now, c)]) None
           in Inr (LagT us buf', map_option (\<lambda>s. (snd s)\<lparr>ctx_derived := True\<rparr>) chosen))"
| "apply_transform N (NoiseT sigma halflife x last_us rng) c now =
     (let F = flts N; (z, rng') = rng_normal N rng in
      bindR (case last_us of
          None \<Rightarrow> Inr (f_mul F sigma z)
        | Some l \<Rightarrow>
            if \<not> in_i64 (now - l) then Inl ()
            else let dt = f_of_int F (max (now - l) 0);
                     tau = f_div F halflife (f_ln2 F);
                     a = f_exp F (f_div F (f_neg F dt) tau)
                 in Inr (f_add F (f_mul F x a)
                      (f_mul F (f_mul F sigma (f_sqrt F (f_sub F (f_one F) (f_mul F a a)))) z)))
      (\<lambda>x'. Inr (NoiseT sigma halflife x' (Some now) rng',
         derived_value c (Option.bind (dec_of_f64 (decs N) (f_exp F x'))
           (dec_mul (decs N) (ctx_value c))))))"

fun run_transforms ::
    "('d, 'f, 'r) numerics \<Rightarrow> ('d, 'f, 'r) transform_state list \<Rightarrow> 'd eval_ctx \<Rightarrow> int
      \<Rightarrow> unit + ('d, 'f, 'r) transform_state list \<times> 'd eval_ctx option" where
  "run_transforms N [] c now = Inr ([], Some c)"
| "run_transforms N (t # ts) c now =
     bindR (apply_transform N t c now) (\<lambda>(t', r).
       case r of
         None \<Rightarrow> Inr (t' # ts, None)
       | Some c' \<Rightarrow> bindR (run_transforms N ts c' now) (\<lambda>(ts', r'). Inr (t' # ts', r')))"

section \<open>Evaluation of an instrument\<close>

definition make_point ::
    "('d, 'f, 'r) numerics \<Rightarrow> ('d, 'f, 'r) runtime \<Rightarrow> 'd eval_ctx \<Rightarrow> int \<Rightarrow> price_point option" where
  "make_point N inst c now = do {
     price \<leftarrow> ok (from_decimal (decs N) (ctx_value c) (rt_expo inst));
     Some \<lparr>pt_symbol = rt_symbol inst,
       pt_data = Aggregate price
         (do { r \<leftarrow> ctx_conf c;
               m \<leftarrow> dec_mul (decs N) (ctx_value c) r;
               ok (from_decimal (decs N) m (rt_expo inst)) }) None,
       pt_publish_us = ctx_publish_us c, pt_received_us = now, pt_slot = ctx_slot c,
       pt_source = (if ctx_derived c then Derived else ctx_source c)\<rparr> }"

definition eval ::
    "('d, 'f, 'r) numerics \<Rightarrow> ('d, 'f, 'r) runtime \<Rightarrow> (symbol \<rightharpoonup> 'd snapshot) \<Rightarrow> int
      \<Rightarrow> unit + ('d, 'f, 'r) runtime \<times> price_point option" where
  "eval N inst latest now =
     (let (base', r) = eval_base N (rt_base inst) latest now;
          inst1 = inst\<lparr>rt_base := base'\<rparr> in
      case r of
        None \<Rightarrow> Inr (inst1, None)
      | Some c \<Rightarrow>
          bindR (run_transforms N (rt_transforms inst) c now) (\<lambda>(ts', r').
            let inst2 = inst1\<lparr>rt_transforms := ts'\<rparr> in
            Inr (inst2, Option.bind r' (\<lambda>c'. make_point N inst2 c' now))))"

section \<open>The engine's handlers\<close>

text \<open>What an observation says of its underlying: a value and a confidence ratio.\<close>

fun reduce_data :: "('d, 'f) dec_ops \<Rightarrow> price_data \<Rightarrow> ('d \<times> 'd option) option" where
  "reduce_data D (Aggregate price conf _) = do {
     v \<leftarrow> to_decimal D price;
     Some (v, do { c \<leftarrow> conf; d \<leftarrow> to_decimal D c; dec_div D d v }) }"
| "reduce_data D (TopOfBook bid _ ask _) = do {
     b \<leftarrow> to_decimal D bid;
     a \<leftarrow> to_decimal D ask;
     s \<leftarrow> dec_add D b a;
     mid \<leftarrow> dec_div D s (dec_two D);
     d \<leftarrow> dec_sub D a b;
     half_spread \<leftarrow> dec_div D (dec_abs D d) (dec_two D);
     Some (mid, dec_div D half_spread mid) }"
| "reduce_data D (Trade price _) = do { v \<leftarrow> to_decimal D price; Some (v, None) }"

fun eval_each ::
    "('d, 'f, 'r) numerics \<Rightarrow> (symbol \<rightharpoonup> 'd snapshot) \<Rightarrow> int \<Rightarrow> nat list \<Rightarrow> ('d, 'f, 'r) runtime list
      \<Rightarrow> unit + ('d, 'f, 'r) runtime list \<times> price_point list" where
  "eval_each N latest now [] insts = Inr (insts, [])"
| "eval_each N latest now (i # is) insts =
     (if i < length insts then
        bindR (eval N (insts ! i) latest now) (\<lambda>(inst', r).
        bindR (eval_each N latest now is (insts[i := inst'])) (\<lambda>(insts', ps).
        Inr (insts', (case r of None \<Rightarrow> ps | Some p \<Rightarrow> p # ps))))
      else Inl ())"

definition on_underlying ::
    "('d, 'f, 'r) numerics \<Rightarrow> ('d, 'f, 'r) engine \<Rightarrow> price_point \<Rightarrow> int
      \<Rightarrow> unit + ('d, 'f, 'r) engine \<times> price_point list" where
  "on_underlying N e p now =
     (case reduce_data (decs N) (pt_data p) of
        None \<Rightarrow> Inr (e, [])
      | Some (v, conf) \<Rightarrow>
          (let latest' = (eng_latest e)(pt_symbol p \<mapsto>
                 \<lparr>snap_value = v, snap_conf = conf, snap_publish_us = pt_publish_us p,
                  snap_slot = pt_slot p, snap_source = pt_source p\<rparr>);
               e1 = e\<lparr>eng_latest := latest'\<rparr> in
           case eng_by_feed e (pt_symbol p) of
             None \<Rightarrow> Inr (e1, [])
           | Some is \<Rightarrow>
               bindR (eval_each N latest' now is (eng_instruments e)) (\<lambda>(insts', ps).
               Inr (e1\<lparr>eng_instruments := insts'\<rparr>, ps))))"

fun interval_us :: "('d, 'f, 'r) base_state \<Rightarrow> unit + int" where
  "interval_us (GbmB _ _ _ tick_ms _) =
     (if in_i64 (sint tick_ms * 1000) then Inr (sint tick_ms * 1000) else Inl ())"
| "interval_us _ = Inr (engine_tick_ms * 1000 * 4)"

fun tick_each ::
    "('d, 'f, 'r) numerics \<Rightarrow> (symbol \<rightharpoonup> 'd snapshot) \<Rightarrow> int \<Rightarrow> nat list \<Rightarrow> ('d, 'f, 'r) runtime list
      \<Rightarrow> unit + ('d, 'f, 'r) runtime list \<times> price_point list" where
  "tick_each N latest now [] insts = Inr (insts, [])"
| "tick_each N latest now (i # is) insts =
     (if i < length insts then
        let inst = insts ! i in
        if now < rt_next_due_us inst then tick_each N latest now is insts
        else
          bindR (interval_us (rt_base inst)) (\<lambda>iv.
          if \<not> in_i64 (now + iv) then Inl ()
          else
            bindR (eval N (inst\<lparr>rt_next_due_us := now + iv\<rparr>) latest now) (\<lambda>(inst', r).
            bindR (tick_each N latest now is (insts[i := inst'])) (\<lambda>(insts', ps).
            Inr (insts', (case r of None \<Rightarrow> ps | Some p \<Rightarrow> p # ps)))))
      else Inl ())"

definition on_tick ::
    "('d, 'f, 'r) numerics \<Rightarrow> ('d, 'f, 'r) engine \<Rightarrow> int
      \<Rightarrow> unit + ('d, 'f, 'r) engine \<times> price_point list" where
  "on_tick N e now =
     bindR (tick_each N (eng_latest e) now (eng_timed e) (eng_instruments e)) (\<lambda>(insts', ps).
     Inr (e\<lparr>eng_instruments := insts'\<rparr>, ps))"

end
