(* ===== verification/Pricing_Proofs.thy ===== *)
theory Pricing_Proofs
  imports Pricing_Engine
begin

text \<open>
  What the pricing engine keeps and what it publishes. \<open>engine_ok\<close> is the invariant of the
  engine: the indices of both dispatch tables are those of instruments, symbols are distinct,
  and the state of every instrument is one on which no step can overflow.
\<close>

section \<open>Evaluation keeps the registry\<close>

definition clock_ok :: "int \<Rightarrow> bool" where
  "clock_ok now \<longleftrightarrow> 0 \<le> now \<and> now < 4611686018427387904"

fun transform_ok :: "('d, 'f, 'r) transform_state \<Rightarrow> bool" where
  "transform_ok (LagT us buf) \<longleftrightarrow> 0 \<le> us \<and> in_i64 us"
| "transform_ok (NoiseT _ _ _ last_us _) \<longleftrightarrow> opt_ok clock_ok last_us"
| "transform_ok _ \<longleftrightarrow> True"

fun base_ok :: "('d, 'f, 'r) base_state \<Rightarrow> bool" where
  "base_ok (GbmB _ _ _ tick_ms _) \<longleftrightarrow> uint tick_ms * 1000 < 4611686018427387904"
| "base_ok _ \<longleftrightarrow> True"

definition runtime_ok :: "('d, 'f, 'r) runtime \<Rightarrow> bool" where
  "runtime_ok rt \<longleftrightarrow> base_ok (rt_base rt) \<and> list_all transform_ok (rt_transforms rt)"

text \<open>What evaluation may not change of an instrument.\<close>

definition rt_frame :: "('d, 'f, 'r) runtime \<Rightarrow> symbol \<times> int \<times> int \<times> nat" where
  "rt_frame rt = (rt_symbol rt, rt_expo rt, rt_next_due_us rt, length (rt_transforms rt))"

definition rt_key :: "('d, 'f, 'r) runtime \<Rightarrow> symbol \<times> int" where
  "rt_key rt = (rt_symbol rt, rt_expo rt)"

lemma apply_transform_ok:
  assumes "transform_ok t" and "clock_ok now"
  shows "\<exists>t' r. apply_transform N t c now = Inr (t', r) \<and> transform_ok t'"
proof (cases t)
  case (LagT us buf)
  with assms have "in_i64 (now - us)" by (simp add: in_i64_def clock_ok_def)
  with LagT assms show ?thesis by (auto simp: Let_def split: prod.splits)
next
  case (NoiseT sigma halflife x last_us rng)
  show ?thesis
  proof (cases last_us)
    case None
    with NoiseT assms show ?thesis by (auto simp: Let_def split: prod.splits)
  next
    case (Some l)
    with NoiseT assms have "in_i64 (now - l)" by (simp add: in_i64_def clock_ok_def)
    with NoiseT Some assms show ?thesis by (auto simp: Let_def split: prod.splits)
  qed
qed (use assms in auto)

lemma run_transforms_ok:
  assumes "list_all transform_ok ts" and "clock_ok now"
  shows "\<exists>ts' r. run_transforms N ts c now = Inr (ts', r) \<and> list_all transform_ok ts'
    \<and> length ts' = length ts"
  using assms(1)
proof (induction ts arbitrary: c)
  case Nil
  show ?case by simp
next
  case (Cons t ts)
  then have ts: "list_all transform_ok ts" and t: "transform_ok t" by simp_all
  from apply_transform_ok [OF t assms(2), of N c] obtain t' r
    where a: "apply_transform N t c now = Inr (t', r)" and t': "transform_ok t'" by blast
  show ?case
  proof (cases r)
    case None
    then show ?thesis using a t' ts by simp
  next
    case (Some c')
    from Cons.IH [OF ts, of c'] show ?thesis using a t' Some by auto
  qed
qed

lemma eval_base_ok: "base_ok b \<Longrightarrow> base_ok (fst (eval_base N b latest now))"
  by (cases b) (auto simp: Let_def split: option.splits prod.splits)

lemma eval_ok:
  assumes "runtime_ok inst" and "clock_ok now"
  shows "\<exists>inst' r. eval N inst latest now = Inr (inst', r) \<and> runtime_ok inst'
    \<and> rt_frame inst' = rt_frame inst"
proof -
  obtain b' r where b: "eval_base N (rt_base inst) latest now = (b', r)" by fastforce
  with assms(1) have b': "base_ok b'"
    using eval_base_ok [of "rt_base inst" N latest now] by (simp add: runtime_ok_def)
  show ?thesis
  proof (cases r)
    case None
    then show ?thesis using assms(1) b b' by (simp add: eval_def runtime_ok_def rt_frame_def)
  next
    case (Some c)
    from assms(1) have "list_all transform_ok (rt_transforms inst)" by (simp add: runtime_ok_def)
    from run_transforms_ok [OF this assms(2), of N c] obtain ts' r'
      where "run_transforms N (rt_transforms inst) c now = Inr (ts', r')"
        "list_all transform_ok ts'" "length ts' = length (rt_transforms inst)" by blast
    then show ?thesis using Some b b' by (simp add: eval_def runtime_ok_def rt_frame_def Let_def)
  qed
qed

lemma rt_frame_key: "rt_frame a = rt_frame b \<Longrightarrow> rt_key a = rt_key b"
  by (simp add: rt_frame_def rt_key_def)

lemma update_key:
  "i < length insts \<Longrightarrow> rt_key x = rt_key (insts ! i) \<Longrightarrow> map rt_key (insts[i := x]) = map rt_key insts"
  by (simp add: map_update) (metis list_update_id nth_map)

lemma runtime_ok_update:
  "list_all runtime_ok insts \<Longrightarrow> runtime_ok x \<Longrightarrow> list_all runtime_ok (insts[i := x])"
  by (auto simp: list_all_iff dest!: set_update_subset_insert [THEN subsetD])

lemma eval_each_ok:
  assumes "\<forall>i \<in> set is. i < length insts" and "list_all runtime_ok insts" and "clock_ok now"
  shows "\<exists>insts' ps. eval_each N latest now is insts = Inr (insts', ps)
    \<and> list_all runtime_ok insts' \<and> map rt_key insts' = map rt_key insts"
  using assms(1,2)
proof (induction "is" arbitrary: insts)
  case Nil
  then show ?case by simp
next
  case (Cons i "is")
  then have i: "i < length insts" and r: "runtime_ok (insts ! i)"
    by (simp_all add: list_all_length)
  from eval_ok [OF r assms(3), of N latest] obtain inst' p
    where e: "eval N (insts ! i) latest now = Inr (inst', p)" and "runtime_ok inst'"
      and f: "rt_frame inst' = rt_frame (insts ! i)" by blast
  then have "list_all runtime_ok (insts[i := inst'])"
    using Cons.prems(2) runtime_ok_update by blast
  with Cons.IH [of "insts[i := inst']"] Cons.prems(1) obtain insts' ps where
    "eval_each N latest now is (insts[i := inst']) = Inr (insts', ps)"
    "list_all runtime_ok insts'" "map rt_key insts' = map rt_key (insts[i := inst'])" by auto
  then show ?case
    using e i update_key [OF i rt_frame_key [OF f]] by auto
qed

text \<open>The publication interval of a clock-driven instrument, in microseconds.\<close>

fun interval_of :: "('d, 'f, 'r) base_state \<Rightarrow> int" where
  "interval_of (GbmB _ _ _ tick_ms _) = uint tick_ms * 1000"
| "interval_of _ = 1000000"

lemma interval_ok:
  assumes "base_ok b" and "clock_ok now"
  shows "interval_us b = Inr (interval_of b)" and "in_i64 (now + interval_of b)"
proof -
  have "sint t = uint t" if "uint t * 1000 < 4611686018427387904" for t :: u64
    using that order_trans [OF _ uint_ge_0, of "- 9223372036854775808" t]
      signed_take_bit_int_eq_self [of 63 "uint t"] by (simp add: sint_uint)
  note small = this
  show "interval_us b = Inr (interval_of b)"
  proof (cases b)
    case (GbmB p s d t r)
    obtain u where "uint t = u" "0 \<le> u" using uint_ge_0 [of t] by blast
    then show ?thesis using GbmB assms small [of t] by (simp add: in_i64_def engine_tick_ms_def)
  qed (use assms in \<open>simp_all add: in_i64_def engine_tick_ms_def\<close>)
  show "in_i64 (now + interval_of b)"
  proof (cases b)
    case (GbmB p s d t r)
    obtain u where "uint t = u" "0 \<le> u" using uint_ge_0 [of t] by blast
    then show ?thesis using GbmB assms small [of t] by (simp add: in_i64_def clock_ok_def)
  qed (use assms in \<open>simp_all add: in_i64_def clock_ok_def\<close>)
qed

lemma tick_each_ok:
  assumes "\<forall>i \<in> set is. i < length insts" and "list_all runtime_ok insts" and "clock_ok now"
  shows "\<exists>insts' ps. tick_each N latest now is insts = Inr (insts', ps)
    \<and> list_all runtime_ok insts' \<and> map rt_key insts' = map rt_key insts"
  using assms(1,2)
proof (induction "is" arbitrary: insts)
  case Nil
  then show ?case by simp
next
  case (Cons i "is")
  then have i: "i < length insts" and r: "runtime_ok (insts ! i)"
    by (simp_all add: list_all_length)
  show ?case
  proof (cases "now < rt_next_due_us (insts ! i)")
    case True
    then show ?thesis using i Cons.IH [of insts] Cons.prems by simp
  next
    case False
    let ?iv = "interval_of (rt_base (insts ! i))"
    let ?inst = "(insts ! i)\<lparr>rt_next_due_us := now + ?iv\<rparr>"
    have b: "base_ok (rt_base (insts ! i))" using r by (simp add: runtime_ok_def)
    have "runtime_ok ?inst" using r by (simp add: runtime_ok_def)
    from eval_ok [OF this assms(3), of N latest] obtain inst' p
      where e: "eval N ?inst latest now = Inr (inst', p)" and ok: "runtime_ok inst'"
        and f: "rt_frame inst' = rt_frame ?inst" by blast
    then have k: "rt_key inst' = rt_key (insts ! i)" by (simp add: rt_frame_def rt_key_def)
    from Cons.IH [of "insts[i := inst']"] Cons.prems runtime_ok_update [OF _ ok]
    obtain insts' ps where
      "tick_each N latest now is (insts[i := inst']) = Inr (insts', ps)"
      "list_all runtime_ok insts'" "map rt_key insts' = map rt_key (insts[i := inst'])" by auto
    then show ?thesis
      using False i e update_key [OF i k] interval_ok [OF b assms(3)]
      by (auto simp: Let_def)
  qed
qed

section \<open>The invariant\<close>

definition engine_ok :: "('d, 'f, 'r) engine \<Rightarrow> bool" where
  "engine_ok e \<longleftrightarrow>
     (\<forall>f is. eng_by_feed e f = Some is \<longrightarrow> (\<forall>i \<in> set is. i < length (eng_instruments e)))
     \<and> (\<forall>i \<in> set (eng_timed e). i < length (eng_instruments e))
     \<and> distinct (map rt_symbol (eng_instruments e))
     \<and> list_all runtime_ok (eng_instruments e)"

definition engine_keys :: "('d, 'f, 'r) engine \<Rightarrow> (symbol \<times> int) list" where
  "engine_keys e = map rt_key (eng_instruments e)"

lemma keys_symbols: "map rt_key insts' = map rt_key insts \<Longrightarrow> map rt_symbol insts' = map rt_symbol insts"
  by (drule arg_cong [of _ _ "map fst"]) (simp add: rt_key_def comp_def)

lemma keys_length: "map rt_key insts' = map rt_key insts \<Longrightarrow> length insts' = length insts"
  by (drule arg_cong [of _ _ length]) simp

lemma on_underlying_ok:
  assumes "engine_ok e" and "clock_ok now"
  shows "\<exists>e' ps. on_underlying N e p now = Inr (e', ps) \<and> engine_ok e' \<and> engine_keys e' = engine_keys e
    \<and> eng_by_feed e' = eng_by_feed e \<and> eng_timed e' = eng_timed e"
proof (cases "reduce_data (decs N) (pt_data p)")
  case None
  then show ?thesis using assms by (simp add: on_underlying_def)
next
  case (Some vc)
  obtain v conf where vc: "vc = (v, conf)" by fastforce
  show ?thesis
  proof (cases "eng_by_feed e (pt_symbol p)")
    case None
    then show ?thesis using Some vc assms by (simp add: on_underlying_def engine_ok_def engine_keys_def)
  next
    case ix: (Some ix)
    let ?latest = "(eng_latest e)(pt_symbol p \<mapsto> \<lparr>snap_value = v, snap_conf = conf,
      snap_publish_us = pt_publish_us p, snap_slot = pt_slot p, snap_source = pt_source p\<rparr>)"
    from assms ix have "\<forall>i \<in> set ix. i < length (eng_instruments e)"
      and "list_all runtime_ok (eng_instruments e)" by (auto simp: engine_ok_def)
    from eval_each_ok [OF this assms(2), of N ?latest] obtain insts' ps where
      "eval_each N ?latest now ix (eng_instruments e) = Inr (insts', ps)"
      "list_all runtime_ok insts'" "map rt_key insts' = map rt_key (eng_instruments e)" by blast
    then show ?thesis using Some vc ix assms(1) keys_symbols [of insts' "eng_instruments e"]
      keys_length [of insts' "eng_instruments e"]
      by (auto simp: on_underlying_def Let_def engine_ok_def engine_keys_def)
  qed
qed

lemma on_tick_ok:
  assumes "engine_ok e" and "clock_ok now"
  shows "\<exists>e' ps. on_tick N e now = Inr (e', ps) \<and> engine_ok e' \<and> engine_keys e' = engine_keys e
    \<and> eng_by_feed e' = eng_by_feed e \<and> eng_timed e' = eng_timed e \<and> eng_latest e' = eng_latest e"
proof -
  from assms have "\<forall>i \<in> set (eng_timed e). i < length (eng_instruments e)"
    and "list_all runtime_ok (eng_instruments e)" by (auto simp: engine_ok_def)
  from tick_each_ok [OF this assms(2), of N "eng_latest e"] obtain insts' ps where
    "tick_each N (eng_latest e) now (eng_timed e) (eng_instruments e) = Inr (insts', ps)"
    "list_all runtime_ok insts'" "map rt_key insts' = map rt_key (eng_instruments e)" by blast
  then show ?thesis using assms(1) keys_symbols [of insts' "eng_instruments e"]
      keys_length [of insts' "eng_instruments e"]
    by (auto simp: on_tick_def engine_ok_def engine_keys_def)
qed

section \<open>The registry is compiled faithfully\<close>

text \<open>The feeds a base reads, with repetitions, and the instruments dispatched on a feed.\<close>

fun config_feeds :: "base_config \<Rightarrow> symbol list" where
  "config_feeds (UnderlyingCfg f) = [f]"
| "config_feeds (CrossCfg b q) = [b, q]"
| "config_feeds (BasketCfg legs _) = map fst legs"
| "config_feeds _ = []"

fun config_clock :: "base_config \<Rightarrow> bool" where
  "config_clock (PegCfg _) = True"
| "config_clock (GbmCfg _ _ _ _ _) = True"
| "config_clock _ = False"

fun config_tick_ok :: "base_config \<Rightarrow> bool" where
  "config_tick_ok (GbmCfg _ _ _ _ tick_ms) \<longleftrightarrow> uint tick_ms * 1000 < 4611686018427387904"
| "config_tick_ok _ \<longleftrightarrow> True"

definition dispatch :: "'f instrument_config list \<Rightarrow> symbol \<Rightarrow> nat list" where
  "dispatch cfgs f = concat (map (\<lambda>(i, c).
     map (\<lambda>_. i) (filter (\<lambda>g. g = f) (config_feeds (cfg_base c)))) (enumerate 0 cfgs))"

definition clocked :: "'f instrument_config list \<Rightarrow> nat list" where
  "clocked cfgs = map fst (filter (\<lambda>(i, c). config_clock (cfg_base c)) (enumerate 0 cfgs))"

definition config_key :: "'f instrument_config \<Rightarrow> symbol \<times> int" where
  "config_key c = (the (resolved_symbol c), cfg_expo c)"

lemma foldl_push_feed:
  "foldl (push_feed i) m feeds f =
     (if f \<in> set feeds
      then Some ((case m f of None \<Rightarrow> [] | Some l \<Rightarrow> l) @ map (\<lambda>_. i) (filter (\<lambda>g. g = f) feeds))
      else m f)"
  by (induction feeds arbitrary: m) (auto simp: push_feed_def filter_empty_conv split: option.splits)

lemma traverseR_Inr_ex: "traverseR f xs = Inr ys \<Longrightarrow> x \<in> set xs \<Longrightarrow> \<exists>y. f x = Inr y"
  by (induction xs arbitrary: ys) (auto simp: result_simps)

lemma base_of_config_Inr:
  assumes "base_of_config N known c = Inr (b, feeds)"
  shows "feeds = config_feeds c \<and> set feeds \<subseteq> set known \<and> clock_driven b = config_clock c
    \<and> (config_tick_ok c \<longrightarrow> base_ok b)"
proof (cases c)
  case (BasketCfg legs rebase)
  have "fst leg \<in> set known" if "leg \<in> set legs" for leg
  proof -
    from assms BasketCfg obtain ys where "traverseR (\<lambda>(feed, w). bindR (check_feed known feed) (\<lambda>_.
        bindR (parse_decimal N w ''weight'') (\<lambda>d. Inr (feed, d)))) legs = Inr ys"
      by (auto simp: result_simps)
    from traverseR_Inr_ex [OF this that] show ?thesis
      by (cases leg) (auto simp: result_simps check_feed_def split: if_splits)
  qed
  then show ?thesis using BasketCfg assms by (auto simp: result_simps)
next
  case (GbmCfg i v d s t)
  obtain u where "uint t = u" "0 \<le> u" using uint_ge_0 [of t] by blast
  then show ?thesis using GbmCfg assms
    by (auto simp: result_simps engine_tick_ms_def max_def)
qed (use assms in \<open>auto simp: result_simps check_feed_def split: if_splits\<close>)

lemma transform_of_config_ok: "transform_of_config N t = Inr s \<Longrightarrow> transform_ok s"
  by (cases t) (auto simp: result_simps split: if_splits)

lemma traverse_transforms_ok:
  "traverseR (transform_of_config N) ts = Inr ss \<Longrightarrow> list_all transform_ok ss"
  by (induction ts arbitrary: ss) (auto simp: result_simps dest: transform_of_config_ok)

definition built :: "'f instrument_config list \<Rightarrow> symbol list \<Rightarrow> ('d, 'f, 'r) builder \<Rightarrow> bool" where
  "built cfgs known b \<longleftrightarrow>
     map rt_key (bld_runtimes b) = map config_key cfgs
     \<and> list_all (\<lambda>c. resolved_symbol c \<noteq> None \<and> set (config_feeds (cfg_base c)) \<subseteq> set known) cfgs
     \<and> bld_seen b = set (map rt_symbol (bld_runtimes b)) \<and> distinct (map rt_symbol (bld_runtimes b))
     \<and> (\<forall>f. bld_by_feed b f = (if dispatch cfgs f = [] then None else Some (dispatch cfgs f)))
     \<and> bld_timed b = clocked cfgs
     \<and> (list_all (\<lambda>c. config_tick_ok (cfg_base c)) cfgs \<longrightarrow> list_all runtime_ok (bld_runtimes b))"

lemma built_step:
  assumes "built cfgs known b" and "add_instrument N known (i, c) b = Inr b'"
  shows "built (cfgs @ [c]) known b'"
proof -
  have len: "length (bld_runtimes b) = length cfgs"
    using assms(1) unfolding built_def by (metis length_map)
  from assms(2) obtain s base feeds ts where s: "resolved_symbol c = Some s"
    and new: "s \<notin> bld_seen b" and base: "base_of_config N known (cfg_base c) = Inr (base, feeds)"
    and ts: "traverseR (transform_of_config N) (cfg_transforms c) = Inr ts"
    and b': "b' = \<lparr>bld_runtimes = bld_runtimes b @
                  [\<lparr>rt_symbol = s, rt_expo = cfg_expo c, rt_base = base, rt_transforms = ts,
                    rt_next_due_us = 0\<rparr>],
                bld_by_feed = foldl (push_feed (length cfgs)) (bld_by_feed b) feeds,
                bld_timed = (if clock_driven base then bld_timed b @ [length cfgs] else bld_timed b),
                bld_seen = insert s (bld_seen b)\<rparr>"
    by (auto simp: add_instrument_def result_simps Let_def len split: if_splits)
  note B = base_of_config_Inr [OF base]
  note T = traverse_transforms_ok [OF ts]
  have d: "dispatch (cfgs @ [c]) f =
      dispatch cfgs f @ map (\<lambda>_. length cfgs) (filter (\<lambda>g. g = f) feeds)" for f
    using B by (simp add: dispatch_def enumerate_append_eq)
  have by_feed: "bld_by_feed b' f =
      (if dispatch (cfgs @ [c]) f = [] then None else Some (dispatch (cfgs @ [c]) f))" for f
    using assms(1) unfolding built_def
    by (auto simp: b' foldl_push_feed d filter_empty_conv)
  have timed: "bld_timed b' = clocked (cfgs @ [c])"
    using assms(1) B by (simp add: built_def b' clocked_def enumerate_append_eq)
  have ok: "list_all runtime_ok (bld_runtimes b')"
    if "list_all (\<lambda>c. config_tick_ok (cfg_base c)) (cfgs @ [c])"
    using assms(1) that B T by (simp add: built_def b' runtime_ok_def)
  have rts: "map rt_key (bld_runtimes b') = map rt_key (bld_runtimes b) @ [config_key c]"
      "map rt_symbol (bld_runtimes b') = map rt_symbol (bld_runtimes b) @ [s]"
      "bld_seen b' = insert s (bld_seen b)"
    using s by (simp_all add: b' rt_key_def config_key_def)
  moreover have "set (config_feeds (cfg_base c)) \<subseteq> set known" using B by metis
  ultimately show ?thesis
    using assms(1) s new by_feed timed ok unfolding built_def rts by simp
qed

lemma from_config_built:
  assumes "foldR (add_instrument N known) (enumerate 0 cfgs)
    \<lparr>bld_runtimes = [], bld_by_feed = Map.empty, bld_timed = [], bld_seen = {}\<rparr> = Inr b"
  shows "built cfgs known b"
  using assms
proof (induction cfgs arbitrary: b rule: rev_induct)
  case Nil
  then show ?case by (auto simp: built_def dispatch_def clocked_def)
next
  case (snoc c cfgs)
  then show ?case
    by (auto simp: enumerate_append_eq foldR_append result_simps intro!: built_step)
qed

lemma dispatch_bound: "i \<in> set (dispatch cfgs f) \<Longrightarrow> i < length cfgs"
  by (auto simp: dispatch_def in_set_enumerate_eq)

lemma clocked_bound: "i \<in> set (clocked cfgs) \<Longrightarrow> i < length cfgs"
  by (auto simp: clocked_def in_set_enumerate_eq)

lemma from_config_facts:
  assumes "from_config N cfgs known = Inr e"
  shows "engine_keys e = map config_key cfgs
    \<and> list_all (\<lambda>c. resolved_symbol c \<noteq> None \<and> set (config_feeds (cfg_base c)) \<subseteq> set known) cfgs
    \<and> distinct (map rt_symbol (eng_instruments e))
    \<and> (\<forall>f. eng_by_feed e f = (if dispatch cfgs f = [] then None else Some (dispatch cfgs f)))
    \<and> eng_timed e = clocked cfgs \<and> eng_latest e = Map.empty"
    and "list_all (\<lambda>c. config_tick_ok (cfg_base c)) cfgs \<Longrightarrow> engine_ok e"
proof -
  from assms obtain b where b: "built cfgs known b"
    and e: "e = \<lparr>eng_instruments = bld_runtimes b, eng_by_feed = bld_by_feed b,
          eng_timed = bld_timed b, eng_latest = Map.empty\<rparr>"
    by (auto simp: from_config_def result_simps dest: from_config_built)
  have len: "length (bld_runtimes b) = length cfgs"
    using b unfolding built_def by (metis length_map)
  show "engine_keys e = map config_key cfgs
    \<and> list_all (\<lambda>c. resolved_symbol c \<noteq> None \<and> set (config_feeds (cfg_base c)) \<subseteq> set known) cfgs
    \<and> distinct (map rt_symbol (eng_instruments e))
    \<and> (\<forall>f. eng_by_feed e f = (if dispatch cfgs f = [] then None else Some (dispatch cfgs f)))
    \<and> eng_timed e = clocked cfgs \<and> eng_latest e = Map.empty"
    using b by (simp add: e built_def engine_keys_def)
  show "engine_ok e" if "list_all (\<lambda>c. config_tick_ok (cfg_base c)) cfgs"
    using b that by (auto simp: e built_def engine_ok_def len dest: dispatch_bound clocked_bound)
qed

text \<open>An engine that serves a configuration: what the compiler sets up and every step keeps.\<close>

definition serves :: "'f instrument_config list \<Rightarrow> ('d, 'f, 'r) engine \<Rightarrow> bool" where
  "serves cfgs e \<longleftrightarrow> engine_keys e = map config_key cfgs
     \<and> (\<forall>f. eng_by_feed e f = (if dispatch cfgs f = [] then None else Some (dispatch cfgs f)))
     \<and> eng_timed e = clocked cfgs"

lemma serves_length: "serves cfgs e \<Longrightarrow> length (eng_instruments e) = length cfgs"
  unfolding serves_def engine_keys_def by (metis length_map)

lemma serves_nth:
  "serves cfgs e \<Longrightarrow> i < length cfgs \<Longrightarrow> rt_key (eng_instruments e ! i) = config_key (cfgs ! i)"
  using serves_length [of cfgs e] unfolding serves_def engine_keys_def by (metis nth_map)

lemma in_enumerate: "(i, c) \<in> set (enumerate 0 cfgs) \<longleftrightarrow> i < length cfgs \<and> c = cfgs ! i"
  by (auto simp: in_set_enumerate_eq)

lemma set_dispatch:
  "i \<in> set (dispatch cfgs f) \<longleftrightarrow> i < length cfgs \<and> f \<in> set (config_feeds (cfg_base (cfgs ! i)))"
proof -
  have "i \<in> set (dispatch cfgs f) \<longleftrightarrow>
      (\<exists>c. (i, c) \<in> set (enumerate 0 cfgs) \<and> f \<in> set (config_feeds (cfg_base c)))"
    by (auto simp: dispatch_def)
  then show ?thesis by (simp add: in_enumerate)
qed

lemma set_clocked: "i \<in> set (clocked cfgs) \<longleftrightarrow> i < length cfgs \<and> config_clock (cfg_base (cfgs ! i))"
proof -
  have "i \<in> set (clocked cfgs) \<longleftrightarrow>
      (\<exists>c. (i, c) \<in> set (enumerate 0 cfgs) \<and> config_clock (cfg_base c))"
    unfolding clocked_def set_map set_filter by force
  then show ?thesis by (simp add: in_enumerate)
qed

section \<open>What is published\<close>

definition published :: "symbol \<times> int \<Rightarrow> int \<Rightarrow> price_point \<Rightarrow> bool" where
  "published k now p \<longleftrightarrow> pt_symbol p = fst k \<and> pt_received_us p = now
     \<and> (\<exists>price conf. pt_data p = Aggregate price conf None \<and> expo price = snd k
          \<and> opt_ok (\<lambda>c. expo c = snd k) conf)"

lemma from_decimal_expo: "from_decimal D v e = Inr p \<Longrightarrow> expo p = e"
  by (auto simp: from_decimal_def result_simps)

lemma conf_expo:
  "opt_ok (\<lambda>c. expo c = e) (Option.bind m (\<lambda>r. Option.bind (f r) (\<lambda>v. ok (from_decimal D v e))))"
  by (auto simp: opt_ok_def bind_eq_Some_conv result_simps dest: from_decimal_expo split: option.splits)

lemma make_point_published:
  assumes "make_point N inst c now = Some p"
  shows "published (rt_key inst) now p"
proof -
  from assms obtain price where "from_decimal (decs N) (ctx_value c) (rt_expo inst) = Inr price"
    and p: "p = \<lparr>pt_symbol = rt_symbol inst,
       pt_data = Aggregate price
         (do { r \<leftarrow> ctx_conf c;
               m \<leftarrow> dec_mul (decs N) (ctx_value c) r;
               ok (from_decimal (decs N) m (rt_expo inst)) }) None,
       pt_publish_us = ctx_publish_us c, pt_received_us = now, pt_slot = ctx_slot c,
       pt_source = (if ctx_derived c then Derived else ctx_source c)\<rparr>"
    by (auto simp: make_point_def bind_eq_Some_conv result_simps)
  then have "expo price = rt_expo inst" by (simp add: from_decimal_expo)
  then show ?thesis using conf_expo by (simp add: published_def rt_key_def p)
qed

lemma run_transforms_length: "run_transforms N ts c now = Inr (ts', r) \<Longrightarrow> length ts' = length ts"
  by (induction ts arbitrary: c ts' r) (auto simp: result_simps split: option.splits)

lemma eval_frame: "eval N inst latest now = Inr (inst', r) \<Longrightarrow> rt_frame inst' = rt_frame inst"
  by (auto simp: eval_def Let_def result_simps rt_frame_def dest: run_transforms_length
      split: prod.splits option.splits)

lemma eval_published:
  assumes "eval N inst latest now = Inr (inst', Some p)"
  shows "published (rt_key inst) now p"
proof -
  obtain i2 c where "make_point N i2 c now = Some p" "inst' = i2"
    using assms
    by (auto simp: eval_def Let_def result_simps bind_eq_Some_conv split: prod.splits option.splits)
  then show ?thesis
    using make_point_published rt_frame_key [OF eval_frame [OF assms]] by metis
qed

lemma eval_each_published:
  assumes "eval_each N latest now is insts = Inr (insts', ps)"
  shows "map rt_key insts' = map rt_key insts
    \<and> (\<forall>j. j \<notin> set is \<longrightarrow> insts' ! j = insts ! j)
    \<and> (\<forall>p \<in> set ps. \<exists>i \<in> set is. i < length insts \<and> published (rt_key (insts ! i)) now p)"
  using assms
proof (induction "is" arbitrary: insts ps)
  case Nil
  then show ?case by simp
next
  case (Cons i "is")
  then obtain inst' r qs where i: "i < length insts"
    and e: "eval N (insts ! i) latest now = Inr (inst', r)"
    and t: "eval_each N latest now is (insts[i := inst']) = Inr (insts', qs)"
    and ps: "ps = (case r of None \<Rightarrow> qs | Some p \<Rightarrow> p # qs)"
    by (auto simp: result_simps split: if_splits)
  note k = update_key [OF i rt_frame_key [OF eval_frame [OF e]]]
  note IH = Cons.IH [OF t]
  have nth: "rt_key (insts[i := inst'] ! j) = rt_key (insts ! j)" for j
    using rt_frame_key [OF eval_frame [OF e]] i by (cases "j = i") simp_all
  have "published (rt_key (insts ! i)) now p" if "r = Some p" for p
    using e that eval_published by blast
  then show ?case using IH k i unfolding ps nth by (auto split: option.splits)
qed

lemma tick_each_published:
  assumes "tick_each N latest now is insts = Inr (insts', ps)"
  shows "map rt_key insts' = map rt_key insts
    \<and> (\<forall>j. j \<notin> set is \<longrightarrow> insts' ! j = insts ! j)
    \<and> (\<forall>p \<in> set ps. \<exists>i \<in> set is. i < length insts \<and> published (rt_key (insts ! i)) now p)"
  using assms
proof (induction "is" arbitrary: insts ps)
  case Nil
  then show ?case by simp
next
  case (Cons i "is")
  then have i: "i < length insts" by (auto split: if_splits)
  show ?case
  proof (cases "now < rt_next_due_us (insts ! i)")
    case True
    then show ?thesis using Cons i by auto
  next
    case False
    with Cons.prems i obtain iv inst' r qs where
      e: "eval N ((insts ! i)\<lparr>rt_next_due_us := now + iv\<rparr>) latest now = Inr (inst', r)"
      and t: "tick_each N latest now is (insts[i := inst']) = Inr (insts', qs)"
      and ps: "ps = (case r of None \<Rightarrow> qs | Some p \<Rightarrow> p # qs)"
      by (auto simp: result_simps Let_def split: if_splits)
    from rt_frame_key [OF eval_frame [OF e]] have k: "rt_key inst' = rt_key (insts ! i)"
      by (simp add: rt_key_def)
    have nth: "rt_key (insts[i := inst'] ! j) = rt_key (insts ! j)" for j
      using k i by (cases "j = i") simp_all
    have "published (rt_key (insts ! i)) now p" if "r = Some p" for p
      using e that eval_published [of N "(insts ! i)\<lparr>rt_next_due_us := now + iv\<rparr>"]
      by (simp add: rt_key_def)
    then show ?thesis using Cons.IH [OF t] update_key [OF i k] i unfolding ps nth
      by (auto split: option.splits)
  qed
qed

lemma on_underlying_serves:
  assumes "serves cfgs e" and "on_underlying N e p now = Inr (e', ps)"
  shows "serves cfgs e'
    \<and> (\<forall>q \<in> set ps. \<exists>i < length cfgs. pt_symbol p \<in> set (config_feeds (cfg_base (cfgs ! i)))
          \<and> published (config_key (cfgs ! i)) now q)
    \<and> (\<forall>j < length cfgs. pt_symbol p \<notin> set (config_feeds (cfg_base (cfgs ! j)))
          \<longrightarrow> eng_instruments e' ! j = eng_instruments e ! j)"
proof (cases "reduce_data (decs N) (pt_data p)")
  case None
  then show ?thesis using assms by (auto simp: on_underlying_def)
next
  case (Some vc)
  obtain v conf where vc: "vc = (v, conf)" by fastforce
  show ?thesis
  proof (cases "eng_by_feed e (pt_symbol p)")
    case None
    then show ?thesis using Some vc assms
      by (auto simp: on_underlying_def serves_def engine_keys_def)
  next
    case ix: (Some ix)
    then have ix': "ix = dispatch cfgs (pt_symbol p)"
      using assms(1) by (auto simp: serves_def split: if_splits)
    from Some vc ix assms(2) obtain latest insts'
      where t: "eval_each N latest now ix (eng_instruments e) = Inr (insts', ps)"
        and e': "e' = e\<lparr>eng_latest := latest, eng_instruments := insts'\<rparr>"
      by (auto simp: on_underlying_def Let_def result_simps)
    show ?thesis
      using eval_each_published [OF t] assms(1) serves_nth [OF assms(1)] serves_length [OF assms(1)]
      by (auto simp: e' serves_def engine_keys_def ix' set_dispatch Bex_def)
  qed
qed

lemma on_tick_serves:
  assumes "serves cfgs e" and "on_tick N e now = Inr (e', ps)"
  shows "serves cfgs e' \<and> eng_latest e' = eng_latest e
    \<and> (\<forall>q \<in> set ps. \<exists>i < length cfgs. config_clock (cfg_base (cfgs ! i))
          \<and> published (config_key (cfgs ! i)) now q)
    \<and> (\<forall>j < length cfgs. \<not> config_clock (cfg_base (cfgs ! j))
          \<longrightarrow> eng_instruments e' ! j = eng_instruments e ! j)"
proof -
  from assms(2) obtain insts'
    where t: "tick_each N (eng_latest e) now (clocked cfgs) (eng_instruments e) = Inr (insts', ps)"
      and e': "e' = e\<lparr>eng_instruments := insts'\<rparr>"
    using assms(1) by (auto simp: on_tick_def result_simps serves_def)
  show ?thesis
    using tick_each_published [OF t] assms(1) serves_nth [OF assms(1)] serves_length [OF assms(1)]
    by (auto simp: e' serves_def engine_keys_def set_clocked Bex_def)
qed

section \<open>The source of a point\<close>

lemma apply_transform_derived:
  "apply_transform N t c now = Inr (t', Some c') \<Longrightarrow> ctx_derived c'"
  by (cases t)
     (auto simp: derived_value_def Let_def result_simps bind_eq_Some_conv
       split: if_splits prod.splits option.splits)

lemma run_transforms_derived:
  "run_transforms N ts c now = Inr (ts', Some c') \<Longrightarrow> (if ts = [] then c' = c else ctx_derived c')"
proof (induction ts arbitrary: c ts')
  case Nil
  then show ?case by simp
next
  case (Cons t ts)
  then obtain t1 c1 ts1 where a: "apply_transform N t c now = Inr (t1, Some c1)"
    and r: "run_transforms N ts c1 now = Inr (ts1, Some c')"
    by (auto simp: result_simps split: option.splits)
  from Cons.IH [OF r] apply_transform_derived [OF a] show ?case by (auto split: if_splits)
qed

lemma eval_base_derived:
  "eval_base N b latest now = (b', Some c) \<Longrightarrow> \<not> ctx_derived c \<Longrightarrow>
     \<exists>feed snap. b = UnderlyingB feed \<and> latest feed = Some snap \<and> ctx_value c = snap_value snap
       \<and> ctx_conf c = snap_conf snap \<and> ctx_source c = snap_source snap
       \<and> ctx_publish_us c = snap_publish_us snap \<and> ctx_slot c = snap_slot snap"
  by (cases b) (auto simp: Let_def bind_eq_Some_conv split: option.splits prod.splits)

lemma eval_source:
  assumes "eval N inst latest now = Inr (inst', Some p)" and "pt_source p \<noteq> Derived"
  shows "\<exists>feed snap. rt_base inst = UnderlyingB feed \<and> rt_transforms inst = []
    \<and> latest feed = Some snap \<and> pt_source p = snap_source snap
    \<and> pt_publish_us p = snap_publish_us snap \<and> pt_slot p = snap_slot snap"
proof -
  from assms(1) obtain b' c ts' c' i2 where b: "eval_base N (rt_base inst) latest now = (b', Some c)"
    and r: "run_transforms N (rt_transforms inst) c now = Inr (ts', Some c')"
    and m: "make_point N i2 c' now = Some p"
    by (auto simp: eval_def Let_def result_simps bind_eq_Some_conv split: prod.splits option.splits)
  from m have p: "pt_source p = (if ctx_derived c' then Derived else ctx_source c')"
    "pt_publish_us p = ctx_publish_us c'" "pt_slot p = ctx_slot c'"
    by (auto simp: make_point_def bind_eq_Some_conv)
  with assms(2) have nd: "\<not> ctx_derived c'" by auto
  with run_transforms_derived [OF r] have "rt_transforms inst = []" "c' = c" by (auto split: if_splits)
  with eval_base_derived [OF b] nd p show ?thesis by auto
qed

lemma eval_passthrough:
  assumes "rt_base inst = UnderlyingB feed" and "rt_transforms inst = []" and "latest feed = Some snap"
    and "from_decimal (decs N) (snap_value snap) (rt_expo inst) = Inr price"
  shows "\<exists>p. eval N inst latest now = Inr (inst, Some p) \<and> pt_symbol p = rt_symbol inst
    \<and> agg_price (pt_data p) = price \<and> pt_publish_us p = snap_publish_us snap
    \<and> pt_slot p = snap_slot snap \<and> pt_source p = snap_source snap \<and> pt_received_us p = now"
proof -
  have "inst\<lparr>rt_base := UnderlyingB feed\<rparr> = inst" "inst\<lparr>rt_transforms := []\<rparr> = inst"
    using assms(1,2) by simp_all
  then show ?thesis using assms by (simp add: eval_def make_point_def Let_def)
qed

section \<open>A concrete engine\<close>

text \<open>Rational stand-ins for the numeric libraries and a counting generator, to evaluate with.\<close>

definition rat_num :: "(rat, rat, nat) numerics" where
  "rat_num = \<lparr>decs = rat_dec, flts = rat_f64, rng_seed = unat, rng_normal = (\<lambda>r. (0, Suc r))\<rparr>"

lemma rat_num_simps [simp]:
  "decs rat_num = rat_dec" "flts rat_num = rat_f64" "rng_seed rat_num s = unat s"
  "rng_normal rat_num r = (0, Suc r)"
  by (simp_all add: rat_num_def)

definition sample_cfgs :: "rat instrument_config list" where
  "sample_cfgs =
     [\<lparr>cfg_symbol = Some ''tSOL/USD'', cfg_mint = None, cfg_expo = - 8,
       cfg_base = UnderlyingCfg ''SOL/USD'', cfg_transforms = []\<rparr>,
      \<lparr>cfg_symbol = None, cfg_mint = Some ''7pMcAg9x'', cfg_expo = - 6,
       cfg_base = CrossCfg ''SOL/USD'' ''SOL/USD'', cfg_transforms = []\<rparr>,
      \<lparr>cfg_symbol = Some ''tUSD'', cfg_mint = None, cfg_expo = - 6,
       cfg_base = PegCfg ''1'', cfg_transforms = []\<rparr>]"

definition sample_engine :: "(rat, rat, nat) engine" where
  "sample_engine = \<lparr>eng_instruments =
     [\<lparr>rt_symbol = ''tSOL/USD'', rt_expo = - 8, rt_base = UnderlyingB ''SOL/USD'',
       rt_transforms = [], rt_next_due_us = 0\<rparr>,
      \<lparr>rt_symbol = ''7pMcAg9x'', rt_expo = - 6, rt_base = CrossB ''SOL/USD'' ''SOL/USD'',
       rt_transforms = [], rt_next_due_us = 0\<rparr>,
      \<lparr>rt_symbol = ''tUSD'', rt_expo = - 6, rt_base = PegB 1,
       rt_transforms = [], rt_next_due_us = 0\<rparr>],
     eng_by_feed = [''SOL/USD'' \<mapsto> [0, 1, 1]], eng_timed = [2], eng_latest = Map.empty\<rparr>"

definition sample_point :: price_point where
  "sample_point = \<lparr>pt_symbol = ''SOL/USD'', pt_data = Trade (new_price 9700 (- 2)) (new_price 1 0),
     pt_publish_us = Some 3, pt_received_us = 4, pt_slot = None, pt_source = PythHermes\<rparr>"

lemma parse_one: "parse_i128 ''1'' = Some 1"
  by code_simp

lemma sample_compiled: "from_config rat_num sample_cfgs [''SOL/USD''] = Inr sample_engine"
  by (simp add: from_config_def sample_cfgs_def add_instrument_def resolved_symbol_def symbol_new_def
      check_feed_def parse_decimal_def parse_one push_feed_def sample_engine_def Let_def)

lemma sample_serves: "serves sample_cfgs sample_engine"
  using from_config_facts(1) [OF sample_compiled] by (simp add: serves_def)

lemma sample_ok: "engine_ok sample_engine"
  by (rule from_config_facts(2) [OF sample_compiled]) (simp add: sample_cfgs_def)

lemma sample_on_underlying:
  "\<exists>e' p q. on_underlying rat_num sample_engine sample_point 5 = Inr (e', [p, q, q])
     \<and> pt_symbol p = ''tSOL/USD'' \<and> pt_symbol q = ''7pMcAg9x''"
  by (simp add: on_underlying_def sample_engine_def sample_point_def to_decimal_def Let_def
      eval_def make_point_def from_decimal_def pow10_eq bounded_def round_half_even_def
      max_conf_ratio_def List.map_filter_simps trunc_rat_def)

section \<open>Properties of the registry and of dispatch\<close>

lemma enumerate_upt: "enumerate 0 xs = map (\<lambda>i. (i, xs ! i)) [0..<length xs]"
  by (induction xs rule: rev_induct) (auto simp: enumerate_append_eq nth_append)

lemma dispatch_upt:
  "dispatch cfgs f = concat (map (\<lambda>i. replicate (count_list (config_feeds (cfg_base (cfgs ! i))) f) i) [0..<length cfgs])"
proof -
  have "(=) f = (\<lambda>g. g = f)" by auto
  then show ?thesis
    by (simp add: dispatch_def enumerate_upt comp_def map_replicate_const count_list_eq_length_filter)
qed

lemma clocked_upt: "clocked cfgs = filter (\<lambda>i. config_clock (cfg_base (cfgs ! i))) [0..<length cfgs]"
  by (simp add: clocked_def enumerate_upt filter_map comp_def)

text \<open>
  C1. Compiling a configuration. When it succeeds, the engine has one instrument per entry, in
  order, with the entry's symbol (its mint where it has none) and exponent; the symbols are
  distinct; every feed a base names is configured; each feed is dispatched to the instruments
  whose base names it, in the order of the entries and as often as the base names it; the clock
  drives the pegs and random walks, in order; nothing has been observed.
\<close>

theorem from_config_spec:
  assumes "from_config N cfgs known = Inr e"
  shows "map (\<lambda>i. (Some (rt_symbol i), rt_expo i)) (eng_instruments e)
      = map (\<lambda>c. (resolved_symbol c, cfg_expo c)) cfgs
    \<and> distinct (map rt_symbol (eng_instruments e))
    \<and> (\<forall>i < length cfgs. set (config_feeds (cfg_base (cfgs ! i))) \<subseteq> set known)
    \<and> (\<forall>f. (case eng_by_feed e f of None \<Rightarrow> [] | Some is \<Rightarrow> is) = concat (map (\<lambda>i.
           replicate (count_list (config_feeds (cfg_base (cfgs ! i))) f) i) [0..<length cfgs]))
    \<and> eng_timed e = filter (\<lambda>i. config_clock (cfg_base (cfgs ! i))) [0..<length cfgs]
    \<and> eng_latest e = Map.empty"
proof -
  note F = from_config_facts(1) [OF assms]
  have some: "resolved_symbol (cfgs ! i) = Some (the (resolved_symbol (cfgs ! i)))"
    if "i < length cfgs" for i
    using F that by (auto simp: list_all_length)
  have s: "serves cfgs e" using F by (simp add: serves_def)
  have "map (\<lambda>i. (Some (rt_symbol i), rt_expo i)) (eng_instruments e)
      = map (\<lambda>c. (resolved_symbol c, cfg_expo c)) cfgs"
    using serves_nth [OF s] serves_length [OF s] some
    by (intro nth_equalityI) (auto simp: rt_key_def config_key_def)
  moreover have "(case eng_by_feed e f of None \<Rightarrow> [] | Some is \<Rightarrow> is) = dispatch cfgs f" for f
    using F by simp
  ultimately show ?thesis using F by (simp add: list_all_length flip: dispatch_upt clocked_upt)
qed

theorem from_config_spec_witness:
  "from_config rat_num sample_cfgs [''SOL/USD''] = Inr sample_engine
   \<and> distinct (map rt_symbol (eng_instruments sample_engine))
   \<and> eng_by_feed sample_engine ''SOL/USD'' = Some [0, 1, 1]"
  using from_config_spec [OF sample_compiled] sample_compiled by (simp add: sample_engine_def)

text \<open>
  C11. An observation of a feed touches only the instruments whose base names the feed: the others
  keep their state, and every point published carries the symbol and exponent of an instrument
  that reads the feed, an aggregate price without moving average, and the clock of the call.
\<close>

theorem on_underlying_scope:
  assumes "serves cfgs e" and "on_underlying N e p now = Inr (e', ps)"
  shows "serves cfgs e'
    \<and> (\<forall>q \<in> set ps. \<exists>i < length cfgs. pt_symbol p \<in> set (config_feeds (cfg_base (cfgs ! i)))
          \<and> pt_symbol q = the (resolved_symbol (cfgs ! i)) \<and> pt_received_us q = now
          \<and> (\<exists>price conf. pt_data q = Aggregate price conf None \<and> expo price = cfg_expo (cfgs ! i)))
    \<and> (\<forall>j < length cfgs. pt_symbol p \<notin> set (config_feeds (cfg_base (cfgs ! j)))
          \<longrightarrow> eng_instruments e' ! j = eng_instruments e ! j)"
  using on_underlying_serves [OF assms] by (fastforce simp: published_def config_key_def)

theorem on_underlying_scope_witness:
  "\<exists>e' ps. on_underlying rat_num sample_engine sample_point 5 = Inr (e', ps) \<and> length ps = 3
     \<and> serves sample_cfgs e' \<and> eng_instruments e' ! 2 = eng_instruments sample_engine ! 2"
proof -
  obtain e' p q where r: "on_underlying rat_num sample_engine sample_point 5 = Inr (e', [p, q, q])"
    using sample_on_underlying by blast
  from on_underlying_scope [OF sample_serves r]
  have "serves sample_cfgs e'" "eng_instruments e' ! 2 = eng_instruments sample_engine ! 2"
    by (simp_all add: sample_cfgs_def sample_point_def)
  with r show ?thesis by auto
qed

text \<open>
  An instrument whose base names a feed several times is registered several times: a cross of
  a feed with itself is evaluated, and published, twice for one observation.
\<close>

theorem repeated_feed_published_twice:
  "\<exists>e' p q. on_underlying rat_num sample_engine sample_point 5 = Inr (e', [p, q, q])
     \<and> pt_symbol p = ''tSOL/USD'' \<and> pt_symbol q = ''7pMcAg9x''"
  by (rule sample_on_underlying)

section \<open>The source of a published point\<close>

fun base_feed :: "('d, 'f, 'r) base_state \<Rightarrow> symbol option" where
  "base_feed (UnderlyingB f) = Some f"
| "base_feed _ = None"

fun config_feed :: "base_config \<Rightarrow> symbol option" where
  "config_feed (UnderlyingCfg f) = Some f"
| "config_feed _ = None"

text \<open>What a step keeps of an instrument's rule: the feed it passes on, its clock, its transforms.\<close>

definition rt_kind :: "('d, 'f, 'r) runtime \<Rightarrow> symbol \<times> symbol option \<times> bool \<times> nat" where
  "rt_kind rt = (rt_symbol rt, base_feed (rt_base rt), clock_driven (rt_base rt), length (rt_transforms rt))"

definition config_kind :: "'f instrument_config \<Rightarrow> symbol \<times> symbol option \<times> bool \<times> nat" where
  "config_kind c = (the (resolved_symbol c), config_feed (cfg_base c), config_clock (cfg_base c),
     length (cfg_transforms c))"

lemma add_instrument_kind:
  assumes "add_instrument N known (i, c) b = Inr b'"
  shows "map rt_kind (bld_runtimes b') = map rt_kind (bld_runtimes b) @ [config_kind c]"
proof -
  have feed: "base_feed base = config_feed b \<and> clock_driven base = config_clock b"
    if "base_of_config N known b = Inr (base, feeds)" for b base feeds
    using that base_of_config_Inr [OF that] by (cases b) (auto simp: result_simps)
  show ?thesis using assms
    by (auto simp: add_instrument_def result_simps Let_def rt_kind_def config_kind_def
        dest!: feed traverseR_Inr_length split: if_splits)
qed

lemma from_config_kind:
  assumes "from_config N cfgs known = Inr e"
  shows "map rt_kind (eng_instruments e) = map config_kind cfgs"
proof -
  have "map rt_kind (bld_runtimes b) = map config_kind cfgs"
    if "foldR (add_instrument N known) (enumerate 0 cfgs)
      \<lparr>bld_runtimes = [], bld_by_feed = Map.empty, bld_timed = [], bld_seen = {}\<rparr> = Inr b" for b
    using that
    by (induction cfgs arbitrary: b rule: rev_induct)
       (auto simp: enumerate_append_eq foldR_append result_simps dest: add_instrument_kind)
  then show ?thesis using assms by (auto simp: from_config_def result_simps)
qed

lemma eval_kind: "eval N inst latest now = Inr (inst', r) \<Longrightarrow> rt_kind inst' = rt_kind inst"
proof -
  have "base_feed b' = base_feed b \<and> clock_driven b' = clock_driven b" if "eval_base N b latest now = (b', c)" for b b' c
    using that by (cases b) (auto simp: Let_def split: option.splits prod.splits)
  then show "eval N inst latest now = Inr (inst', r) \<Longrightarrow> rt_kind inst' = rt_kind inst"
    by (fastforce simp: eval_def Let_def result_simps rt_kind_def dest: run_transforms_length
        split: prod.splits option.splits)
qed

lemma update_kind:
  "i < length insts \<Longrightarrow> rt_kind x = rt_kind (insts ! i) \<Longrightarrow> map rt_kind (insts[i := x]) = map rt_kind insts"
  by (simp add: map_update) (metis list_update_id nth_map)

definition evaluated ::
    "('d, 'f, 'r) numerics \<Rightarrow> (symbol \<rightharpoonup> 'd snapshot) \<Rightarrow> int \<Rightarrow> symbol \<times> symbol option \<times> bool \<times> nat
      \<Rightarrow> price_point \<Rightarrow> bool" where
  "evaluated N latest now k p \<longleftrightarrow>
     (\<exists>inst inst'. rt_kind inst = k \<and> eval N inst latest now = Inr (inst', Some p))"

lemma eval_each_kind:
  assumes "eval_each N latest now is insts = Inr (insts', ps)"
  shows "map rt_kind insts' = map rt_kind insts
    \<and> (\<forall>p \<in> set ps. \<exists>i \<in> set is. i < length insts \<and> evaluated N latest now (rt_kind (insts ! i)) p)"
  using assms
proof (induction "is" arbitrary: insts ps)
  case Nil
  then show ?case by simp
next
  case (Cons i "is")
  then obtain inst' r qs where i: "i < length insts"
    and e: "eval N (insts ! i) latest now = Inr (inst', r)"
    and t: "eval_each N latest now is (insts[i := inst']) = Inr (insts', qs)"
    and ps: "ps = (case r of None \<Rightarrow> qs | Some p \<Rightarrow> p # qs)"
    by (auto simp: result_simps split: if_splits)
  have nth: "rt_kind (insts[i := inst'] ! j) = rt_kind (insts ! j)" for j
    using eval_kind [OF e] i by (cases "j = i") simp_all
  have "evaluated N latest now (rt_kind (insts ! i)) p" if "r = Some p" for p
    using e that by (auto simp: evaluated_def)
  then show ?case using Cons.IH [OF t] update_kind [OF i eval_kind [OF e]] i unfolding ps nth
    by (auto split: option.splits)
qed

lemma tick_each_kind:
  assumes "tick_each N latest now is insts = Inr (insts', ps)"
  shows "map rt_kind insts' = map rt_kind insts
    \<and> (\<forall>p \<in> set ps. \<exists>i \<in> set is. i < length insts \<and> evaluated N latest now (rt_kind (insts ! i)) p)"
  using assms
proof (induction "is" arbitrary: insts ps)
  case Nil
  then show ?case by simp
next
  case (Cons i "is")
  then have i: "i < length insts" by (auto split: if_splits)
  show ?case
  proof (cases "now < rt_next_due_us (insts ! i)")
    case True
    then show ?thesis using Cons i by auto
  next
    case False
    with Cons.prems i obtain iv inst' r qs where
      e: "eval N ((insts ! i)\<lparr>rt_next_due_us := now + iv\<rparr>) latest now = Inr (inst', r)"
      and t: "tick_each N latest now is (insts[i := inst']) = Inr (insts', qs)"
      and ps: "ps = (case r of None \<Rightarrow> qs | Some p \<Rightarrow> p # qs)"
      by (auto simp: result_simps Let_def split: if_splits)
    have due: "rt_kind ((insts ! i)\<lparr>rt_next_due_us := now + iv\<rparr>) = rt_kind (insts ! i)" by (simp add: rt_kind_def)
    with eval_kind [OF e] have k: "rt_kind inst' = rt_kind (insts ! i)" by simp
    have nth: "rt_kind (insts[i := inst'] ! j) = rt_kind (insts ! j)" for j
      using k i by (cases "j = i") simp_all
    have "evaluated N latest now (rt_kind (insts ! i)) p" if "r = Some p" for p
      using e that due unfolding evaluated_def by blast
    then show ?thesis using Cons.IH [OF t] update_kind [OF i k] i unfolding ps nth
      by (auto split: option.splits)
  qed
qed

text \<open>The engines a configuration can come to.\<close>

inductive reached ::
    "('d, 'f, 'r) numerics \<Rightarrow> 'f instrument_config list \<Rightarrow> symbol list \<Rightarrow> ('d, 'f, 'r) engine \<Rightarrow> bool"
  for N cfgs known where
  start: "from_config N cfgs known = Inr e \<Longrightarrow> reached N cfgs known e"
| observe: "reached N cfgs known e \<Longrightarrow> on_underlying N e p now = Inr (e', ps) \<Longrightarrow> reached N cfgs known e'"
| timer: "reached N cfgs known e \<Longrightarrow> on_tick N e now = Inr (e', ps) \<Longrightarrow> reached N cfgs known e'"

lemma on_underlying_kind:
  assumes "on_underlying N e p now = Inr (e', ps)"
  shows "map rt_kind (eng_instruments e') = map rt_kind (eng_instruments e)"
  using assms
  by (auto simp: on_underlying_def Let_def result_simps dest!: eval_each_kind [THEN conjunct1] split: option.splits)

lemma on_tick_kind:
  assumes "on_tick N e now = Inr (e', ps)"
  shows "map rt_kind (eng_instruments e') = map rt_kind (eng_instruments e)"
  using assms by (auto simp: on_tick_def result_simps dest!: tick_each_kind [THEN conjunct1])

lemma reached_serves:
  "reached N cfgs known e \<Longrightarrow> serves cfgs e \<and> map rt_kind (eng_instruments e) = map config_kind cfgs"
proof (induction rule: reached.induct)
  case (start e)
  then show ?case using from_config_facts(1) [OF start] from_config_kind [OF start] by (simp add: serves_def)
next
  case (observe e p now e' ps)
  then show ?case using on_underlying_serves on_underlying_kind by metis
next
  case (timer e now e' ps)
  then show ?case using on_tick_serves on_tick_kind by metis
qed

lemma reached_kind:
  assumes "reached N cfgs known e" and "i < length cfgs"
  shows "rt_kind (eng_instruments e ! i) = config_kind (cfgs ! i)"
  using reached_serves [OF assms(1)] serves_length [of cfgs e] assms(2) by (metis nth_map)

lemma evaluated_source:
  assumes "evaluated N latest now (config_kind c) q" and "pt_source q \<noteq> Derived"
  shows "\<exists>feed snap. cfg_base c = UnderlyingCfg feed \<and> cfg_transforms c = [] \<and> latest feed = Some snap
    \<and> pt_symbol q = the (resolved_symbol c) \<and> pt_source q = snap_source snap
    \<and> pt_publish_us q = snap_publish_us snap \<and> pt_slot q = snap_slot snap"
proof -
  from assms(1) obtain inst inst' where k: "rt_kind inst = config_kind c"
    and e: "eval N inst latest now = Inr (inst', Some q)" by (auto simp: evaluated_def)
  from eval_source [OF e assms(2)] obtain feed snap where s: "rt_base inst = UnderlyingB feed"
    "rt_transforms inst = []" "latest feed = Some snap" "pt_source q = snap_source snap"
    "pt_publish_us q = snap_publish_us snap" "pt_slot q = snap_slot snap" by blast
  have "pt_symbol q = rt_symbol inst" using eval_published [OF e] by (simp add: published_def rt_key_def)
  moreover have "cfg_base c = UnderlyingCfg feed" using k s(1)
    by (cases "cfg_base c") (auto simp: rt_kind_def config_kind_def)
  ultimately show ?thesis using s k by (auto simp: rt_kind_def config_kind_def)
qed

text \<open>The two ways a point is published.\<close>

lemma observed_source:
  assumes "reached N cfgs known e" and run: "on_underlying N e p now = Inr (e', ps)"
    and q: "q \<in> set ps" "pt_source q \<noteq> Derived"
  shows "\<exists>i < length cfgs. cfg_base (cfgs ! i) = UnderlyingCfg (pt_symbol p) \<and> cfg_transforms (cfgs ! i) = []
    \<and> pt_symbol q = the (resolved_symbol (cfgs ! i)) \<and> pt_source q = pt_source p
    \<and> pt_publish_us q = pt_publish_us p \<and> pt_slot q = pt_slot p"
proof -
  from reached_serves [OF assms(1)] have s: "serves cfgs e" ..
  from run q(1) obtain v conf latest insts' where
    latest: "latest = (eng_latest e)(pt_symbol p \<mapsto> \<lparr>snap_value = v, snap_conf = conf,
      snap_publish_us = pt_publish_us p, snap_slot = pt_slot p, snap_source = pt_source p\<rparr>)"
    and t: "eval_each N latest now (dispatch cfgs (pt_symbol p)) (eng_instruments e) = Inr (insts', ps)"
    using s by (auto simp: on_underlying_def Let_def result_simps serves_def split: option.splits if_splits)
  from eval_each_kind [OF t] q(1) obtain i where "i \<in> set (dispatch cfgs (pt_symbol p))"
    and e: "evaluated N latest now (rt_kind (eng_instruments e ! i)) q" by blast
  then have i: "i < length cfgs" and f: "pt_symbol p \<in> set (config_feeds (cfg_base (cfgs ! i)))"
    and e: "evaluated N latest now (config_kind (cfgs ! i)) q"
    using reached_kind [OF assms(1)] by (simp_all add: set_dispatch)
  from evaluated_source [OF e q(2)] obtain feed snap where
    "cfg_base (cfgs ! i) = UnderlyingCfg feed" "cfg_transforms (cfgs ! i) = []" "latest feed = Some snap"
    "pt_symbol q = the (resolved_symbol (cfgs ! i))" "pt_source q = snap_source snap"
    "pt_publish_us q = snap_publish_us snap" "pt_slot q = snap_slot snap" by blast
  then show ?thesis using i f latest by auto
qed

lemma ticked_source:
  assumes "reached N cfgs known e" and "on_tick N e now = Inr (e', ps)" and "q \<in> set ps"
  shows "pt_source q = Derived"
proof (rule ccontr)
  assume d: "pt_source q \<noteq> Derived"
  from reached_serves [OF assms(1)] assms(2) obtain insts' where
    "tick_each N (eng_latest e) now (clocked cfgs) (eng_instruments e) = Inr (insts', ps)"
    by (auto simp: on_tick_def result_simps serves_def)
  from tick_each_kind [OF this] assms(3) obtain i where "i \<in> set (clocked cfgs)"
    and "evaluated N (eng_latest e) now (rt_kind (eng_instruments e ! i)) q" by blast
  then have "config_clock (cfg_base (cfgs ! i))" and e: "evaluated N (eng_latest e) now (config_kind (cfgs ! i)) q"
    using reached_kind [OF assms(1)] by (simp_all add: set_clocked)
  with evaluated_source [OF e d] show False by auto
qed

text \<open>
  C33. A published point is marked with the source of a feed only when it is that feed passed
  through unchanged. In every engine that a configuration can come to, a point published on an
  observation and not marked derived is of an instrument configured as the observed feed itself, with
  no transform, and its source, publish time and slot are those of the observation just made; a
  timer tick publishes derived points only.
\<close>

theorem source_rule:
  assumes "reached N cfgs known e"
  shows "(\<forall>p now e' ps q. on_underlying N e p now = Inr (e', ps) \<and> q \<in> set ps \<and> pt_source q \<noteq> Derived \<longrightarrow>
      (\<exists>i < length cfgs. cfg_base (cfgs ! i) = UnderlyingCfg (pt_symbol p) \<and> cfg_transforms (cfgs ! i) = []
        \<and> pt_symbol q = the (resolved_symbol (cfgs ! i)) \<and> pt_source q = pt_source p
        \<and> pt_publish_us q = pt_publish_us p \<and> pt_slot q = pt_slot p))
    \<and> (\<forall>now e' ps q. on_tick N e now = Inr (e', ps) \<and> q \<in> set ps \<longrightarrow> pt_source q = Derived)"
  using observed_source [OF assms] ticked_source [OF assms] by blast

lemma sample_passed_on:
  "\<exists>e' p q. on_underlying rat_num sample_engine sample_point 5 = Inr (e', [p, q, q]) \<and> pt_source p = PythHermes"
  by (simp add: on_underlying_def sample_engine_def sample_point_def to_decimal_def Let_def
      eval_def make_point_def from_decimal_def pow10_eq bounded_def round_half_even_def
      max_conf_ratio_def List.map_filter_simps trunc_rat_def)

theorem source_rule_witness:
  "\<exists>e' p q. on_underlying rat_num sample_engine sample_point 5 = Inr (e', [p, q, q])
     \<and> pt_source p = PythHermes \<and> pt_publish_us p = Some 3"
proof -
  obtain e' p q where run: "on_underlying rat_num sample_engine sample_point 5 = Inr (e', [p, q, q])"
    and source: "pt_source p = PythHermes" using sample_passed_on by blast
  have "pt_publish_us p = pt_publish_us sample_point"
    using source_rule [OF reached.start [OF sample_compiled]] run source
    by (metis list.set_intros(1) price_source.distinct(13))
  then show ?thesis using run source by (auto simp: sample_point_def)
qed

end
