(* ===== verification/Pricing_Rules.thy ===== *)
theory Pricing_Rules
  imports Pricing_Proofs
begin

text \<open>
  The pricing rules of \<open>pricing/mod.rs\<close>: pass-through, the book's mid price, crosses and baskets,
  and the lag transform against a description of what it delays.
\<close>

section \<open>Pass-through\<close>

lemma eval_each_append:
  "eval_each N latest now (xs @ ys) insts =
     bindR (eval_each N latest now xs insts) (\<lambda>(insts1, ps).
     bindR (eval_each N latest now ys insts1) (\<lambda>(insts2, qs). Inr (insts2, ps @ qs)))"
proof (induction xs arbitrary: insts)
  case Nil
  then show ?case by (cases "eval_each N latest now ys insts") auto
next
  case (Cons i xs)
  show ?case
  proof (cases "eval N (insts ! i) latest now")
    case (Inr x)
    obtain inst' r where x: "x = (inst', r)" by fastforce
    let ?is = "insts[i := inst']"
    show ?thesis
      using Cons.IH [of ?is] Inr x
      by (cases "eval_each N latest now xs ?is"; cases "eval_each N latest now ys (fst (projr (eval_each N latest now xs ?is)))")
         (auto split: option.splits prod.splits)
  qed simp
qed

text \<open>An instrument registered once on a feed is evaluated once, in the state it was in.\<close>

lemma eval_each_once:
  assumes ok: "\<forall>j \<in> set is. j < length insts" "list_all runtime_ok insts" "clock_ok now"
    and "distinct (map rt_symbol insts)" and "count_list is i = 1"
    and e: "eval N (insts ! i) latest now = Inr (inst', Some q)" and sym: "pt_symbol q = rt_symbol (insts ! i)"
  shows "\<exists>insts' ps. eval_each N latest now is insts = Inr (insts', ps)
    \<and> filter (\<lambda>r. pt_symbol r = rt_symbol (insts ! i)) ps = [q]"
proof -
  have "i \<in> set is" using assms(5) by (metis count_notin zero_neq_one)
  then obtain xs ys where split: "is = xs @ i # ys" "i \<notin> set xs" by (meson split_list_first)
  then have ys: "i \<notin> set ys" using assms(5) by (simp add: count_list_0_iff)
  have i: "i < length insts" using ok(1) split by simp
  let ?other = "\<lambda>ps. filter (\<lambda>r. pt_symbol r = rt_symbol (insts ! i)) ps = []"
  have other: "?other ps" if "map rt_key js = map rt_key insts" "eval_each N latest now zs js = Inr (js', ps)"
    "i \<notin> set zs" "\<forall>j \<in> set zs. j < length insts" for zs js js' ps
  proof -
    have "rt_symbol (insts ! j) \<noteq> rt_symbol (insts ! i)" if "j \<in> set zs" for j
      using assms(4) i that \<open>i \<notin> set zs\<close> \<open>\<forall>j \<in> set zs. j < length insts\<close>
      by (metis distinct_conv_nth length_map nth_map)
    moreover have "rt_symbol (js ! j) = rt_symbol (insts ! j)" if "j < length insts" for j
      using keys_symbols [OF \<open>map rt_key js = map rt_key insts\<close>] keys_length [OF \<open>map rt_key js = map rt_key insts\<close>] that
      by (metis nth_map)
    ultimately show ?thesis
      using eval_each_published [OF that(2)] that(4) by (fastforce simp: filter_empty_conv published_def rt_key_def)
  qed
  from ok split have "\<forall>j \<in> set xs. j < length insts" by simp
  from eval_each_ok [OF this ok(2,3), of N latest] obtain insts1 ps1 where
    x: "eval_each N latest now xs insts = Inr (insts1, ps1)" and r1: "list_all runtime_ok insts1"
      and k1: "map rt_key insts1 = map rt_key insts" by blast
  have same: "insts1 ! i = insts ! i" using eval_each_published [OF x] split(2) by blast
  have i1: "i < length insts1" using keys_length [OF k1] i by simp
  have frame: "rt_key inst' = rt_key (insts ! i)" using rt_frame_key [OF eval_frame [OF e]] .
  have k2: "map rt_key (insts1[i := inst']) = map rt_key insts"
    using update_key [OF i1, of inst'] frame same k1 by simp
  have "runtime_ok (insts ! i)" using ok(2) i by (simp add: list_all_length)
  from eval_ok [OF this ok(3), of N latest] e have "runtime_ok inst'" by auto
  then have r2: "list_all runtime_ok (insts1[i := inst'])" by (rule runtime_ok_update [OF r1])
  have "\<forall>j \<in> set ys. j < length (insts1[i := inst'])" using ok(1) split keys_length [OF k1] by simp
  from eval_each_ok [OF this r2 ok(3), of N latest] obtain insts2 ps2 where
    y: "eval_each N latest now ys (insts1[i := inst']) = Inr (insts2, ps2)" by blast
  have "eval_each N latest now is insts = Inr (insts2, ps1 @ q # ps2)"
    using x y e i1 same by (simp add: split(1) eval_each_append)
  moreover have "?other ps1" "?other ps2"
    using other [OF refl x split(2)] other [OF k2 y ys] ok(1) split by simp_all
  ultimately show ?thesis using sym by simp
qed

lemma passthrough_once:
  assumes "dec_exact (decs N) val" and "dec_convert (decs N) val" and "engine_ok e" and "clock_ok now"
    and "pt_data p = Aggregate price conf ema"
    and "- 28 \<le> expo price" and "expo price \<le> 0" and "\<bar>mantissa price\<bar> < 2 ^ 96"
    and "eng_by_feed e (pt_symbol p) = Some is" and "count_list is i = 1"
    and "rt_base (eng_instruments e ! i) = UnderlyingB (pt_symbol p)"
    and "rt_transforms (eng_instruments e ! i) = []"
    and "rt_expo (eng_instruments e ! i) = expo price"
  shows "\<exists>e' ps q. on_underlying N e p now = Inr (e', ps)
    \<and> filter (\<lambda>r. pt_symbol r = rt_symbol (eng_instruments e ! i)) ps = [q] \<and> agg_price (pt_data q) = price
    \<and> pt_publish_us q = pt_publish_us p \<and> pt_slot q = pt_slot p \<and> pt_source q = pt_source p
    \<and> pt_received_us q = now"
proof -
  from decimal_roundtrip_exact [OF assms(1,2,6,7,8)] obtain d
    where d: "to_decimal (decs N) price = Some d"
      and r: "from_decimal (decs N) d (expo price) = Inr price" by blast
  obtain conf' where red: "reduce_data (decs N) (pt_data p) = Some (d, conf')"
    using assms(5) d by simp
  let ?snap = "\<lparr>snap_value = d, snap_conf = conf', snap_publish_us = pt_publish_us p,
    snap_slot = pt_slot p, snap_source = pt_source p\<rparr>"
  let ?latest = "(eng_latest e)(pt_symbol p \<mapsto> ?snap)"
  have "from_decimal (decs N) (snap_value ?snap) (rt_expo (eng_instruments e ! i)) = Inr price"
    using r assms(13) by simp
  from eval_passthrough [OF assms(11,12) _ this, of ?latest now] obtain q where
    q: "eval N (eng_instruments e ! i) ?latest now = Inr (eng_instruments e ! i, Some q)"
    "pt_symbol q = rt_symbol (eng_instruments e ! i)" "agg_price (pt_data q) = price"
    "pt_publish_us q = pt_publish_us p" "pt_slot q = pt_slot p" "pt_source q = pt_source p"
    "pt_received_us q = now" by auto
  have ok: "\<forall>j \<in> set is. j < length (eng_instruments e)" "list_all runtime_ok (eng_instruments e)"
    "distinct (map rt_symbol (eng_instruments e))" using assms(3,9) by (auto simp: engine_ok_def)
  from eval_each_once [OF ok(1,2) assms(4) ok(3) assms(10) q(1,2)] obtain insts' ps where
    "eval_each N ?latest now is (eng_instruments e) = Inr (insts', ps)"
    "filter (\<lambda>r. pt_symbol r = rt_symbol (eng_instruments e ! i)) ps = [q]" by blast
  then show ?thesis using red q assms(9) by (simp add: on_underlying_def Let_def)
qed

lemma count_list_replicate: "count_list (replicate n j) i = (if j = i then n else 0)"
  by (induction n) auto

lemma count_list_concat: "count_list (concat xss) i = sum_list (map (\<lambda>xs. count_list xs i) xss)"
  by (induction xss) simp_all

lemma count_dispatch:
  assumes "i < length cfgs"
  shows "count_list (dispatch cfgs f) i = count_list (config_feeds (cfg_base (cfgs ! i))) f"
proof -
  have "count_list (dispatch cfgs f) i =
      (\<Sum>j \<leftarrow> [0..<length cfgs]. if j = i then count_list (config_feeds (cfg_base (cfgs ! j))) f else 0)"
    by (simp add: dispatch_upt count_list_concat comp_def count_list_replicate)
  also have "\<dots> = (\<Sum>j \<in> {0..<length cfgs}. if j = i then count_list (config_feeds (cfg_base (cfgs ! j))) f else 0)"
    by (simp add: sum_list_distinct_conv_sum_set)
  also have "\<dots> = count_list (config_feeds (cfg_base (cfgs ! i))) f" using assms by simp
  finally show ?thesis .
qed

text \<open>
  C32. A bare underlying instrument publishes the observed price to the last digit. Whatever else is
  configured, and in every state that observations and timer ticks can bring the compiled engine to
  and that satisfies the engine's invariant (\<open>engine_ok\<close>, which every run keeps, C2), and with the clock in the range of C2, an aggregate
  observation of the feed at the instrument's own exponent (from \<open>-28\<close> to \<open>0\<close>, mantissa below 96
  bits) makes the instrument publish exactly one point, with the same price, publish time, slot and
  source. The decimal library's documented laws are assumed.
\<close>

theorem passthrough_exact:
  assumes "dec_exact (decs N) val" and "dec_convert (decs N) val"
    and "reached N cfgs known e" and "engine_ok e" and "clock_ok now"
    and "i < length cfgs" and "cfg_base (cfgs ! i) = UnderlyingCfg (pt_symbol p)" and "cfg_transforms (cfgs ! i) = []"
    and "pt_data p = Aggregate price conf ema" and "expo price = cfg_expo (cfgs ! i)"
    and "- 28 \<le> expo price" and "expo price \<le> 0" and "\<bar>mantissa price\<bar> < 2 ^ 96"
  shows "\<exists>e' ps q. on_underlying N e p now = Inr (e', ps)
    \<and> filter (\<lambda>r. pt_symbol r = the (resolved_symbol (cfgs ! i))) ps = [q] \<and> agg_price (pt_data q) = price
    \<and> pt_publish_us q = pt_publish_us p \<and> pt_slot q = pt_slot p \<and> pt_source q = pt_source p
    \<and> pt_received_us q = now"
proof -
  let ?inst = "eng_instruments e ! i" and ?is = "dispatch cfgs (pt_symbol p)"
  from reached_serves [OF assms(3)] have s: "serves cfgs e" ..
  have once: "count_list ?is i = 1" using assms(6,7) by (simp add: count_dispatch)
  then have "?is \<noteq> []" by auto
  then have feed: "eng_by_feed e (pt_symbol p) = Some ?is" using s by (simp add: serves_def)
  have key: "rt_symbol ?inst = the (resolved_symbol (cfgs ! i))" "rt_expo ?inst = expo price"
    using serves_nth [OF s assms(6)] assms(10) by (simp_all add: rt_key_def config_key_def)
  have "rt_base ?inst = UnderlyingB (pt_symbol p)" "rt_transforms ?inst = []"
    using reached_kind [OF assms(3,6)] assms(7,8)
    by (cases "rt_base ?inst"; simp add: rt_kind_def config_kind_def)+
  from passthrough_once [OF assms(1,2,4,5,9,11-13) feed once this key(2)] show ?thesis by (simp add: key(1))
qed

theorem passthrough_exact_witness:
  "\<exists>e' ps q. on_underlying rat_num sample_engine
      \<lparr>pt_symbol = ''SOL/USD'', pt_data = Aggregate (new_price 9755868041 (- 8)) None None,
       pt_publish_us = Some 1, pt_received_us = 2, pt_slot = Some 3, pt_source = PythHermes\<rparr> 5
      = Inr (e', ps) \<and> filter (\<lambda>r. pt_symbol r = ''tSOL/USD'') ps = [q]
      \<and> agg_price (pt_data q) = new_price 9755868041 (- 8) \<and> pt_source q = PythHermes"
  using passthrough_exact [of rat_num id sample_cfgs "[''SOL/USD'']" sample_engine 5 0
      "\<lparr>pt_symbol = ''SOL/USD'', pt_data = Aggregate (new_price 9755868041 (- 8)) None None,
       pt_publish_us = Some 1, pt_received_us = 2, pt_slot = Some 3, pt_source = PythHermes\<rparr>"
      "new_price 9755868041 (- 8)" None None] rat_dec_exact rat_dec_convert reached.start [OF sample_compiled]
    sample_ok
  by (auto simp: sample_cfgs_def resolved_symbol_def clock_ok_def)

section \<open>Mid price of a book\<close>

text \<open>
  A book observation is reduced to its mid price, with half the absolute spread relative to the
  mid as confidence ratio, whenever the values on the way are representable decimals.
\<close>

theorem book_mid:
  assumes "dec_exact D val" and "dec_order D val"
    and "to_decimal D bid = Some b" and "to_decimal D ask = Some a"
    and "dec_repr (val b + val a)" and "dec_repr ((val b + val a) / 2)"
    and "dec_repr (val a - val b)" and "dec_repr (\<bar>val a - val b\<bar> / 2)"
    and "val b + val a \<noteq> 0" and "dec_repr (\<bar>val a - val b\<bar> / 2 / ((val b + val a) / 2))"
  shows "\<exists>mid ratio. reduce_data D (TopOfBook bid bq ask aq) = Some (mid, Some ratio)
    \<and> val mid = (val b + val a) / 2 \<and> val ratio = \<bar>val a - val b\<bar> / (val b + val a)"
proof -
  have two: "val (dec_two D) = 2" using assms(2) by (simp add: dec_order_def)
  from dec_exact_add [OF assms(1,5)] obtain s where s: "dec_add D b a = Some s" "val s = val b + val a" by blast
  from dec_exact_div [OF assms(1), of "dec_two D" s] assms(6) s(2) two obtain m
    where m: "dec_div D s (dec_two D) = Some m" "val m = (val b + val a) / 2" by auto
  from dec_exact_sub [OF assms(1,7)] obtain x where x: "dec_sub D a b = Some x" "val x = val a - val b" by blast
  from dec_exact_div [OF assms(1), of "dec_two D" "dec_abs D x"] assms(8) x(2) two dec_exact_abs [OF assms(1), of x]
  obtain h where h: "dec_div D (dec_abs D x) (dec_two D) = Some h" "val h = \<bar>val a - val b\<bar> / 2" by auto
  from dec_exact_div [OF assms(1), of m h] assms(9,10) m(2) h(2) obtain r
    where r: "dec_div D h m = Some r" "val r = \<bar>val a - val b\<bar> / 2 / ((val b + val a) / 2)" by auto
  have "val r = \<bar>val a - val b\<bar> / (val b + val a)" using r(2) by simp
  then show ?thesis using assms(3,4) s m x h r by simp
qed

theorem book_mid_witness:
  "\<exists>mid ratio. reduce_data rat_dec (TopOfBook (new_price 99 0) (new_price 1 0) (new_price 101 0) (new_price 1 0))
      = Some (mid, Some ratio) \<and> mid = 100 \<and> ratio = 1 / 100"
proof -
  have t: "to_decimal rat_dec (new_price 99 0) = Some 99" "to_decimal rat_dec (new_price 101 0) = Some 101"
    by (simp_all add: to_decimal_def)
  have r: "dec_repr 200" "dec_repr 100" "dec_repr 2" "dec_repr 1"
    using dec_repr_int [of 200] dec_repr_int [of 100] dec_repr_int [of 2] dec_repr_int [of 1] by simp_all
  have "dec_repr (1 / 100)" by (rule dec_repr_frac [of 1 2]) simp_all
  with book_mid [OF rat_dec_exact rat_dec_order t] r show ?thesis by simp
qed

section \<open>Crosses and publish times\<close>

lemma older_le: "older a b = Some t \<Longrightarrow> (\<forall>x \<in> set_option a \<union> set_option b. t \<le> x)"
  by (cases a; cases b) auto

lemma older_None: "older a b = None \<longleftrightarrow> a = None \<and> b = None"
  by (cases a; cases b) auto

lemma older_cases: "older a b = Some t \<Longrightarrow> a = Some t \<or> b = Some t"
  by (cases a; cases b) (auto simp: min_def split: if_splits)

lemma fold_max:
  assumes "dec_order D val"
  shows "(\<forall>x \<in> set (r # rs). val x \<le> val (foldl (\<lambda>m x. if dec_le D m x then x else m) r rs))
    \<and> foldl (\<lambda>m x. if dec_le D m x then x else m) r rs \<in> set (r # rs)"
proof (induction rs arbitrary: r)
  case Nil
  show ?case by simp
next
  case (Cons x rs)
  have "dec_le D r x \<longleftrightarrow> val r \<le> val x" using assms by (simp add: dec_order_def)
  with Cons [of "if dec_le D r x then x else r"] show ?case by (auto split: if_splits)
qed

text \<open>
  The confidence ratio of a combination is the largest ratio of its parts: none when no part has
  one, otherwise one of them that no other exceeds.
\<close>

theorem max_conf_ratio_spec:
  assumes "dec_order D val"
  shows "case max_conf_ratio D ratios of
      None \<Rightarrow> \<forall>r. Some r \<notin> set ratios
    | Some m \<Rightarrow> Some m \<in> set ratios \<and> (\<forall>r. Some r \<in> set ratios \<longrightarrow> val r \<le> val m)"
proof -
  have s: "r \<in> set (List.map_filter id ratios) \<longleftrightarrow> Some r \<in> set ratios" for r
    by (force simp: List.map_filter_def)
  show ?thesis
  proof (cases "List.map_filter id ratios")
    case Nil
    then show ?thesis using s by (auto simp: max_conf_ratio_def)
  next
    case (Cons r rs)
    have "Some x \<in> set ratios \<longleftrightarrow> x \<in> set (r # rs)" for x using s [of x] Cons by simp
    with Cons fold_max [OF assms, of r rs] show ?thesis by (simp add: max_conf_ratio_def del: set_simps)
  qed
qed

theorem max_conf_ratio_spec_witness:
  "max_conf_ratio rat_dec [Some 1, None, Some 3, Some 2] = Some 3
   \<and> (\<forall>r. Some r \<in> set [Some 1, None, Some 3, Some (2::rat)] \<longrightarrow> r \<le> 3)"
proof -
  have "max_conf_ratio rat_dec [Some 1, None, Some 3, Some 2] = Some 3"
    by (simp add: max_conf_ratio_def List.map_filter_simps)
  with max_conf_ratio_spec [OF rat_dec_order, of "[Some 1, None, Some 3, Some 2]"]
  show ?thesis by simp
qed

section \<open>Baskets\<close>

lemma basket_sum_publish:
  "basket_sum D latest legs (s, rs, pub) = Some (s', rs', pub') \<Longrightarrow>
     (\<forall>t. pub = Some t \<longrightarrow> (\<exists>t'. pub' = Some t' \<and> t' \<le> t))
     \<and> (\<forall>(f, w) \<in> set legs. \<exists>snap. latest f = Some snap
          \<and> (\<forall>t. snap_publish_us snap = Some t \<longrightarrow> (\<exists>t'. pub' = Some t' \<and> t' \<le> t)))"
proof (induction legs arbitrary: s rs pub)
  case Nil
  then show ?case by simp
next
  case (Cons leg legs)
  obtain f w where leg: "leg = (f, w)" by fastforce
  with Cons.prems obtain snap s1 where snap: "latest f = Some snap"
    and rest: "basket_sum D latest legs (s1, rs @ [snap_conf snap], older pub (snap_publish_us snap))
      = Some (s', rs', pub')"
    by (auto split: option.splits)
  let ?o = "older pub (snap_publish_us snap)"
  have o: "\<exists>t'. ?o = Some t' \<and> t' \<le> t" if "pub = Some t \<or> snap_publish_us snap = Some t" for t
    using that by (cases pub; cases "snap_publish_us snap") auto
  have le: "\<exists>t'. pub' = Some t' \<and> t' \<le> t" if "pub = Some t \<or> snap_publish_us snap = Some t" for t
  proof -
    from o [OF that] obtain t1 where t1: "?o = Some t1" "t1 \<le> t" by blast
    with Cons.IH [OF rest] obtain t' where "pub' = Some t'" "t' \<le> t1" by blast
    with t1 show ?thesis by auto
  qed
  have "\<exists>snap. latest f = Some snap
      \<and> (\<forall>t. snap_publish_us snap = Some t \<longrightarrow> (\<exists>t'. pub' = Some t' \<and> t' \<le> t))"
    using snap le by blast
  moreover have "\<forall>t. pub = Some t \<longrightarrow> (\<exists>t'. pub' = Some t' \<and> t' \<le> t)" using le by blast
  ultimately show ?case using Cons.IH [OF rest] by (simp add: leg)
qed

text \<open>
  A rebased basket is worth exactly its target at its first evaluation; the factor fixed there
  is kept by every later evaluation, whatever the feeds do; and its publish time is not later
  than that of any leg.
\<close>

theorem basket_rebased:
  assumes "dec_exact (decs N) val"
    and "basket_sum (decs N) latest legs (dec_zero (decs N), [], None) = Some (s, ratios, pub)"
    and "val s \<noteq> 0" and "dec_repr (val target / val s)" and "dec_repr (val target)"
  shows "\<exists>f c. eval_base N (BasketB legs (Some target) None) latest now
        = (BasketB legs (Some target) (Some f), Some c)
      \<and> val (ctx_value c) = val target
      \<and> (\<forall>latest' now'. fst (eval_base N (BasketB legs (Some target) (Some f)) latest' now')
            = BasketB legs (Some target) (Some f))
      \<and> (\<forall>g w snap t. (g, w) \<in> set legs \<longrightarrow> latest g = Some snap \<longrightarrow> snap_publish_us snap = Some t
            \<longrightarrow> (\<exists>t'. ctx_publish_us c = Some t' \<and> t' \<le> t))"
proof -
  from dec_exact_div [OF assms(1,3,4)] obtain f
    where f: "dec_div (decs N) target s = Some f" "val f = val target / val s" by blast
  then have "val s * val f = val target" using assms(3) by simp
  with dec_exact_mul [OF assms(1), of s f] assms(5) obtain v
    where v: "dec_mul (decs N) s f = Some v" "val v = val target" by auto
  have "fst (eval_base N (BasketB legs (Some target) (Some f)) latest' now')
      = BasketB legs (Some target) (Some f)" for latest' now'
    by (simp add: basket_factor_def split: option.splits)
  then show ?thesis
    using assms(2) f(1) v basket_sum_publish [OF assms(2)] by (fastforce simp: basket_factor_def)
qed

theorem basket_rebased_witness:
  "\<exists>f c. eval_base rat_num (BasketB [(''a'', 2)] (Some 100) None)
        [''a'' \<mapsto> \<lparr>snap_value = 5, snap_conf = None, snap_publish_us = Some 7, snap_slot = None,
          snap_source = Binance\<rparr>] 9
      = (BasketB [(''a'', 2)] (Some 100) (Some f), Some c) \<and> ctx_value c = 100"
proof -
  let ?l = "[''a'' \<mapsto> \<lparr>snap_value = 5, snap_conf = None, snap_publish_us = Some 7, snap_slot = None,
          snap_source = Binance\<rparr>] :: symbol \<rightharpoonup> rat snapshot"
  have s: "basket_sum (decs rat_num) ?l [(''a'', 2)] (dec_zero (decs rat_num), [], None)
      = Some (10, [None], Some 7)"
    by (simp add: bounded_def)
  have "dec_repr 10" "dec_repr 100" using dec_repr_int [of 10] dec_repr_int [of 100] by simp_all
  moreover have "dec_exact (decs rat_num) id" using rat_dec_exact by simp
  ultimately show ?thesis using basket_rebased [OF _ s, of id 100 9] by auto
qed

section \<open>The lag transform\<close>

text \<open>A transform fed with a sequence of timed inputs: its state and its outputs.\<close>

fun transform_run ::
    "('d, 'f, 'r) numerics \<Rightarrow> ('d, 'f, 'r) transform_state \<Rightarrow> (int \<times> 'd eval_ctx) list
      \<Rightarrow> unit + ('d, 'f, 'r) transform_state \<times> 'd eval_ctx option list" where
  "transform_run N t [] = Inr (t, [])"
| "transform_run N t ((now, c) # xs) =
     bindR (apply_transform N t c now) (\<lambda>(t', r).
     bindR (transform_run N t' xs) (\<lambda>(t'', rs). Inr (t'', r # rs)))"

lemma transform_run_append:
  "transform_run N t (xs @ ys) =
     bindR (transform_run N t xs) (\<lambda>(t', rs). bindR (transform_run N t' ys) (\<lambda>(t'', qs). Inr (t'', rs @ qs)))"
proof (induction xs arbitrary: t)
  case Nil
  show ?case by (cases "transform_run N t ys") auto
next
  case (Cons x xs)
  obtain now c where x: "x = (now, c)" by fastforce
  show ?case
  proof (cases "apply_transform N t c now")
    case (Inr tr)
    obtain t' r where tr: "tr = (t', r)" by fastforce
    show ?thesis
    proof (cases "transform_run N t' xs")
      case i: (Inr q)
      obtain t1 rs where q: "q = (t1, rs)" by fastforce
      show ?thesis using Inr x tr i q Cons.IH [of t'] by (cases "transform_run N t1 ys") auto
    qed (use Inr x tr Cons.IH [of t'] in simp)
  qed (simp add: x)
qed

lemma find_append_case:
  "find P (xs @ ys) = (case find P xs of None \<Rightarrow> find P ys | Some x \<Rightarrow> Some x)"
  by (induction xs) auto

lemma find_filter: "find P (filter Q xs) = find (\<lambda>x. P x \<and> Q x) xs"
  by (induction xs) auto

lemma pop_expired_sorted:
  "sorted (map fst buf) \<Longrightarrow> pop_expired k buf ch =
     (case find (\<lambda>s. fst s \<le> k) (rev buf) of None \<Rightarrow> ch | Some s \<Rightarrow> Some s,
      filter (\<lambda>s. k < fst s) buf)"
proof (induction buf arbitrary: ch)
  case Nil
  show ?case by simp
next
  case (Cons s buf)
  show ?case
  proof (cases "fst s \<le> k")
    case True
    then show ?thesis using Cons by (auto simp: find_append_case split: option.splits)
  next
    case False
    with Cons.prems have "\<forall>x \<in> set (s # buf). k < fst x" by fastforce
    moreover from this have "find (\<lambda>x. fst x \<le> k) (rev (s # buf)) = None"
      by (auto simp: find_None_iff)
    ultimately show ?thesis using False by (simp add: filter_id_conv)
  qed
qed

text \<open>What is still waiting after a history, and what an input makes of it.\<close>

definition lag_pending :: "int \<Rightarrow> 'd lag_sample list \<Rightarrow> 'd lag_sample list" where
  "lag_pending us hist = (if hist = [] then [] else filter (\<lambda>x. fst (List.last hist) - us < fst x) hist)"

definition lag_output :: "int \<Rightarrow> 'd lag_sample list \<Rightarrow> 'd lag_sample \<Rightarrow> 'd eval_ctx option" where
  "lag_output us hist s =
     map_option (\<lambda>x. (snd x)\<lparr>ctx_derived := True\<rparr>)
       (find (\<lambda>x. fst x \<le> fst s - us) (rev (lag_pending us hist @ [s])))"

lemma lag_step:
  assumes "sorted (map fst (hist @ [s]))" and "clock_ok (fst s)" and "0 \<le> us" and "in_i64 us"
  shows "apply_transform N (LagT us (lag_pending us hist)) (snd s) (fst s)
    = Inr (LagT us (lag_pending us (hist @ [s])), lag_output us hist s)"
proof -
  let ?k = "fst s - us" and ?p = "lag_pending us hist @ [s]"
  have k: "in_i64 ?k" using assms(2,3,4) by (simp add: in_i64_def clock_ok_def)
  have sorted: "sorted (map fst ?p)"
    using assms(1) by (auto simp: lag_pending_def sorted_append sorted_filter)
  have last: "fst (List.last hist) \<le> fst s" if "hist \<noteq> []"
    using assms(1) that by (simp add: sorted_append)
  have buf: "filter (\<lambda>x. ?k < fst x) ?p = lag_pending us (hist @ [s])"
    using last by (auto simp: lag_pending_def filter_filter intro!: filter_cong)
  show ?thesis
    using k pop_expired_sorted [OF sorted, of ?k None] buf
    by (simp add: Let_def lag_output_def option.case_eq_if)
qed

lemma lag_run:
  assumes "sorted (map fst hist)" and "\<forall>s \<in> set hist. clock_ok (fst s)" and "0 \<le> us" and "in_i64 us"
  shows "\<exists>outs. transform_run N (LagT us []) hist = Inr (LagT us (lag_pending us hist), outs)
    \<and> length outs = length hist
    \<and> (\<forall>i < length hist. outs ! i = lag_output us (take i hist) (hist ! i))"
  using assms(1,2)
proof (induction hist rule: rev_induct)
  case Nil
  show ?case by (simp add: lag_pending_def)
next
  case (snoc s hist)
  then obtain outs where r: "transform_run N (LagT us []) hist = Inr (LagT us (lag_pending us hist), outs)"
    and l: "length outs = length hist"
    and o: "\<forall>i < length hist. outs ! i = lag_output us (take i hist) (hist ! i)"
    by (auto simp: sorted_append)
  have "clock_ok (fst s)" using snoc.prems by simp
  from lag_step [OF snoc.prems(1) this assms(3,4), of N]
  have "transform_run N (LagT us (lag_pending us hist)) [s]
      = Inr (LagT us (lag_pending us (hist @ [s])), [lag_output us hist s])"
    by (cases s) simp
  then have "transform_run N (LagT us []) (hist @ [s])
      = Inr (LagT us (lag_pending us (hist @ [s])), outs @ [lag_output us hist s])"
    by (simp add: transform_run_append r)
  moreover have "(outs @ [lag_output us hist s]) ! i = lag_output us (take i (hist @ [s])) ((hist @ [s]) ! i)"
    if "i < length (hist @ [s])" for i
    using that o l by (cases "i = length hist") (auto simp: nth_append)
  ultimately show ?case using l by simp
qed

text \<open>
  C21. The lag transform, over any sequence of inputs with non-decreasing times: it never fails, and
  each output is the newest input that is at least \<open>us\<close> old among those newer than the previous
  evaluation's cutoff (\<open>lag_pending\<close>), nothing when there is none.
\<close>

theorem lag_reports_newest_expired:
  assumes "sorted (map fst hist)" and "\<forall>s \<in> set hist. clock_ok (fst s)" and "0 \<le> us" and "in_i64 us"
  shows "\<exists>outs. transform_run N (LagT us []) hist = Inr (LagT us (lag_pending us hist), outs)
    \<and> length outs = length hist
    \<and> (\<forall>i < length hist. outs ! i = map_option (\<lambda>x. (snd x)\<lparr>ctx_derived := True\<rparr>)
          (find (\<lambda>x. fst x \<le> fst (hist ! i) - us) (rev (lag_pending us (take i hist) @ [hist ! i]))))"
  using lag_run [OF assms] unfolding lag_output_def .

definition sample_ctx :: "rat \<Rightarrow> rat eval_ctx" where
  "sample_ctx v = \<lparr>ctx_value = v, ctx_conf = None, ctx_publish_us = None, ctx_slot = None,
     ctx_source = Binance, ctx_derived = False\<rparr>"

theorem lag_reports_newest_expired_witness:
  "\<exists>outs. transform_run rat_num (LagT 1000 []) [(0, sample_ctx 1), (1000, sample_ctx 2)]
      = Inr (LagT 1000 [(1000, sample_ctx 2)], outs) \<and> outs ! 1 = Some ((sample_ctx 1)\<lparr>ctx_derived := True\<rparr>)"
  using lag_reports_newest_expired [of "[(0, sample_ctx 1), (1000, sample_ctx 2)]" 1000 rat_num]
  by (auto simp: clock_ok_def in_i64_def lag_pending_def)

text \<open>
  A lagged instrument is silent whenever no input has just crossed the cutoff, although an old
  enough price is known: with inputs at times 0, 1000 and 1500 and a lag of 1000, the evaluation
  at 1500 gives nothing, where the price 1000 earlier was that of time 0.
\<close>

theorem lag_gap:
  "transform_run rat_num (LagT 1000 [])
      [(0, sample_ctx 1), (1000, sample_ctx 2), (1500, sample_ctx 3)]
   = Inr (LagT 1000 [(1000, sample_ctx 2), (1500, sample_ctx 3)],
          [None, Some ((sample_ctx 1)\<lparr>ctx_derived := True\<rparr>), None])"
  by (simp add: in_i64_def)

end
