(* ===== verification/App_State.thy ===== *)
theory App_State
  imports Feeds
begin

text \<open>
  \<open>services/oracle/src/state.rs\<close> and \<open>api.rs\<close>: the price table with its broadcast channel, the
  instrument registry, and the HTTP and websocket handlers over them. The hash map of prices is
  its list of entries; listing its values takes the order the map yields them in.
\<close>

section \<open>The shared state\<close>

record app_state =
  as_prices :: "(symbol \<times> price_point) list"
  as_broadcast :: "price_point list"  \<comment> \<open>everything sent on the channel so far\<close>
  as_instruments :: "instrument_info list"
  as_mint_to_symbol :: "string \<rightharpoonup> symbol"

definition app_new :: "instrument_info list \<Rightarrow> app_state" where
  "app_new infos = \<lparr>as_prices = [], as_broadcast = [], as_instruments = infos,
     as_mint_to_symbol = map_of (rev (List.map_filter
       (\<lambda>i. map_option (\<lambda>m. (m, info_symbol i)) (info_mint i)) infos))\<rparr>"

definition app_update :: "app_state \<Rightarrow> price_point \<Rightarrow> app_state" where
  "app_update st p = st\<lparr>as_prices := AList.update (pt_symbol p) p (as_prices st),
     as_broadcast := as_broadcast st @ [p]\<rparr>"

definition app_get :: "app_state \<Rightarrow> symbol \<Rightarrow> price_point option" where
  "app_get st s = map_of (as_prices st) s"

definition app_all :: "symbol list \<Rightarrow> app_state \<Rightarrow> price_point list" where
  "app_all order st = drain order (as_prices st)"

definition symbol_for_mint :: "app_state \<Rightarrow> string \<Rightarrow> symbol option" where
  "symbol_for_mint st m = as_mint_to_symbol st m"

section \<open>Handlers\<close>

datatype http_status = BadRequest | NotFound

definition one_price :: "app_state \<Rightarrow> symbol option \<Rightarrow> string option \<Rightarrow> http_status + price_point" where
  "one_price st symbol mint =
     bindR (case (symbol, mint) of
         (Some s, None) \<Rightarrow> Inr s
       | (None, Some m) \<Rightarrow> ok_or (symbol_for_mint st m) NotFound
       | _ \<Rightarrow> Inl BadRequest) (\<lambda>s.
     ok_or (app_get st s) NotFound)"

datatype api_response =
    TextBody string
  | PricesBody "price_point list"
  | PriceBody price_point
  | InstrumentsBody "instrument_info list"
  | Upgrade
  | Failed http_status

definition query_value :: "string \<Rightarrow> (string \<times> string) list \<Rightarrow> string option" where
  "query_value k q = map_of q k"

definition route :: "symbol list \<Rightarrow> app_state \<Rightarrow> string \<Rightarrow> (string \<times> string) list \<Rightarrow> api_response" where
  "route order st path q =
     (if path = ''/health'' then TextBody ''ok''
      else if path = ''/v1/prices'' then PricesBody (app_all order st)
      else if path = ''/v1/price'' then
        (case one_price st (query_value ''symbol'' q) (query_value ''mint'' q) of
           Inl e \<Rightarrow> Failed e | Inr p \<Rightarrow> PriceBody p)
      else if path = ''/v1/instruments'' then InstrumentsBody (as_instruments st)
      else if path = ''/v1/ws'' then Upgrade
      else Failed NotFound)"

text \<open>
  The websocket loop: what the channel or the client does, whether the send to the client goes
  through, and what has been written so far.
\<close>

datatype ws_event = Update price_point bool | LaggedBy nat | ChannelClosed | ClientMessage | ClientGone

fun stream_step :: "bool \<times> price_point list \<Rightarrow> ws_event \<Rightarrow> bool \<times> price_point list" where
  "stream_step (False, out) ev = (False, out)"
| "stream_step (True, out) (Update p sent) = (if sent then (True, out @ [p]) else (False, out))"
| "stream_step (True, out) (LaggedBy n) = (True, out)"
| "stream_step (True, out) ChannelClosed = (False, out)"
| "stream_step (True, out) ClientMessage = (True, out)"
| "stream_step (True, out) ClientGone = (False, out)"

section \<open>The price table\<close>

interpretation price_table: keyed_store app_get
    "\<lambda>st k p. st\<lparr>as_prices := AList.update k p (as_prices st), as_broadcast := as_broadcast st @ [p]\<rparr>"
  by unfold_locales (simp add: app_get_def update_conv')

lemma app_updates:
  "foldl app_update st ps = foldl (\<lambda>st (k, p). st\<lparr>as_prices := AList.update k p (as_prices st),
      as_broadcast := as_broadcast st @ [p]\<rparr>) st (map (\<lambda>p. (pt_symbol p, p)) ps)"
  by (induction ps arbitrary: st) (simp_all add: app_update_def)

lemma app_updates_get:
  "app_get (foldl app_update st ps) s =
     (case find (\<lambda>p. pt_symbol p = s) (rev ps) of None \<Rightarrow> app_get st s | Some p \<Rightarrow> Some p)"
  unfolding app_updates price_table.lookup_inserts by (simp add: map_of_by_symbol rev_map)

lemma app_updates_fields:
  "as_broadcast (foldl app_update st ps) = as_broadcast st @ ps"
  "as_instruments (foldl app_update st ps) = as_instruments st"
  "as_mint_to_symbol (foldl app_update st ps) = as_mint_to_symbol st"
  by (induction ps arbitrary: st) (simp_all add: app_update_def)

text \<open>
  The price endpoint. With exactly one of symbol and mint it answers with the last update
  published for that symbol (for a mint, for the instrument of that mint) since the start, and
  with "not found" when there is none or the mint is unknown; with both or neither it rejects
  the request.
\<close>

theorem one_price_latest:
  "one_price (foldl app_update (app_new infos) ps) symbol mint =
     (case (symbol, mint) of
        (Some s, None) \<Rightarrow> ok_or (find (\<lambda>p. pt_symbol p = s) (rev ps)) NotFound
      | (None, Some m) \<Rightarrow>
          (case find (\<lambda>i. info_mint i = Some m) (rev infos) of
             None \<Rightarrow> Inl NotFound
           | Some i \<Rightarrow> ok_or (find (\<lambda>p. pt_symbol p = info_symbol i) (rev ps)) NotFound)
      | _ \<Rightarrow> Inl BadRequest)"
proof -
  have get: "app_get (foldl app_update (app_new infos) ps) s = find (\<lambda>p. pt_symbol p = s) (rev ps)" for s
  proof -
    have "app_get (app_new infos) s = None" by (simp add: app_get_def app_new_def)
    then show ?thesis by (simp add: app_updates_get split: option.splits)
  qed
  have mint: "as_mint_to_symbol (app_new infos) m = map_option info_symbol (find (\<lambda>i. info_mint i = Some m) (rev infos))" for m
    unfolding app_new_def app_state.simps
    by (induction infos rule: rev_induct) (auto simp: List.map_filter_def)
  show ?thesis
    by (simp add: one_price_def get symbol_for_mint_def app_updates_fields mint split: option.splits)
qed

end
