(* ===== verification/Oracle_Run.thy ===== *)
theory Oracle_Run
  imports App_State Pricing_Rules
begin

text \<open>
  The running service: the engine task of \<open>pricing/mod.rs\<close> (\<open>run\<close>) over the shared state, and the
  wiring of \<open>services/oracle/src/lib.rs\<close>. The order in which \<open>select!\<close> serves observations and
  timer ticks is any sequence of events; a panic of the engine ends its task.
\<close>

section \<open>The engine task\<close>

datatype engine_input = Observed price_point int | Ticked int | InputClosed

datatype ('d, 'f, 'r) engine_task = Running "('d, 'f, 'r) engine" | Ended | Crashed

definition engine_step ::
    "('d, 'f, 'r) numerics \<Rightarrow> ('d, 'f, 'r) engine_task \<times> app_state \<Rightarrow> engine_input
      \<Rightarrow> ('d, 'f, 'r) engine_task \<times> app_state" where
  "engine_step N ts ev =
     (case ts of
        (Running e, st) \<Rightarrow>
          (case ev of
             Observed p now \<Rightarrow>
               (case on_underlying N e p now of
                  Inl _ \<Rightarrow> (Crashed, st)
                | Inr (e', ps) \<Rightarrow> (Running e', foldl app_update st ps))
           | Ticked now \<Rightarrow>
               (case on_tick N e now of
                  Inl _ \<Rightarrow> (Crashed, st)
                | Inr (e', ps) \<Rightarrow> (Running e', foldl app_update st ps))
           | InputClosed \<Rightarrow> (Ended, st))
      | _ \<Rightarrow> ts)"

section \<open>Start-up\<close>

record 'f oracle_config =
  oc_underlyings :: "underlying_config list"
  oc_instruments :: "'f instrument_config list"
  oc_pusher_enabled :: bool

datatype spawned =
    HermesTask provider_feeds
  | CoinGeckoTask provider_feeds
  | BinanceTask provider_feeds
  | EngineTask
  | PusherTask

definition oracle_start ::
    "('d, 'f, 'r) numerics \<Rightarrow> 'f oracle_config
      \<Rightarrow> config_error + ('d, 'f, 'r) engine \<times> app_state \<times> spawned list" where
  "oracle_start N cfg =
     bindR (from_config N (oc_instruments cfg) (map und_symbol (oc_underlyings cfg))) (\<lambda>e.
     let st = app_new (List.map_filter registry_entry (oc_instruments cfg)) in
     bindR (partition_underlyings (oc_underlyings cfg)) (\<lambda>feeds.
     Inr (e, st,
       (if pyth_feeds feeds = [] then [] else [HermesTask (pyth_feeds feeds)])
       @ (if coingecko_feeds feeds = [] then [] else [CoinGeckoTask (coingecko_feeds feeds)])
       @ (if binance_feeds feeds = [] then [] else [BinanceTask (binance_feeds feeds)])
       @ [EngineTask] @ (if oc_pusher_enabled cfg then [PusherTask] else []))))"

text \<open>The tasks that hold a sender of the engine's channel; it closes when the last one is gone.\<close>

fun holds_sender :: "spawned \<Rightarrow> bool" where
  "holds_sender (HermesTask _) = True"
| "holds_sender (CoinGeckoTask _) = True"
| "holds_sender (BinanceTask _) = True"
| "holds_sender _ = False"

section \<open>The invariant of the running service\<close>

fun event_ok :: "engine_input \<Rightarrow> bool" where
  "event_ok (Observed p now) = clock_ok now"
| "event_ok (Ticked now) = clock_ok now"
| "event_ok InputClosed = True"

definition registered :: "'f instrument_config list \<Rightarrow> price_point \<Rightarrow> bool" where
  "registered cfgs p \<longleftrightarrow> (\<exists>i < length cfgs. \<exists>now. published (config_key (cfgs ! i)) now p)"

definition world_ok ::
    "'f instrument_config list \<Rightarrow> ('d, 'f, 'r) engine_task \<times> app_state \<Rightarrow> bool" where
  "world_ok cfgs ts \<longleftrightarrow>
     (case fst ts of Running e \<Rightarrow> serves cfgs e \<and> engine_ok e | Ended \<Rightarrow> True | Crashed \<Rightarrow> False)
     \<and> (\<forall>s p. app_get (snd ts) s = Some p \<longrightarrow> pt_symbol p = s \<and> registered cfgs p)"

lemma find_SomeD: "find P xs = Some x \<Longrightarrow> x \<in> set xs \<and> P x"
  by (metis find_Some_iff nth_mem)

lemma updates_ok:
  assumes "\<forall>s p. app_get st s = Some p \<longrightarrow> pt_symbol p = s \<and> registered cfgs p"
    and "\<forall>p \<in> set ps. registered cfgs p"
    and "app_get (foldl app_update st ps) s = Some p"
  shows "pt_symbol p = s \<and> registered cfgs p"
  using assms by (auto simp: app_updates_get dest!: find_SomeD split: option.splits)

lemma engine_step_ok:
  assumes "world_ok cfgs ts" and "event_ok ev"
  shows "world_ok cfgs (engine_step N ts ev)"
proof (cases "fst ts")
  case (Running e)
  obtain st where ts: "ts = (Running e, st)" using Running by (cases ts) auto
  with assms(1) have s: "serves cfgs e" and ok: "engine_ok e"
    and g: "\<forall>s p. app_get st s = Some p \<longrightarrow> pt_symbol p = s \<and> registered cfgs p"
    by (auto simp: world_ok_def)
  show ?thesis
  proof (cases ev)
    case (Observed p now)
    with assms(2) have c: "clock_ok now" by simp
    from on_underlying_ok [OF ok c, of N p] obtain e' ps
      where r: "on_underlying N e p now = Inr (e', ps)" and ok': "engine_ok e'" by blast
    note S = on_underlying_serves [OF s r]
    then have "\<forall>q \<in> set ps. registered cfgs q" unfolding registered_def by blast
    from updates_ok [OF g this] show ?thesis
      using S r ok' by (auto simp: ts Observed engine_step_def world_ok_def)
  next
    case (Ticked now)
    with assms(2) have c: "clock_ok now" by simp
    from on_tick_ok [OF ok c, of N] obtain e' ps
      where r: "on_tick N e now = Inr (e', ps)" and ok': "engine_ok e'" by blast
    note S = on_tick_serves [OF s r]
    then have "\<forall>q \<in> set ps. registered cfgs q" unfolding registered_def by blast
    from updates_ok [OF g this] show ?thesis
      using S r ok' by (auto simp: ts Ticked engine_step_def world_ok_def)
  next
    case InputClosed
    then show ?thesis using g by (simp add: ts engine_step_def world_ok_def)
  qed
qed (use assms(1) in \<open>cases ts; auto simp: engine_step_def world_ok_def\<close>)+

interpretation engine_loop: stepper "engine_step N" "world_ok cfgs" event_ok for N cfgs
  by unfold_locales (rule engine_step_ok)

lemma start_ok:
  assumes "oracle_start N cfg = Inr (e, st, tasks)"
    and "list_all (\<lambda>c. config_tick_ok (cfg_base c)) (oc_instruments cfg)"
  shows "world_ok (oc_instruments cfg) (Running e, st)"
proof -
  from assms(1) have f: "from_config N (oc_instruments cfg) (map und_symbol (oc_underlyings cfg)) = Inr e"
    and st: "st = app_new (List.map_filter registry_entry (oc_instruments cfg))"
    by (auto simp: oracle_start_def result_simps Let_def)
  show ?thesis
    using from_config_facts [OF f] assms(2)
    by (simp add: world_ok_def serves_def st app_get_def app_new_def)
qed

lemma registered_shape:
  "registered cfgs p \<Longrightarrow> \<exists>i < length cfgs. pt_symbol p = the (resolved_symbol (cfgs ! i))
     \<and> (\<exists>price conf. pt_data p = Aggregate price conf None \<and> expo price = cfg_expo (cfgs ! i))"
  unfolding registered_def published_def config_key_def by auto

text \<open>
  C2. From a configuration whose random-walk periods stay below about 146 years, and with clock
  readings in range, no sequence of observations, timer ticks and shutdown ever crashes the
  engine (no index out of range, no overflow); and at any time a price the API can return is
  stored under its own symbol, belongs to a configured instrument and has its exponent.
\<close>

theorem service_never_crashes:
  assumes "oracle_start N cfg = Inr (e, st, tasks)"
    and "list_all (\<lambda>c. config_tick_ok (cfg_base c)) (oc_instruments cfg)"
    and "list_all event_ok evs"
  shows "fst (foldl (engine_step N) (Running e, st) evs) \<noteq> Crashed
    \<and> (\<forall>s p. app_get (snd (foldl (engine_step N) (Running e, st) evs)) s = Some p \<longrightarrow>
         pt_symbol p = s
         \<and> (\<exists>i < length (oc_instruments cfg). s = the (resolved_symbol (oc_instruments cfg ! i))
              \<and> (\<exists>price conf. pt_data p = Aggregate price conf None
                   \<and> expo price = cfg_expo (oc_instruments cfg ! i))))"
proof -
  have "world_ok (oc_instruments cfg) (foldl (engine_step N) (Running e, st) evs)"
    by (rule engine_loop.run_inv [OF start_ok [OF assms(1,2)] assms(3)])
  then have "fst (foldl (engine_step N) (Running e, st) evs) \<noteq> Crashed"
    and g: "\<And>s p. app_get (snd (foldl (engine_step N) (Running e, st) evs)) s = Some p \<Longrightarrow>
      pt_symbol p = s \<and> registered (oc_instruments cfg) p"
    by (auto simp: world_ok_def)
  with registered_shape show ?thesis by metis
qed

definition sample_config :: "rat oracle_config" where
  "sample_config = \<lparr>oc_underlyings = [\<lparr>und_symbol = ''SOL/USD'', pyth_feed_id = Some ''ef0d'',
       coingecko_id = None, binance_symbol = None\<rparr>],
     oc_instruments = sample_cfgs, oc_pusher_enabled = False\<rparr>"

lemma sample_start:
  "\<exists>st. oracle_start rat_num sample_config
     = Inr (sample_engine, st, [HermesTask [(''SOL/USD'', ''ef0d'')], EngineTask])"
  using sample_compiled
  by (simp add: oracle_start_def sample_config_def partition_underlyings_def push_underlying_def
      no_feeds_def Let_def)

theorem service_never_crashes_witness:
  "\<exists>st. fst (foldl (engine_step rat_num) (Running sample_engine, st)
      [Ticked 1, Observed sample_point 5, Ticked 1000001, InputClosed]) \<noteq> Crashed"
proof -
  obtain st where s: "oracle_start rat_num sample_config
     = Inr (sample_engine, st, [HermesTask [(''SOL/USD'', ''ef0d'')], EngineTask])"
    using sample_start by blast
  have "list_all (\<lambda>c. config_tick_ok (cfg_base c)) (oc_instruments sample_config)"
    by (simp add: sample_config_def sample_cfgs_def)
  from service_never_crashes [OF s this, of "[Ticked 1, Observed sample_point 5, Ticked 1000001, InputClosed]"]
  show ?thesis by (auto simp: clock_ok_def)
qed

text \<open>
  The period of a random walk is taken from the configuration without an upper bound, and
  multiplied by 1000 as an \<open>i64\<close>: a period of \<open>10^16\<close> ms is accepted and crashes the engine at
  its first timer tick (the lag of a transform, by contrast, is checked).
\<close>

theorem gbm_period_overflow:
  "\<exists>e. from_config rat_num
       [\<lparr>cfg_symbol = Some ''w'', cfg_mint = None, cfg_expo = - 8,
         cfg_base = GbmCfg ''1'' 100 0 42 10000000000000000, cfg_transforms = []\<rparr>] [] = Inr e
     \<and> fst (engine_step rat_num (Running e, st) (Ticked 0)) = Crashed"
proof -
  have "sint (10000000000000000 :: u64) = 10000000000000000" by simp
  then show ?thesis
    by (simp add: from_config_def add_instrument_def resolved_symbol_def parse_decimal_f64_def
        parse_decimal_def parse_one engine_tick_ms_def Let_def engine_step_def on_tick_def in_i64_def)
qed

text \<open>
  The engine's channel is held open by the feed tasks alone. A configuration with synthetic
  instruments and no underlying starts none, so the engine sees its input closed, ends, and
  publishes nothing from then on, although pegs and random walks need no feed.
\<close>

theorem engine_ends_without_feeds:
  assumes "oracle_start N cfg = Inr (e, st, tasks)" and "oc_underlyings cfg = []"
  shows "\<not> list_ex holds_sender tasks
    \<and> foldl (engine_step N) (Running e, st) (InputClosed # evs) = (Ended, st)"
proof -
  from assms have "\<not> list_ex holds_sender tasks"
    by (auto simp: oracle_start_def result_simps Let_def partition_underlyings_def no_feeds_def
      split: if_splits)
  moreover have "foldl (engine_step N) (Ended, st) evs = (Ended, st)"
    by (induction evs) (simp_all add: engine_step_def)
  ultimately show ?thesis by (simp add: engine_step_def)
qed

definition synthetic_config :: "rat oracle_config" where
  "synthetic_config = \<lparr>oc_underlyings = [], oc_instruments =
     [\<lparr>cfg_symbol = Some ''tUSD'', cfg_mint = None, cfg_expo = - 6, cfg_base = PegCfg ''1'',
       cfg_transforms = []\<rparr>], oc_pusher_enabled = False\<rparr>"

theorem engine_ends_without_feeds_witness:
  "\<exists>e st. oracle_start rat_num synthetic_config = Inr (e, st, [EngineTask])
     \<and> foldl (engine_step rat_num) (Running e, st) [InputClosed, Ticked 0] = (Ended, st)"
proof -
  obtain e st where s: "oracle_start rat_num synthetic_config = Inr (e, st, [EngineTask])"
    by (simp add: oracle_start_def synthetic_config_def from_config_def add_instrument_def
        resolved_symbol_def parse_decimal_def parse_one partition_underlyings_def no_feeds_def Let_def)
  with engine_ends_without_feeds [OF s, of "[Ticked 0]"] show ?thesis
    by (auto simp: synthetic_config_def)
qed

section \<open>The clock of timed instruments\<close>

definition rt_clock :: "('d, 'f, 'r) runtime \<Rightarrow> int \<times> int" where
  "rt_clock rt = (rt_next_due_us rt, interval_of (rt_base rt))"

lemma eval_base_interval: "interval_of (fst (eval_base N b latest now)) = interval_of b"
  by (cases b) (auto simp: Let_def split: option.splits prod.splits)

lemma eval_clock:
  assumes "eval N inst latest now = Inr (inst', r)"
  shows "rt_clock inst' = rt_clock inst"
proof -
  have "interval_of (rt_base inst') = interval_of (rt_base inst)"
    using assms eval_base_interval [of N "rt_base inst" latest now]
    by (auto simp: eval_def Let_def result_simps split: prod.splits option.splits)
  with eval_frame [OF assms] show ?thesis by (simp add: rt_clock_def rt_frame_def)
qed

lemma update_clock:
  "i < length insts \<Longrightarrow> rt_clock x = rt_clock (insts ! i)
    \<Longrightarrow> map rt_clock (insts[i := x]) = map rt_clock insts"
  by (simp add: map_update) (metis list_update_id nth_map)

lemma eval_each_clock:
  "eval_each N latest now is insts = Inr (insts', ps) \<Longrightarrow> map rt_clock insts' = map rt_clock insts"
proof (induction "is" arbitrary: insts ps)
  case Nil
  then show ?case by simp
next
  case (Cons i "is")
  then obtain inst' r qs where i: "i < length insts"
    and e: "eval N (insts ! i) latest now = Inr (inst', r)"
    and t: "eval_each N latest now is (insts[i := inst']) = Inr (insts', qs)"
    by (auto simp: result_simps split: if_splits)
  from Cons.IH [OF t] update_clock [OF i eval_clock [OF e]] show ?case by simp
qed

lemma on_underlying_clock:
  "on_underlying N e p now = Inr (e', ps) \<Longrightarrow>
     map rt_clock (eng_instruments e') = map rt_clock (eng_instruments e)"
  by (auto simp: on_underlying_def Let_def result_simps dest: eval_each_clock
      split: option.splits prod.splits)

text \<open>
  A timer tick: a due instrument is given its next due time, the others keep theirs, and only
  due instruments publish.
\<close>

lemma tick_each_clock:
  assumes "tick_each N latest now is insts = Inr (insts', ps)"
    and "list_all runtime_ok insts" and "clock_ok now" and "distinct is"
  shows "length insts' = length insts
    \<and> (\<forall>j < length insts. rt_clock (insts' ! j) =
         (if j \<in> set is \<and> rt_next_due_us (insts ! j) \<le> now
          then (now + interval_of (rt_base (insts ! j)), interval_of (rt_base (insts ! j)))
          else rt_clock (insts ! j)))
    \<and> (\<forall>p \<in> set ps. \<exists>i \<in> set is. i < length insts \<and> rt_next_due_us (insts ! i) \<le> now
         \<and> pt_symbol p = rt_symbol (insts ! i))"
  using assms(1,2,4)
proof (induction "is" arbitrary: insts ps)
  case Nil
  then show ?case by simp
next
  case (Cons i "is")
  then have i: "i < length insts" and r: "runtime_ok (insts ! i)"
    by (auto simp: list_all_length split: if_splits)
  show ?case
  proof (cases "now < rt_next_due_us (insts ! i)")
    case True
    with Cons.prems i have "tick_each N latest now is insts = Inr (insts', ps)" by simp
    from Cons.IH [OF this] Cons.prems True show ?thesis by auto
  next
    case False
    let ?iv = "interval_of (rt_base (insts ! i))"
    let ?inst = "(insts ! i)\<lparr>rt_next_due_us := now + ?iv\<rparr>"
    from r have b: "base_ok (rt_base (insts ! i))" by (simp add: runtime_ok_def)
    from Cons.prems(1) False i interval_ok [OF b assms(3)] obtain inst' rr qs where
      e: "eval N ?inst latest now = Inr (inst', rr)"
      and t: "tick_each N latest now is (insts[i := inst']) = Inr (insts', qs)"
      and ps: "ps = (case rr of None \<Rightarrow> qs | Some p \<Rightarrow> p # qs)"
      by (auto simp: result_simps Let_def)
    have "runtime_ok ?inst" using r by (simp add: runtime_ok_def)
    from eval_ok [OF this assms(3), of N latest] e have ok: "runtime_ok inst'" by auto
    from eval_clock [OF e] have c: "rt_clock inst' = (now + ?iv, ?iv)" by (simp add: rt_clock_def)
    from rt_frame_key [OF eval_frame [OF e]] have s: "rt_symbol inst' = rt_symbol (insts ! i)"
      by (simp add: rt_key_def)
    have p: "pt_symbol p = rt_symbol (insts ! i)" if "rr = Some p" for p
      using eval_published [of N ?inst latest now inst' p] e that by (simp add: published_def rt_key_def)
    have d: "i \<notin> set is" "distinct is" using Cons.prems(3) by auto
    have other: "insts[i := inst'] ! j = insts ! j" if "j \<in> set is" for j
      using that d(1) by (metis nth_list_update_neq)
    note IH = Cons.IH [OF t runtime_ok_update [OF Cons.prems(2) ok] d(2)]
    have "\<exists>k \<in> set is. k < length insts \<and> rt_next_due_us (insts ! k) \<le> now
        \<and> pt_symbol q = rt_symbol (insts ! k)" if "q \<in> set qs" for q
      using IH that other by (metis length_list_update)
    then have pub: "\<exists>k \<in> set (i # is). k < length insts \<and> rt_next_due_us (insts ! k) \<le> now
        \<and> pt_symbol q = rt_symbol (insts ! k)" if "q \<in> set ps" for q
      using that ps p i False by (cases rr) auto
    have "rt_clock (insts' ! j) =
        (if j \<in> set (i # is) \<and> rt_next_due_us (insts ! j) \<le> now
         then (now + interval_of (rt_base (insts ! j)), interval_of (rt_base (insts ! j)))
         else rt_clock (insts ! j))" if j: "j < length insts" for j
    proof (cases "j = i")
      case True
      then show ?thesis using IH d(1) c i False by simp
    next
      case neq: False
      then have "insts[i := inst'] ! j = insts ! j" by simp
      then show ?thesis using IH j neq by simp
    qed
    then show ?thesis using IH pub by simp
  qed
qed

lemma distinct_clocked: "distinct (clocked cfgs)"
  unfolding clocked_def by (rule distinct_map_filter) simp

text \<open>An engine that is not behind another: same intervals, no earlier due time.\<close>

definition clock_le :: "('d, 'f, 'r) engine \<Rightarrow> ('d, 'f, 'r) engine \<Rightarrow> bool" where
  "clock_le e e' \<longleftrightarrow> length (eng_instruments e') = length (eng_instruments e)
     \<and> (\<forall>j < length (eng_instruments e).
          snd (rt_clock (eng_instruments e' ! j)) = snd (rt_clock (eng_instruments e ! j))
          \<and> fst (rt_clock (eng_instruments e ! j)) \<le> fst (rt_clock (eng_instruments e' ! j)))"

lemma clock_le_trans: "clock_le a b \<Longrightarrow> clock_le b c \<Longrightarrow> clock_le a c"
  unfolding clock_le_def by (simp, blast intro: order_trans)

lemma interval_pos: "0 \<le> interval_of b"
  by (cases b) (auto simp: uint_ge_0)

lemma on_tick_clock_le:
  assumes "serves cfgs e" and "engine_ok e" and "clock_ok now" and "on_tick N e now = Inr (e', ps)"
  shows "clock_le e e'"
proof -
  from assms(1,4) obtain insts'
    where t: "tick_each N (eng_latest e) now (clocked cfgs) (eng_instruments e) = Inr (insts', ps)"
      and e': "e' = e\<lparr>eng_instruments := insts'\<rparr>"
    by (auto simp: on_tick_def result_simps serves_def)
  have "list_all runtime_ok (eng_instruments e)" using assms(2) by (simp add: engine_ok_def)
  note T = tick_each_clock [OF t this assms(3) distinct_clocked]
  have "fst (rt_clock (eng_instruments e ! j)) \<le> fst (rt_clock (insts' ! j))
      \<and> snd (rt_clock (insts' ! j)) = snd (rt_clock (eng_instruments e ! j))"
    if "j < length (eng_instruments e)" for j
    using T that interval_pos [of "rt_base (eng_instruments e ! j)"] by (simp add: rt_clock_def)
  then show ?thesis using T by (simp add: clock_le_def e')
qed

lemma on_underlying_clock_le:
  assumes "on_underlying N e p now = Inr (e', ps)"
  shows "clock_le e e'"
proof -
  note m = on_underlying_clock [OF assms]
  then have "length (eng_instruments e') = length (eng_instruments e)" by (metis length_map)
  with m show ?thesis unfolding clock_le_def by (metis nth_map order_refl)
qed

lemma clock_le_refl [simp]: "clock_le e e"
  by (simp add: clock_le_def)

lemma ended_stays: "(\<forall>e. t \<noteq> Running e) \<Longrightarrow> foldl (engine_step N) (t, st) evs = (t, st)"
  by (induction evs) (auto simp: engine_step_def split: engine_task.splits)

lemma run_clock_le:
  assumes "foldl (engine_step N) (Running e, st) evs = (Running e', st')"
    and "serves cfgs e" and "engine_ok e" and "list_all event_ok evs"
  shows "serves cfgs e' \<and> engine_ok e' \<and> clock_le e e'"
  using assms
proof (induction evs arbitrary: e st)
  case Nil
  then show ?case by simp
next
  case (Cons ev evs)
  obtain e1 st1 where step: "engine_step N (Running e, st) ev = (Running e1, st1)"
  proof (cases "fst (engine_step N (Running e, st) ev)")
    case (Running e1)
    then show thesis using that by (metis prod.collapse)
  next
    case Ended
    then obtain st1 where "engine_step N (Running e, st) ev = (Ended, st1)" by (metis prod.collapse)
    with Cons.prems(1) show thesis by (simp add: ended_stays)
  next
    case Crashed
    then obtain st1 where "engine_step N (Running e, st) ev = (Crashed, st1)" by (metis prod.collapse)
    with Cons.prems(1) show thesis by (simp add: ended_stays)
  qed
  have "serves cfgs e1 \<and> engine_ok e1 \<and> clock_le e e1"
  proof (cases ev)
    case (Observed p now)
    with step obtain ps where r: "on_underlying N e p now = Inr (e1, ps)"
      by (auto simp: engine_step_def split: sum.splits)
    have "clock_ok now" using Cons.prems(4) Observed by simp
    from on_underlying_ok [OF Cons.prems(3) this, of N p] r have "engine_ok e1" by auto
    with on_underlying_serves [OF Cons.prems(2) r] on_underlying_clock_le [OF r] show ?thesis by blast
  next
    case (Ticked now)
    with step obtain ps where r: "on_tick N e now = Inr (e1, ps)"
      by (auto simp: engine_step_def split: sum.splits)
    have c: "clock_ok now" using Cons.prems(4) Ticked by simp
    from on_tick_ok [OF Cons.prems(3) c, of N] r have "engine_ok e1" by auto
    with on_tick_serves [OF Cons.prems(2) r] on_tick_clock_le [OF Cons.prems(2,3) c r]
    show ?thesis by blast
  qed (use step in \<open>simp add: engine_step_def\<close>)
  moreover have "foldl (engine_step N) (Running e1, st1) evs = (Running e', st')"
    using Cons.prems(1) step by simp
  moreover have "list_all event_ok evs" using Cons.prems(4) by simp
  ultimately show ?case using Cons.IH [of e1 st1] clock_le_trans by blast
qed

lemma on_tick_due:
  assumes "serves cfgs e" and "engine_ok e" and "clock_ok now" and "on_tick N e now = Inr (e', ps)"
    and "q \<in> set ps"
  shows "\<exists>i < length cfgs. pt_symbol q = rt_symbol (eng_instruments e ! i)
    \<and> rt_next_due_us (eng_instruments e ! i) \<le> now
    \<and> fst (rt_clock (eng_instruments e' ! i)) = now + interval_of (rt_base (eng_instruments e ! i))"
proof -
  from assms(1,4) obtain insts'
    where t: "tick_each N (eng_latest e) now (clocked cfgs) (eng_instruments e) = Inr (insts', ps)"
      and e': "e' = e\<lparr>eng_instruments := insts'\<rparr>"
    by (auto simp: on_tick_def result_simps serves_def)
  have "list_all runtime_ok (eng_instruments e)" using assms(2) by (simp add: engine_ok_def)
  note T = tick_each_clock [OF t this assms(3) distinct_clocked]
  with assms(5) obtain i where i: "i \<in> set (clocked cfgs)" "i < length (eng_instruments e)"
    "rt_next_due_us (eng_instruments e ! i) \<le> now" "pt_symbol q = rt_symbol (eng_instruments e ! i)"
    by blast
  then show ?thesis using T serves_length [OF assms(1)] by (auto simp: e')
qed

lemma serves_symbol:
  "serves cfgs e \<Longrightarrow> i < length cfgs \<Longrightarrow> rt_symbol (eng_instruments e ! i) = the (resolved_symbol (cfgs ! i))"
  using serves_nth by (auto simp: rt_key_def config_key_def)


lemma sample_tick:
  "\<exists>e' p. on_tick rat_num sample_engine 7 = Inr (e', [p]) \<and> pt_symbol p = ''tUSD''
     \<and> (\<exists>e'' p'. on_tick rat_num e' 1000007 = Inr (e'', [p']) \<and> pt_symbol p' = ''tUSD'')"
  by (simp add: on_tick_def sample_engine_def engine_tick_ms_def in_i64_def eval_def make_point_def
      from_decimal_def pow10_eq bounded_def round_half_even_def trunc_rat_def Let_def)


end
