(* ===== verification/Oracle_Typing.thy ===== *)
theory Oracle_Typing
  imports Oracle_Run
begin

text \<open>
  The values of the engine stay inside their Rust types: from typed observations, every point it
  publishes has a mantissa in \<open>i128\<close>, an exponent in \<open>i32\<close> and times in \<open>i64\<close>, which is what its
  wire form needs. The integer ranges that Rust's types give for free are invariants here.
\<close>

section \<open>Typed states\<close>

text \<open>\<open>to_i128\<close> of a decimal yields an \<open>i128\<close>.\<close>

definition decimals_fit :: "('d, 'f) dec_ops \<Rightarrow> bool" where
  "decimals_fit D \<longleftrightarrow> (\<forall>a b s m. dec_mul D a b = Some s \<or> dec_div D a b = Some s \<longrightarrow>
     dec_to_i128 D (dec_round D s) = Some m \<longrightarrow> in_i128 m)"

definition ctx_typed :: "'d eval_ctx \<Rightarrow> bool" where
  "ctx_typed c \<longleftrightarrow> opt_ok in_i64 (ctx_publish_us c)"

definition snaps_typed :: "(symbol \<rightharpoonup> 'd snapshot) \<Rightarrow> bool" where
  "snaps_typed latest \<longleftrightarrow> (\<forall>f s. latest f = Some s \<longrightarrow> opt_ok in_i64 (snap_publish_us s))"

fun transform_typed :: "('d, 'f, 'r) transform_state \<Rightarrow> bool" where
  "transform_typed (LagT us buf) \<longleftrightarrow> list_all (\<lambda>s. ctx_typed (snd s)) buf"
| "transform_typed _ \<longleftrightarrow> True"

definition runtime_typed :: "('d, 'f, 'r) runtime \<Rightarrow> bool" where
  "runtime_typed rt \<longleftrightarrow> in_i32 (rt_expo rt) \<and> list_all transform_typed (rt_transforms rt)"

definition engine_typed :: "('d, 'f, 'r) engine \<Rightarrow> bool" where
  "engine_typed e \<longleftrightarrow> list_all runtime_typed (eng_instruments e) \<and> snaps_typed (eng_latest e)"

section \<open>Evaluation\<close>

lemma from_decimal_typed:
  "decimals_fit D \<Longrightarrow> in_i32 e \<Longrightarrow> from_decimal D v e = Inr p \<Longrightarrow> price_ok p"
  by (auto simp: from_decimal_def result_simps decimals_fit_def split: if_splits)

lemma older_typed: "opt_ok in_i64 a \<Longrightarrow> opt_ok in_i64 b \<Longrightarrow> opt_ok in_i64 (older a b)"
  by (cases a; cases b) (auto simp: min_def)

lemma snap_typed: "snaps_typed latest \<Longrightarrow> latest f = Some s \<Longrightarrow> opt_ok in_i64 (snap_publish_us s)"
  by (simp add: snaps_typed_def)

lemma basket_typed:
  "basket_sum D latest legs (s, ratios, publish) = Some (s', ratios', publish') \<Longrightarrow> snaps_typed latest
    \<Longrightarrow> opt_ok in_i64 publish \<Longrightarrow> opt_ok in_i64 publish'"
  by (induction D latest legs "(s, ratios, publish)" arbitrary: s ratios publish rule: basket_sum.induct)
     (auto simp: older_typed dest: snap_typed split: option.splits)

lemma eval_base_typed:
  assumes "eval_base N b latest now = (b', Some c)" and "snaps_typed latest" and "in_i64 now"
  shows "ctx_typed c"
  using assms
  by (cases b) (auto simp: ctx_typed_def Let_def bind_eq_Some_conv
      intro!: older_typed intro: snap_typed dest: basket_typed split: option.splits prod.splits)

lemma pop_typed:
  "pop_expired cutoff buf chosen = (chosen', buf') \<Longrightarrow> list_all P buf \<Longrightarrow> opt_ok P chosen
    \<Longrightarrow> list_all P buf' \<and> opt_ok P chosen'"
  by (induction buf arbitrary: chosen) (auto split: if_splits)

lemma derived_typed: "ctx_typed c \<Longrightarrow> opt_ok ctx_typed (derived_value c m)"
  by (cases m) (simp_all add: derived_value_def ctx_typed_def)

lemma apply_transform_typed:
  assumes "apply_transform N t c now = Inr (t', r)" and "transform_typed t" and "ctx_typed c"
  shows "transform_typed t' \<and> opt_ok ctx_typed r"
proof (cases t)
  case (LagT us buf)
  then obtain chosen buf' where pop: "pop_expired (now - us) (buf @ [(now, c)]) None = (chosen, buf')"
    and t': "t' = LagT us buf'" and r: "r = map_option (\<lambda>s. (snd s)\<lparr>ctx_derived := True\<rparr>) chosen"
    using assms(1) by (auto simp: Let_def split: if_splits prod.splits)
  have "list_all (\<lambda>s. ctx_typed (snd s)) buf' \<and> opt_ok (\<lambda>s. ctx_typed (snd s)) chosen"
    using pop_typed [OF pop, of "\<lambda>s. ctx_typed (snd s)"] assms(2,3) LagT by simp
  then show ?thesis using t' r by (cases chosen) (auto simp: ctx_typed_def)
next
  case (BetaT beta anchor initial)
  then show ?thesis using assms
    by (auto simp: Let_def derived_typed bind_eq_Some_conv opt_ok_def [of _ "Option.bind _ _"] split: option.splits)
      (metis derived_typed opt_ok_simps(2))
qed (use assms in \<open>auto simp: Let_def derived_typed result_simps split: prod.splits option.splits if_splits\<close>)

lemma run_transforms_typed:
  assumes "run_transforms N ts c now = Inr (ts', r)" and "list_all transform_typed ts" and "ctx_typed c"
  shows "list_all transform_typed ts' \<and> opt_ok ctx_typed r"
  using assms
proof (induction ts arbitrary: c ts')
  case (Cons t ts)
  then obtain t1 r1 where a: "apply_transform N t c now = Inr (t1, r1)"
    and rest: "(case r1 of None \<Rightarrow> Inr (t1 # ts, None)
       | Some c' \<Rightarrow> bindR (run_transforms N ts c' now) (\<lambda>(ts', r'). Inr (t1 # ts', r'))) = Inr (ts', r)"
    by (auto simp: result_simps)
  have "transform_typed t1 \<and> opt_ok ctx_typed r1" using apply_transform_typed [OF a] Cons.prems by simp
  with rest Cons show ?case by (cases r1) (fastforce simp: result_simps)+
qed auto

lemma make_point_typed:
  assumes "make_point N inst c now = Some p" and "decimals_fit (decs N)" and "in_i32 (rt_expo inst)"
    and "ctx_typed c" and "in_i64 now"
  shows "point_ok p"
  using assms
  by (auto simp: make_point_def bind_eq_Some_conv point_ok_def ctx_typed_def opt_ok_def result_simps
      dest: from_decimal_typed split: option.splits)

lemma eval_typed:
  assumes "eval N inst latest now = Inr (inst', r)" and "decimals_fit (decs N)" and "runtime_typed inst"
    and "snaps_typed latest" and "in_i64 now"
  shows "runtime_typed inst' \<and> opt_ok point_ok r"
proof -
  obtain b' r1 where b: "eval_base N (rt_base inst) latest now = (b', r1)" by fastforce
  show ?thesis
  proof (cases r1)
    case None
    then show ?thesis using assms b by (auto simp: eval_def runtime_typed_def)
  next
    case (Some c)
    with assms(1) b obtain ts' r' where t: "run_transforms N (rt_transforms inst) c now = Inr (ts', r')"
      and out: "inst' = inst\<lparr>rt_base := b', rt_transforms := ts'\<rparr>"
        "r = Option.bind r' (\<lambda>c'. make_point N (inst\<lparr>rt_base := b', rt_transforms := ts'\<rparr>) c' now)"
      by (auto simp: eval_def Let_def result_simps)
    have "ctx_typed c" using eval_base_typed b Some assms(4,5) by blast
    then have "list_all transform_typed ts' \<and> opt_ok ctx_typed r'"
      using run_transforms_typed [OF t] assms(3) by (simp add: runtime_typed_def)
    then show ?thesis using out assms(2,3,5)
      by (cases r') (auto simp: runtime_typed_def opt_ok_def dest: make_point_typed split: option.splits)
  qed
qed

lemma typed_update:
  "list_all runtime_typed insts \<Longrightarrow> runtime_typed x \<Longrightarrow> list_all runtime_typed (insts[i := x])"
  by (auto simp: list_all_iff dest!: set_update_subset_insert [THEN subsetD])

lemma eval_each_typed:
  assumes "eval_each N latest now is insts = Inr (insts', ps)" and "decimals_fit (decs N)"
    and "list_all runtime_typed insts" and "snaps_typed latest" and "in_i64 now"
  shows "list_all runtime_typed insts' \<and> list_all point_ok ps"
  using assms
proof (induction "is" arbitrary: insts ps)
  case (Cons i "is")
  then obtain inst' r qs where i: "i < length insts" and e: "eval N (insts ! i) latest now = Inr (inst', r)"
    and t: "eval_each N latest now is (insts[i := inst']) = Inr (insts', qs)"
    and ps: "ps = (case r of None \<Rightarrow> qs | Some p \<Rightarrow> p # qs)"
    by (auto simp: result_simps split: if_splits)
  have "runtime_typed inst' \<and> opt_ok point_ok r"
    using eval_typed [OF e] Cons.prems i by (simp add: list_all_length)
  with Cons.IH [OF t] Cons.prems ps typed_update [of insts inst' i] show ?case by (cases r) auto
qed simp

lemma tick_each_typed:
  assumes "tick_each N latest now is insts = Inr (insts', ps)" and "decimals_fit (decs N)"
    and "list_all runtime_typed insts" and "snaps_typed latest" and "in_i64 now"
  shows "list_all runtime_typed insts' \<and> list_all point_ok ps"
  using assms
proof (induction "is" arbitrary: insts ps)
  case (Cons i "is")
  then have i: "i < length insts" by (simp split: if_splits)
  show ?case
  proof (cases "now < rt_next_due_us (insts ! i)")
    case True
    then show ?thesis using Cons i by (auto simp: Let_def)
  next
    case False
    with Cons.prems i obtain iv inst' r qs where
      e: "eval N ((insts ! i)\<lparr>rt_next_due_us := now + iv\<rparr>) latest now = Inr (inst', r)"
      and t: "tick_each N latest now is (insts[i := inst']) = Inr (insts', qs)"
      and ps: "ps = (case r of None \<Rightarrow> qs | Some p \<Rightarrow> p # qs)"
      by (auto simp: Let_def result_simps split: if_splits)
    have "runtime_typed ((insts ! i)\<lparr>rt_next_due_us := now + iv\<rparr>)"
      using Cons.prems(3) i by (simp add: list_all_length runtime_typed_def)
    from eval_typed [OF e _ this] Cons.prems have "runtime_typed inst' \<and> opt_ok point_ok r" by simp
    with Cons.IH [OF t] Cons.prems ps typed_update [of insts inst' i] show ?thesis by (cases r) auto
  qed
qed simp

lemma on_underlying_typed:
  assumes "on_underlying N e p now = Inr (e', ps)" and "decimals_fit (decs N)" and "engine_typed e"
    and "opt_ok in_i64 (pt_publish_us p)" and "in_i64 now"
  shows "engine_typed e' \<and> list_all point_ok ps"
proof (cases "reduce_data (decs N) (pt_data p)")
  case None
  then show ?thesis using assms by (simp add: on_underlying_def)
next
  case (Some vc)
  obtain v conf where vc: "vc = (v, conf)" by fastforce
  let ?latest = "(eng_latest e)(pt_symbol p \<mapsto>
     \<lparr>snap_value = v, snap_conf = conf, snap_publish_us = pt_publish_us p,
      snap_slot = pt_slot p, snap_source = pt_source p\<rparr>)"
  have latest: "snaps_typed ?latest" using assms(3,4) by (auto simp: snaps_typed_def engine_typed_def)
  show ?thesis
  proof (cases "eng_by_feed e (pt_symbol p)")
    case None
    then show ?thesis using assms(1,3) Some vc latest by (auto simp: on_underlying_def Let_def engine_typed_def)
  next
    case (Some "is")
    then obtain insts' where t: "eval_each N ?latest now is (eng_instruments e) = Inr (insts', ps)"
      and e': "e' = e\<lparr>eng_latest := ?latest, eng_instruments := insts'\<rparr>"
      using assms(1) \<open>reduce_data (decs N) (pt_data p) = Some vc\<close> vc
      by (auto simp: on_underlying_def Let_def result_simps)
    from eval_each_typed [OF t assms(2) _ latest assms(5)] assms(3)
    show ?thesis using e' latest by (simp add: engine_typed_def)
  qed
qed

lemma on_tick_typed:
  assumes "on_tick N e now = Inr (e', ps)" and "decimals_fit (decs N)" and "engine_typed e" and "in_i64 now"
  shows "engine_typed e' \<and> list_all point_ok ps"
  using assms tick_each_typed by (fastforce simp: on_tick_def result_simps engine_typed_def)

section \<open>The service\<close>

fun event_typed :: "engine_input \<Rightarrow> bool" where
  "event_typed (Observed p now) \<longleftrightarrow> opt_ok in_i64 (pt_publish_us p) \<and> in_i64 now"
| "event_typed (Ticked now) \<longleftrightarrow> in_i64 now"
| "event_typed InputClosed \<longleftrightarrow> True"

text \<open>
  The state of a running service: typed, and its table of prices is what the broadcast points make
  of the empty one.
\<close>

definition world_typed ::
    "instrument_info list \<Rightarrow> ('d, 'f, 'r) engine_task \<times> app_state \<Rightarrow> bool" where
  "world_typed infos ts \<longleftrightarrow>
     (case fst ts of Running e \<Rightarrow> engine_typed e | _ \<Rightarrow> True)
     \<and> snd ts = foldl app_update (app_new infos) (as_broadcast (snd ts))
     \<and> list_all point_ok (as_broadcast (snd ts))"

lemma updates_typed:
  assumes "st = foldl app_update (app_new infos) (as_broadcast st)" and "list_all point_ok (as_broadcast st)"
    and "list_all point_ok ps"
  shows "foldl app_update st ps = foldl app_update (app_new infos) (as_broadcast (foldl app_update st ps))
    \<and> list_all point_ok (as_broadcast (foldl app_update st ps))"
proof -
  have "foldl app_update (foldl app_update (app_new infos) (as_broadcast st)) ps
      = foldl app_update (app_new infos) (as_broadcast st @ ps)" by simp
  then show ?thesis using assms by (simp add: app_updates_fields)
qed

lemma engine_step_typed:
  assumes "decimals_fit (decs N)" and "world_typed infos ts" and "event_typed ev"
  shows "world_typed infos (engine_step N ts ev)"
proof -
  obtain task st where ts: "ts = (task, st)" by fastforce
  show ?thesis
  proof (cases task)
    case (Running e)
    have e: "engine_typed e" and st: "st = foldl app_update (app_new infos) (as_broadcast st)"
      "list_all point_ok (as_broadcast st)" using assms(2) Running ts by (simp_all add: world_typed_def)
    have step: "world_typed infos (case r of Inl _ \<Rightarrow> (Crashed, st)
        | Inr (e', ps) \<Rightarrow> (Running e', foldl app_update st ps))"
      if "\<And>e' ps. r = Inr (e', ps) \<Longrightarrow> engine_typed e' \<and> list_all point_ok ps"
      for r :: "unit + ('a, 'b, 'c) engine \<times> price_point list"
      using that updates_typed [OF st] st by (cases r) (auto simp: world_typed_def)
    show ?thesis
    proof (cases ev)
      case (Observed p now)
      then show ?thesis using assms Running ts e
        by (auto simp: engine_step_def intro!: step dest: on_underlying_typed)
    next
      case (Ticked now)
      then show ?thesis using assms Running ts e
        by (auto simp: engine_step_def intro!: step dest: on_tick_typed)
    next
      case InputClosed
      then show ?thesis using st Running ts by (simp add: engine_step_def world_typed_def)
    qed
  qed (use assms(2) ts in \<open>simp_all add: engine_step_def\<close>)
qed

interpretation typed_loop: stepper "engine_step N" "\<lambda>ts. decimals_fit (decs N) \<and> world_typed infos ts" event_typed
  for N infos by unfold_locales (simp add: engine_step_typed)

lemma transform_of_config_typed: "transform_of_config N t = Inr s \<Longrightarrow> transform_typed s"
  by (cases t) (auto simp: result_simps split: if_splits)

lemma traverse_transforms_typed:
  "traverseR (transform_of_config N) ts = Inr ss \<Longrightarrow> list_all transform_typed ss"
  by (induction ts arbitrary: ss) (auto simp: result_simps dest: transform_of_config_typed)

lemma add_instrument_typed:
  assumes "add_instrument N known ic b = Inr b'" and "list_all runtime_typed (bld_runtimes b)"
    and "in_i32 (cfg_expo (snd ic))"
  shows "list_all runtime_typed (bld_runtimes b')"
  using assms
  by (auto simp: add_instrument_def Let_def result_simps runtime_typed_def dest: traverse_transforms_typed
      split: if_splits)

lemma from_config_typed:
  assumes "from_config N cfgs known = Inr e" and "list_all (\<lambda>c. in_i32 (cfg_expo c)) cfgs"
  shows "engine_typed e"
proof -
  from assms(1) obtain b where b: "foldR (add_instrument N known) (enumerate 0 cfgs)
      \<lparr>bld_runtimes = [], bld_by_feed = Map.empty, bld_timed = [], bld_seen = {}\<rparr> = Inr b"
    and e: "eng_instruments e = bld_runtimes b" "eng_latest e = Map.empty"
    by (auto simp: from_config_def result_simps)
  have "list_all runtime_typed (bld_runtimes b)"
  proof (rule foldR_invariant [OF b])
    fix ic :: "nat \<times> 'b instrument_config" and s s' :: "('a, 'b, 'c) builder"
    assume "ic \<in> set (enumerate 0 cfgs)" "list_all runtime_typed (bld_runtimes s)"
      "add_instrument N known ic s = Inr s'"
    moreover obtain i c where ic: "ic = (i, c)" by fastforce
    moreover from calculation have "in_i32 (cfg_expo (snd ic))"
      using assms(2) by (auto simp: in_enumerate list_all_length)
    ultimately show "list_all runtime_typed (bld_runtimes s')" using add_instrument_typed by blast
  qed simp
  then show ?thesis using e by (simp add: engine_typed_def snaps_typed_def)
qed

lemma start_typed:
  assumes "oracle_start N cfg = Inr (e, st, tasks)" and "list_all (\<lambda>c. in_i32 (cfg_expo c)) (oc_instruments cfg)"
  shows "world_typed (List.map_filter registry_entry (oc_instruments cfg)) (Running e, st)"
proof -
  from assms(1) have f: "from_config N (oc_instruments cfg) (map und_symbol (oc_underlyings cfg)) = Inr e"
    and st: "st = app_new (List.map_filter registry_entry (oc_instruments cfg))"
    by (auto simp: oracle_start_def result_simps Let_def)
  then show ?thesis using from_config_typed [OF f assms(2)] by (simp add: world_typed_def app_new_def)
qed

lemma run_typed:
  assumes "oracle_start N cfg = Inr (e, st, tasks)" and "list_all (\<lambda>c. in_i32 (cfg_expo c)) (oc_instruments cfg)"
    and "decimals_fit (decs N)" and "list_all event_typed evs"
  shows "world_typed (List.map_filter registry_entry (oc_instruments cfg))
    (foldl (engine_step N) (Running e, st) evs)"
  using typed_loop.run_inv [of N "List.map_filter registry_entry (oc_instruments cfg)", OF _ assms(4)]
    start_typed [OF assms(1,2)] assms(3) by blast

section \<open>The rational decimals fit\<close>

lemma rat_decimals_fit: "decimals_fit rat_dec"
proof -
  have "in_i128 (round_half_even a)" if "\<bar>a\<bar> < 2 ^ 96" for a
  proof -
    have "(of_int (round_half_even a) :: rat) \<le> 79228162514264337593543950337"
      "(- 79228162514264337593543950337 :: rat) \<le> of_int (round_half_even a)"
      using round_half_even_near [of a] that unfolding abs_le_iff abs_less_iff by simp_all
    then have "round_half_even a \<le> 79228162514264337593543950337"
      "- 79228162514264337593543950337 \<le> round_half_even a" by linarith+
    then show ?thesis by (simp add: in_i128_def)
  qed
  then show ?thesis by (auto simp: decimals_fit_def bounded_def split: if_splits)
qed

end
