(* ===== verification/Oracle_Api.thy ===== *)
theory Oracle_Api
  imports Oracle_Typing "HOL-Library.Countable"
begin

text \<open>
  The HTTP interface seen from its typed client: the answers of \<open>api.rs\<close> as HTTP responses, and
  what the functions of \<open>oracle-client\<close> make of them when they talk to a running service.
\<close>

section \<open>Answers over HTTP\<close>

text \<open>\<open>Json\<close>, a plain text, and a status code as responses.\<close>

fun respond :: "api_response \<Rightarrow> http_response" where
  "respond (TextBody t) = \<lparr>rs_status = 200, rs_body = None\<rparr>"
| "respond (PricesBody ps) = \<lparr>rs_status = 200, rs_body = Some (JList (map point_to_json ps))\<rparr>"
| "respond (PriceBody p) = \<lparr>rs_status = 200, rs_body = Some (point_to_json p)\<rparr>"
| "respond (InstrumentsBody is) = \<lparr>rs_status = 200, rs_body = Some (JList (map info_to_json is))\<rparr>"
| "respond Upgrade = \<lparr>rs_status = 101, rs_body = None\<rparr>"
| "respond (Failed BadRequest) = \<lparr>rs_status = 400, rs_body = None\<rparr>"
| "respond (Failed NotFound) = \<lparr>rs_status = 404, rs_body = None\<rparr>"

text \<open>A network on which the service listens at one base URL.\<close>

definition serve :: "string \<Rightarrow> symbol list \<Rightarrow> app_state \<Rightarrow> http_send" where
  "serve base order st q =
     (if take (length base) (rq_url q) = base
      then Inr (respond (route order st (drop (length base) (rq_url q)) (rq_query q)))
      else Inl ''unreachable'')"

lemma option_all_points: "list_all point_ok ps \<Longrightarrow> option_all point_from_json (map point_to_json ps) = Some ps"
  by (rule option_all_map) (simp add: list_all_iff point_json)

lemma serve_price:
  assumes "\<And>p. one_price st (query_value ''symbol'' q) (query_value ''mint'' q) = Inr p \<Longrightarrow> point_ok p"
  shows "http_json (serve base order st) point_from_json \<lparr>rq_url = base @ ''/v1/price'', rq_query = q, rq_headers = []\<rparr>
    = map_err (\<lambda>e. BadStatus (case e of BadRequest \<Rightarrow> 400 | NotFound \<Rightarrow> 404))
        (one_price st (query_value ''symbol'' q) (query_value ''mint'' q))"
proof (cases "one_price st (query_value ''symbol'' q) (query_value ''mint'' q)")
  case (Inl e)
  then show ?thesis by (cases e) (simp_all add: http_json_def http_checked_def serve_def route_def)
next
  case (Inr p)
  then show ?thesis using assms point_json
    by (simp add: http_json_def http_checked_def serve_def route_def)
qed

lemma client_price_serve:
  assumes "\<And>p. one_price st (Some s) None = Inr p \<Longrightarrow> point_ok p"
  shows "(client_price (serve base order st) base s :: ('w, 'd) client_error + price_point)
    = map_err (\<lambda>e. Http (BadStatus (case e of BadRequest \<Rightarrow> 400 | NotFound \<Rightarrow> 404))) (one_price st (Some s) None)"
  using serve_price [of st "[(''symbol'', s)]" base order] assms
  by (cases "one_price st (Some s) None")
     (simp_all add: client_price_def client_request_of_def query_value_def)

lemma client_mint_serve:
  assumes "\<And>p. one_price st None (Some m) = Inr p \<Longrightarrow> point_ok p"
  shows "(client_price_by_mint (serve base order st) base m :: ('w, 'd) client_error + price_point)
    = map_err (\<lambda>e. Http (BadStatus (case e of BadRequest \<Rightarrow> 400 | NotFound \<Rightarrow> 404))) (one_price st None (Some m))"
  using serve_price [of st "[(''mint'', m)]" base order] assms
  by (cases "one_price st None (Some m)")
     (simp_all add: client_price_by_mint_def client_request_of_def query_value_def)

lemma client_lists_serve:
  assumes "list_all point_ok (app_all order st)"
  shows "(client_prices (serve base order st) base :: ('w, 'd) client_error + price_point list) = Inr (app_all order st)"
    and "(client_instruments (serve base order st) base :: ('w, 'd) client_error + instrument_info list)
      = Inr (as_instruments st)"
    and "(client_health (serve base order st) base :: ('w, 'd) client_error + unit) = Inr ()"
  using assms option_all_map [of "as_instruments st" info_from_json info_to_json]
  by (simp_all add: client_prices_def client_instruments_def client_health_def client_request_of_def http_json_def
      http_checked_def serve_def route_def option_all_points)

section \<open>A running service and its client\<close>

definition running :: "('d, 'f, 'r) numerics \<Rightarrow> ('d, 'f, 'r) engine \<Rightarrow> app_state \<Rightarrow> engine_input list \<Rightarrow> app_state" where
  "running N e st evs = snd (foldl (engine_step N) (Running e, st) evs)"

lemma keyed_updates: "keyed_points (as_prices st) \<Longrightarrow> keyed_points (as_prices (foldl app_update st ps))"
  by (induction ps arbitrary: st) (simp_all add: app_update_def keyed_insert)

lemma running_state:
  assumes "oracle_start N cfg = Inr (e, st, tasks)" and "list_all (\<lambda>c. in_i32 (cfg_expo c)) (oc_instruments cfg)"
    and "decimals_fit (decs N)" and "list_all event_typed evs"
  shows "running N e st evs = foldl app_update (app_new (List.map_filter registry_entry (oc_instruments cfg)))
      (as_broadcast (running N e st evs))"
    and "list_all point_ok (as_broadcast (running N e st evs))"
  using run_typed [OF assms] by (simp_all add: world_typed_def running_def)

lemma last_broadcast:
  "app_get (foldl app_update (app_new infos) ps) s = find (\<lambda>p. pt_symbol p = s) (rev ps)"
proof -
  have "app_get (app_new infos) s = None" by (simp add: app_get_def app_new_def)
  then show ?thesis by (simp add: app_updates_get split: option.splits)
qed

text \<open>
  Everything the service publishes is a value of the Rust types: in any run from a configuration
  and observations inside their types, every broadcast point has \<open>i128\<close> mantissas, \<open>i32\<close> exponents
  and \<open>i64\<close> times, and the price table holds only broadcast points.
\<close>

theorem published_points_typed:
  assumes "oracle_start N cfg = Inr (e, st, tasks)" and "list_all (\<lambda>c. in_i32 (cfg_expo c)) (oc_instruments cfg)"
    and "decimals_fit (decs N)" and "list_all event_typed evs"
  shows "list_all point_ok (as_broadcast (running N e st evs))
    \<and> (\<forall>s p. app_get (running N e st evs) s = Some p \<longrightarrow> p \<in> set (as_broadcast (running N e st evs)))"
  using running_state [OF assms] last_broadcast by (metis find_SomeD set_rev)

theorem published_points_typed_witness:
  "\<exists>st. list_all point_ok (as_broadcast (running rat_num sample_engine st [Ticked 1, Observed sample_point 5]))"
proof -
  obtain st where s: "oracle_start rat_num sample_config
     = Inr (sample_engine, st, [HermesTask [(''SOL/USD'', ''ef0d'')], EngineTask])"
    using sample_start by blast
  have "list_all (\<lambda>c. in_i32 (cfg_expo c)) (oc_instruments sample_config)"
    "list_all event_typed [Ticked 1, Observed sample_point 5]"
    by (simp_all add: sample_config_def sample_cfgs_def in_i32_def in_i64_def sample_point_def)
  from published_points_typed [OF s this(1) _ this(2)] rat_decimals_fit show ?thesis by auto
qed

text \<open>
  C3. What a client reads of a running service, after any sequence of observations, timer ticks and
  shutdown. By symbol it gets exactly the last point broadcast for that symbol, and status 404
  before the first; by mint the same for the instrument of that mint; the list of prices has
  one entry per symbol, each the last of its symbol; the registry and the health check answer.
\<close>

theorem client_reads_latest:
  assumes "oracle_start N cfg = Inr (e, st, tasks)" and "list_all (\<lambda>c. in_i32 (cfg_expo c)) (oc_instruments cfg)"
    and "decimals_fit (decs N)" and "list_all event_typed evs"
  shows "let now = running N e st evs;
             infos = List.map_filter registry_entry (oc_instruments cfg);
             last_of = (\<lambda>s. find (\<lambda>p. pt_symbol p = s) (rev (as_broadcast now)));
             net = serve base order now
         in client_price net base s = ok_or (last_of s) (Http (BadStatus 404) :: ('w, 'd) client_error)
          \<and> client_price_by_mint net base m = ok_or (Option.bind (find (\<lambda>i. info_mint i = Some m) (rev infos))
                (\<lambda>i. last_of (info_symbol i))) (Http (BadStatus 404) :: ('w, 'd) client_error)
          \<and> (\<exists>ps. client_prices net base = (Inr ps :: ('w, 'd) client_error + price_point list)
                \<and> distinct (map pt_symbol ps) \<and> (\<forall>p. p \<in> set ps \<longleftrightarrow> last_of (pt_symbol p) = Some p))
          \<and> client_instruments net base = (Inr infos :: ('w, 'd) client_error + instrument_info list)
          \<and> client_health net base = (Inr () :: ('w, 'd) client_error + unit)"
proof -
  let ?infos = "List.map_filter registry_entry (oc_instruments cfg)"
  define st' where "st' = running N e st evs"
  define ps where "ps = as_broadcast st'"
  have st: "st' = foldl app_update (app_new ?infos) ps" and ok: "list_all point_ok ps"
    using running_state [OF assms] by (simp_all add: st'_def ps_def)
  have get: "app_get st' s = find (\<lambda>p. pt_symbol p = s) (rev ps)" for s
    unfolding st by (rule last_broadcast)
  have table: "map_of (as_prices st') s = find (\<lambda>p. pt_symbol p = s) (rev ps)" for s
    using get [of s] by (simp add: app_get_def)
  have fine: "point_ok p" if "find (\<lambda>p. pt_symbol p = s) (rev ps) = Some p" for s p
    using ok find_SomeD [OF that] by (simp add: list_all_iff)
  have keyed: "keyed_points (as_prices st')"
    unfolding st by (rule keyed_updates) (simp add: app_new_def keyed_points_def)
  have all: "list_all point_ok (app_all order st')"
    by (auto simp: list_all_iff app_all_def set_drain table dest: fine)
  have answer: "one_price st' (Some s) None = ok_or (find (\<lambda>p. pt_symbol p = s) (rev ps)) NotFound"
    "one_price st' None (Some m) = ok_or (Option.bind (find (\<lambda>i. info_mint i = Some m) (rev ?infos))
       (\<lambda>i. find (\<lambda>p. pt_symbol p = info_symbol i) (rev ps))) NotFound" for s
    unfolding st one_price_latest by (simp_all split: option.splits)
  have "client_price (serve base order st') base s
      = ok_or (find (\<lambda>p. pt_symbol p = s) (rev ps)) (Http (BadStatus 404) :: ('w, 'd) client_error)"
    using client_price_serve [of st' s base order] fine
    by (cases "find (\<lambda>p. pt_symbol p = s) (rev ps)") (simp_all add: answer)
  moreover have "client_price_by_mint (serve base order st') base m
      = ok_or (Option.bind (find (\<lambda>i. info_mint i = Some m) (rev ?infos))
          (\<lambda>i. find (\<lambda>p. pt_symbol p = info_symbol i) (rev ps))) (Http (BadStatus 404) :: ('w, 'd) client_error)"
    using client_mint_serve [of st' m base order] fine
    by (cases "Option.bind (find (\<lambda>i. info_mint i = Some m) (rev ?infos))
          (\<lambda>i. find (\<lambda>p. pt_symbol p = info_symbol i) (rev ps))") (auto simp: answer bind_eq_Some_conv)
  moreover have "distinct (map pt_symbol (app_all order st'))"
    "\<forall>p. p \<in> set (app_all order st') \<longleftrightarrow> find (\<lambda>q. pt_symbol q = pt_symbol p) (rev ps) = Some p"
    using drain_distinct [OF keyed] set_drain_ok [OF keyed] by (simp_all add: app_all_def table)
  moreover have "as_instruments st' = ?infos" unfolding st by (simp add: app_updates_fields app_new_def)
  ultimately show ?thesis
    unfolding Let_def st'_def [symmetric] ps_def [symmetric] using client_lists_serve [OF all] by auto
qed

theorem client_reads_latest_witness:
  "\<exists>st p. client_price (serve ''http://oracle'' [] (running rat_num sample_engine st [Observed sample_point 5]))
      ''http://oracle'' ''tSOL/USD'' = (Inr p :: (unit, unit) client_error + price_point) \<and> pt_symbol p = ''tSOL/USD''"
proof -
  obtain st where s: "oracle_start rat_num sample_config
     = Inr (sample_engine, st, [HermesTask [(''SOL/USD'', ''ef0d'')], EngineTask])"
    using sample_start by blast
  then have "as_broadcast st = []" by (auto simp: oracle_start_def result_simps Let_def app_new_def)
  moreover obtain e' p q where "on_underlying rat_num sample_engine sample_point 5 = Inr (e', [p, q, q])"
    and p: "pt_symbol p = ''tSOL/USD''" "pt_symbol q = ''7pMcAg9x''"
    using sample_on_underlying by blast
  ultimately have sent: "as_broadcast (running rat_num sample_engine st [Observed sample_point 5]) = [p, q, q]"
    by (simp add: running_def engine_step_def app_update_def)
  have "list_all (\<lambda>c. in_i32 (cfg_expo c)) (oc_instruments sample_config)"
    "list_all event_typed [Observed sample_point 5]" "decimals_fit (decs rat_num)"
    by (simp_all add: sample_config_def sample_cfgs_def in_i32_def in_i64_def sample_point_def rat_decimals_fit)
  from client_reads_latest [where base = "''http://oracle''" and order = "[]" and s = "''tSOL/USD''",
      OF s this(1,3,2)]
  show ?thesis unfolding Let_def sent using p by auto
qed

section \<open>The websocket\<close>

lemma stream_run:
  "foldl stream_step (False, out) evs = (False, out)"
  by (induction evs) simp_all

text \<open>What a loop that is not interrupted writes.\<close>

fun delivered :: "ws_event \<Rightarrow> price_point list" where
  "delivered (Update p done) = [p]"
| "delivered _ = []"

fun goes_on :: "ws_event \<Rightarrow> bool" where
  "goes_on (Update p done) = done"
| "goes_on (LaggedBy n) = True"
| "goes_on ClientMessage = True"
| "goes_on _ = False"

lemma stream_writes:
  "foldl stream_step (True, out) evs =
     (list_all goes_on evs, out @ concat (map delivered (takeWhile goes_on evs)))"
proof (induction evs arbitrary: out)
  case (Cons ev evs)
  then show ?case by (cases ev) (simp_all add: stream_run)
qed simp

text \<open>
  C36. The live stream. The server writes the updates in the order they come, until a send fails, the
  channel closes or the client leaves, and nothing after that; the client reads back exactly these
  points, each as a success, when its text form is read by the parser it was written for.
\<close>

theorem stream_delivers:
  fixes parse :: "string \<Rightarrow> 'd + price_point"
  assumes "\<And>p. point_ok p \<Longrightarrow> parse (print (point_to_json p)) = Inr p"
    and "list_all point_ok (concat (map delivered evs))"
  shows "\<exists>open out. foldl stream_step (True, []) evs = (open, out)
    \<and> out = concat (map delivered (takeWhile goes_on evs)) \<and> open = list_all goes_on evs
    \<and> subscribe_stream parse (map (\<lambda>p. Inr (WsText (print (point_to_json p)))) out)
        = (map Inr out :: (('w, 'd) client_error + price_point) list)"
proof -
  let ?out = "concat (map delivered (takeWhile goes_on evs))"
  have "list_all point_ok ?out"
    using assms(2) by (auto simp: list_all_iff dest: set_takeWhileD)
  moreover have "List.map_filter (stream_item parse) (map (\<lambda>p. Inr (WsText (print (point_to_json p)))) out)
      = (map Inr out :: (('w, 'd) client_error + price_point) list)" if "list_all point_ok out" for out
    using that assms(1) by (induction out) (simp_all add: List.map_filter_simps)
  ultimately show ?thesis by (simp add: stream_writes subscribe_stream_def)
qed

text \<open>A text form for the witness: a document is the number that counts it, in unary.\<close>

instance json :: countable
  by countable_datatype

definition unary_print :: "json \<Rightarrow> string" where
  "unary_print j = replicate (to_nat j) (CHR ''1'')"

definition unary_parse :: "string \<Rightarrow> unit + price_point" where
  "unary_parse t = ok_or (point_from_json (from_nat (length t))) ()"

theorem stream_delivers_witness:
  "subscribe_stream unary_parse (map (\<lambda>p. Inr (WsText (unary_print (point_to_json p)))) [sample_point])
     = ([Inr sample_point] :: ((unit, unit) client_error + price_point) list)"
proof -
  have law: "unary_parse (unary_print (point_to_json p)) = Inr p" if "point_ok p" for p
    using that by (simp add: unary_parse_def unary_print_def point_json)
  have "point_ok sample_point" by (simp add: point_ok_def sample_point_def in_i64_def in_i128_def in_i32_def)
  then have "list_all point_ok (concat (map delivered [Update sample_point True, LaggedBy 3, ClientGone]))" by simp
  from stream_delivers [OF law this] show ?thesis by auto
qed

end
