(* ===== verification/Feed_Clients.thy ===== *)
theory Feed_Clients
  imports Feeds
begin

text \<open>
  The clients and the loops of the polled feeds: \<open>services/oracle/src/hermes.rs\<close> with
  \<open>feed_task.rs\<close>, \<open>coingecko.rs\<close>, and the second Hermes client in \<open>crates/mtm-feeds\<close>. The network is
  the parameter \<open>http_send\<close>; an answer is decoded the way \<open>serde\<close> decodes the structs, so what is
  proved of the ticks holds for any answer of any server.
\<close>

section \<open>Decoding the answers\<close>

text \<open>A field with \<open>#[serde(default)]\<close> that is not an \<open>Option\<close>: absent is the default, \<open>null\<close> an error.\<close>

definition json_default :: "string \<Rightarrow> (json \<Rightarrow> 'a option) \<Rightarrow> 'a \<Rightarrow> (string \<times> json) list \<Rightarrow> 'a option" where
  "json_default k f d fs = (if k \<in> fst ` set fs then field k fs \<bind> f else Some d)"

definition hermes_price_from_json :: "json \<Rightarrow> hermes_price option" where
  "hermes_price_from_json j = do {
     fs \<leftarrow> json_obj j;
     p \<leftarrow> field ''price'' fs \<bind> json_text;
     c \<leftarrow> field ''conf'' fs \<bind> json_text;
     e \<leftarrow> field ''expo'' fs \<bind> json_int in_i32;
     t \<leftarrow> field ''publish_time'' fs \<bind> json_int in_i64;
     Some \<lparr>hp_price = p, hp_conf = c, hp_expo = e, hp_publish_time = t\<rparr> }"

definition hermes_metadata_from_json :: "json \<Rightarrow> hermes_metadata option" where
  "hermes_metadata_from_json j = do {
     fs \<leftarrow> json_obj j;
     s \<leftarrow> field ''slot'' fs \<bind> json_opt json_u64;
     a \<leftarrow> field ''proof_available_time'' fs \<bind> json_opt (json_int in_i64);
     t \<leftarrow> field ''prev_publish_time'' fs \<bind> json_opt (json_int in_i64);
     Some \<lparr>md_slot = s, md_proof_available_time = a, md_prev_publish_time = t\<rparr> }"

definition parsed_update_from_json :: "json \<Rightarrow> parsed_update option" where
  "parsed_update_from_json j = do {
     fs \<leftarrow> json_obj j;
     i \<leftarrow> field ''id'' fs \<bind> json_text;
     p \<leftarrow> field ''price'' fs \<bind> hermes_price_from_json;
     e \<leftarrow> field ''ema_price'' fs \<bind> hermes_price_from_json;
     m \<leftarrow> field ''metadata'' fs \<bind> json_opt hermes_metadata_from_json;
     Some \<lparr>pu_id = i, pu_price = p, pu_ema = e, pu_metadata = m\<rparr> }"

record binary_data =
  bd_encoding :: string
  bd_data :: "string list"

record latest_updates =
  lu_binary :: binary_data
  lu_parsed :: "parsed_update list"

definition binary_data_from_json :: "json \<Rightarrow> binary_data option" where
  "binary_data_from_json j = do {
     fs \<leftarrow> json_obj j;
     e \<leftarrow> field ''encoding'' fs \<bind> json_text;
     d \<leftarrow> field ''data'' fs \<bind> json_list json_text;
     Some \<lparr>bd_encoding = e, bd_data = d\<rparr> }"

definition latest_from_json :: "json \<Rightarrow> latest_updates option" where
  "latest_from_json j = do {
     fs \<leftarrow> json_obj j;
     b \<leftarrow> field ''binary'' fs \<bind> binary_data_from_json;
     us \<leftarrow> json_default ''parsed'' (json_list parsed_update_from_json) [] fs;
     Some \<lparr>lu_binary = b, lu_parsed = us\<rparr> }"

text \<open>
  How a JSON number reads as \<open>f64\<close> is a parameter. A map keeps the last of two equal keys.
\<close>

definition cg_quote_from_json :: "(json \<Rightarrow> 'f option) \<Rightarrow> json \<Rightarrow> 'f cg_quote option" where
  "cg_quote_from_json read_f64 j = do {
     fs \<leftarrow> json_obj j;
     u \<leftarrow> field ''usd'' fs \<bind> read_f64;
     t \<leftarrow> field ''last_updated_at'' fs \<bind> json_opt (json_int in_i64);
     Some \<lparr>cg_usd = u, cg_last_updated_at = t\<rparr> }"

definition cg_quotes_from_json :: "(json \<Rightarrow> 'f option) \<Rightarrow> json \<Rightarrow> (string \<rightharpoonup> 'f cg_quote) option" where
  "cg_quotes_from_json read_f64 j = do {
     fs \<leftarrow> json_obj j;
     qs \<leftarrow> option_all (\<lambda>(k, v). map_option (Pair k) (cg_quote_from_json read_f64 v)) fs;
     Some (map_of (rev qs)) }"

text \<open>The combined stream's envelope; \<open>Frame\<close> carries what this makes of a text message.\<close>

definition book_ticker_from_json :: "json \<Rightarrow> book_ticker option" where
  "book_ticker_from_json j = do {
     fs \<leftarrow> json_obj j;
     u \<leftarrow> field ''u'' fs \<bind> json_u64;
     b \<leftarrow> field ''b'' fs \<bind> json_text;
     bq \<leftarrow> field ''B'' fs \<bind> json_text;
     a \<leftarrow> field ''a'' fs \<bind> json_text;
     aq \<leftarrow> field ''A'' fs \<bind> json_text;
     Some \<lparr>bt_update_id = u, bt_bid = b, bt_bid_qty = bq, bt_ask = a, bt_ask_qty = aq\<rparr> }"

definition stream_message_from_json :: "json \<Rightarrow> (string \<times> book_ticker) option" where
  "stream_message_from_json j = do {
     fs \<leftarrow> json_obj j;
     s \<leftarrow> field ''stream'' fs \<bind> json_text;
     d \<leftarrow> field ''data'' fs \<bind> book_ticker_from_json;
     Some (s, d) }"

section \<open>The Hermes client\<close>

record hermes_config =
  hermes_base_url :: string
  hermes_poll_ms :: u64
  hermes_api_key :: "string option"

record hermes_client =
  hc_agent :: "string option"
  hc_base_url :: string
  hc_api_key :: "string option"

definition user_agent :: string where
  "user_agent = ''mtm-oracle/0.1.0''"

text \<open>\<open>built\<close>: whether the builder made a client; the default one sends no user agent of its own.\<close>

definition hermes_client_new :: "bool \<Rightarrow> string \<Rightarrow> string option \<Rightarrow> hermes_client" where
  "hermes_client_new built base key =
     \<lparr>hc_agent = (if built then Some user_agent else None), hc_base_url = trim_end_slash base,
      hc_api_key = api_key_filter key\<rparr>"

definition optional_header :: "string \<Rightarrow> string \<Rightarrow> string option \<Rightarrow> (string \<times> string) list" where
  "optional_header name prefix v = (case v of None \<Rightarrow> [] | Some s \<Rightarrow> [(name, prefix @ s)])"

definition hermes_request :: "hermes_client \<Rightarrow> string list \<Rightarrow> http_request" where
  "hermes_request c ids =
     \<lparr>rq_url = hc_base_url c @ ''/v2/updates/price/latest'', rq_query = hermes_query ids,
      rq_headers = optional_header ''user-agent'' [] (hc_agent c)
        @ optional_header ''authorization'' ''Bearer '' (hc_api_key c)\<rparr>"

definition latest_price_updates ::
    "http_send \<Rightarrow> hermes_client \<Rightarrow> string list \<Rightarrow> hermes_error + latest_updates" where
  "latest_price_updates send c ids = map_err HermesHttp (http_json send latest_from_json (hermes_request c ids))"

text \<open>The client of \<open>crates/mtm-feeds\<close>: no key, no user agent, no metadata.\<close>

definition feeds_client_new :: "string \<Rightarrow> string" where
  "feeds_client_new base = trim_end_slash base"

definition feeds_request :: "string \<Rightarrow> string list \<Rightarrow> http_request" where
  "feeds_request base ids =
     \<lparr>rq_url = base @ ''/v2/updates/price/latest'', rq_query = hermes_query ids, rq_headers = []\<rparr>"

definition feeds_update_from_json :: "json \<Rightarrow> parsed_update option" where
  "feeds_update_from_json j = do {
     fs \<leftarrow> json_obj j;
     i \<leftarrow> field ''id'' fs \<bind> json_text;
     p \<leftarrow> field ''price'' fs \<bind> hermes_price_from_json;
     e \<leftarrow> field ''ema_price'' fs \<bind> hermes_price_from_json;
     Some \<lparr>pu_id = i, pu_price = p, pu_ema = e, pu_metadata = None\<rparr> }"

definition feeds_from_json :: "json \<Rightarrow> latest_updates option" where
  "feeds_from_json j = do {
     fs \<leftarrow> json_obj j;
     b \<leftarrow> field ''binary'' fs \<bind> binary_data_from_json;
     us \<leftarrow> json_default ''parsed'' (json_list feeds_update_from_json) [] fs;
     Some \<lparr>lu_binary = b, lu_parsed = us\<rparr> }"

definition feeds_latest :: "http_send \<Rightarrow> string \<Rightarrow> string list \<Rightarrow> hermes_error + latest_updates" where
  "feeds_latest send base ids = map_err HermesHttp (http_json send feeds_from_json (feeds_request base ids))"

section \<open>The CoinGecko client\<close>

record coingecko_config =
  cg_base_url :: string
  cg_poll_ms :: u64
  cg_api_key :: "string option"

definition coingecko_default :: coingecko_config where
  "coingecko_default = \<lparr>cg_base_url = ''https://api.coingecko.com/api/v3'', cg_poll_ms = 300000, cg_api_key = None\<rparr>"

record coingecko_client =
  cc_agent :: "string option"
  cc_base_url :: string
  cc_api_key :: "string option"

definition coingecko_client_new :: "bool \<Rightarrow> coingecko_config \<Rightarrow> coingecko_client" where
  "coingecko_client_new built cfg =
     \<lparr>cc_agent = (if built then Some user_agent else None), cc_base_url = trim_end_slash (cg_base_url cfg),
      cc_api_key = api_key_filter (cg_api_key cfg)\<rparr>"

definition coingecko_request :: "coingecko_client \<Rightarrow> string list \<Rightarrow> http_request" where
  "coingecko_request c ids =
     \<lparr>rq_url = cc_base_url c @ ''/simple/price'', rq_query = coingecko_query ids,
      rq_headers = optional_header ''user-agent'' [] (cc_agent c)
        @ optional_header ''x-cg-demo-api-key'' [] (cc_api_key c)\<rparr>"

definition simple_price ::
    "(json \<Rightarrow> 'f option) \<Rightarrow> http_send \<Rightarrow> coingecko_client \<Rightarrow> string list
      \<Rightarrow> http_error + (string \<rightharpoonup> 'f cg_quote)" where
  "simple_price read_f64 send c ids = http_json send (cg_quotes_from_json read_f64) (coingecko_request c ids)"

section \<open>The polling loops\<close>

text \<open>
  One round: what the network answers at this tick of the interval, and for the \<open>i\<close>-th item of the
  answer the clock reading and whether the engine's channel takes the tick. The result is what
  was sent and whether the task is still alive. \<open>accepts\<close> stands for \<open>tokio::time::interval\<close>, which
  panics on a period it does not accept.
\<close>

type_synonym poll_round = "http_send \<times> (nat \<Rightarrow> int \<times> bool)"

definition timed_items :: "(nat \<Rightarrow> int \<times> bool) \<Rightarrow> 'a list \<Rightarrow> ('a \<times> int \<times> bool) list" where
  "timed_items clk xs = map (\<lambda>(i, x). (x, clk i)) (enumerate 0 xs)"

fun hermes_rounds ::
    "hermes_client \<Rightarrow> string list \<Rightarrow> (string \<rightharpoonup> symbol) \<Rightarrow> poll_round list \<Rightarrow> price_point list \<times> bool" where
  "hermes_rounds c ids syms [] = ([], True)"
| "hermes_rounds c ids syms ((send, clk) # rs) =
     (case latest_price_updates send c ids of
        Inl _ \<Rightarrow> hermes_rounds c ids syms rs
      | Inr us \<Rightarrow>
          (let (ps, alive) = hermes_poll syms (timed_items clk (lu_parsed us)) in
           if alive then (let (qs, alive') = hermes_rounds c ids syms rs in (ps @ qs, alive'))
           else (ps, False)))"

definition hermes_task ::
    "(u64 \<Rightarrow> bool) \<Rightarrow> bool \<Rightarrow> hermes_config \<Rightarrow> provider_feeds \<Rightarrow> poll_round list
      \<Rightarrow> (price_point list \<times> bool) maybe" where
  "hermes_task accepts built cfg feeds rounds =
     (let c = hermes_client_new built (hermes_base_url cfg) (hermes_api_key cfg);
          ids = map (\<lambda>(_, i). normalize_feed_id i) feeds;
          syms = hermes_symbols feeds
      in if \<not> accepts (hermes_poll_ms cfg) then Inl Panic
         else Inr (hermes_rounds c ids syms rounds))"

fun coingecko_rounds ::
    "'f f64_ops \<Rightarrow> (json \<Rightarrow> 'f option) \<Rightarrow> coingecko_client \<Rightarrow> provider_feeds \<Rightarrow> poll_round list
      \<Rightarrow> price_point list \<times> bool" where
  "coingecko_rounds F read_f64 c feeds [] = ([], True)"
| "coingecko_rounds F read_f64 c feeds ((send, clk) # rs) =
     (case simple_price read_f64 send c (map snd feeds) of
        Inl _ \<Rightarrow> coingecko_rounds F read_f64 c feeds rs
      | Inr quotes \<Rightarrow>
          (let (ps, alive) = coingecko_poll F quotes (timed_items clk feeds) in
           if alive then (let (qs, alive') = coingecko_rounds F read_f64 c feeds rs in (ps @ qs, alive'))
           else (ps, False)))"

definition coingecko_task ::
    "'f f64_ops \<Rightarrow> (json \<Rightarrow> 'f option) \<Rightarrow> (u64 \<Rightarrow> bool) \<Rightarrow> bool \<Rightarrow> coingecko_config \<Rightarrow> provider_feeds
      \<Rightarrow> poll_round list \<Rightarrow> (price_point list \<times> bool) maybe" where
  "coingecko_task F read_f64 accepts built cfg feeds rounds =
     (if \<not> accepts (cg_poll_ms cfg) then Inl Panic
      else Inr (coingecko_rounds F read_f64 (coingecko_client_new built cfg) feeds rounds))"

section \<open>What a polling loop guarantees\<close>

text \<open>
  Both polled feeds run the same loop; its contract: what is forwarded from a decoded answer is
  good. \<open>fits\<close> is what a clock reading satisfies.
\<close>

locale polled_feed =
  fixes fetch :: "http_send \<Rightarrow> 'e + 'u"
    and forward :: "'u \<Rightarrow> (nat \<Rightarrow> int \<times> bool) \<Rightarrow> price_point list \<times> bool"
    and run :: "poll_round list \<Rightarrow> price_point list \<times> bool"
    and good :: "price_point \<Rightarrow> bool"
  assumes run_Nil: "run [] = ([], True)"
    and run_Cons: "run (r # rs) =
      (case fetch (fst r) of Inl _ \<Rightarrow> run rs
       | Inr u \<Rightarrow> (let (ps, alive) = forward u (snd r) in
           if alive then (let (qs, alive') = run rs in (ps @ qs, alive')) else (ps, False)))"
    and forward_good: "fetch send = Inr u \<Longrightarrow> (\<And>i. in_i64 (fst (clk i))) \<Longrightarrow>
      p \<in> set (fst (forward u clk)) \<Longrightarrow> good p"
begin

lemma run_good:
  "\<forall>r \<in> set rs. \<forall>i. in_i64 (fst (snd r i)) \<Longrightarrow> p \<in> set (fst (run rs)) \<Longrightarrow> good p"
proof (induction rs)
  case (Cons r rs)
  then show ?case
    using forward_good [of "fst r" _ "snd r" p]
    by (auto simp: run_Cons split: sum.splits prod.splits if_splits)
qed (simp add: run_Nil)

lemma run_failed_round: "fetch (fst r) = Inl e \<Longrightarrow> run (xs @ r # ys) = run (xs @ ys)"
proof (induction xs)
  case (Cons x xs)
  assume "fetch (fst r) = Inl e"
  with Cons.IH have "run (xs @ r # ys) = run (xs @ ys)" by simp
  then show ?case unfolding append_Cons run_Cons [of x] by (rule arg_cong)
qed (simp add: run_Cons)

lemma run_stopped: "\<not> snd (run xs) \<Longrightarrow> run (xs @ ys) = run xs"
  by (induction xs) (auto simp: run_Nil run_Cons split: sum.splits prod.splits if_splits)

end

section \<open>Decoded answers are typed\<close>

definition hermes_price_ok :: "hermes_price \<Rightarrow> bool" where
  "hermes_price_ok h \<longleftrightarrow> in_i32 (hp_expo h) \<and> in_i64 (hp_publish_time h)"

lemma option_all_members: "option_all f xs = Some ys \<Longrightarrow> y \<in> set ys \<Longrightarrow> \<exists>x \<in> set xs. f x = Some y"
  by (induction xs arbitrary: ys) (auto split: option.splits)

lemma json_int_range: "json_int P j = Some n \<Longrightarrow> P n"
  by (cases j) (simp_all split: if_splits)

lemma json_opt_range: "json_opt f j = Some m \<Longrightarrow> (\<And>i x. f i = Some x \<Longrightarrow> P x) \<Longrightarrow> opt_ok P m"
  by (cases j) auto

lemma hermes_price_from_json_ok: "hermes_price_from_json j = Some h \<Longrightarrow> hermes_price_ok h"
  by (auto simp: hermes_price_from_json_def hermes_price_ok_def bind_eq_Some_conv dest: json_int_range)

lemma parsed_update_from_json_ok:
  "parsed_update_from_json j = Some u \<Longrightarrow> hermes_price_ok (pu_price u) \<and> hermes_price_ok (pu_ema u)"
  by (auto simp: parsed_update_from_json_def bind_eq_Some_conv dest: hermes_price_from_json_ok)

lemma latest_from_json_ok:
  assumes "latest_from_json j = Some l" and "u \<in> set (lu_parsed l)"
  shows "hermes_price_ok (pu_price u) \<and> hermes_price_ok (pu_ema u)"
proof -
  obtain fs where "json_default ''parsed'' (json_list parsed_update_from_json) [] fs = Some (lu_parsed l)"
    using assms(1) by (auto simp: latest_from_json_def bind_eq_Some_conv)
  then obtain v where "json_list parsed_update_from_json v = Some (lu_parsed l)"
    using assms(2) by (auto simp: json_default_def bind_eq_Some_conv split: if_splits)
  then show ?thesis using assms(2) option_all_members parsed_update_from_json_ok by (cases v) fastforce+
qed

lemma latest_price_updates_ok:
  "latest_price_updates send c ids = Inr l \<Longrightarrow> u \<in> set (lu_parsed l) \<Longrightarrow>
    hermes_price_ok (pu_price u) \<and> hermes_price_ok (pu_ema u)"
  using latest_from_json_ok
  by (auto simp: latest_price_updates_def http_json_def result_simps ok_or_def bind_eq_Some_conv split: option.splits)

lemma uint_u64_fits: "in_i128 (uint (w :: u64))"
proof -
  have "uint w < 18446744073709551616" "0 \<le> uint w" using uint_lt2p [of w] by simp_all
  then show ?thesis unfolding in_i128_def by linarith
qed

lemma in_i64_i128: "in_i64 n \<Longrightarrow> in_i128 n"
  by (simp add: in_i64_def in_i128_def)

lemma hermes_price_typed:
  "hermes_price_ok h \<Longrightarrow> hermes_price_of h = Inr p \<Longrightarrow> price_ok p"
  "hermes_price_ok h \<Longrightarrow> hermes_conf_of h = Inr p \<Longrightarrow> price_ok p"
  by (auto simp: hermes_price_of_def hermes_conf_of_def hermes_price_ok_def result_simps from_pyth_def
      uint_u64_fits in_i64_i128 dest: parse_i64_range)

lemma opt_ok_ok: "(\<And>x. r = Inr x \<Longrightarrow> P x) \<Longrightarrow> opt_ok P (ok r)"
  by (cases r) simp_all

section \<open>Ticks\<close>

text \<open>A good tick of a provider: typed, of a configured symbol, and marked with its source.\<close>

definition good_tick :: "price_source \<Rightarrow> provider_feeds \<Rightarrow> price_point \<Rightarrow> bool" where
  "good_tick src feeds p \<longleftrightarrow> point_ok p \<and> pt_symbol p \<in> fst ` set feeds \<and> pt_source p = src"

lemma symbols_configured: "map_of (rev (map (\<lambda>(s, i). (f i, s)) feeds)) k = Some s \<Longrightarrow> s \<in> fst ` set feeds"
  by (force dest: map_of_SomeD)

lemma hermes_tick_good:
  assumes "hermes_tick (hermes_symbols feeds) u now = Some p" and "in_i64 now"
    and "hermes_price_ok (pu_price u) \<and> hermes_price_ok (pu_ema u)"
  shows "good_tick PythHermes feeds p"
proof -
  obtain s q where s: "hermes_symbols feeds (normalize_feed_id (pu_id u)) = Some s"
    and q: "hermes_price_of (pu_price u) = Inr q"
    and p: "p = \<lparr>pt_symbol = s,
       pt_data = Aggregate q (ok (hermes_conf_of (pu_price u))) (ok (hermes_price_of (pu_ema u))),
       pt_publish_us = Some (hermes_publish_time_us (pu_price u)), pt_received_us = now,
       pt_slot = Option.bind (pu_metadata u) md_slot, pt_source = PythHermes\<rparr>"
    using assms(1) by (auto simp: hermes_tick_def split: option.splits sum.splits)
  have "opt_ok price_ok (ok (hermes_conf_of (pu_price u)))" "opt_ok price_ok (ok (hermes_price_of (pu_ema u)))"
    using assms(3) by (blast intro: opt_ok_ok hermes_price_typed)+
  moreover have "price_ok q" using assms(3) q by (blast intro: hermes_price_typed)
  ultimately show ?thesis using assms(2) symbols_configured [OF s [unfolded hermes_symbols_def]]
    by (simp add: good_tick_def p point_ok_def hermes_publish_time_us_def)
qed

lemma hermes_poll_from_ticks:
  "p \<in> set (fst (hermes_poll syms us)) \<Longrightarrow> \<exists>u now sent. (u, now, sent) \<in> set us \<and> hermes_tick syms u now = Some p"
  by (induction syms us rule: hermes_poll.induct)
     (auto split: option.splits if_splits prod.splits)

lemma timed_items_members: "(x, now, sent) \<in> set (timed_items clk xs) \<Longrightarrow> x \<in> set xs \<and> (\<exists>i. clk i = (now, sent))"
  by (auto simp: timed_items_def in_set_enumerate_eq)

interpretation hermes_feed: polled_feed
  "\<lambda>send. latest_price_updates send c ids"
  "\<lambda>l clk. hermes_poll (hermes_symbols feeds) (timed_items clk (lu_parsed l))"
  "hermes_rounds c ids (hermes_symbols feeds)"
  "good_tick PythHermes feeds"
  for c ids feeds
proof (unfold_locales, goal_cases)
  case (2 r rs)
  obtain send clk where r: "r = (send, clk)" by fastforce
  show ?case unfolding r fst_conv snd_conv hermes_rounds.simps ..
next
  case (3 send l clk p)
  from hermes_poll_from_ticks [OF 3(3)] obtain u now sent where
    "(u, now, sent) \<in> set (timed_items clk (lu_parsed l))" and t: "hermes_tick (hermes_symbols feeds) u now = Some p"
    by blast
  with timed_items_members [OF this(1)] 3(2) have "u \<in> set (lu_parsed l)" "in_i64 now"
    by (metis fst_conv)+
  then show ?case using hermes_tick_good [OF t] latest_price_updates_ok [OF 3(1)] by blast
qed simp

text \<open>
  The clock all tasks read (\<open>mtm-common/src/time.rs\<close>): the microseconds since the epoch cast to \<open>i64\<close>
  (a cast keeps the low bits), or 0 when the system clock is before it. It is always an \<open>i64\<close>, which
  is what the properties ask of a clock reading.
\<close>

definition now_us :: "nat option \<Rightarrow> int" where
  "now_us since_epoch = (case since_epoch of None \<Rightarrow> 0 | Some us \<Rightarrow> sint (of_nat us :: 64 word))"

lemma now_us_fits: "in_i64 (now_us d)"
proof (cases d)
  case (Some us)
  show ?thesis using sint_ge [of "of_nat us :: 64 word"] sint_lt [of "of_nat us :: 64 word"]
    by (simp add: Some now_us_def in_i64_def)
qed (simp add: now_us_def in_i64_def)

lemma now_us_exact:
  assumes "int us < 2 ^ 63"
  shows "now_us (Some us) = int us"
proof -
  have "signed_take_bit 63 (int us) = int us" using assms by (intro signed_take_bit_int_eq_self) simp_all
  then show ?thesis by (simp add: now_us_def signed_of_nat)
qed

text \<open>Rust's cast of a float to \<open>i128\<close> saturates.\<close>

definition f64_saturates :: "'f f64_ops \<Rightarrow> bool" where
  "f64_saturates F \<longleftrightarrow> (\<forall>x. in_i128 (f_to_i128 F x))"

lemma from_f64_lossy_typed: "f64_saturates F \<Longrightarrow> in_i32 e \<Longrightarrow> from_f64_lossy F v e = Inr p \<Longrightarrow> price_ok p"
  by (auto simp: from_f64_lossy_def f64_saturates_def Let_def split: if_splits)

lemma coingecko_tick_good:
  assumes "coingecko_tick F quotes si now = Some p" and "in_i64 now" and "f64_saturates F" and "si \<in> set feeds"
  shows "good_tick CoinGecko feeds p"
  using assms from_f64_lossy_typed [OF assms(3), of "- 8"]
  by (auto simp: coingecko_tick_def good_tick_def point_ok_def in_i32_def opt_ok_def
      split: option.splits sum.splits)

lemma coingecko_poll_from_ticks:
  "p \<in> set (fst (coingecko_poll F quotes fs)) \<Longrightarrow>
    \<exists>si now sent. (si, now, sent) \<in> set fs \<and> coingecko_tick F quotes si now = Some p"
  by (induction F quotes fs rule: coingecko_poll.induct)
     (auto split: option.splits if_splits prod.splits)

interpretation coingecko_feed: polled_feed
  "\<lambda>send. simple_price read_f64 send c (map snd feeds)"
  "\<lambda>quotes clk. coingecko_poll F quotes (timed_items clk feeds)"
  "coingecko_rounds F read_f64 c feeds"
  "\<lambda>p. f64_saturates F \<longrightarrow> good_tick CoinGecko feeds p"
  for F read_f64 c feeds
proof (unfold_locales, goal_cases)
  case (2 r rs)
  obtain send clk where r: "r = (send, clk)" by fastforce
  show ?case unfolding r fst_conv snd_conv coingecko_rounds.simps ..
next
  case (3 send quotes clk p)
  from coingecko_poll_from_ticks [OF 3(3)] obtain si now sent where
    "(si, now, sent) \<in> set (timed_items clk feeds)" and t: "coingecko_tick F quotes si now = Some p"
    by blast
  with timed_items_members [OF this(1)] 3(2) have "si \<in> set feeds" "in_i64 now"
    by (metis fst_conv)+
  then show ?case using coingecko_tick_good [OF t] by blast
qed simp

section \<open>The Binance task\<close>

fun binance_tick_ok :: "provider_feeds \<Rightarrow> binance_task \<times> price_point list \<Rightarrow> bool" where
  "binance_tick_ok feeds (Connected latest, sent) \<longleftrightarrow>
     list_all (good_tick Binance feeds \<circ> snd) latest \<and> list_all (good_tick Binance feeds) sent"
| "binance_tick_ok feeds (_, sent) \<longleftrightarrow> list_all (good_tick Binance feeds) sent"

fun frame_clock_ok :: "binance_event \<Rightarrow> bool" where
  "frame_clock_ok (Frame m now) \<longleftrightarrow> in_i64 now"
| "frame_clock_ok _ \<longleftrightarrow> True"

lemma to_price_data_ok: "to_price_data b = Some d \<Longrightarrow> data_ok d"
  by (auto simp: to_price_data_def bind_eq_Some_conv ok_Some dest: from_str_sound)

lemma book_insert_good: "list_all (P \<circ> snd) latest \<Longrightarrow> P p \<Longrightarrow> list_all (P \<circ> snd) (book_insert latest s p)"
  unfolding book_insert_def by (induction latest) auto

lemma on_frame_good:
  assumes "list_all (good_tick Binance feeds \<circ> snd) latest" and "in_i64 now"
  shows "list_all (good_tick Binance feeds \<circ> snd) (on_frame (binance_streams feeds) latest msg now)"
proof -
  have "good_tick Binance feeds (binance_point s d now)"
    if "binance_streams feeds stream = Some s" "to_price_data b = Some d" for stream s b d
    using symbols_configured [OF that(1) [unfolded binance_streams_def]] to_price_data_ok [OF that(2)] assms(2)
    by (simp add: good_tick_def binance_point_def point_ok_def)
  with assms(1) show ?thesis
    by (auto simp: on_frame_def intro: book_insert_good split: option.splits prod.splits)
qed

lemma drain_good: "list_all (P \<circ> snd) latest \<Longrightarrow> list_all P (drain order latest)"
  by (fastforce simp: list_all_iff set_drain dest: map_of_SomeD)

interpretation binance_ticks: stepper "binance_step (binance_streams feeds)" "binance_tick_ok feeds" frame_clock_ok
  for feeds
proof (unfold_locales, goal_cases)
  case (1 ts ev)
  obtain task sent where ts: "ts = (task, sent)" by fastforce
  show ?case
  proof (cases task)
    case (Connected latest)
    have latest: "list_all (good_tick Binance feeds \<circ> snd) latest" and s: "list_all (good_tick Binance feeds) sent"
      using 1(1) by (simp_all add: ts Connected)
    have d: "list_all (good_tick Binance feeds) (drain order latest)" for order
      using latest by (rule drain_good)
    show ?thesis
    proof (cases ev)
      case (Frame m now)
      then show ?thesis using on_frame_good [OF latest] s 1(2) by (simp add: ts Connected binance_step_def)
    next
      case (Flush order fails)
      have "list_all (good_tick Binance feeds) (take k (drain order latest))" for k
        using d [of order] unfolding list_all_iff by (blast dest: in_set_takeD)
      then show ?thesis using d [of order] s
        by (cases fails) (simp_all add: ts Connected Flush binance_step_def Let_def)
    qed (simp_all add: ts Connected binance_step_def latest s)
  qed (use 1 in \<open>simp_all add: ts binance_step_def\<close>)
qed

section \<open>Failures of a feed\<close>

text \<open>
  C38. A poll that fails (no response, an error status, a body that does not decode) costs a polled feed
  that poll and nothing else: the task goes on as if the round had not been. Once the engine is
  gone the task is over, and no later round sends anything.
\<close>

theorem failed_polls_skipped:
  assumes "latest_price_updates send c ids = Inl err" and "simple_price read_f64 send' c' (map snd feeds) = Inl err'"
  shows "hermes_rounds c ids (hermes_symbols feeds) (xs @ (send, clk) # ys)
       = hermes_rounds c ids (hermes_symbols feeds) (xs @ ys)
    \<and> coingecko_rounds F read_f64 c' feeds (xs' @ (send', clk') # ys')
       = coingecko_rounds F read_f64 c' feeds (xs' @ ys')
    \<and> (\<not> snd (hermes_rounds c ids (hermes_symbols feeds) xs) \<longrightarrow>
         hermes_rounds c ids (hermes_symbols feeds) (xs @ ys) = hermes_rounds c ids (hermes_symbols feeds) xs)
    \<and> (\<not> snd (coingecko_rounds F read_f64 c' feeds xs') \<longrightarrow>
         coingecko_rounds F read_f64 c' feeds (xs' @ ys') = coingecko_rounds F read_f64 c' feeds xs')"
  using hermes_feed.run_failed_round [of "(send, clk)" c ids err feeds xs ys]
    coingecko_feed.run_failed_round [of read_f64 "(send', clk')" c' feeds err' F xs' ys']
    hermes_feed.run_stopped [of c ids feeds xs ys] coingecko_feed.run_stopped [of F read_f64 c' feeds xs' ys']
    assms by simp

definition sample_answer :: "string \<Rightarrow> json" where
  "sample_answer i = JObj [(''binary'', JObj [(''encoding'', JText ''base64''), (''data'', JList [])]),
     (''parsed'', JList [JObj [(''id'', JText i),
        (''price'', JObj [(''price'', JText ''9755868041''), (''conf'', JText ''4306041''),
           (''expo'', JNum (- 8)), (''publish_time'', JNum 1787678802)]),
        (''ema_price'', JObj [(''price'', JText ''9755868041''), (''conf'', JText ''4306041''),
           (''expo'', JNum (- 8)), (''publish_time'', JNum 1787678802)])]])]"

definition answers :: "json \<Rightarrow> http_send" where
  "answers j q = Inr \<lparr>rs_status = 200, rs_body = Some j\<rparr>"

definition busy :: http_send where
  "busy q = Inr \<lparr>rs_status = 503, rs_body = None\<rparr>"

definition sample_feed :: hermes_client where
  "sample_feed = hermes_client_new True ''https://hermes.pyth.network/'' (Some [])"

lemma busy_fails:
  "latest_price_updates busy c ids = Inl (HermesHttp (BadStatus 503))"
  "simple_price read_f64 busy c' ids' = Inl (BadStatus 503)"
  by (simp_all add: latest_price_updates_def simple_price_def http_json_def http_checked_def busy_def)

definition sample_tick :: price_point where
  "sample_tick = \<lparr>pt_symbol = ''SOL/USD'', pt_data = Aggregate (new_price 9755868041 (- 8))
       (Some (new_price 4306041 (- 8))) (Some (new_price 9755868041 (- 8))),
     pt_publish_us = Some 1787678802000000, pt_received_us = 7, pt_slot = None, pt_source = PythHermes\<rparr>"

lemma sample_texts:
  "parse_i64 ''9755868041'' = Some 9755868041" "parse_u64 ''4306041'' = Some 4306041"
  "normalize_feed_id ''ef0d'' = ''ef0d''"
proof -
  have "show_int 9755868041 = ''9755868041''" "show_nat 4306041 = ''4306041''" by (simp_all add: show_eval)
  then show "parse_i64 ''9755868041'' = Some 9755868041" "parse_u64 ''4306041'' = Some 4306041"
    using parse_i64_show_int [of 9755868041] parse_u64_show_nat [of 4306041] by (simp_all add: in_i64_def)
  show "normalize_feed_id ''ef0d'' = ''ef0d''" by code_simp
qed

lemma sample_decoded:
  "latest_price_updates (answers (sample_answer i)) c ids = Inr
     \<lparr>lu_binary = \<lparr>bd_encoding = ''base64'', bd_data = []\<rparr>, lu_parsed =
       [\<lparr>pu_id = i, pu_price = \<lparr>hp_price = ''9755868041'', hp_conf = ''4306041'', hp_expo = - 8,
            hp_publish_time = 1787678802\<rparr>,
         pu_ema = \<lparr>hp_price = ''9755868041'', hp_conf = ''4306041'', hp_expo = - 8,
            hp_publish_time = 1787678802\<rparr>, pu_metadata = None\<rparr>]\<rparr>"
  by (simp add: latest_price_updates_def http_json_def http_checked_def answers_def sample_answer_def
      latest_from_json_def binary_data_from_json_def json_default_def parsed_update_from_json_def
      hermes_price_from_json_def field_def in_i32_def in_i64_def)

lemma sample_round:
  assumes "hermes_symbols feeds (normalize_feed_id i) = Some ''SOL/USD''"
  shows "hermes_rounds c ids (hermes_symbols feeds) [(answers (sample_answer i), \<lambda>_. (7, True))] = ([sample_tick], True)"
  using assms
  by (simp add: sample_decoded timed_items_def hermes_tick_def sample_texts sample_tick_def
      hermes_price_of_def hermes_conf_of_def from_pyth_def hermes_publish_time_us_def
      saturating_mul_i64_exact in_i64_def)

theorem failed_polls_skipped_witness:
  "hermes_rounds sample_feed [''ef0d''] (hermes_symbols [(''SOL/USD'', ''ef0d'')])
     [(busy, \<lambda>_. (7, True)), (answers (sample_answer ''ef0d''), \<lambda>_. (7, True))] = ([sample_tick], True)"
proof -
  let ?rounds = "hermes_rounds sample_feed [''ef0d''] (hermes_symbols [(''SOL/USD'', ''ef0d'')])"
  from failed_polls_skipped [OF busy_fails, where xs = "[]" and ys = "[(answers (sample_answer ''ef0d''), \<lambda>_. (7, True))]"
      and feeds = "[(''SOL/USD'', ''ef0d'')]" and c = sample_feed and ids = "[''ef0d'']" and clk = "\<lambda>_. (7, True)"]
  have "?rounds ([] @ (busy, \<lambda>_. (7, True)) # [(answers (sample_answer ''ef0d''), \<lambda>_. (7, True))])
      = ?rounds ([] @ [(answers (sample_answer ''ef0d''), \<lambda>_. (7, True))])" by blast
  moreover have "hermes_symbols [(''SOL/USD'', ''ef0d'')] (normalize_feed_id ''ef0d'') = Some ''SOL/USD''"
    by (simp add: hermes_symbols_def)
  ultimately show ?thesis using sample_round by simp
qed

text \<open>
  Neither configuration bounds the interval from below. When the timer refuses a period of zero
  (\<open>tokio\<close>'s panics), a zero kills the spawned feed before its first poll.
\<close>

theorem zero_interval_stops_feed:
  assumes "\<not> accepts 0" and "hermes_poll_ms cfg = 0" and "cg_poll_ms cfg' = 0"
  shows "hermes_task accepts b cfg feeds rounds = Inl Panic
    \<and> coingecko_task F read_f64 accepts b cfg' feeds rounds = Inl Panic"
  using assms by (simp add: hermes_task_def coingecko_task_def)

theorem zero_interval_stops_feed_witness:
  "hermes_task (\<lambda>d. d \<noteq> 0) True \<lparr>hermes_base_url = [], hermes_poll_ms = 0, hermes_api_key = None\<rparr> [] []
     = Inl Panic"
  by (rule conjunct1 [OF zero_interval_stops_feed [where cfg' = "coingecko_default\<lparr>cg_poll_ms := 0\<rparr>"]]) simp_all

end
