(* ===== verification/Feed_Agreement.thy ===== *)
theory Feed_Agreement
  imports Feed_Clients
begin

text \<open>
  The workspace has two Hermes clients, one in \<open>crates/mtm-feeds\<close> and one in the oracle service. What
  the second reads, the first reads as well.
\<close>

text \<open>An update as the client of \<open>mtm-feeds\<close> sees it: without the metadata.\<close>

definition without_metadata :: "parsed_update \<Rightarrow> parsed_update" where
  "without_metadata u = u\<lparr>pu_metadata := None\<rparr>"

lemma option_all_cong_map:
  assumes "\<And>x y. f x = Some y \<Longrightarrow> g x = Some (h y)"
  shows "option_all f xs = Some ys \<Longrightarrow> option_all g xs = Some (map h ys)"
  using assms by (induction xs arbitrary: ys) (auto split: option.splits)

lemma feeds_update_agrees:
  "parsed_update_from_json j = Some u \<Longrightarrow> feeds_update_from_json j = Some (without_metadata u)"
  by (auto simp: parsed_update_from_json_def feeds_update_from_json_def without_metadata_def bind_eq_Some_conv)

lemma feeds_from_agrees:
  assumes "latest_from_json j = Some l"
  shows "feeds_from_json j = Some (l\<lparr>lu_parsed := map without_metadata (lu_parsed l)\<rparr>)"
proof -
  have step: "json_list feeds_update_from_json v = Some (map without_metadata us)"
    if "json_list parsed_update_from_json v = Some us" for v us
    using that option_all_cong_map [OF feeds_update_agrees] by (cases v) auto
  have parsed: "json_default ''parsed'' (json_list feeds_update_from_json) [] fs = Some (map without_metadata us)"
    if "json_default ''parsed'' (json_list parsed_update_from_json) [] fs = Some us" for fs us
    using that step by (auto simp: json_default_def bind_eq_Some_conv split: if_splits)
  show ?thesis using assms parsed
    by (fastforce simp: latest_from_json_def feeds_from_json_def bind_eq_Some_conv)
qed

lemma parse_signed_wider:
  "parse_signed lo hi s = Some z \<Longrightarrow> lo' \<le> lo \<Longrightarrow> hi \<le> hi' \<Longrightarrow> parse_signed lo' hi' s = Some z"
  by (auto simp: parse_signed_def Let_def split: if_splits option.splits prod.splits list.splits)

lemma parse_i64_i128: "parse_i64 s = Some z \<Longrightarrow> parse_i128 s = Some z"
  unfolding parse_i64_def parse_i128_def by (erule parse_signed_wider) simp_all

lemma feeds_price_agrees: "hermes_price_of (pu_price u) = Inr p \<Longrightarrow> feeds_price_of (without_metadata u) = Inr p"
proof -
  assume "hermes_price_of (pu_price u) = Inr p"
  then obtain m where m: "parse_i64 (hp_price (pu_price u)) = Some m" and "p = new_price m (hp_expo (pu_price u))"
    by (auto simp: hermes_price_of_def result_simps from_pyth_def)
  moreover have "parse_i128 (hp_price (pu_price u)) = Some m" using parse_i64_i128 [OF m] .
  ultimately show ?thesis by (simp add: feeds_price_of_def without_metadata_def)
qed

text \<open>
  C39. The two Hermes clients agree. They ask the same URL with the same query; when the provider answers
  both alike and the oracle's client accepts the answer, the other accepts it with the same
  updates, less the metadata, and reads the same price wherever the oracle's reads one.
\<close>

theorem hermes_clients_agree:
  assumes "send (feeds_request (hc_base_url c) ids) = send (hermes_request c ids)"
    and "latest_price_updates send c ids = Inr l"
  shows "rq_url (feeds_request (hc_base_url c) ids) = rq_url (hermes_request c ids)
    \<and> rq_query (feeds_request (hc_base_url c) ids) = rq_query (hermes_request c ids)
    \<and> feeds_latest send (hc_base_url c) ids = Inr (l\<lparr>lu_parsed := map without_metadata (lu_parsed l)\<rparr>)
    \<and> (\<forall>u \<in> set (lu_parsed l). \<forall>p. hermes_price_of (pu_price u) = Inr p \<longrightarrow> feeds_price_of (without_metadata u) = Inr p)"
proof -
  obtain r j where "http_checked send (hermes_request c ids) = Inr r" "rs_body r = Some j"
    and j: "latest_from_json j = Some l"
    using assms(2) by (auto simp: latest_price_updates_def http_json_def result_simps bind_eq_Some_conv)
  moreover from this(1) have "http_checked send (feeds_request (hc_base_url c) ids) = Inr r"
    using assms(1) by (simp add: http_checked_def)
  ultimately have "feeds_latest send (hc_base_url c) ids = Inr (l\<lparr>lu_parsed := map without_metadata (lu_parsed l)\<rparr>)"
    using feeds_from_agrees [OF j] by (simp add: feeds_latest_def http_json_def)
  then show ?thesis using feeds_price_agrees by (simp add: feeds_request_def hermes_request_def)
qed

theorem hermes_clients_agree_witness:
  "\<exists>l. feeds_latest (answers (sample_answer ''ef0d'')) (hc_base_url sample_feed) [''ef0d''] = Inr l
     \<and> map pu_id (lu_parsed l) = [''ef0d'']"
proof -
  have "answers (sample_answer ''ef0d'') (feeds_request (hc_base_url sample_feed) [''ef0d''])
      = answers (sample_answer ''ef0d'') (hermes_request sample_feed [''ef0d''])"
    by (simp add: answers_def)
  from hermes_clients_agree [OF this sample_decoded] show ?thesis by (simp add: without_metadata_def)
qed

end
