(* ===== verification/Config_Load.thy ===== *)
theory Config_Load
  imports Oracle_Api Feed_Clients
begin

text \<open>
  Loading the configuration: the layered loader of \<open>crates/mtm-common/src/config.rs\<close>, the structs
  of \<open>services/oracle/src/config.rs\<close> and \<open>pricing/spec.rs\<close> as their deserialisers read them, and
  \<open>main\<close> of the oracle service. Files, environment and the merging of layers (\<open>figment\<close>) are
  parameters.
\<close>

section \<open>Values\<close>

text \<open>A value of a configuration file.\<close>

datatype 'f conf =
    CText string | CInt int | CFloat 'f | CBool bool | CList "'f conf list" | CDict "(string \<times> 'f conf) list"

fun conf_text :: "'f conf \<Rightarrow> string option" where
  "conf_text (CText s) = Some s"
| "conf_text _ = None"

fun conf_bool :: "'f conf \<Rightarrow> bool option" where
  "conf_bool (CBool b) = Some b"
| "conf_bool _ = None"

fun conf_int :: "(int \<Rightarrow> bool) \<Rightarrow> 'f conf \<Rightarrow> int option" where
  "conf_int P (CInt n) = (if P n then Some n else None)"
| "conf_int P _ = None"

text \<open>An unsigned field of the width of the word.\<close>

definition conf_word :: "'f conf \<Rightarrow> 'w::len word option" where
  "conf_word c = map_option word_of_int (conf_int (\<lambda>n. 0 \<le> n \<and> n < 2 ^ LENGTH('w)) c)"

fun conf_f64 :: "'f f64_ops \<Rightarrow> 'f conf \<Rightarrow> 'f option" where
  "conf_f64 F (CFloat x) = Some x"
| "conf_f64 F (CInt n) = Some (f_of_int F n)"
| "conf_f64 F _ = None"

fun conf_list :: "('f conf \<Rightarrow> 'a option) \<Rightarrow> 'f conf \<Rightarrow> 'a list option" where
  "conf_list f (CList cs) = option_all f cs"
| "conf_list f _ = None"

fun conf_dict :: "'f conf \<Rightarrow> (string \<rightharpoonup> 'f conf) option" where
  "conf_dict (CDict fs) = Some (map_of fs)"
| "conf_dict _ = None"

text \<open>
  A field that must be there, an \<open>Option\<close> (absent reads as \<open>None\<close>), and one with a default.
\<close>

definition required :: "(string \<rightharpoonup> 'f conf) \<Rightarrow> string \<Rightarrow> ('f conf \<Rightarrow> 'a option) \<Rightarrow> 'a option" where
  "required d k f = d k \<bind> f"

definition optional :: "(string \<rightharpoonup> 'f conf) \<Rightarrow> string \<Rightarrow> ('f conf \<Rightarrow> 'a option) \<Rightarrow> 'a option option" where
  "optional d k f = (case d k of None \<Rightarrow> Some None | Some v \<Rightarrow> map_option Some (f v))"

definition defaulted :: "(string \<rightharpoonup> 'f conf) \<Rightarrow> string \<Rightarrow> 'a \<Rightarrow> ('f conf \<Rightarrow> 'a option) \<Rightarrow> 'a option" where
  "defaulted d k x f = (case d k of None \<Rightarrow> Some x | Some v \<Rightarrow> f v)"

section \<open>The structs\<close>

record rpc_config =
  rpc_http_url :: string
  rpc_ws_url :: string
  rpc_commitment :: string

definition default_commitment :: string where
  "default_commitment = ''confirmed''"

definition rpc_config_from :: "'f conf \<Rightarrow> rpc_config option" where
  "rpc_config_from c = do {
     d \<leftarrow> conf_dict c;
     h \<leftarrow> required d ''http_url'' conf_text;
     w \<leftarrow> required d ''ws_url'' conf_text;
     m \<leftarrow> defaulted d ''commitment'' default_commitment conf_text;
     Some \<lparr>rpc_http_url = h, rpc_ws_url = w, rpc_commitment = m\<rparr> }"

definition hermes_config_from :: "'f conf \<Rightarrow> hermes_config option" where
  "hermes_config_from c = do {
     d \<leftarrow> conf_dict c;
     b \<leftarrow> required d ''base_url'' conf_text;
     p \<leftarrow> required d ''poll_interval_ms'' conf_word;
     k \<leftarrow> optional d ''api_key'' conf_text;
     Some \<lparr>hermes_base_url = b, hermes_poll_ms = p, hermes_api_key = k\<rparr> }"

definition coingecko_config_from :: "'f conf \<Rightarrow> coingecko_config option" where
  "coingecko_config_from c = do {
     d \<leftarrow> conf_dict c;
     b \<leftarrow> defaulted d ''base_url'' (cg_base_url coingecko_default) conf_text;
     p \<leftarrow> defaulted d ''poll_interval_ms'' (cg_poll_ms coingecko_default) conf_word;
     k \<leftarrow> optional d ''api_key'' conf_text;
     Some \<lparr>cg_base_url = b, cg_poll_ms = p, cg_api_key = k\<rparr> }"

record binance_config =
  bn_ws_url :: string
  bn_flush_ms :: u64

definition binance_default :: binance_config where
  "binance_default = \<lparr>bn_ws_url = ''wss://stream.binance.com:9443'', bn_flush_ms = 250\<rparr>"

definition binance_config_from :: "'f conf \<Rightarrow> binance_config option" where
  "binance_config_from c = do {
     d \<leftarrow> conf_dict c;
     w \<leftarrow> defaulted d ''ws_url'' (bn_ws_url binance_default) conf_text;
     f \<leftarrow> defaulted d ''flush_interval_ms'' (bn_flush_ms binance_default) conf_word;
     Some \<lparr>bn_ws_url = w, bn_flush_ms = f\<rparr> }"

record pusher_config =
  ps_enabled :: bool
  ps_keypair_path :: "string option"

definition pusher_default :: pusher_config where
  "pusher_default = \<lparr>ps_enabled = False, ps_keypair_path = None\<rparr>"

definition pusher_config_from :: "'f conf \<Rightarrow> pusher_config option" where
  "pusher_config_from c = do {
     d \<leftarrow> conf_dict c;
     e \<leftarrow> defaulted d ''enabled'' False conf_bool;
     k \<leftarrow> optional d ''keypair_path'' conf_text;
     Some \<lparr>ps_enabled = e, ps_keypair_path = k\<rparr> }"

definition underlying_from :: "'f conf \<Rightarrow> underlying_config option" where
  "underlying_from c = do {
     d \<leftarrow> conf_dict c;
     s \<leftarrow> required d ''symbol'' conf_text;
     p \<leftarrow> optional d ''pyth_feed_id'' conf_text;
     g \<leftarrow> optional d ''coingecko_id'' conf_text;
     b \<leftarrow> optional d ''binance_symbol'' conf_text;
     Some \<lparr>und_symbol = s, pyth_feed_id = p, coingecko_id = g, binance_symbol = b\<rparr> }"

definition leg_from :: "'f conf \<Rightarrow> (symbol \<times> string) option" where
  "leg_from c = do {
     d \<leftarrow> conf_dict c;
     f \<leftarrow> required d ''feed'' conf_text;
     w \<leftarrow> required d ''weight'' conf_text;
     Some (f, w) }"

definition base_from :: "'f conf \<Rightarrow> base_config option" where
  "base_from c = do {
     d \<leftarrow> conf_dict c;
     kind \<leftarrow> required d ''kind'' conf_text;
     if kind = ''underlying'' then do {
       f \<leftarrow> required d ''feed'' conf_text;
       Some (UnderlyingCfg f) }
     else if kind = ''cross'' then do {
       b \<leftarrow> required d ''base'' conf_text;
       q \<leftarrow> required d ''quote'' conf_text;
       Some (CrossCfg b q) }
     else if kind = ''basket'' then do {
       legs \<leftarrow> required d ''legs'' (conf_list leg_from);
       r \<leftarrow> optional d ''rebase'' conf_text;
       Some (BasketCfg legs r) }
     else if kind = ''peg'' then do {
       t \<leftarrow> required d ''target'' conf_text;
       Some (PegCfg t) }
     else if kind = ''gbm'' then do {
       i \<leftarrow> required d ''initial'' conf_text;
       v \<leftarrow> required d ''daily_vol_bps'' conf_word;
       dr \<leftarrow> defaulted d ''daily_drift_bps'' 0 (conf_int in_i32);
       s \<leftarrow> required d ''seed'' conf_word;
       t \<leftarrow> defaulted d ''tick_ms'' default_tick_ms conf_word;
       Some (GbmCfg i v dr s t) }
     else None }"

definition transform_from :: "'f f64_ops \<Rightarrow> 'f conf \<Rightarrow> 'f transform_config option" where
  "transform_from F c = do {
     d \<leftarrow> conf_dict c;
     kind \<leftarrow> required d ''kind'' conf_text;
     if kind = ''scale'' then do {
       f \<leftarrow> required d ''factor'' conf_text;
       off \<leftarrow> optional d ''offset'' conf_text;
       Some (ScaleCfg f off) }
     else if kind = ''invert'' then Some InvertCfg
     else if kind = ''beta'' then do {
       b \<leftarrow> required d ''beta'' (conf_f64 F);
       a \<leftarrow> required d ''anchor'' conf_text;
       i \<leftarrow> required d ''initial'' conf_text;
       Some (BetaCfg b a i) }
     else if kind = ''lag'' then do {
       ms \<leftarrow> required d ''ms'' conf_word;
       Some (LagCfg ms) }
     else if kind = ''noise'' then do {
       s \<leftarrow> required d ''sigma_bps'' conf_word;
       h \<leftarrow> required d ''halflife_s'' conf_word;
       r \<leftarrow> required d ''seed'' conf_word;
       Some (NoiseCfg s h r) }
     else None }"

definition instrument_from :: "'f f64_ops \<Rightarrow> 'f conf \<Rightarrow> 'f instrument_config option" where
  "instrument_from F c = do {
     d \<leftarrow> conf_dict c;
     s \<leftarrow> optional d ''symbol'' conf_text;
     m \<leftarrow> optional d ''mint'' conf_text;
     e \<leftarrow> defaulted d ''expo'' default_expo (conf_int in_i32);
     b \<leftarrow> required d ''base'' base_from;
     ts \<leftarrow> defaulted d ''transforms'' [] (conf_list (transform_from F));
     Some \<lparr>cfg_symbol = s, cfg_mint = m, cfg_expo = e, cfg_base = b, cfg_transforms = ts\<rparr> }"

text \<open>\<open>OracleConfig\<close>: the part that \<open>oracle_start\<close> uses, and the endpoints and addresses.\<close>

record ('f, 'a) oracle_settings =
  os_listen_addr :: 'a
  os_metrics_addr :: "'a option"
  os_hermes :: hermes_config
  os_coingecko :: coingecko_config
  os_binance :: binance_config
  os_underlyings :: "underlying_config list"
  os_instruments :: "'f instrument_config list"
  os_pusher :: pusher_config

record ('f, 'a) app_config =
  app_rpc :: rpc_config
  app_oracle :: "('f, 'a) oracle_settings"

text \<open>\<open>addr\<close> is the parser of socket addresses.\<close>

definition oracle_settings_from ::
    "'f f64_ops \<Rightarrow> (string \<Rightarrow> 'a option) \<Rightarrow> 'f conf \<Rightarrow> ('f, 'a) oracle_settings option" where
  "oracle_settings_from F addr c = do {
     d \<leftarrow> conf_dict c;
     l \<leftarrow> required d ''listen_addr'' (\<lambda>v. conf_text v \<bind> addr);
     m \<leftarrow> optional d ''metrics_addr'' (\<lambda>v. conf_text v \<bind> addr);
     h \<leftarrow> required d ''hermes'' hermes_config_from;
     g \<leftarrow> defaulted d ''coingecko'' coingecko_default coingecko_config_from;
     b \<leftarrow> defaulted d ''binance'' binance_default binance_config_from;
     us \<leftarrow> required d ''underlyings'' (conf_list underlying_from);
     is \<leftarrow> defaulted d ''instruments'' [] (conf_list (instrument_from F));
     p \<leftarrow> defaulted d ''pusher'' pusher_default pusher_config_from;
     Some \<lparr>os_listen_addr = l, os_metrics_addr = m, os_hermes = h, os_coingecko = g, os_binance = b,
           os_underlyings = us, os_instruments = is, os_pusher = p\<rparr> }"

definition app_config_from ::
    "'f f64_ops \<Rightarrow> (string \<Rightarrow> 'a option) \<Rightarrow> 'f conf \<Rightarrow> ('f, 'a) app_config option" where
  "app_config_from F addr c = do {
     d \<leftarrow> conf_dict c;
     r \<leftarrow> required d ''rpc'' rpc_config_from;
     o' \<leftarrow> required d ''oracle'' (oracle_settings_from F addr);
     Some \<lparr>app_rpc = r, app_oracle = o'\<rparr> }"

section \<open>The loader\<close>

text \<open>
  \<open>figment\<close>: a TOML file as a value (an absent file is an empty dictionary), the environment
  variables with a prefix as a value, and the merge, in which the second value wins.
\<close>

record 'f figment =
  fg_toml :: "string \<Rightarrow> string + 'f conf"
  fg_env :: "string \<Rightarrow> string \<Rightarrow> 'f conf"
  fg_merge :: "'f conf \<Rightarrow> 'f conf \<Rightarrow> 'f conf"

definition config_root :: "(string \<Rightarrow> string option) \<Rightarrow> string" where
  "config_root getenv = (case getenv ''MTM_CONFIG_DIR'' of Some d \<Rightarrow> d | None \<Rightarrow> ''config'')"

text \<open>\<open>Path::join\<close>: an absolute second path replaces the first.\<close>

definition path_join :: "string \<Rightarrow> string \<Rightarrow> string" where
  "path_join dir name =
     (if take 1 name = ''/'' then name
      else if dir = [] \<or> last dir = CHR ''/'' then dir @ name else dir @ ''/'' @ name)"

definition load_config ::
    "'f figment \<Rightarrow> (string \<Rightarrow> string option) \<Rightarrow> ('f conf \<Rightarrow> 'c option) \<Rightarrow> string + 'c" where
  "load_config G getenv extract =
     (let profile = (case getenv ''MTM_PROFILE'' of Some p \<Rightarrow> p | None \<Rightarrow> ''local'');
          dir = config_root getenv
      in bindR (fg_toml G (path_join dir ''default.toml'')) (\<lambda>base.
         bindR (fg_toml G (path_join dir (profile @ ''.toml''))) (\<lambda>overlay.
         ok_or (extract (fg_merge G (fg_merge G base overlay) (fg_env G ''MTM_'' ''__''))) ''extract'')))"

section \<open>The program\<close>

text \<open>What \<open>run\<close> takes of the settings; then \<open>main\<close> up to the start of the tasks.\<close>

definition start_config :: "('f, 'a) oracle_settings \<Rightarrow> 'f oracle_config" where
  "start_config s = \<lparr>oc_underlyings = os_underlyings s, oc_instruments = os_instruments s,
     oc_pusher_enabled = ps_enabled (os_pusher s)\<rparr>"

datatype main_error = LoadError string | TelemetryError string | StartError config_error

definition oracle_main ::
    "('d, 'f, 'r) numerics \<Rightarrow> 'f figment \<Rightarrow> (string \<Rightarrow> string option) \<Rightarrow> (string \<Rightarrow> 'a option)
      \<Rightarrow> (string \<Rightarrow> 'a option \<Rightarrow> string + unit)
      \<Rightarrow> main_error + ('f, 'a) app_config \<times> ('d, 'f, 'r) engine \<times> app_state \<times> spawned list" where
  "oracle_main N G getenv addr telemetry =
     bindR (map_err LoadError (load_config G getenv (app_config_from (flts N) addr))) (\<lambda>cfg.
     bindR (map_err TelemetryError (telemetry ''oracle'' (os_metrics_addr (app_oracle cfg)))) (\<lambda>_.
     bindR (map_err StartError (oracle_start N (start_config (app_oracle cfg)))) (\<lambda>started.
     Inr (cfg, started))))"

section \<open>What a loaded configuration guarantees\<close>

lemma conf_int_range: "conf_int P c = Some n \<Longrightarrow> P n"
  by (cases c) (simp_all split: if_splits)

lemma defaulted_cases: "defaulted d k x f = Some y \<Longrightarrow> y = x \<or> (\<exists>v. f v = Some y)"
  by (auto simp: defaulted_def split: option.splits)

lemma instrument_from_expo:
  fixes c :: "'f conf"
  assumes "instrument_from F c = Some i"
  shows "in_i32 (cfg_expo i)"
proof -
  obtain d :: "string \<rightharpoonup> 'f conf" where "defaulted d ''expo'' default_expo (conf_int in_i32) = Some (cfg_expo i)"
    using assms by (clarsimp simp: instrument_from_def bind_eq_Some_conv)
  then have "cfg_expo i = default_expo \<or> (\<exists>v. conf_int in_i32 (v :: 'f conf) = Some (cfg_expo i))"
    by (rule defaulted_cases)
  moreover have "in_i32 default_expo" by (simp add: default_expo_def in_i32_def)
  ultimately show ?thesis by (auto dest: conf_int_range)
qed

lemma loaded_expos:
  assumes "oracle_settings_from F addr c = Some s"
  shows "list_all (\<lambda>i. in_i32 (cfg_expo i)) (os_instruments s)"
proof -
  obtain d where "defaulted d ''instruments'' [] (conf_list (instrument_from F)) = Some (os_instruments s)"
    using assms by (clarsimp simp: oracle_settings_from_def bind_eq_Some_conv)
  from defaulted_cases [OF this] show ?thesis
  proof (elim disjE exE)
    fix v
    assume "conf_list (instrument_from F) v = Some (os_instruments s)"
    then obtain cs where "option_all (instrument_from F) cs = Some (os_instruments s)" by (cases v) simp_all
    then show ?thesis unfolding list_all_iff by (blast dest: option_all_members instrument_from_expo)
  qed simp
qed

lemma app_config_expos:
  assumes "app_config_from F addr c = Some cfg"
  shows "list_all (\<lambda>i. in_i32 (cfg_expo i)) (os_instruments (app_oracle cfg))"
proof -
  obtain o' where "oracle_settings_from F addr o' = Some (app_oracle cfg)"
    using assms by (clarsimp simp: app_config_from_def required_def bind_eq_Some_conv)
  then show ?thesis by (rule loaded_expos)
qed

lemma main_parts:
  assumes "oracle_main N G getenv addr telemetry = Inr (cfg, e, st, tasks)"
  shows "oracle_start N (start_config (app_oracle cfg)) = Inr (e, st, tasks)"
    and "list_all (\<lambda>i. in_i32 (cfg_expo i)) (oc_instruments (start_config (app_oracle cfg)))"
proof -
  obtain c where "app_config_from (flts N) addr c = Some cfg"
    and s: "oracle_start N (start_config (app_oracle cfg)) = Inr (e, st, tasks)"
    using assms by (auto simp: oracle_main_def load_config_def Let_def result_simps)
  from app_config_expos [OF this(1)] show "list_all (\<lambda>i. in_i32 (cfg_expo i)) (oc_instruments (start_config (app_oracle cfg)))"
    by (simp add: start_config_def)
  show "oracle_start N (start_config (app_oracle cfg)) = Inr (e, st, tasks)" by (rule s)
qed

end
