(* ===== verification/Oracle_Service.thy ===== *)
theory Oracle_Service
  imports Config_Load
begin

text \<open>
  The oracle service as a whole: what the feed tasks that \<open>run\<close> starts can send, the engine that
  consumes it, and the configuration the repository ships.
\<close>

section \<open>Feeds and engine together\<close>

text \<open>
  The ticks a spawned task may ever send: for some behaviour of the network, the timer and the
  channel, with clock readings that are \<open>i64\<close> values.
\<close>

definition clocks_fit :: "poll_round list \<Rightarrow> bool" where
  "clocks_fit rounds \<longleftrightarrow> (\<forall>r \<in> set rounds. \<forall>i. in_i64 (fst (snd r i)))"

inductive feed_tick ::
    "'f f64_ops \<Rightarrow> (json \<Rightarrow> 'f option) \<Rightarrow> ('f, 'a) oracle_settings \<Rightarrow> spawned \<Rightarrow> price_point \<Rightarrow> bool"
  for F read_f64 S where
  "hermes_task accepts b (os_hermes S) feeds rounds = Inr (ps, alive) \<Longrightarrow> clocks_fit rounds \<Longrightarrow> p \<in> set ps
    \<Longrightarrow> feed_tick F read_f64 S (HermesTask feeds) p"
| "coingecko_task F read_f64 accepts b (os_coingecko S) feeds rounds = Inr (ps, alive)
    \<Longrightarrow> clocks_fit rounds \<Longrightarrow> p \<in> set ps \<Longrightarrow> feed_tick F read_f64 S (CoinGeckoTask feeds) p"
| "list_all frame_clock_ok evs
    \<Longrightarrow> p \<in> set (snd (foldl (binance_step (binance_streams feeds)) (Reconnecting, []) evs))
    \<Longrightarrow> feed_tick F read_f64 S (BinanceTask feeds) p"

inductive_cases hermes_tick_cases: "feed_tick F read_f64 S (HermesTask feeds) p"
inductive_cases coingecko_tick_cases: "feed_tick F read_f64 S (CoinGeckoTask feeds) p"
inductive_cases binance_tick_cases: "feed_tick F read_f64 S (BinanceTask feeds) p"

text \<open>The feeds of a task and the source it marks its ticks with.\<close>

fun feed_of :: "spawned \<Rightarrow> (price_source \<times> provider_feeds) option" where
  "feed_of (HermesTask feeds) = Some (PythHermes, feeds)"
| "feed_of (CoinGeckoTask feeds) = Some (CoinGecko, feeds)"
| "feed_of (BinanceTask feeds) = Some (Binance, feeds)"
| "feed_of _ = None"

lemma hermes_task_ticks:
  assumes "hermes_task accepts b cfg feeds rounds = Inr (ps, alive)" and "clocks_fit rounds" and "p \<in> set ps"
  shows "good_tick PythHermes feeds p"
proof -
  have "p \<in> set (fst (hermes_rounds (hermes_client_new b (hermes_base_url cfg) (hermes_api_key cfg))
      (map (\<lambda>(_, i). normalize_feed_id i) feeds) (hermes_symbols feeds) rounds))"
    using assms(1,3) by (simp add: hermes_task_def Let_def split: if_splits)
  from hermes_feed.run_good [OF assms(2) [unfolded clocks_fit_def] this] show ?thesis .
qed

lemma coingecko_task_ticks:
  assumes "coingecko_task F read_f64 accepts b cfg feeds rounds = Inr (ps, alive)"
    and "clocks_fit rounds" and "p \<in> set ps" and "f64_saturates F"
  shows "good_tick CoinGecko feeds p"
proof -
  have "p \<in> set (fst (coingecko_rounds F read_f64 (coingecko_client_new b cfg) feeds rounds))"
    using assms(1,3) by (auto simp: coingecko_task_def split: if_splits)
  from coingecko_feed.run_good [OF assms(2) [unfolded clocks_fit_def] this] assms(4) show ?thesis by blast
qed

lemma binance_task_ticks:
  assumes "list_all frame_clock_ok evs"
    and "p \<in> set (snd (foldl (binance_step (binance_streams feeds)) (Reconnecting, []) evs))"
  shows "good_tick Binance feeds p"
proof -
  have "binance_tick_ok feeds (foldl (binance_step (binance_streams feeds)) (Reconnecting, []) evs)"
    using assms(1) by (intro binance_ticks.run_inv) simp_all
  then have "list_all (good_tick Binance feeds) (snd (foldl (binance_step (binance_streams feeds)) (Reconnecting, []) evs))"
    by (cases "(feeds, foldl (binance_step (binance_streams feeds)) (Reconnecting, []) evs)"
          rule: binance_tick_ok.cases) simp_all
  with assms(2) show ?thesis by (simp add: list_all_iff)
qed

lemma feed_tick_good:
  assumes "feed_tick F read_f64 S t p" and "f64_saturates F"
  shows "\<exists>src feeds. feed_of t = Some (src, feeds) \<and> good_tick src feeds p"
  using assms
  by (induction rule: feed_tick.induct) (auto dest: hermes_task_ticks coingecko_task_ticks binance_task_ticks)

text \<open>The inputs the engine can get from the tasks that are running.\<close>

fun fed :: "'f f64_ops \<Rightarrow> (json \<Rightarrow> 'f option) \<Rightarrow> ('f, 'a) oracle_settings \<Rightarrow> spawned list \<Rightarrow> engine_input \<Rightarrow> bool" where
  "fed F read_f64 S tasks (Observed p now) \<longleftrightarrow> in_i64 now \<and> (\<exists>t \<in> set tasks. feed_tick F read_f64 S t p)"
| "fed F read_f64 S tasks (Ticked now) \<longleftrightarrow> in_i64 now"
| "fed F read_f64 S tasks InputClosed \<longleftrightarrow> True"

lemma fed_typed: "f64_saturates F \<Longrightarrow> fed F read_f64 S tasks ev \<Longrightarrow> event_typed ev"
  by (cases ev) (auto simp: good_tick_def point_ok_def dest!: feed_tick_good)

section \<open>The shipped configuration\<close>

text \<open>\<open>config/default.toml\<close> and \<open>config/local.toml\<close> as values.\<close>

definition shipped_underlyings :: "'f conf" where
  "shipped_underlyings = CList
    [CDict [(''symbol'', CText ''SOL/USD''),
       (''pyth_feed_id'', CText ''ef0d8b6fda2ceba41da15d4095d1da392a0d2f8ed0c6c7bc0f4cfac8c280b56d'')],
     CDict [(''symbol'', CText ''BTC/USD''),
       (''pyth_feed_id'', CText ''e62df6c8b4a85fe1a67db44dc12de5db330f7ac66b72dc658afedf0f4a415b43'')],
     CDict [(''symbol'', CText ''ETH/USD''),
       (''pyth_feed_id'', CText ''ff61491a931112ddf1bd8147cd1b641375f79f5825126d665480874634fd0ace'')],
     CDict [(''symbol'', CText ''SOLCG/USD''), (''coingecko_id'', CText ''solana'')],
     CDict [(''symbol'', CText ''SOL/USDT''), (''binance_symbol'', CText ''SOLUSDT'')],
     CDict [(''symbol'', CText ''BTC/USDT''), (''binance_symbol'', CText ''BTCUSDT'')],
     CDict [(''symbol'', CText ''ETH/USDT''), (''binance_symbol'', CText ''ETHUSDT'')]]"

definition passthrough_of :: "string \<Rightarrow> string \<Rightarrow> (string \<times> 'f conf) list" where
  "passthrough_of s f = [(''symbol'', CText s),
     (''base'', CDict [(''kind'', CText ''underlying''), (''feed'', CText f)])]"

definition noise_of :: "int \<Rightarrow> int \<Rightarrow> int \<Rightarrow> 'f conf" where
  "noise_of sigma halflife seed = CDict [(''kind'', CText ''noise''), (''sigma_bps'', CInt sigma),
     (''halflife_s'', CInt halflife), (''seed'', CInt seed)]"

definition lag_of :: "int \<Rightarrow> 'f conf" where
  "lag_of ms = CDict [(''kind'', CText ''lag''), (''ms'', CInt ms)]"

definition leg_of :: "string \<Rightarrow> string \<Rightarrow> 'f conf" where
  "leg_of feed weight = CDict [(''feed'', CText feed), (''weight'', CText weight)]"

definition shipped_instruments :: "'f conf" where
  "shipped_instruments = CList
    [CDict (passthrough_of ''tSOL/USD'' ''SOL/USD''),
     CDict (passthrough_of ''tBTC/USD'' ''BTC/USD''),
     CDict (passthrough_of ''tETH/USD'' ''ETH/USD''),
     CDict (passthrough_of ''tSOLCG/USD'' ''SOLCG/USD''),
     CDict (passthrough_of ''tSOLBN/USD'' ''SOL/USDT''),
     CDict (passthrough_of ''tSOLBNL/USD'' ''SOL/USDT'' @ [(''transforms'', CList [lag_of 10000, noise_of 6 45 11])]),
     CDict (passthrough_of ''tSOLB/USD'' ''SOL/USD'' @ [(''transforms'', CList [lag_of 15000, noise_of 8 60 7])]),
     CDict [(''symbol'', CText ''tMEME/USD''), (''base'', CDict [(''kind'', CText ''gbm''), (''initial'', CText ''0.0200''),
        (''daily_vol_bps'', CInt 1500), (''seed'', CInt 42), (''tick_ms'', CInt 1000)])],
     CDict [(''symbol'', CText ''tUSDC/USD''), (''base'', CDict [(''kind'', CText ''peg''), (''target'', CText ''1.0000'')]),
        (''transforms'', CList [noise_of 2 600 9])],
     CDict [(''symbol'', CText ''tMAJ3/USD''), (''base'', CDict [(''kind'', CText ''basket''), (''rebase'', CText ''100.00''),
        (''legs'', CList [leg_of ''SOL/USD'' ''0.4'', leg_of ''BTC/USD'' ''0.3'', leg_of ''ETH/USD'' ''0.3''])])]]"

definition shipped_oracle :: "'f conf" where
  "shipped_oracle = CDict
    [(''listen_addr'', CText ''127.0.0.1:8080''), (''metrics_addr'', CText ''127.0.0.1:9100''),
     (''hermes'', CDict [(''base_url'', CText ''https://hermes.pyth.network''), (''poll_interval_ms'', CInt 1000)]),
     (''coingecko'', CDict [(''poll_interval_ms'', CInt 300000)]),
     (''binance'', CDict [(''flush_interval_ms'', CInt 250)]),
     (''pusher'', CDict [(''enabled'', CBool False)]),
     (''underlyings'', shipped_underlyings), (''instruments'', shipped_instruments)]"

definition shipped_rpc :: "'f conf" where
  "shipped_rpc = CDict [(''http_url'', CText ''http://127.0.0.1:8899''), (''ws_url'', CText ''ws://127.0.0.1:8900''),
     (''commitment'', CText ''confirmed'')]"

definition shipped_config :: "'f conf" where
  "shipped_config = CDict [(''rpc'', shipped_rpc), (''oracle'', shipped_oracle)]"

lemmas conf_simps = required_def optional_def defaulted_def conf_word_def

definition shipped_feeds :: "underlying_config list" where
  "shipped_feeds =
    [\<lparr>und_symbol = ''SOL/USD'', pyth_feed_id = Some ''ef0d8b6fda2ceba41da15d4095d1da392a0d2f8ed0c6c7bc0f4cfac8c280b56d'',
        coingecko_id = None, binance_symbol = None\<rparr>,
     \<lparr>und_symbol = ''BTC/USD'', pyth_feed_id = Some ''e62df6c8b4a85fe1a67db44dc12de5db330f7ac66b72dc658afedf0f4a415b43'',
        coingecko_id = None, binance_symbol = None\<rparr>,
     \<lparr>und_symbol = ''ETH/USD'', pyth_feed_id = Some ''ff61491a931112ddf1bd8147cd1b641375f79f5825126d665480874634fd0ace'',
        coingecko_id = None, binance_symbol = None\<rparr>,
     \<lparr>und_symbol = ''SOLCG/USD'', pyth_feed_id = None, coingecko_id = Some ''solana'', binance_symbol = None\<rparr>,
     \<lparr>und_symbol = ''SOL/USDT'', pyth_feed_id = None, coingecko_id = None, binance_symbol = Some ''SOLUSDT''\<rparr>,
     \<lparr>und_symbol = ''BTC/USDT'', pyth_feed_id = None, coingecko_id = None, binance_symbol = Some ''BTCUSDT''\<rparr>,
     \<lparr>und_symbol = ''ETH/USDT'', pyth_feed_id = None, coingecko_id = None, binance_symbol = Some ''ETHUSDT''\<rparr>]"

lemma shipped_underlyings_read: "conf_list underlying_from shipped_underlyings = Some shipped_feeds"
  by (simp add: shipped_underlyings_def shipped_feeds_def underlying_from_def conf_simps)

lemma passthrough_read:
  fixes ts :: "(string \<times> 'f conf) list"
  assumes "map_of ts ''symbol'' = None" "map_of ts ''mint'' = None" "map_of ts ''expo'' = None"
    and "defaulted (map_of (passthrough_of s f @ ts)) ''transforms'' [] (conf_list (transform_from F)) = Some xs"
  shows "instrument_from F (CDict (passthrough_of s f @ ts)) = Some
    \<lparr>cfg_symbol = Some s, cfg_mint = None, cfg_expo = - 8, cfg_base = UnderlyingCfg f, cfg_transforms = xs\<rparr>"
  using assms by (simp add: instrument_from_def base_from_def passthrough_of_def conf_simps default_expo_def map_add_def)

definition shipped_list :: "'f instrument_config list" where
  "shipped_list =
    (let plain = (\<lambda>s b ts. \<lparr>cfg_symbol = Some s, cfg_mint = None, cfg_expo = - 8, cfg_base = b, cfg_transforms = ts\<rparr>)
     in [plain ''tSOL/USD'' (UnderlyingCfg ''SOL/USD'') [],
         plain ''tBTC/USD'' (UnderlyingCfg ''BTC/USD'') [],
         plain ''tETH/USD'' (UnderlyingCfg ''ETH/USD'') [],
         plain ''tSOLCG/USD'' (UnderlyingCfg ''SOLCG/USD'') [],
         plain ''tSOLBN/USD'' (UnderlyingCfg ''SOL/USDT'') [],
         plain ''tSOLBNL/USD'' (UnderlyingCfg ''SOL/USDT'') [LagCfg 10000, NoiseCfg 6 45 11],
         plain ''tSOLB/USD'' (UnderlyingCfg ''SOL/USD'') [LagCfg 15000, NoiseCfg 8 60 7],
         plain ''tMEME/USD'' (GbmCfg ''0.0200'' 1500 0 42 1000) [],
         plain ''tUSDC/USD'' (PegCfg ''1.0000'') [NoiseCfg 2 600 9],
         plain ''tMAJ3/USD'' (BasketCfg [(''SOL/USD'', ''0.4''), (''BTC/USD'', ''0.3''), (''ETH/USD'', ''0.3'')]
           (Some ''100.00'')) []])"

lemma lag_noise_read:
  "transform_from F (lag_of 10000) = Some (LagCfg 10000)" "transform_from F (lag_of 15000) = Some (LagCfg 15000)"
  "transform_from F (noise_of 6 45 11) = Some (NoiseCfg 6 45 11)"
  "transform_from F (noise_of 8 60 7) = Some (NoiseCfg 8 60 7)"
  "transform_from F (noise_of 2 600 9) = Some (NoiseCfg 2 600 9)"
  by (simp_all add: transform_from_def lag_of_def noise_of_def conf_simps)

lemma legs_read:
  "leg_from (leg_of f w :: 'f conf) = Some (f, w)"
  by (simp add: leg_from_def leg_of_def conf_simps)

lemma shipped_instruments_read: "conf_list (instrument_from F) shipped_instruments = Some shipped_list"
  unfolding shipped_instruments_def shipped_list_def
  by (simp add: passthrough_of_def instrument_from_def base_from_def conf_simps default_expo_def lag_noise_read legs_read)

definition shipped_cfg :: "'a \<Rightarrow> 'a \<Rightarrow> ('f, 'a) app_config" where
  "shipped_cfg listen metrics = \<lparr>app_rpc = \<lparr>rpc_http_url = ''http://127.0.0.1:8899'', rpc_ws_url = ''ws://127.0.0.1:8900'',
       rpc_commitment = ''confirmed''\<rparr>,
     app_oracle = \<lparr>os_listen_addr = listen, os_metrics_addr = Some metrics,
       os_hermes = \<lparr>hermes_base_url = ''https://hermes.pyth.network'', hermes_poll_ms = 1000, hermes_api_key = None\<rparr>,
       os_coingecko = coingecko_default, os_binance = binance_default,
       os_underlyings = shipped_feeds,
       os_instruments = shipped_list, os_pusher = pusher_default\<rparr>\<rparr>"

lemma shipped_read:
  assumes "addr ''127.0.0.1:8080'' = Some listen" and "addr ''127.0.0.1:9100'' = Some metrics"
  shows "app_config_from F addr shipped_config = Some (shipped_cfg listen metrics)"
  using assms
  by (simp add: shipped_config_def shipped_underlyings_read app_config_from_def shipped_oracle_def shipped_rpc_def oracle_settings_from_def
      rpc_config_from_def hermes_config_from_def coingecko_config_from_def binance_config_from_def
      pusher_config_from_def conf_simps shipped_instruments_read shipped_cfg_def coingecko_default_def
      binance_default_def pusher_default_def)

text \<open>What the decimal library has to read: the literals of the file.\<close>

definition reads_decimals :: "('d, 'f, 'r) numerics \<Rightarrow> string list \<Rightarrow> bool" where
  "reads_decimals N ts \<longleftrightarrow>
     (\<forall>t \<in> set ts. \<exists>d x. dec_parse (decs N) t = Some d \<and> dec_to_f64 (decs N) d = Some x)"

lemma shipped_compiles:
  assumes "reads_decimals N [''0.0200'', ''1.0000'', ''100.00'', ''0.4'', ''0.3'']"
  shows "\<exists>e. from_config N shipped_list [''SOL/USD'', ''BTC/USD'', ''ETH/USD'', ''SOLCG/USD'', ''SOL/USDT'',
      ''BTC/USDT'', ''ETH/USDT''] = Inr e \<and> map rt_symbol (eng_instruments e) =
      [''tSOL/USD'', ''tBTC/USD'', ''tETH/USD'', ''tSOLCG/USD'', ''tSOLBN/USD'', ''tSOLBNL/USD'', ''tSOLB/USD'',
       ''tMEME/USD'', ''tUSDC/USD'', ''tMAJ3/USD''] \<and> eng_timed e = [7, 8]"
proof -
  from assms obtain a b c d f x where "dec_parse (decs N) ''0.0200'' = Some a" "dec_to_f64 (decs N) a = Some x"
    "dec_parse (decs N) ''1.0000'' = Some b" "dec_parse (decs N) ''100.00'' = Some c"
    "dec_parse (decs N) ''0.4'' = Some d" "dec_parse (decs N) ''0.3'' = Some f"
    by (auto simp: reads_decimals_def)
  then show ?thesis
    by (simp add: from_config_def shipped_list_def add_instrument_def resolved_symbol_def check_feed_def
        parse_decimal_f64_def parse_decimal_def parse_decimal_opt_def Let_def in_i64_def)
qed

lemma shipped_main:
  fixes N :: "('d, 'f, 'r) numerics"
  assumes "fg_toml G ''config/default.toml'' = Inr base" and "fg_toml G ''config/local.toml'' = Inr overlay"
    and "fg_merge G (fg_merge G base overlay) (fg_env G ''MTM_'' ''__'') = shipped_config"
    and "addr ''127.0.0.1:8080'' = Some listen" and "addr ''127.0.0.1:9100'' = Some metrics"
    and "telemetry ''oracle'' (Some metrics) = Inr ()"
    and "reads_decimals N [''0.0200'', ''1.0000'', ''100.00'', ''0.4'', ''0.3'']"
  shows "\<exists>e st. oracle_main N G (\<lambda>_. None) addr telemetry = Inr (shipped_cfg listen metrics, e, st,
      [HermesTask (feeds_by pyth_feed_id shipped_feeds), CoinGeckoTask [(''SOLCG/USD'', ''solana'')],
       BinanceTask [(''SOL/USDT'', ''SOLUSDT''), (''BTC/USDT'', ''BTCUSDT''), (''ETH/USDT'', ''ETHUSDT'')], EngineTask])
    \<and> map rt_symbol (eng_instruments e) =
      [''tSOL/USD'', ''tBTC/USD'', ''tETH/USD'', ''tSOLCG/USD'', ''tSOLBN/USD'', ''tSOLBNL/USD'', ''tSOLB/USD'',
       ''tMEME/USD'', ''tUSDC/USD'', ''tMAJ3/USD'']
    \<and> eng_timed e = [7, 8] \<and> map info_symbol (as_instruments st) = map rt_symbol (eng_instruments e)"
proof -
  obtain e where "from_config N shipped_list (map und_symbol shipped_feeds) = Inr e"
    and "map rt_symbol (eng_instruments e) =
      [''tSOL/USD'', ''tBTC/USD'', ''tETH/USD'', ''tSOLCG/USD'', ''tSOLBN/USD'', ''tSOLBNL/USD'', ''tSOLB/USD'',
       ''tMEME/USD'', ''tUSDC/USD'', ''tMAJ3/USD'']" "eng_timed e = [7, 8]"
    using shipped_compiles [OF assms(7)] by (auto simp: shipped_feeds_def)
  moreover have "load_config G (\<lambda>_. None) (app_config_from (flts N) addr) = Inr (shipped_cfg listen metrics)"
    by (simp add: load_config_def config_root_def path_join_def assms(1-3) shipped_read [OF assms(4,5)])
  moreover have "partition_underlyings shipped_feeds = Inr
     \<lparr>pyth_feeds = feeds_by pyth_feed_id shipped_feeds, coingecko_feeds = [(''SOLCG/USD'', ''solana'')],
      binance_feeds = [(''SOL/USDT'', ''SOLUSDT''), (''BTC/USDT'', ''BTCUSDT''), (''ETH/USDT'', ''ETHUSDT'')]\<rparr>"
    "feeds_by pyth_feed_id shipped_feeds \<noteq> []"
    by (simp_all add: shipped_feeds_def partition_underlyings_def push_underlying_def no_feeds_def)
  moreover have "map info_symbol (List.map_filter registry_entry (shipped_list :: 'f instrument_config list)) =
      [''tSOL/USD'', ''tBTC/USD'', ''tETH/USD'', ''tSOLCG/USD'', ''tSOLBN/USD'', ''tSOLBNL/USD'', ''tSOLB/USD'',
       ''tMEME/USD'', ''tUSDC/USD'', ''tMAJ3/USD'']"
    by (simp add: shipped_list_def registry_entry_def resolved_symbol_def List.map_filter_simps Let_def)
  ultimately show ?thesis using assms(6)
    by (simp add: oracle_main_def shipped_cfg_def start_config_def oracle_start_def app_new_def pusher_default_def Let_def)
qed

section \<open>An instance\<close>

text \<open>A merge of layers, the files of the repository, and numerics that read decimal literals.\<close>

fun deep_merge :: "'f conf \<Rightarrow> 'f conf \<Rightarrow> 'f conf" where
  "deep_merge (CDict a) (CDict b) =
     CDict (map (\<lambda>(k, v). (k, case map_of b k of None \<Rightarrow> v | Some w \<Rightarrow> deep_merge v w)) a
       @ filter (\<lambda>kv. fst kv \<notin> fst ` set a) b)"
| "deep_merge a b = b"

definition local_overlay :: "'f conf" where
  "local_overlay = CDict [(''rpc'', CDict [(''http_url'', CText ''http://127.0.0.1:8899''),
     (''ws_url'', CText ''ws://127.0.0.1:8900'')])]"

definition repo_files :: "'f figment" where
  "repo_files = \<lparr>fg_toml = (\<lambda>p. if p = ''config/default.toml'' then Inr shipped_config
       else if p = ''config/local.toml'' then Inr local_overlay else Inr (CDict [])),
     fg_env = (\<lambda>_ _. CDict []), fg_merge = deep_merge\<rparr>"

lemma merged: "deep_merge (deep_merge shipped_config local_overlay) (CDict []) = shipped_config"
  by (simp add: shipped_config_def local_overlay_def shipped_rpc_def)

definition text_num :: "(rat, rat, nat) numerics" where
  "text_num = rat_num\<lparr>decs := rat_dec\<lparr>dec_parse := (\<lambda>s. map_option price_value (ok (from_str s)))\<rparr>,
     flts := rat_f64\<lparr>f_to_i128 := (\<lambda>x. max (- (2 ^ 127)) (min (2 ^ 127 - 1) (trunc_rat x)))\<rparr>\<rparr>"

lemma text_num_laws:
  "decimals_fit (decs text_num)" "f64_saturates (flts text_num)"
  "reads_decimals text_num [''0.0200'', ''1.0000'', ''100.00'', ''0.4'', ''0.3'']"
proof -
  show "decimals_fit (decs text_num)" using rat_decimals_fit by (simp add: decimals_fit_def text_num_def)
  show "f64_saturates (flts text_num)" by (simp add: f64_saturates_def text_num_def in_i128_def)
  have "from_str ''0.0200'' = Inr (new_price 200 (- 4))" "from_str ''1.0000'' = Inr (new_price 10000 (- 4))"
    "from_str ''100.00'' = Inr (new_price 10000 (- 2))" "from_str ''0.4'' = Inr (new_price 4 (- 1))"
    "from_str ''0.3'' = Inr (new_price 3 (- 1))" by code_simp+
  then show "reads_decimals text_num [''0.0200'', ''1.0000'', ''100.00'', ''0.4'', ''0.3'']"
    by (simp add: reads_decimals_def text_num_def)
qed

lemma instance_start:
  "\<exists>e st. oracle_main text_num repo_files (\<lambda>_. None) Some (\<lambda>_ _. Inr ()) = Inr
     (shipped_cfg ''127.0.0.1:8080'' ''127.0.0.1:9100'', e, st,
      [HermesTask (feeds_by pyth_feed_id shipped_feeds), CoinGeckoTask [(''SOLCG/USD'', ''solana'')],
       BinanceTask [(''SOL/USDT'', ''SOLUSDT''), (''BTC/USDT'', ''BTCUSDT''), (''ETH/USDT'', ''ETHUSDT'')], EngineTask])"
  using shipped_main [of repo_files shipped_config local_overlay Some "''127.0.0.1:8080''"
      "''127.0.0.1:9100''" "\<lambda>_ _. Inr ()" text_num] text_num_laws(3) merged
  by (auto simp: repo_files_def)

lemma instance_tick:
  assumes "feeds = feeds_by pyth_feed_id shipped_feeds"
  shows "feed_tick F read_f64 (app_oracle (shipped_cfg l m)) (HermesTask feeds) sample_tick"
proof -
  have "hermes_symbols feeds (normalize_feed_id
      ''ef0d8b6fda2ceba41da15d4095d1da392a0d2f8ed0c6c7bc0f4cfac8c280b56d'') = Some ''SOL/USD''"
    unfolding assms by code_simp
  from sample_round [OF this] show ?thesis
    by (intro feed_tick.intros(1) [where accepts = "\<lambda>_. True" and b = True and alive = True and ps = "[sample_tick]"
          and rounds = "[(answers (sample_answer ''ef0d8b6fda2ceba41da15d4095d1da392a0d2f8ed0c6c7bc0f4cfac8c280b56d''), \<lambda>_. (7, True))]"])
       (simp_all add: hermes_task_def Let_def clocks_fit_def in_i64_def del: hermes_rounds.simps)
qed

section \<open>Properties of the service\<close>

text \<open>
  C4. The whole service is typed. Start it from any files and environment that load, let the feed
  servers answer anything at all, in any order, with any timer ticks in between: every point it
  ever broadcasts is a value of the Rust types, and its JSON form reads back as that point.
\<close>

theorem service_typed:
  assumes "oracle_main N G getenv addr telemetry = Inr (cfg, e, st, tasks)"
    and "decimals_fit (decs N)" and "f64_saturates (flts N)"
    and "list_all (fed (flts N) read_f64 (app_oracle cfg) tasks) evs"
  shows "list_all (\<lambda>p. point_ok p \<and> point_from_json (point_to_json p) = Some p)
    (as_broadcast (running N e st evs))"
proof -
  have "list_all event_typed evs"
    using assms(3,4) by (auto simp: list_all_iff intro: fed_typed)
  from running_state(2) [OF main_parts [OF assms(1)] assms(2) this] show ?thesis
    by (simp add: list_all_iff point_json)
qed

theorem service_typed_witness:
  "\<exists>e st. list_all (\<lambda>p. point_ok p \<and> point_from_json (point_to_json p) = Some p)
     (as_broadcast (running text_num e st [Ticked 1, Observed sample_tick 8, Ticked 1000001]))"
proof -
  obtain e st tasks where m: "oracle_main text_num repo_files (\<lambda>_. None) Some (\<lambda>_ _. Inr ()) = Inr
     (shipped_cfg ''127.0.0.1:8080'' ''127.0.0.1:9100'', e, st, tasks)"
    and "HermesTask (feeds_by pyth_feed_id shipped_feeds) \<in> set tasks"
    using instance_start by fastforce
  then have "list_all (fed (flts text_num) (\<lambda>_. None) (app_oracle (shipped_cfg ''127.0.0.1:8080'' ''127.0.0.1:9100'')) tasks)
      [Ticked 1, Observed sample_tick 8, Ticked 1000001]"
    using instance_tick [OF refl, of "flts text_num" "\<lambda>_. None" "''127.0.0.1:8080''" "''127.0.0.1:9100''"]
    by (simp add: in_i64_def) blast
  from service_typed [OF m text_num_laws(1,2) this] show ?thesis by blast
qed

text \<open>
  C34. The shipped configuration works. With no variable set, when the files are the repository's and the
  decimal library reads the literals they contain, the service loads them with every default
  filled in, compiles all ten instruments (the random walk and the peg on the clock), and starts
  one task for each provider with exactly its feeds, the engine, and no pusher.
\<close>

theorem shipped_config_starts:
  fixes N :: "('d, 'f, 'r) numerics"
  assumes "fg_toml G ''config/default.toml'' = Inr base" and "fg_toml G ''config/local.toml'' = Inr overlay"
    and "fg_merge G (fg_merge G base overlay) (fg_env G ''MTM_'' ''__'') = shipped_config"
    and "addr ''127.0.0.1:8080'' = Some listen" and "addr ''127.0.0.1:9100'' = Some metrics"
    and "telemetry ''oracle'' (Some metrics) = Inr ()"
    and "reads_decimals N [''0.0200'', ''1.0000'', ''100.00'', ''0.4'', ''0.3'']"
  shows "\<exists>e st. oracle_main N G (\<lambda>_. None) addr telemetry = Inr (shipped_cfg listen metrics, e, st,
      [HermesTask (feeds_by pyth_feed_id shipped_feeds), CoinGeckoTask [(''SOLCG/USD'', ''solana'')],
       BinanceTask [(''SOL/USDT'', ''SOLUSDT''), (''BTC/USDT'', ''BTCUSDT''), (''ETH/USDT'', ''ETHUSDT'')], EngineTask])
    \<and> map rt_symbol (eng_instruments e) =
      [''tSOL/USD'', ''tBTC/USD'', ''tETH/USD'', ''tSOLCG/USD'', ''tSOLBN/USD'', ''tSOLBNL/USD'', ''tSOLB/USD'',
       ''tMEME/USD'', ''tUSDC/USD'', ''tMAJ3/USD'']
    \<and> eng_timed e = [7, 8] \<and> map info_symbol (as_instruments st) = map rt_symbol (eng_instruments e)"
  using assms by (rule shipped_main)

theorem shipped_config_starts_witness:
  "\<exists>e st. oracle_main text_num repo_files (\<lambda>_. None) Some (\<lambda>_ _. Inr ()) = Inr
     (shipped_cfg ''127.0.0.1:8080'' ''127.0.0.1:9100'', e, st,
      [HermesTask (feeds_by pyth_feed_id shipped_feeds), CoinGeckoTask [(''SOLCG/USD'', ''solana'')],
       BinanceTask [(''SOL/USDT'', ''SOLUSDT''), (''BTC/USDT'', ''BTCUSDT''), (''ETH/USDT'', ''ETHUSDT'')], EngineTask])
     \<and> eng_timed e = [7, 8]"
  using shipped_config_starts [of repo_files shipped_config local_overlay Some "''127.0.0.1:8080''"
      "''127.0.0.1:9100''" "\<lambda>_ _. Inr ()" text_num] text_num_laws(3) merged
  by (auto simp: repo_files_def)

end
