(* ===== verification/Config_Layers.thy ===== *)
theory Config_Layers
  imports Oracle_Service
begin

text \<open>
  Which layer of the configuration a setting comes from: \<open>config/default.toml\<close>, the profile's file,
  the environment, each overriding the ones before.
\<close>

section \<open>Settings\<close>

text \<open>A layer sets a path to a value that is not a section, or says nothing about it.\<close>

fun sets :: "string list \<Rightarrow> 'f conf \<Rightarrow> 'f conf \<Rightarrow> bool" where
  "sets [] c v \<longleftrightarrow> c = v \<and> conf_dict v = None"
| "sets (k # ks) c v \<longleftrightarrow> (case conf_dict c of None \<Rightarrow> False | Some d \<Rightarrow>
     (case d k of None \<Rightarrow> False | Some w \<Rightarrow> sets ks w v))"

fun silent :: "string list \<Rightarrow> 'f conf \<Rightarrow> bool" where
  "silent [] c \<longleftrightarrow> False"
| "silent (k # ks) c \<longleftrightarrow> (case conf_dict c of None \<Rightarrow> False | Some d \<Rightarrow>
     (case d k of None \<Rightarrow> True | Some w \<Rightarrow> silent ks w))"

text \<open>
  The documented merge: what the second layer sets wins, what it is silent about stays.
\<close>

definition merges_layers :: "('f conf \<Rightarrow> 'f conf \<Rightarrow> 'f conf) \<Rightarrow> bool" where
  "merges_layers m \<longleftrightarrow>
     (\<forall>a b path v. sets path b v \<longrightarrow> sets path (m a b) v)
   \<and> (\<forall>a b path v. silent path b \<longrightarrow> sets path a v \<longrightarrow> sets path (m a b) v)"

section \<open>The merge of dictionaries has this property\<close>

lemma map_of_merged:
  "map_of (map (\<lambda>(k, v). (k, f k v)) a @ filter (\<lambda>kv. fst kv \<notin> fst ` set a) b) k
    = (case map_of a k of None \<Rightarrow> map_of b k | Some v \<Rightarrow> Some (f k v))"
proof -
  have "map_of (map (\<lambda>(k, v). (k, f k v)) a) k = map_option (f k) (map_of a k)"
    by (induction a) auto
  moreover have "map_of (filter (\<lambda>kv. fst kv \<notin> fst ` set a) b) k = map_of b k" if "map_of a k = None"
    using that by (induction b) (auto simp: map_of_eq_None_iff)
  ultimately show ?thesis
    by (cases "map_of a k") (simp_all add: map_add_def)
qed

lemma deep_merge_dict:
  "conf_dict (deep_merge (CDict a) (CDict b)) = Some (\<lambda>k. case map_of a k of None \<Rightarrow> map_of b k
     | Some v \<Rightarrow> Some (case map_of b k of None \<Rightarrow> v | Some w \<Rightarrow> deep_merge v w))"
  unfolding deep_merge.simps conf_dict.simps option.inject
  by (rule ext) (rule map_of_merged [of "\<lambda>k v. case map_of b k of None \<Rightarrow> v | Some w \<Rightarrow> deep_merge v w"])

lemma conf_dict_Some: "conf_dict c = Some d \<longleftrightarrow> (\<exists>fs. c = CDict fs \<and> d = map_of fs)"
  by (cases c) auto

lemma conf_dict_None: "conf_dict c = None \<longleftrightarrow> (\<forall>fs. c \<noteq> CDict fs)"
  by (cases c) auto

lemma deep_merge_sets: "sets path b v \<Longrightarrow> sets path (deep_merge a b) v"
proof (induction path arbitrary: a b)
  case Nil
  then have "deep_merge a b = b" by (cases b) (auto simp: conf_dict_None)
  then show ?case using Nil by simp
next
  case (Cons k ks)
  then obtain fs w where b: "b = CDict fs" "map_of fs k = Some w" "sets ks w v"
    by (auto simp: conf_dict_Some split: option.splits)
  show ?case
  proof (cases "\<exists>as. a = CDict as")
    case True
    then obtain as where "a = CDict as" by blast
    then show ?thesis using b Cons.IH by (auto simp: deep_merge_dict simp del: deep_merge.simps split: option.splits)
  next
    case False
    then have "deep_merge a b = b" by (cases a) (auto simp: b)
    then show ?thesis using Cons.prems by simp
  qed
qed

lemma deep_merge_silent: "silent path b \<Longrightarrow> sets path a v \<Longrightarrow> sets path (deep_merge a b) v"
proof (induction path arbitrary: a b)
  case (Cons k ks)
  then obtain fs as w where b: "b = CDict fs" and a: "a = CDict as" "map_of as k = Some w" "sets ks w v"
    by (auto simp: conf_dict_Some split: option.splits)
  then show ?case using Cons
    by (auto simp: deep_merge_dict simp del: deep_merge.simps split: option.splits)
qed simp

lemma deep_merge_layers: "merges_layers deep_merge"
  unfolding merges_layers_def using deep_merge_sets deep_merge_silent by blast

section \<open>Precedence\<close>

text \<open>
  The layers of the loader. What is decoded is the merge of the base file in the configuration
  directory, the file of the profile in \<open>MTM_PROFILE\<close> (\<open>local\<close> without one) and the variables that
  start with \<open>MTM_\<close>: a setting has the value of the environment if it sets it, else that of the
  profile, else that of the base file.
\<close>

theorem settings_precedence:
  assumes "merges_layers (fg_merge G)"
    and "fg_toml G (path_join (config_root getenv) ''default.toml'') = Inr base"
    and "fg_toml G (path_join (config_root getenv)
        ((case getenv ''MTM_PROFILE'' of Some p \<Rightarrow> p | None \<Rightarrow> ''local'') @ ''.toml'')) = Inr overlay"
  shows "\<exists>c. load_config G getenv decode = ok_or (decode c) ''extract''
    \<and> (\<forall>path v. let env = fg_env G ''MTM_'' ''__'' in
        (sets path env v \<longrightarrow> sets path c v)
      \<and> (silent path env \<longrightarrow> sets path overlay v \<longrightarrow> sets path c v)
      \<and> (silent path env \<longrightarrow> silent path overlay \<longrightarrow> sets path base v \<longrightarrow> sets path c v))"
  using assms
  by (intro exI [of _ "fg_merge G (fg_merge G base overlay) (fg_env G ''MTM_'' ''__'')"])
     (auto simp: load_config_def merges_layers_def Let_def)

definition overridden_files :: "'f figment" where
  "overridden_files = repo_files\<lparr>fg_env := (\<lambda>_ _. CDict [(''rpc'', CDict [(''http_url'', CText ''http://rpc'')])])\<rparr>"

lemma overridden_layers:
  "merges_layers (fg_merge overridden_files :: 'f conf \<Rightarrow> 'f conf \<Rightarrow> 'f conf)"
  "fg_toml overridden_files (path_join (config_root (\<lambda>_. None)) ''default.toml'') = Inr (shipped_config :: 'f conf)"
  "fg_toml overridden_files (path_join (config_root (\<lambda>_. None)) ((case (None :: string option) of
     Some p \<Rightarrow> p | None \<Rightarrow> ''local'') @ ''.toml'')) = Inr (local_overlay :: 'f conf)"
  "sets [''rpc'', ''http_url''] (fg_env overridden_files ''MTM_'' ''__'') (CText ''http://rpc'' :: 'f conf)"
  using deep_merge_layers
  by (simp_all add: overridden_files_def repo_files_def config_root_def path_join_def)

theorem settings_precedence_witness:
  "\<exists>c. load_config overridden_files (\<lambda>_. None) Some = Inr (c :: rat conf)
     \<and> sets [''rpc'', ''http_url''] c (CText ''http://rpc'')"
proof -
  obtain c :: "rat conf"
    where "load_config overridden_files (\<lambda>_. None) Some = ok_or (Some c) ''extract''"
      and "sets [''rpc'', ''http_url''] (fg_env overridden_files ''MTM_'' ''__'') (CText ''http://rpc'' :: rat conf)
        \<longrightarrow> sets [''rpc'', ''http_url''] c (CText ''http://rpc'')"
    by (rule exE [OF settings_precedence [where ?decode = Some, unfolded Let_def, OF overridden_layers(1) overridden_layers(2)
          overridden_layers(3)]]) (blast intro: that)
  then show ?thesis
    using overridden_layers(4) by (metis ok_or_simps(2))
qed

end
