(* ===== verification/Solana_Types.thy ===== *)
theory Solana_Types
  imports Prelude "HOL-Library.List_Lexorder" "HOL-Library.Word"
begin

text \<open>
  The Solana data types the chain code shares: public keys (32 bytes, ordered as byte strings),
  instructions as the source builds them, signers (known by their public key) and commitment
  levels. A library call that builds an instruction whose encoding is not in the source is a
  constructor of its own.
\<close>

section \<open>Public keys\<close>

datatype pubkey = Pubkey (pk_bytes: "u8 list")

instantiation pubkey :: linorder
begin

definition less_eq_pubkey :: "pubkey \<Rightarrow> pubkey \<Rightarrow> bool" where
  "less_eq_pubkey a b \<longleftrightarrow> pk_bytes a \<le> pk_bytes b"

definition less_pubkey :: "pubkey \<Rightarrow> pubkey \<Rightarrow> bool" where
  "less_pubkey a b \<longleftrightarrow> pk_bytes a < pk_bytes b"

instance
  by standard (auto simp: less_eq_pubkey_def less_pubkey_def pubkey.expand)

end

text \<open>\<open>Pubkey::default()\<close>: 32 zero bytes.\<close>

definition default_pubkey :: pubkey where
  "default_pubkey = Pubkey (replicate 32 0)"

definition pubkey_ok :: "pubkey \<Rightarrow> bool" where
  "pubkey_ok k \<longleftrightarrow> length (pk_bytes k) = 32"

section \<open>Instructions\<close>

record account_meta =
  am_pubkey :: pubkey
  am_signer :: bool
  am_writable :: bool

definition writable_meta :: "pubkey \<Rightarrow> bool \<Rightarrow> account_meta" where
  "writable_meta k s = \<lparr>am_pubkey = k, am_signer = s, am_writable = True\<rparr>"

definition readonly_meta :: "pubkey \<Rightarrow> bool \<Rightarrow> account_meta" where
  "readonly_meta k s = \<lparr>am_pubkey = k, am_signer = s, am_writable = False\<rparr>"

record raw_instruction =
  ix_program :: pubkey
  ix_accounts :: "account_meta list"
  ix_data :: "u8 list"

datatype instruction =
    SetComputeUnitLimit u32
  | SetComputeUnitPrice u64
  | Invoke raw_instruction

datatype commitment = Processed | Confirmed | Finalized

section \<open>Little-endian integers\<close>

text \<open>\<open>to_le_bytes\<close> and \<open>from_le_bytes\<close>, on the value of the integer.\<close>

fun le_bytes :: "nat \<Rightarrow> nat \<Rightarrow> u8 list" where
  "le_bytes 0 n = []"
| "le_bytes (Suc k) n = of_nat (n mod 256) # le_bytes k (n div 256)"

fun of_le_bytes :: "u8 list \<Rightarrow> nat" where
  "of_le_bytes [] = 0"
| "of_le_bytes (b # bs) = unat b + 256 * of_le_bytes bs"

lemma unat_byte: "unat (b :: u8) < 256"
  using unsigned_less [of b] by simp

lemma unat_u64: "unat (w :: u64) < 2 ^ 64"
  using unsigned_less [of w] by simp

lemma length_le_bytes [simp]: "length (le_bytes k n) = k"
  by (induction k n rule: le_bytes.induct) simp_all

lemma of_le_bytes_le_bytes: "n < 256 ^ k \<Longrightarrow> of_le_bytes (le_bytes k n) = n"
proof (induction k n rule: le_bytes.induct)
  case (2 k n)
  then have "n div 256 < 256 ^ k" by (simp add: less_mult_imp_div_less mult.commute)
  with "2.IH" show ?case by (simp add: unat_of_nat)
qed simp

lemma of_le_bytes_less: "of_le_bytes bs < 256 ^ length bs"
proof (induction bs)
  case (Cons b bs)
  have "unat b < 256" by (rule unat_byte)
  with Cons show ?case by simp
qed simp

lemma le_bytes_of_le_bytes: "le_bytes (length bs) (of_le_bytes bs) = bs"
proof (induction bs)
  case (Cons b bs)
  have "unat b < 256" by (rule unat_byte)
  with Cons show ?case by simp
qed simp

definition u64_bytes :: "u64 \<Rightarrow> u8 list" where
  "u64_bytes w = le_bytes 8 (unat w)"

definition u64_of_bytes :: "u8 list \<Rightarrow> u64 option" where
  "u64_of_bytes bs = (if length bs = 8 then Some (of_nat (of_le_bytes bs)) else None)"

lemma u64_bytes_roundtrip: "u64_of_bytes (u64_bytes w) = Some w"
  using unat_u64 [of w] by (simp add: u64_of_bytes_def u64_bytes_def of_le_bytes_le_bytes)

interpretation u64_le: codec u64_bytes u64_of_bytes "\<lambda>_. True"
  by unfold_locales (rule u64_bytes_roundtrip)

end
