(* ===== verification/Adapter.thy ===== *)
theory Adapter
  imports Solana_Types
begin

text \<open>
  \<open>raydium-clmm-client/src/adapter.rs\<close>: the conversions between the key and instruction types of the
  Raydium interface's Solana version and the workspace's. The rest of the model has one type for
  both; what licenses this is that the conversions lose nothing.
\<close>

section \<open>The older types\<close>

datatype legacy_pubkey = LegacyPubkey (legacy_bytes: "u8 list")

record legacy_meta =
  lm_pubkey :: legacy_pubkey
  lm_signer :: bool
  lm_writable :: bool

record legacy_instruction =
  li_program :: legacy_pubkey
  li_accounts :: "legacy_meta list"
  li_data :: "u8 list"

section \<open>The conversions\<close>

definition to_legacy_pubkey :: "pubkey \<Rightarrow> legacy_pubkey" where
  "to_legacy_pubkey k = LegacyPubkey (pk_bytes k)"

definition current_pubkey :: "legacy_pubkey \<Rightarrow> pubkey" where
  "current_pubkey k = Pubkey (legacy_bytes k)"

definition adapt_meta :: "legacy_meta \<Rightarrow> account_meta" where
  "adapt_meta m =
     (if lm_writable m then writable_meta (current_pubkey (lm_pubkey m)) (lm_signer m)
      else readonly_meta (current_pubkey (lm_pubkey m)) (lm_signer m))"

definition adapt_instruction :: "legacy_instruction \<Rightarrow> raw_instruction" where
  "adapt_instruction i =
     \<lparr>ix_program = current_pubkey (li_program i), ix_accounts = map adapt_meta (li_accounts i),
      ix_data = li_data i\<rparr>"

section \<open>Nothing is lost\<close>

text \<open>The instruction of the older types with the same content.\<close>

definition legacy_of :: "raw_instruction \<Rightarrow> legacy_instruction" where
  "legacy_of i = \<lparr>li_program = to_legacy_pubkey (ix_program i),
     li_accounts = map (\<lambda>m. \<lparr>lm_pubkey = to_legacy_pubkey (am_pubkey m), lm_signer = am_signer m,
       lm_writable = am_writable m\<rparr>) (ix_accounts i), li_data = ix_data i\<rparr>"

lemma keys_roundtrip [simp]:
  "current_pubkey (to_legacy_pubkey k) = k" "to_legacy_pubkey (current_pubkey l) = l"
  by (simp_all add: current_pubkey_def to_legacy_pubkey_def)

lemma adapt_meta_fields [simp]:
  "am_pubkey (adapt_meta m) = current_pubkey (lm_pubkey m)" "am_signer (adapt_meta m) = lm_signer m"
  "am_writable (adapt_meta m) = lm_writable m"
  by (simp_all add: adapt_meta_def writable_meta_def readonly_meta_def)

text \<open>
  The conversion of instructions is a bijection between the two versions of the type, both for the
  privileges of the accounts and for the bytes: what a call of the interface crate built is what is
  signed and sent.
\<close>

theorem adapter_bijective:
  "adapt_instruction (legacy_of i) = i \<and> legacy_of (adapt_instruction l) = l"
proof
  have meta: "adapt_meta \<lparr>lm_pubkey = to_legacy_pubkey (am_pubkey m), lm_signer = am_signer m,
      lm_writable = am_writable m\<rparr> = m" for m
    by (rule account_meta.equality) simp_all
  show "adapt_instruction (legacy_of i) = i"
    by (intro raw_instruction.equality) (simp_all add: adapt_instruction_def legacy_of_def o_def meta)
  have meta': "\<lparr>lm_pubkey = lm_pubkey m, lm_signer = lm_signer m, lm_writable = lm_writable m\<rparr> = m" for m
    by (rule legacy_meta.equality) simp_all
  show "legacy_of (adapt_instruction l) = l"
    by (intro legacy_instruction.equality) (simp_all add: adapt_instruction_def legacy_of_def o_def meta')
qed

end
