(* ===== verification/Key_Files.thy ===== *)
theory Key_Files
  imports Solana_Types
begin

text \<open>
  The key files of \<open>crates/mtm-chain/src/keys.rs\<close>. The file system and the key generator are
  parameters; the contract they keep is the locale \<open>key_directory\<close>.
\<close>

record ('w, 'k) key_files =
  kf_exists :: "string \<Rightarrow> 'w \<Rightarrow> bool"
  kf_make_parent :: "string \<Rightarrow> 'w \<Rightarrow> (string + unit) \<times> 'w"
      \<comment> \<open>\<open>create_dir_all\<close> of the parent; nothing for a path without one\<close>
  kf_new :: "'w \<Rightarrow> 'k \<times> 'w"
  kf_write :: "'k \<Rightarrow> string \<Rightarrow> 'w \<Rightarrow> (string + unit) \<times> 'w"
  kf_read :: "string \<Rightarrow> 'w \<Rightarrow> string + 'k"

definition load_key :: "('w, 'k) key_files \<Rightarrow> string \<Rightarrow> 'w \<Rightarrow> string + 'k" where
  "load_key K path w = map_err (\<lambda>e. ''reading keypair '' @ path @ '': '' @ e) (kf_read K path w)"

definition generate_key :: "('w, 'k) key_files \<Rightarrow> string \<Rightarrow> 'w \<Rightarrow> (string + 'k) \<times> 'w" where
  "generate_key K path w =
     (if kf_exists K path w then (Inl (''refusing to overwrite '' @ path), w)
      else case kf_make_parent K path w of
        (Inl e, w1) \<Rightarrow> (Inl e, w1)
      | (Inr _, w1) \<Rightarrow>
          (let (key, w2) = kf_new K w1; (r, w3) = kf_write K key path w2
           in (bindR (map_err (\<lambda>e. ''writing keypair '' @ path @ '': '' @ e) r) (\<lambda>_. Inr key), w3)))"

section \<open>The contract of the file system\<close>

locale key_directory =
  fixes K :: "('w, 'k) key_files"
  assumes read_written: "kf_write K k p w = (Inr (), w') \<Longrightarrow> kf_read K p w' = Inr k"
    and write_elsewhere: "kf_write K k p w = (r, w') \<Longrightarrow> q \<noteq> p \<Longrightarrow> kf_read K q w' = kf_read K q w"
    and make_parent_keeps: "kf_make_parent K p w = (r, w') \<Longrightarrow> kf_read K q w' = kf_read K q w"
    and new_keeps: "kf_new K w = (k, w') \<Longrightarrow> kf_read K q w' = kf_read K q w"
begin

lemma generate_refuses:
  "kf_exists K path w \<Longrightarrow> generate_key K path w = (Inl (''refusing to overwrite '' @ path), w)"
  by (simp add: generate_key_def)

lemma generate_loads: "generate_key K path w = (Inr k, w') \<Longrightarrow> load_key K path w' = Inr k"
  using read_written
  by (fastforce simp: generate_key_def load_key_def Let_def result_simps split: if_splits prod.splits sum.splits)

lemma generate_elsewhere:
  assumes "generate_key K path w = (r, w')" and "q \<noteq> path"
  shows "kf_read K q w' = kf_read K q w"
proof (cases "kf_exists K path w")
  case True
  then show ?thesis using assms(1) by (simp add: generate_key_def)
next
  case False
  obtain m w1 where m: "kf_make_parent K path w = (m, w1)" by fastforce
  obtain k w2 where k: "kf_new K w1 = (k, w2)" by fastforce
  obtain t w3 where t: "kf_write K k path w2 = (t, w3)" by fastforce
  have "w' = (case m of Inl _ \<Rightarrow> w1 | Inr _ \<Rightarrow> w3)"
    using assms(1) False by (cases m) (simp_all add: generate_key_def m k t Let_def)
  then show ?thesis
    using make_parent_keeps [OF m, of q] new_keeps [OF k, of q] write_elsewhere [OF t assms(2)]
    by (cases m) simp_all
qed

end

section \<open>Files as a map\<close>

text \<open>A world of files and a counter from which keys are drawn.\<close>

definition mapped_files :: "((string \<rightharpoonup> nat) \<times> nat, nat) key_files" where
  "mapped_files = \<lparr>kf_exists = (\<lambda>p w. fst w p \<noteq> None), kf_make_parent = (\<lambda>p w. (Inr (), w)),
     kf_new = (\<lambda>w. (snd w, (fst w, Suc (snd w)))), kf_write = (\<lambda>k p w. (Inr (), ((fst w)(p \<mapsto> k), snd w))),
     kf_read = (\<lambda>p w. ok_or (fst w p) ''no such file'')\<rparr>"

interpretation mapped: key_directory mapped_files
  by unfold_locales (auto simp: mapped_files_def)

text \<open>
  On these files: a key that is generated is new, can be loaded, and leaves every other file as it
  was; a file that exists is never written.
\<close>

theorem generated_key_loads:
  "case generate_key mapped_files path w of
     (Inl _, w') \<Rightarrow> fst w path \<noteq> None \<and> w' = w
   | (Inr k, w') \<Rightarrow> fst w path = None \<and> load_key mapped_files path w' = Inr k
       \<and> (\<forall>q. q \<noteq> path \<longrightarrow> kf_read mapped_files q w' = kf_read mapped_files q w)"
proof (cases "kf_exists mapped_files path w")
  case True
  then show ?thesis using mapped.generate_refuses by (simp add: mapped_files_def)
next
  case False
  then obtain k w' where g: "generate_key mapped_files path w = (Inr k, w')"
    by (simp add: generate_key_def mapped_files_def)
  then show ?thesis using False mapped.generate_loads [OF g] mapped.generate_elsewhere [OF g]
    by (simp add: mapped_files_def)
qed

end
