(* ===== verification/Chain.thy ===== *)
theory Chain
  imports Solana_Types
begin

text \<open>
  \<open>crates/mtm-chain\<close>: building, simulating, sending and confirming a transaction
  (\<open>lib.rs\<close>, \<open>submit\<close>) and the retrying sender (\<open>tx.rs\<close>, \<open>send_instructions\<close>). The cluster and the
  runtime are the parameter \<open>R\<close>: each call reads and changes the state \<open>'w\<close> of the world. A
  function returns its result, the world after it, and the calls it made, in order.
\<close>

section \<open>Data\<close>

record submission_config =
  sc_unit_limit :: u32
  sc_unit_price :: u64
  sc_commitment :: commitment
  sc_max_send_attempts :: nat
  sc_confirmation_timeout :: nat  \<comment> \<open>nanoseconds\<close>
  sc_poll_interval :: nat         \<comment> \<open>nanoseconds\<close>

definition default_submission :: submission_config where
  "default_submission = \<lparr>sc_unit_limit = 1400000, sc_unit_price = 0, sc_commitment = Confirmed,
     sc_max_send_attempts = 3, sc_confirmation_timeout = 45 * 10 ^ 9,
     sc_poll_interval = 500 * 10 ^ 6\<rparr>"

record ('h) transaction =
  txn_instructions :: "instruction list"
  txn_payer :: pubkey
  txn_signers :: "pubkey list"
  txn_blockhash :: 'h

record 's outcome =
  out_signature :: 's
  out_slot :: u64
  out_units :: u64

datatype 's submission_error =
    Blockhash string
  | Signing string
  | SimulationRpc string
  | Simulation string "string list"
  | Submission string
  | Execution 's u64 string
  | AmbiguousConfirmation 's string

datatype rpc_error_kind =
  Io | Reqwest | Middleware | RpcFailure | SerdeJson | SigningFailure | TransactionFailure | CustomFailure

record simulation =
  sim_err :: "string option"
  sim_units :: "u64 option"
  sim_logs :: "string list option"

record tx_status =
  ts_slot :: u64
  ts_err :: "string option"
  ts_satisfies :: "commitment \<Rightarrow> bool"

text \<open>The cluster, the signer and the clock, as the source calls them.\<close>

record ('w, 'h, 's) chain_rpc =
  rpc_blockhash :: "commitment option \<Rightarrow> 'w \<Rightarrow> (string + 'h \<times> u64) \<times> 'w"
  rpc_sign :: "'h transaction \<Rightarrow> string + 's"  \<comment> \<open>\<open>try_sign\<close>, then the first signature\<close>
  rpc_simulate :: "'h transaction \<Rightarrow> 'w \<Rightarrow> (string + simulation) \<times> 'w"
  rpc_send :: "'h transaction \<Rightarrow> 'w \<Rightarrow> (rpc_error_kind \<times> string + 's) \<times> 'w"
  rpc_status :: "'s \<Rightarrow> 'w \<Rightarrow> (string + tx_status option) \<times> 'w"
  rpc_block_height :: "'w \<Rightarrow> (string + u64) \<times> 'w"
  rpc_send_and_confirm :: "'h transaction \<Rightarrow> 'w \<Rightarrow> (string + 's) \<times> 'w"
  rpc_sleep :: "nat \<Rightarrow> 'w \<Rightarrow> 'w"
  rpc_clock :: "'w \<Rightarrow> nat"

datatype ('h, 's) rpc_call =
    GetBlockhash
  | Simulate "'h transaction"
  | Send "'h transaction"
  | GetStatus 's
  | GetHeight
  | Sleep nat
  | SendAndConfirm "'h transaction"

section \<open>Commitment and transport errors\<close>

definition parse_commitment :: "string \<Rightarrow> string + commitment" where
  "parse_commitment s =
     (if s = ''processed'' then Inr Processed
      else if s = ''confirmed'' then Inr Confirmed
      else if s = ''finalized'' then Inr Finalized
      else Inl (''unknown commitment level: '' @ s))"

text \<open>A client of a node: where it is, and the commitment its reads default to.\<close>

record chain_client =
  cn_http_url :: string
  cn_commitment :: commitment

definition chain_client_new :: "string \<Rightarrow> string \<Rightarrow> string + chain_client" where
  "chain_client_new http_url level =
     bindR (parse_commitment level) (\<lambda>c. Inr \<lparr>cn_http_url = http_url, cn_commitment = c\<rparr>)"

definition current_slot :: "('w \<Rightarrow> (string + u64) \<times> 'w) \<Rightarrow> 'w \<Rightarrow> (string + u64) \<times> 'w" where
  "current_slot get_slot w = (let (r, w1) = get_slot w in (map_err (\<lambda>e. ''get_slot failed: '' @ e) r, w1))"

definition is_transport_error :: "rpc_error_kind \<Rightarrow> bool" where
  "is_transport_error k = (k \<in> {Io, Reqwest, Middleware, SerdeJson})"

section \<open>Submission\<close>

text \<open>The signers: the payer, then each further signer not met before.\<close>

definition add_signer :: "pubkey \<Rightarrow> pubkey list \<Rightarrow> pubkey \<Rightarrow> pubkey list" where
  "add_signer payer known s = (if s \<noteq> payer \<and> s \<notin> set known then known @ [s] else known)"

definition unique_signers :: "pubkey \<Rightarrow> pubkey list \<Rightarrow> pubkey list" where
  "unique_signers payer extra = foldl (add_signer payer) [payer] extra"

text \<open>
  The send loop over the attempts \<open>1..=attempts\<close>: a transport error is retried after a pause
  except on the last attempt, which goes on to confirmation; any other error is final.
\<close>

fun send_loop ::
    "('w, 'h, 's) chain_rpc \<Rightarrow> 'h transaction \<Rightarrow> 's \<Rightarrow> nat \<Rightarrow> nat list \<Rightarrow> 'w
      \<Rightarrow> ('s submission_error + unit) \<times> 'w \<times> ('h, 's) rpc_call list" where
  "send_loop R tx sig attempts [] w = (Inr (), w, [])"
| "send_loop R tx sig attempts (attempt # rest) w =
     (let (r, w1) = rpc_send R tx w in
      case r of
        Inr returned \<Rightarrow>
          (if returned \<noteq> sig
           then (Inl (AmbiguousConfirmation sig ''RPC returned a different signature''), w1, [Send tx])
           else (Inr (), w1, [Send tx]))
      | Inl (kind, text) \<Rightarrow>
          (if is_transport_error kind \<and> attempt < attempts then
             (let d = 200 * 10 ^ 6 * attempt;
                  (res, w2, calls) = send_loop R tx sig attempts rest (rpc_sleep R d w1)
              in (res, w2, Send tx # Sleep d # calls))
           else if is_transport_error kind then (Inr (), w1, [Send tx])
           else (Inl (Submission text), w1, [Send tx])))"

text \<open>
  The confirmation loop. \<open>fuel\<close> bounds the number of polls; \<open>None\<close> says that it did not suffice
  (\<open>confirm_returns\<close> shows how much always does).
\<close>

fun confirm_loop ::
    "('w, 'h, 's) chain_rpc \<Rightarrow> submission_config \<Rightarrow> 's \<Rightarrow> u64 \<Rightarrow> u64 \<Rightarrow> nat \<Rightarrow> nat \<Rightarrow> 'w
      \<Rightarrow> (('s submission_error + 's outcome) \<times> 'w \<times> ('h, 's) rpc_call list) option" where
  "confirm_loop R c sig units last_height started 0 w = None"
| "confirm_loop R c sig units last_height started (Suc fuel) w =
     (let (r, w1) = rpc_status R sig w in
      case r of
        Inl e \<Rightarrow> Some (Inl (AmbiguousConfirmation sig e), w1, [GetStatus sig])
      | Inr st \<Rightarrow>
          (case (case st of
                   None \<Rightarrow> None
                 | Some s \<Rightarrow>
                     (case ts_err s of
                        Some e \<Rightarrow> Some (Inl (Execution sig (ts_slot s) e))
                      | None \<Rightarrow>
                          if ts_satisfies s (sc_commitment c)
                          then Some (Inr \<lparr>out_signature = sig, out_slot = ts_slot s, out_units = units\<rparr>)
                          else None)) of
             Some res \<Rightarrow> Some (res, w1, [GetStatus sig])
           | None \<Rightarrow>
               (let (h, w2) = rpc_block_height R w1 in
                case h of
                  Inl e \<Rightarrow> Some (Inl (AmbiguousConfirmation sig e), w2, [GetStatus sig, GetHeight])
                | Inr height \<Rightarrow>
                    if last_height < height then
                      Some (Inl (AmbiguousConfirmation sig ''blockhash expired without an observed status''),
                            w2, [GetStatus sig, GetHeight])
                    else if sc_confirmation_timeout c \<le> rpc_clock R w2 - started then
                      Some (Inl (AmbiguousConfirmation sig ''confirmation deadline elapsed''),
                            w2, [GetStatus sig, GetHeight])
                    else
                      (case confirm_loop R c sig units last_height started fuel
                              (rpc_sleep R (sc_poll_interval c) w2) of
                         None \<Rightarrow> None
                       | Some (res, w3, calls) \<Rightarrow>
                           Some (res, w3, [GetStatus sig, GetHeight, Sleep (sc_poll_interval c)] @ calls)))))"

definition build_transaction ::
    "instruction list \<Rightarrow> pubkey \<Rightarrow> pubkey list \<Rightarrow> submission_config \<Rightarrow> 'h \<Rightarrow> 'h transaction" where
  "build_transaction ixs payer extra c h =
     \<lparr>txn_instructions = [SetComputeUnitLimit (sc_unit_limit c), SetComputeUnitPrice (sc_unit_price c)] @ ixs,
      txn_payer = payer, txn_signers = unique_signers payer extra, txn_blockhash = h\<rparr>"

definition send_and_wait ::
    "('w, 'h, 's) chain_rpc \<Rightarrow> nat \<Rightarrow> submission_config \<Rightarrow> 'h transaction \<Rightarrow> 's \<Rightarrow> u64 \<Rightarrow> u64 \<Rightarrow> 'w
      \<Rightarrow> (('s submission_error + 's outcome) \<times> 'w \<times> ('h, 's) rpc_call list) option" where
  "send_and_wait R fuel c tx sig units last_height w =
     (let attempts = max 1 (sc_max_send_attempts c);
          (r, w1, calls) = send_loop R tx sig attempts [1..<Suc attempts] w in
      case r of
        Inl e \<Rightarrow> Some (Inl e, w1, calls)
      | Inr _ \<Rightarrow>
          (case confirm_loop R c sig units last_height (rpc_clock R w1) fuel w1 of
             None \<Rightarrow> None
           | Some (res, w2, calls') \<Rightarrow> Some (res, w2, calls @ calls')))"

definition submit ::
    "('w, 'h, 's) chain_rpc \<Rightarrow> nat \<Rightarrow> instruction list \<Rightarrow> pubkey \<Rightarrow> pubkey list \<Rightarrow> submission_config \<Rightarrow> 'w
      \<Rightarrow> (('s submission_error + 's outcome) \<times> 'w \<times> ('h, 's) rpc_call list) option" where
  "submit R fuel ixs payer extra c w =
     (let (b, w1) = rpc_blockhash R (Some (sc_commitment c)) w in
      case b of
        Inl e \<Rightarrow> Some (Inl (Blockhash e), w1, [GetBlockhash])
      | Inr (h, last_height) \<Rightarrow>
          (let tx = build_transaction ixs payer extra c h in
           case rpc_sign R tx of
             Inl e \<Rightarrow> Some (Inl (Signing e), w1, [GetBlockhash])
           | Inr sig \<Rightarrow>
               (let (s, w2) = rpc_simulate R tx w1 in
                case s of
                  Inl e \<Rightarrow> Some (Inl (SimulationRpc e), w2, [GetBlockhash, Simulate tx])
                | Inr sim \<Rightarrow>
                    (case sim_err sim of
                       Some e \<Rightarrow>
                         Some (Inl (Simulation e (case sim_logs sim of None \<Rightarrow> [] | Some l \<Rightarrow> l)),
                               w2, [GetBlockhash, Simulate tx])
                     | None \<Rightarrow>
                         (case send_and_wait R fuel c tx sig
                                 (case sim_units sim of None \<Rightarrow> 0 | Some u \<Rightarrow> u) last_height w2 of
                            None \<Rightarrow> None
                          | Some (res, w3, calls) \<Rightarrow>
                              Some (res, w3, [GetBlockhash, Simulate tx] @ calls))))))"

section \<open>The retrying sender\<close>

record tx_options =
  to_cu_limit :: "u32 option"
  to_cu_price :: "u64 option"
  to_max_attempts :: nat

definition default_tx_options :: tx_options where
  "default_tx_options = \<lparr>to_cu_limit = None, to_cu_price = None, to_max_attempts = 3\<rparr>"

datatype send_error = BlockhashFailed string | FailedAfter nat "string option"

definition option_instructions :: "tx_options \<Rightarrow> instruction list" where
  "option_instructions opts =
     (case to_cu_limit opts of None \<Rightarrow> [] | Some l \<Rightarrow> [SetComputeUnitLimit l])
     @ (case to_cu_price opts of None \<Rightarrow> [] | Some p \<Rightarrow> [SetComputeUnitPrice p])"

fun send_attempts ::
    "('w, 'h, 's) chain_rpc \<Rightarrow> ('h \<Rightarrow> 'h transaction) \<Rightarrow> nat \<Rightarrow> nat \<Rightarrow> string option \<Rightarrow> 'w
      \<Rightarrow> (send_error + 's) \<times> 'w \<times> ('h, 's) rpc_call list" where
  "send_attempts R mk reported 0 last_err w = (Inl (FailedAfter reported last_err), w, [])"
| "send_attempts R mk reported (Suc n) last_err w =
     (let (b, w1) = rpc_blockhash R None w in
      case b of
        Inl e \<Rightarrow> (Inl (BlockhashFailed e), w1, [GetBlockhash])
      | Inr (h, _) \<Rightarrow>
          (let (r, w2) = rpc_send_and_confirm R (mk h) w1 in
           case r of
             Inr sig \<Rightarrow> (Inr sig, w2, [GetBlockhash, SendAndConfirm (mk h)])
           | Inl e \<Rightarrow>
               (let (res, w3, calls) = send_attempts R mk reported n (Some e) w2
                in (res, w3, [GetBlockhash, SendAndConfirm (mk h)] @ calls))))"

definition send_instructions ::
    "('w, 'h, 's) chain_rpc \<Rightarrow> instruction list \<Rightarrow> pubkey \<Rightarrow> pubkey list \<Rightarrow> tx_options \<Rightarrow> 'w
      \<Rightarrow> (send_error + 's) \<times> 'w \<times> ('h, 's) rpc_call list" where
  "send_instructions R ixs payer extra opts w =
     send_attempts R (\<lambda>h. \<lparr>txn_instructions = option_instructions opts @ ixs, txn_payer = payer,
         txn_signers = payer # extra, txn_blockhash = h\<rparr>)
       (to_max_attempts opts) (max 1 (to_max_attempts opts)) None w"

section \<open>Commitment names\<close>

fun commitment_name :: "commitment \<Rightarrow> string" where
  "commitment_name Processed = ''processed''"
| "commitment_name Confirmed = ''confirmed''"
| "commitment_name Finalized = ''finalized''"

interpretation commitment_text: codec commitment_name "\<lambda>s. ok (parse_commitment s)" "\<lambda>_. True"
  by (unfold_locales, rename_tac c, case_tac c) (simp_all add: parse_commitment_def)

section \<open>What is sent\<close>

definition sent :: "('h, 's) rpc_call list \<Rightarrow> 'h transaction list" where
  "sent calls = List.map_filter
     (\<lambda>c. case c of Send t \<Rightarrow> Some t | SendAndConfirm t \<Rightarrow> Some t | _ \<Rightarrow> None) calls"

lemma sent_simps [simp]:
  "sent [] = []" "sent (Send t # cs) = t # sent cs" "sent (SendAndConfirm t # cs) = t # sent cs"
  "sent (GetBlockhash # cs) = sent cs" "sent (Simulate t # cs) = sent cs"
  "sent (GetStatus s # cs) = sent cs" "sent (GetHeight # cs) = sent cs" "sent (Sleep d # cs) = sent cs"
  by (simp_all add: sent_def List.map_filter_simps)

lemma sent_append [simp]: "sent (xs @ ys) = sent xs @ sent ys"
  by (simp add: sent_def List.map_filter_def)

lemma send_loop_calls:
  "send_loop R tx sig n as w = (r, w', calls) \<Longrightarrow>
     set (sent calls) \<subseteq> {tx} \<and> length (sent calls) \<le> length as \<and> (as \<noteq> [] \<longrightarrow> sent calls \<noteq> [])
     \<and> GetBlockhash \<notin> set calls \<and> (\<forall>t. Simulate t \<notin> set calls)
     \<and> (\<forall>e. r = Inl e \<longrightarrow> (\<exists>t. e = Submission t) \<or> (\<exists>t. e = AmbiguousConfirmation sig t))"
proof (induction "as" arbitrary: w r w' calls)
  case Nil
  then show ?case by auto
next
  case (Cons attempt rest)
  obtain q w1 where q: "rpc_send R tx w = (q, w1)" by fastforce
  show ?case
  proof (cases q)
    case (Inl e)
    obtain kind msg where e: "e = (kind, msg)" by fastforce
    show ?thesis
    proof (cases "is_transport_error kind \<and> attempt < n")
      case True
      obtain r1 w2 c1 where rest: "send_loop R tx sig n rest
          (rpc_sleep R (200 * 10 ^ 6 * attempt) w1) = (r1, w2, c1)"
        by (metis prod_cases3)
      from Cons.IH [OF rest] rest Cons.prems True show ?thesis by (auto simp: q Inl e)
    next
      case False
      with Cons.prems show ?thesis by (auto simp: q Inl e split: if_splits)
    qed
  next
    case (Inr s)
    with Cons.prems show ?thesis by (auto simp: q split: if_splits)
  qed
qed

text \<open>The cluster reported a status that justifies the outcome.\<close>

definition confirmed_by :: "('w, 'h, 's) chain_rpc \<Rightarrow> submission_config \<Rightarrow> 's \<Rightarrow> 's outcome \<Rightarrow> bool" where
  "confirmed_by R c sig out \<longleftrightarrow> out_signature out = sig
     \<and> (\<exists>v v' status. rpc_status R sig v = (Inr (Some status), v') \<and> ts_err status = None
          \<and> ts_satisfies status (sc_commitment c) \<and> out_slot out = ts_slot status)"

lemma confirmed_byI:
  "rpc_status R sig v = (Inr (Some status), v') \<Longrightarrow> ts_err status = None
    \<Longrightarrow> ts_satisfies status (sc_commitment c)
    \<Longrightarrow> confirmed_by R c sig \<lparr>out_signature = sig, out_slot = ts_slot status, out_units = u\<rparr>"
  unfolding confirmed_by_def by auto

lemma confirm_loop_calls:
  "confirm_loop R c sig units lh st fuel w = Some (r, w', calls) \<Longrightarrow>
     sent calls = [] \<and> GetBlockhash \<notin> set calls \<and> (\<forall>t. Simulate t \<notin> set calls)
     \<and> (\<forall>e. r = Inl e \<longrightarrow> (\<exists>t. e = AmbiguousConfirmation sig t) \<or> (\<exists>s t. e = Execution sig s t))
     \<and> (\<forall>out. r = Inr out \<longrightarrow> confirmed_by R c sig out)"
proof (induction fuel arbitrary: w r w' calls)
  case 0
  then show ?case by simp
next
  case (Suc fuel)
  obtain q w1 where q: "rpc_status R sig w = (q, w1)" by fastforce
  obtain h w2 where h: "rpc_block_height R w1 = (h, w2)" by fastforce
  show ?case
  proof (cases "confirm_loop R c sig units lh st fuel (rpc_sleep R (sc_poll_interval c) w2)")
    case None
    with Suc.prems q show ?thesis
      by (auto simp: h Let_def intro: confirmed_byI split: sum.splits option.splits if_splits)
  next
    case (Some res)
    obtain r3 w3 c3 where res: "res = (r3, w3, c3)" by (metis prod_cases3)
    from Suc.IH [OF Some [unfolded res]] Suc.prems q Some show ?thesis
      by (auto simp: h res Let_def intro: confirmed_byI split: sum.splits option.splits if_splits)
  qed
qed

lemma send_and_wait_calls:
  assumes "send_and_wait R fuel c tx sig units lh w = Some (r, w', calls)"
  shows "set (sent calls) = {tx} \<and> length (sent calls) \<le> max 1 (sc_max_send_attempts c)
    \<and> GetBlockhash \<notin> set calls \<and> (\<forall>t. Simulate t \<notin> set calls)
    \<and> (\<forall>e. r = Inl e \<longrightarrow> (\<exists>t. e = Submission t) \<or> (\<exists>t. e = AmbiguousConfirmation sig t)
         \<or> (\<exists>s t. e = Execution sig s t))
    \<and> (\<forall>out. r = Inr out \<longrightarrow> confirmed_by R c sig out)"
proof -
  let ?n = "max 1 (sc_max_send_attempts c)"
  obtain q w1 c1 where q: "send_loop R tx sig ?n [1..<Suc ?n] w = (q, w1, c1)" by (metis prod_cases3)
  have ne: "[1..<Suc ?n] \<noteq> []" and len: "length [1..<Suc ?n] = ?n" by simp_all
  note L = send_loop_calls [OF q, unfolded len]
  from L ne have one: "set (sent c1) = {tx}" by (cases "sent c1") auto
  show ?thesis
  proof (cases q)
    case (Inl e)
    with assms q have "r = Inl e" "calls = c1" by (simp_all add: send_and_wait_def)
    with L one Inl show ?thesis by auto
  next
    case (Inr u)
    with assms q obtain c2 where
      cl: "confirm_loop R c sig units lh (rpc_clock R w1) fuel w1 = Some (r, w', c2)"
      and "calls = c1 @ c2"
      by (auto simp: send_and_wait_def split: option.splits)
    with L one confirm_loop_calls [OF cl] show ?thesis by auto
  qed
qed

fun before_sending :: "'s submission_error + 'a \<Rightarrow> bool" where
  "before_sending (Inl (Blockhash _)) = True"
| "before_sending (Inl (Signing _)) = True"
| "before_sending (Inl (SimulationRpc _)) = True"
| "before_sending (Inl (Simulation _ _)) = True"
| "before_sending _ = False"

lemma submit_cases:
  assumes "submit R fuel ixs payer extra c w = Some (r, w', calls)"
  obtains (early) "before_sending r" and "sent calls = []" and "count_list calls GetBlockhash = 1"
  | (late) h tx sig units lh w2 cs where "tx = build_transaction ixs payer extra c h"
      and "rpc_sign R tx = Inr sig" and "calls = [GetBlockhash, Simulate tx] @ cs"
      and "send_and_wait R fuel c tx sig units lh w2 = Some (r, w', cs)"
      and "\<exists>w1 sim. rpc_blockhash R (Some (sc_commitment c)) w = (Inr (h, lh), w1)
        \<and> rpc_simulate R tx w1 = (Inr sim, w2) \<and> sim_err sim = None"
  using assms
  by (auto simp: submit_def Let_def split: prod.splits sum.splits option.splits)

lemma count_list_zero: "x \<notin> set xs \<Longrightarrow> count_list xs x = 0"
  by (induction xs) auto

text \<open>
  C5. What \<open>submit\<close> puts on the wire. It asks for one blockhash, at the configured commitment. When it
  sends anything, its calls are that question, one simulation, and then the rest: every transaction
  sent is the one simulated before, without error, built from that blockhash for the payer, with
  the compute budget before the instructions; it is sent at most \<open>max 1 max_send_attempts\<close> times. It
  sends nothing exactly when it fails before sending (blockhash, signing, simulation).
\<close>

theorem submit_sends_one_transaction:
  assumes "submit R fuel ixs payer extra c w = Some (r, w', calls)"
  shows "count_list calls GetBlockhash = 1
    \<and> length (sent calls) \<le> max 1 (sc_max_send_attempts c)
    \<and> (sent calls = [] \<longleftrightarrow> before_sending r)
    \<and> (sent calls \<noteq> [] \<longrightarrow> (\<exists>h lh w1 tx sim w2 rest.
         rpc_blockhash R (Some (sc_commitment c)) w = (Inr (h, lh), w1)
       \<and> txn_instructions tx = [SetComputeUnitLimit (sc_unit_limit c), SetComputeUnitPrice (sc_unit_price c)] @ ixs
       \<and> txn_payer tx = payer \<and> txn_signers tx = unique_signers payer extra \<and> txn_blockhash tx = h
       \<and> rpc_simulate R tx w1 = (Inr sim, w2) \<and> sim_err sim = None
       \<and> calls = GetBlockhash # Simulate tx # rest \<and> (\<forall>t. Simulate t \<notin> set rest) \<and> set (sent rest) = {tx}))"
  using assms
proof (cases rule: submit_cases)
  case early
  then show ?thesis by simp
next
  case (late h tx sig units lh w2 cs)
  note S = send_and_wait_calls [OF late(4)]
  have parts: "txn_instructions tx = [SetComputeUnitLimit (sc_unit_limit c), SetComputeUnitPrice (sc_unit_price c)] @ ixs"
    "txn_payer tx = payer" "txn_signers tx = unique_signers payer extra" "txn_blockhash tx = h"
    by (simp_all add: late(1) build_transaction_def)
  have "\<not> before_sending r"
    using S by (cases r) (auto split: submission_error.splits)
  moreover have "sent calls \<noteq> []" "count_list calls GetBlockhash = 1" "sent calls = sent cs"
    using S late(3) by (auto simp: count_list_zero)
  moreover have "calls = GetBlockhash # Simulate tx # cs" using late(3) by simp
  ultimately show ?thesis using S late(5) parts by (intro conjI) (simp_all, blast)
qed

text \<open>
  C6. \<open>submit\<close> reports success only for the transaction it signed, when the cluster returned a
  status of it without error at the configured commitment, and with that status's slot.
\<close>

theorem submit_ok_confirmed:
  assumes "submit R fuel ixs payer extra c w = Some (Inr out, w', calls)"
  shows "\<exists>h v v' status. rpc_sign R (build_transaction ixs payer extra c h) = Inr (out_signature out)
    \<and> sent calls \<noteq> []
    \<and> rpc_status R (out_signature out) v = (Inr (Some status), v') \<and> ts_err status = None
    \<and> ts_satisfies status (sc_commitment c) \<and> out_slot out = ts_slot status"
  using assms
proof (cases rule: submit_cases)
  case early
  then show ?thesis by simp
next
  case (late h tx sig units lh w2 cs)
  then show ?thesis using send_and_wait_calls [OF late(4)] by (fastforce simp: confirmed_by_def)
qed

section \<open>Signers\<close>

lemma add_signers_inv:
  "distinct known \<Longrightarrow> payer \<in> set known \<Longrightarrow> known \<noteq> [] \<Longrightarrow>
     distinct (foldl (add_signer payer) known extra)
     \<and> set (foldl (add_signer payer) known extra) = set known \<union> set extra
     \<and> hd (foldl (add_signer payer) known extra) = hd known"
  by (induction extra arbitrary: known) (auto simp: add_signer_def)

text \<open>
  A submitted transaction is signed once by each signer, the payer first: repeated signers and
  the payer among the additional ones are dropped, and none is lost.
\<close>

theorem unique_signers_spec:
  "distinct (unique_signers payer extra)
   \<and> set (unique_signers payer extra) = insert payer (set extra)
   \<and> hd (unique_signers payer extra) = payer"
  using add_signers_inv [of "[payer]" payer extra] by (simp add: unique_signers_def)

section \<open>Confirmation ends\<close>

text \<open>Time passes: a pause takes at least its length and a call does not turn the clock back.\<close>

definition time_passes :: "('w, 'h, 's) chain_rpc \<Rightarrow> bool" where
  "time_passes R \<longleftrightarrow>
     (\<forall>d w. rpc_clock R w + d \<le> rpc_clock R (rpc_sleep R d w))
     \<and> (\<forall>s w. rpc_clock R w \<le> rpc_clock R (snd (rpc_status R s w)))
     \<and> (\<forall>w. rpc_clock R w \<le> rpc_clock R (snd (rpc_block_height R w)))"

lemma confirm_loop_returns:
  assumes "time_passes R" and "0 < sc_poll_interval c"
    and "sc_confirmation_timeout c - (rpc_clock R w - started) + sc_poll_interval c
           \<le> fuel * sc_poll_interval c"
    and "started \<le> rpc_clock R w"
  shows "confirm_loop R c sig units lh started fuel w \<noteq> None"
  using assms(3,4)
proof (induction fuel arbitrary: w)
  case 0
  with assms(2) show ?case by simp
next
  case (Suc fuel)
  obtain q w1 where q: "rpc_status R sig w = (q, w1)" by fastforce
  obtain h w2 where h: "rpc_block_height R w1 = (h, w2)" by fastforce
  let ?w3 = "rpc_sleep R (sc_poll_interval c) w2"
  from assms(1) have t: "rpc_clock R w \<le> rpc_clock R w1" "rpc_clock R w1 \<le> rpc_clock R w2"
      "rpc_clock R w2 + sc_poll_interval c \<le> rpc_clock R ?w3"
    unfolding time_passes_def by (metis q snd_conv, metis h snd_conv, blast)
  have "confirm_loop R c sig units lh started fuel ?w3 \<noteq> None"
    if "\<not> sc_confirmation_timeout c \<le> rpc_clock R w2 - started"
  proof (rule Suc.IH)
    let ?p = "sc_poll_interval c" and ?T = "sc_confirmation_timeout c"
    have "0 < ?T - (rpc_clock R w - started)" using that t by linarith
    moreover have le: "?T - (rpc_clock R w - started) \<le> fuel * ?p" using Suc.prems(1) by simp
    ultimately have "0 < fuel" by (cases fuel) simp_all
    then have "?p \<le> fuel * ?p" by simp
    moreover have "?T - (rpc_clock R ?w3 - started) \<le> ?T - (rpc_clock R w - started) - ?p"
      using t Suc.prems(2) by linarith
    ultimately show "?T - (rpc_clock R ?w3 - started) + ?p \<le> fuel * ?p" using le by linarith
    show "started \<le> rpc_clock R ?w3" using t Suc.prems(2) by linarith
  qed
  then show ?case
    by (auto simp: q h Let_def split: sum.splits option.splits if_splits)
qed

lemma submit_not_None:
  assumes "time_passes R" and "0 < sc_poll_interval c"
    and "sc_confirmation_timeout c + sc_poll_interval c \<le> fuel * sc_poll_interval c"
  shows "submit R fuel ixs payer extra c w \<noteq> None"
proof -
  have conf: "confirm_loop R c sig units lh (rpc_clock R v) fuel v \<noteq> None" for sig units lh v
    using assms by (intro confirm_loop_returns) simp_all
  have sw: "send_and_wait R fuel c tx sig units lh v \<noteq> None" for tx sig units lh v
    by (auto simp: send_and_wait_def Let_def conf split: prod.splits sum.splits option.splits)
  show ?thesis
    by (auto simp: submit_def Let_def sw split: prod.splits sum.splits option.splits)
qed

text \<open>
  C12. \<open>submit\<close> returns. When time passes and the poll interval is positive, a number of polls that
  covers the timeout and one more interval is enough, whatever the cluster answers: the call ends
  with a result. For the default configuration that is 91 polls.
\<close>

theorem submit_returns:
  assumes "time_passes R" and "0 < sc_poll_interval c"
    and "sc_confirmation_timeout c + sc_poll_interval c \<le> fuel * sc_poll_interval c"
  shows "\<exists>r w' calls. submit R fuel ixs payer extra c w = Some (r, w', calls)"
  using submit_not_None [OF assms, of ixs payer extra w] by (auto simp: prod_cases3)

section \<open>A concrete cluster\<close>

text \<open>A world that counts calls and time: the transaction has landed once the counter is large.\<close>

definition sample_rpc :: "(nat, nat, nat) chain_rpc" where
  "sample_rpc = \<lparr>rpc_blockhash = (\<lambda>_ w. (Inr (w, 100), w + 1)), rpc_sign = (\<lambda>_. Inr 7),
     rpc_simulate = (\<lambda>_ w. (Inr \<lparr>sim_err = None, sim_units = Some 5, sim_logs = None\<rparr>, w + 1)),
     rpc_send = (\<lambda>_ w. (Inr 7, w + 1)),
     rpc_status = (\<lambda>_ w. (Inr (if w < 5 then None else
        Some \<lparr>ts_slot = 9, ts_err = None, ts_satisfies = (\<lambda>_. True)\<rparr>), w + 1)),
     rpc_block_height = (\<lambda>w. (Inr 1, w + 1)),
     rpc_send_and_confirm = (\<lambda>_ w. (if w < 2 then Inl ''timed out'' else Inr 7, w + 1)),
     rpc_sleep = (\<lambda>d w. w + d), rpc_clock = id\<rparr>"

lemma sample_time: "time_passes sample_rpc"
  by (simp add: time_passes_def sample_rpc_def)

definition sample_submission :: submission_config where
  "sample_submission = default_submission\<lparr>sc_max_send_attempts := 2,
     sc_confirmation_timeout := 10, sc_poll_interval := 5\<rparr>"

lemma two_attempts: "[Suc 0..<3] = [1, 2]"
  by (simp add: upt_rec)

lemmas submit_eval = submit_def send_and_wait_def sample_rpc_def sample_submission_def
  default_submission_def two_attempts is_transport_error_def

lemma sample_submit:
  "\<exists>w' calls. submit sample_rpc (Suc (Suc (Suc 0))) [] default_pubkey [] sample_submission 0
     = Some (Inr \<lparr>out_signature = 7, out_slot = 9, out_units = 5\<rparr>, w', calls)
     \<and> length (sent calls) = 1"
  by (simp add: submit_eval Let_def)

theorem submit_returns_witness:
  "\<exists>r w' calls. submit sample_rpc (Suc (Suc (Suc 0))) [] default_pubkey [] sample_submission 0 = Some (r, w', calls)"
  by (rule submit_returns [OF sample_time]) (simp_all add: sample_submission_def)

theorem submit_sends_one_transaction_witness:
  "\<exists>r w' calls. submit sample_rpc (Suc (Suc (Suc 0))) [] default_pubkey [] sample_submission 0 = Some (r, w', calls)
     \<and> count_list calls GetBlockhash = 1 \<and> length (sent calls) = 1"
proof -
  obtain w' calls where s: "submit sample_rpc (Suc (Suc (Suc 0))) [] default_pubkey [] sample_submission 0
     = Some (Inr \<lparr>out_signature = 7, out_slot = 9, out_units = 5\<rparr>, w', calls)" and "length (sent calls) = 1"
    using sample_submit by blast
  with submit_sends_one_transaction [OF s] show ?thesis by auto
qed

theorem submit_ok_confirmed_witness:
  "\<exists>out w' calls. submit sample_rpc (Suc (Suc (Suc 0))) [] default_pubkey [] sample_submission 0 = Some (Inr out, w', calls)
     \<and> out_slot out = 9 \<and> sent calls \<noteq> []"
proof -
  obtain w' calls where s: "submit sample_rpc (Suc (Suc (Suc 0))) [] default_pubkey [] sample_submission 0
     = Some (Inr \<lparr>out_signature = 7, out_slot = 9, out_units = 5\<rparr>, w', calls)"
    using sample_submit by blast
  with submit_ok_confirmed [OF s] show ?thesis by auto
qed

section \<open>A definite answer about an ambiguous transaction\<close>

text \<open>The first send times out after reaching the cluster; the second is answered with an error.\<close>

definition flaky_rpc :: "(nat, nat, nat) chain_rpc" where
  "flaky_rpc = sample_rpc\<lparr>rpc_send := (\<lambda>_ w. (Inl (if w = 2 then (Reqwest, ''timed out'')
     else (RpcFailure, ''node is behind'')), w + 1))\<rparr>"

text \<open>
  \<open>submit\<close> can report a plain submission failure for a transaction that has landed: when an
  earlier attempt ended in a transport error (so it may have reached a validator) and a later
  one is answered with an RPC error, the result is \<open>Submission\<close>, not \<open>AmbiguousConfirmation\<close>, and
  the status of the signature is not looked up, although it is a success.
\<close>

theorem submit_failure_after_landing:
  "\<exists>w' calls. submit flaky_rpc (Suc (Suc (Suc 0))) [] default_pubkey [] sample_submission 0
      = Some (Inl (Submission ''node is behind''), w', calls)
     \<and> length (sent calls) = 2 \<and> GetStatus 7 \<notin> set calls
     \<and> (\<exists>st. fst (rpc_status flaky_rpc 7 w') = Inr (Some st) \<and> ts_err st = None
          \<and> ts_satisfies st (sc_commitment sample_submission))"
  by (simp add: flaky_rpc_def submit_eval Let_def)

section \<open>The retrying sender\<close>

fun attempt_pairs :: "('h \<Rightarrow> 'h transaction) \<Rightarrow> ('h, 's) rpc_call list \<Rightarrow> bool" where
  "attempt_pairs mk [] \<longleftrightarrow> True"
| "attempt_pairs mk [GetBlockhash] \<longleftrightarrow> True"
| "attempt_pairs mk (GetBlockhash # SendAndConfirm t # cs) \<longleftrightarrow> (\<exists>h. t = mk h) \<and> attempt_pairs mk cs"
| "attempt_pairs mk _ \<longleftrightarrow> False"

definition confirmed_send :: "('w, 'h, 's) chain_rpc \<Rightarrow> 'h transaction \<Rightarrow> 's \<Rightarrow> bool" where
  "confirmed_send R t sig \<longleftrightarrow> (\<exists>v v'. rpc_send_and_confirm R t v = (Inr sig, v'))"

lemma send_attempts_calls:
  "send_attempts R mk rep n le w = (r, w', calls) \<Longrightarrow>
     attempt_pairs mk calls \<and> length (sent calls) \<le> n
     \<and> (case r of
          Inr sig \<Rightarrow> sent calls \<noteq> [] \<and> confirmed_send R (List.last (sent calls)) sig
        | Inl (BlockhashFailed e) \<Rightarrow> length (sent calls) < n
        | Inl (FailedAfter k e) \<Rightarrow> k = rep \<and> length (sent calls) = n)"
proof (induction n arbitrary: le w r w' calls)
  case 0
  then show ?case by auto
next
  case (Suc n)
  obtain b w1 where b: "rpc_blockhash R None w = (b, w1)" by fastforce
  show ?case
  proof (cases b)
    case (Inl e)
    with Suc.prems b show ?thesis by auto
  next
    case (Inr hl)
    obtain h lh where hl: "hl = (h, lh)" by fastforce
    obtain q w2 where q: "rpc_send_and_confirm R (mk h) w1 = (q, w2)" by fastforce
    show ?thesis
    proof (cases q)
      case i: (Inr sig)
      have "confirmed_send R (mk h) sig" using q i unfolding confirmed_send_def by blast
      with i Suc.prems b Inr hl q show ?thesis by auto
    next
      case i: (Inl e)
      obtain r3 w3 c3 where rest: "send_attempts R mk rep n (Some e) w2 = (r3, w3, c3)"
        by (metis prod_cases3)
      from Suc.IH [OF rest] rest Suc.prems b Inr hl q i show ?thesis
        by (auto split: sum.splits send_error.splits)
    qed
  qed
qed

text \<open>
  \<open>send_instructions\<close> makes at most \<open>max 1 max_attempts\<close> attempts, each with a blockhash of its
  own fetched just before it; it returns a signature only from an attempt the cluster confirmed,
  and gives up only after that many failures, or at once when a blockhash cannot be fetched. The
  count it reports is the configured one, zero included.
\<close>

theorem send_instructions_attempts:
  assumes "send_instructions R ixs payer extra opts w = (r, w', calls)"
  shows "attempt_pairs (\<lambda>h. \<lparr>txn_instructions = option_instructions opts @ ixs, txn_payer = payer,
            txn_signers = payer # extra, txn_blockhash = h\<rparr>) calls
    \<and> length (sent calls) \<le> max 1 (to_max_attempts opts)
    \<and> (case r of
          Inr sig \<Rightarrow> sent calls \<noteq> []
            \<and> (\<exists>v v'. rpc_send_and_confirm R (List.last (sent calls)) v = (Inr sig, v'))
        | Inl (BlockhashFailed e) \<Rightarrow> length (sent calls) < max 1 (to_max_attempts opts)
        | Inl (FailedAfter k e) \<Rightarrow> k = to_max_attempts opts
            \<and> length (sent calls) = max 1 (to_max_attempts opts))"
  using send_attempts_calls [OF assms [unfolded send_instructions_def]]
  unfolding confirmed_send_def by blast

theorem send_instructions_attempts_witness:
  "\<exists>w' calls. send_instructions sample_rpc [] default_pubkey []
      (default_tx_options\<lparr>to_max_attempts := 0\<rparr>) 0 = (Inl (FailedAfter 0 (Some ''timed out'')), w', calls)
     \<and> length (sent calls) = 1"
proof -
  obtain w' calls where s: "send_instructions sample_rpc [] default_pubkey []
      (default_tx_options\<lparr>to_max_attempts := 0\<rparr>) 0 = (Inl (FailedAfter 0 (Some ''timed out'')), w', calls)"
    by (simp add: send_instructions_def sample_rpc_def default_tx_options_def Let_def)
  with send_instructions_attempts [OF s] show ?thesis by (simp add: default_tx_options_def)
qed

section \<open>Connecting\<close>

lemma chain_client_levels:
  "chain_client_new url (commitment_name level) = Inr \<lparr>cn_http_url = url, cn_commitment = level\<rparr>"
  by (cases level) (simp_all add: chain_client_new_def parse_commitment_def)

end
