(* ===== verification/Chain_Liveness.thy ===== *)
theory Chain_Liveness
  imports Chain
begin

text \<open>
  \<open>submit\<close> succeeds when the cluster cooperates: the other half of its contract. What a node may
  still do is fail every send with a transport error, answer polls with nothing or with an
  insufficient commitment until the transaction lands, and take its time.
\<close>

section \<open>A cooperative node\<close>

text \<open>
  \<open>landed\<close> is the clock reading from which the status of a signature satisfies the commitment, \<open>delay\<close>
  bounds what a poll (a status and a block height) takes; block heights stay in the validity of
  the blockhash.
\<close>

definition cooperates :: "('w, 'h, 's) chain_rpc \<Rightarrow> submission_config \<Rightarrow> nat \<Rightarrow> nat \<Rightarrow> bool" where
  "cooperates R c landed delay \<longleftrightarrow>
     (\<forall>l w. \<exists>h lh w'. rpc_blockhash R l w = (Inr (h, lh), w') \<and> rpc_clock R w \<le> rpc_clock R w'
        \<and> (\<forall>v. \<exists>n v'. rpc_block_height R v = (Inr n, v') \<and> n \<le> lh))
   \<and> (\<forall>tx. \<exists>sig. rpc_sign R tx = Inr sig
        \<and> (\<forall>w. \<exists>r w'. rpc_send R tx w = (r, w') \<and> rpc_clock R w \<le> rpc_clock R w'
             \<and> (case r of Inr s \<Rightarrow> s = sig | Inl e \<Rightarrow> is_transport_error (fst e))))
   \<and> (\<forall>tx w. \<exists>sim w'. rpc_simulate R tx w = (Inr sim, w') \<and> sim_err sim = None
        \<and> rpc_clock R w \<le> rpc_clock R w')
   \<and> (\<forall>sig w. \<exists>st w'. rpc_status R sig w = (Inr st, w')
        \<and> (case st of None \<Rightarrow> rpc_clock R w < landed
           | Some s \<Rightarrow> ts_err s = None \<and> (landed \<le> rpc_clock R w \<longrightarrow> ts_satisfies s (sc_commitment c)))
        \<and> rpc_clock R (snd (rpc_block_height R w')) \<le> rpc_clock R w + delay)"

lemma cooperates_blockhash:
  "cooperates R c landed delay \<Longrightarrow> \<exists>h lh w'. rpc_blockhash R l w = (Inr (h, lh), w')
     \<and> rpc_clock R w \<le> rpc_clock R w' \<and> (\<forall>v. \<exists>n v'. rpc_block_height R v = (Inr n, v') \<and> n \<le> lh)"
  by (simp add: cooperates_def)

lemma cooperates_sign:
  "cooperates R c landed delay \<Longrightarrow> \<exists>sig. rpc_sign R tx = Inr sig
     \<and> (\<forall>w. \<exists>r w'. rpc_send R tx w = (r, w') \<and> rpc_clock R w \<le> rpc_clock R w'
          \<and> (case r of Inr s \<Rightarrow> s = sig | Inl e \<Rightarrow> is_transport_error (fst e)))"
  by (simp add: cooperates_def)

lemma cooperates_simulate:
  "cooperates R c landed delay \<Longrightarrow> \<exists>sim w'. rpc_simulate R tx w = (Inr sim, w') \<and> sim_err sim = None
     \<and> rpc_clock R w \<le> rpc_clock R w'"
  by (simp add: cooperates_def)

lemma cooperates_status:
  "cooperates R c landed delay \<Longrightarrow> \<exists>st w'. rpc_status R sig w = (Inr st, w')
     \<and> (case st of None \<Rightarrow> rpc_clock R w < landed
        | Some s \<Rightarrow> ts_err s = None \<and> (landed \<le> rpc_clock R w \<longrightarrow> ts_satisfies s (sc_commitment c)))
     \<and> rpc_clock R (snd (rpc_block_height R w')) \<le> rpc_clock R w + delay"
  by (simp add: cooperates_def)

lemma send_loop_cooperates:
  assumes "time_passes R"
    and "\<And>w. \<exists>r w'. rpc_send R tx w = (r, w') \<and> rpc_clock R w \<le> rpc_clock R w'
             \<and> (case r of Inr s \<Rightarrow> s = sig | Inl e \<Rightarrow> is_transport_error (fst e))"
  shows "\<exists>w' calls. send_loop R tx sig n attempts w = (Inr (), w', calls) \<and> rpc_clock R w \<le> rpc_clock R w'"
proof (induction attempts arbitrary: w)
  case (Cons attempt rest)
  obtain r w1 where s: "rpc_send R tx w = (r, w1)" and t: "rpc_clock R w \<le> rpc_clock R w1"
    and r: "case r of Inr s \<Rightarrow> s = sig | Inl e \<Rightarrow> is_transport_error (fst e)"
    using assms(2) by blast
  let ?w2 = "rpc_sleep R (200 * 10 ^ 6 * attempt) w1"
  obtain w' calls where rest: "send_loop R tx sig n rest ?w2 = (Inr (), w', calls)" "rpc_clock R ?w2 \<le> rpc_clock R w'"
    using Cons.IH by blast
  have "rpc_clock R w1 \<le> rpc_clock R ?w2"
    using assms(1) unfolding time_passes_def by (meson add_leE)
  with rest t have t': "rpc_clock R w \<le> rpc_clock R w'" by linarith
  show ?case
  proof (cases r)
    case (Inl e)
    obtain kind msg where "e = (kind, msg)" by fastforce
    then have k: "is_transport_error kind" and s': "rpc_send R tx w = (Inl (kind, msg), w1)"
      using Inl r s by simp_all
    have "send_loop R tx sig n (attempt # rest) w =
       (if attempt < n then (Inr (), w', Send tx # Sleep (200 * 10 ^ 6 * attempt) # calls)
        else (Inr (), w1, [Send tx]))"
      unfolding send_loop.simps s' using rest(1) by (simp add: k Let_def)
    then show ?thesis using t t' by simp
  next
    case (Inr sig')
    then have "rpc_send R tx w = (Inr sig, w1)" using r s by simp
    then show ?thesis using t by simp
  qed
qed simp

lemma confirm_loop_cooperates:
  assumes "cooperates R c landed delay"
    and "landed + delay < started + sc_confirmation_timeout c" "0 < sc_confirmation_timeout c"
    and "\<And>v. \<exists>n v'. rpc_block_height R v = (Inr n, v') \<and> n \<le> last_height"
    and "confirm_loop R c sig units last_height started fuel w = Some (res, w', calls)"
  shows "\<exists>out. res = Inr out"
  using assms(5)
proof (induction fuel arbitrary: w res w' calls)
  case (Suc fuel)
  obtain st w1 where s: "rpc_status R sig w = (Inr st, w1)"
    and st: "case st of None \<Rightarrow> rpc_clock R w < landed
       | Some s \<Rightarrow> ts_err s = None \<and> (landed \<le> rpc_clock R w \<longrightarrow> ts_satisfies s (sc_commitment c))"
    and late: "rpc_clock R (snd (rpc_block_height R w1)) \<le> rpc_clock R w + delay"
    using cooperates_status [OF assms(1), of sig w] by blast
  obtain n w2 where h: "rpc_block_height R w1 = (Inr n, w2)" and n: "\<not> last_height < n"
    using assms(4) [of w1] by (meson not_less)
  show ?case
  proof (cases "\<exists>s. st = Some s \<and> ts_satisfies s (sc_commitment c)")
    case True
    then show ?thesis using Suc.prems s st by auto
  next
    case False
    then have "rpc_clock R w < landed" using st by (cases st) auto
    with late h have "rpc_clock R w2 < landed + delay" by simp
    with assms(2,3) have early: "\<not> sc_confirmation_timeout c \<le> rpc_clock R w2 - started"
      by linarith
    have step: "confirm_loop R c sig units last_height started (Suc fuel) w =
       (case confirm_loop R c sig units last_height started fuel (rpc_sleep R (sc_poll_interval c) w2) of
          None \<Rightarrow> None
        | Some (res, w3, calls) \<Rightarrow>
            Some (res, w3, [GetStatus sig, GetHeight, Sleep (sc_poll_interval c)] @ calls))"
    proof (cases st)
      case None
      show ?thesis unfolding confirm_loop.simps s Let_def None prod.case sum.case option.case h using n early by simp
    next
      case (Some x)
      then have "ts_err x = None" "\<not> ts_satisfies x (sc_commitment c)" using st False by simp_all
      then show ?thesis unfolding confirm_loop.simps s Let_def Some prod.case sum.case option.case h using n early by simp
    qed
    have "(case confirm_loop R c sig units last_height started fuel (rpc_sleep R (sc_poll_interval c) w2) of
        None \<Rightarrow> None
      | Some (res, w3, calls) \<Rightarrow>
          Some (res, w3, [GetStatus sig, GetHeight, Sleep (sc_poll_interval c)] @ calls)) = Some (res, w', calls)"
      using Suc.prems unfolding step .
    then obtain w3 calls' where "confirm_loop R c sig units last_height started fuel
        (rpc_sleep R (sc_poll_interval c) w2) = Some (res, w3, calls')"
      by (auto split: option.splits)
    then show ?thesis by (rule Suc.IH)
  qed
qed simp

text \<open>
  C13. Submission succeeds on a cooperative cluster. When the blockhash and the signature are obtained,
  the simulation passes, every send is answered with the signature or fails in transport (even
  all of them), the transaction lands, and it does so early enough for a poll to see it before
  the deadline, \<open>submit\<close> returns a success.
\<close>

theorem submit_succeeds:
  assumes "time_passes R" and "0 < sc_poll_interval c" "0 < sc_confirmation_timeout c"
    and "sc_confirmation_timeout c + sc_poll_interval c \<le> fuel * sc_poll_interval c"
    and "cooperates R c landed delay" and "landed + delay < rpc_clock R w + sc_confirmation_timeout c"
  shows "\<exists>out w' calls. submit R fuel ixs payer extra c w = Some (Inr out, w', calls)"
proof -
  obtain h lh w1 where b: "rpc_blockhash R (Some (sc_commitment c)) w = (Inr (h, lh), w1)"
    and t1: "rpc_clock R w \<le> rpc_clock R w1"
    and height: "\<And>v. \<exists>n v'. rpc_block_height R v = (Inr n, v') \<and> n \<le> lh"
    using cooperates_blockhash [OF assms(5), of "Some (sc_commitment c)" w] by blast
  define tx where "tx = build_transaction ixs payer extra c h"
  obtain sig where sig: "rpc_sign R tx = Inr sig"
    and send: "\<And>w. \<exists>r w'. rpc_send R tx w = (r, w') \<and> rpc_clock R w \<le> rpc_clock R w'
        \<and> (case r of Inr s \<Rightarrow> s = sig | Inl e \<Rightarrow> is_transport_error (fst e))"
    using cooperates_sign [OF assms(5), of tx] by blast
  obtain sim w2 where sim: "rpc_simulate R tx w1 = (Inr sim, w2)" "sim_err sim = None"
    and t2: "rpc_clock R w1 \<le> rpc_clock R w2"
    using cooperates_simulate [OF assms(5), of tx w1] by blast
  let ?attempts = "max 1 (sc_max_send_attempts c)"
  obtain w3 sends where loop: "send_loop R tx sig ?attempts [1..<Suc ?attempts] w2 = (Inr (), w3, sends)"
    and t3: "rpc_clock R w2 \<le> rpc_clock R w3"
    using send_loop_cooperates [OF assms(1) send, of ?attempts "[1..<Suc ?attempts]" w2] by blast
  let ?units = "case sim_units sim of None \<Rightarrow> 0 | Some u \<Rightarrow> u"
  have "confirm_loop R c sig ?units lh (rpc_clock R w3) fuel w3 \<noteq> None"
    using assms(1,2,4) by (intro confirm_loop_returns) simp_all
  then obtain res w4 polls where
    conf: "confirm_loop R c sig ?units lh (rpc_clock R w3) fuel w3 = Some (res, w4, polls)" by auto
  have "landed + delay < rpc_clock R w3 + sc_confirmation_timeout c" using assms(6) t1 t2 t3 by linarith
  from confirm_loop_cooperates [OF assms(5) this assms(3) height conf] obtain out where "res = Inr out" by blast
  then have "send_and_wait R fuel c tx sig ?units lh w2 = Some (Inr out, w4, sends @ polls)"
    unfolding send_and_wait_def Let_def loop by (simp add: conf)
  then show ?thesis unfolding submit_def Let_def b by (simp add: tx_def [symmetric] sig sim)
qed

theorem submit_succeeds_witness:
  "\<exists>out w' calls. submit sample_rpc 3 [] default_pubkey [] sample_submission 0 = Some (Inr out, w', calls)"
proof -
  have coop: "cooperates sample_rpc sample_submission 5 2"
    by (simp add: cooperates_def sample_rpc_def)
  have "0 < sc_poll_interval sample_submission" "0 < sc_confirmation_timeout sample_submission"
    "sc_confirmation_timeout sample_submission + sc_poll_interval sample_submission
      \<le> 3 * sc_poll_interval sample_submission"
    "5 + 2 < rpc_clock sample_rpc 0 + sc_confirmation_timeout sample_submission"
    by (simp_all add: sample_submission_def sample_rpc_def)
  from submit_succeeds [OF sample_time this(1-3) coop this(4)] show ?thesis .
qed

end
