(* ===== verification/Quote_Swap.thy ===== *)
theory Quote_Swap
  imports Solana_Types
begin

text \<open>
  \<open>crates/raydium-clmm-client/src/quote.rs\<close>: the off-chain quote of a swap through the
  initialized tick arrays of one pool. The Raydium interface library (tick and swap mathematics,
  the pool's and the tick arrays' methods) is a parameter: \<open>clmm_math\<close> holds its functions, and a
  pool, a tick array and a tick are records of what the code reads of them.
\<close>

section \<open>The Raydium interface\<close>

record tick_state =
  tk_index :: int
  tk_liquidity_net :: int
  tk_initialized :: bool
  tk_limit_orders :: bool

definition default_tick :: tick_state where
  "default_tick = \<lparr>tk_index = 0, tk_liquidity_net = 0, tk_initialized = False, tk_limit_orders = False\<rparr>"

record tick_array =
  ta_pool :: pubkey
  ta_start :: int
  ta_next :: "int \<Rightarrow> u16 \<Rightarrow> bool \<Rightarrow> string + tick_state option"  \<comment> \<open>\<open>next_initialized_tick\<close>\<close>
  ta_first :: "bool \<Rightarrow> string + tick_state"  \<comment> \<open>\<open>first_initialized_tick\<close>\<close>

record 'b pool_state =
  ps_amm_config :: pubkey
  ps_mint_0 :: pubkey
  ps_mint_1 :: pubkey
  ps_vault_0 :: pubkey
  ps_vault_1 :: pubkey
  ps_observation :: pubkey
  ps_decimals_0 :: u8
  ps_decimals_1 :: u8
  ps_tick_spacing :: u16
  ps_sqrt_price :: u128
  ps_tick_current :: int
  ps_liquidity :: u128
  ps_dynamic_fee :: bool
  ps_rewards :: "(pubkey \<times> pubkey) list"  \<comment> \<open>mint and vault of each reward slot\<close>
  ps_first_array :: "'b \<Rightarrow> bool \<Rightarrow> string + bool \<times> int"
  ps_next_array :: "'b \<Rightarrow> int \<Rightarrow> bool \<Rightarrow> string + int option"
  ps_fee_on_input :: "bool \<Rightarrow> bool"

record swap_step =
  sp_in :: u64
  sp_fee :: u64
  sp_out :: u64
  sp_price_next :: u128

record clmm_math =
  cm_min_sqrt :: u128
  cm_max_sqrt :: u128
  cm_min_tick :: int
  cm_max_tick :: int
  cm_sqrt_at_tick :: "int \<Rightarrow> string + u128"
  cm_tick_at_sqrt :: "u128 \<Rightarrow> string + int"
  cm_compute_swap :: "u128 \<Rightarrow> u128 \<Rightarrow> u128 \<Rightarrow> u64 \<Rightarrow> u32 \<Rightarrow> bool \<Rightarrow> bool \<Rightarrow> bool \<Rightarrow> string + swap_step"
  cm_add_delta :: "u128 \<Rightarrow> int \<Rightarrow> string + u128"
  cm_liquidity_0 :: "u128 \<Rightarrow> u128 \<Rightarrow> u128 \<Rightarrow> u64 \<Rightarrow> string + u128"
  cm_liquidity_1 :: "u128 \<Rightarrow> u128 \<Rightarrow> u128 \<Rightarrow> u64 \<Rightarrow> string + u128"
  cm_delta_amounts :: "int \<Rightarrow> u128 \<Rightarrow> int \<Rightarrow> int \<Rightarrow> int \<Rightarrow> string + u64 \<times> u64"
  cm_array_start :: "int \<Rightarrow> u16 \<Rightarrow> int"

section \<open>The quote\<close>

record swap_state =
  sw_remaining :: u64
  sw_calculated :: u64
  sw_sqrt_price :: u128
  sw_tick :: int
  sw_liquidity :: u128

text \<open>Where the traversal stands: the array in hand, those still supplied, and those used.\<close>

record cursor =
  cu_matches :: bool
  cu_start :: int
  cu_array :: tick_array
  cu_supply :: "tick_array list"
  cu_used :: "int list"

definition price_limit :: "clmm_math \<Rightarrow> bool \<Rightarrow> u128" where
  "price_limit M zero_for_one = (if zero_for_one then cm_min_sqrt M + 1 else cm_max_sqrt M - 1)"

text \<open>The next initialized tick of the traversal, moving on to the next array when needed.\<close>

definition in_array_tick ::
    "'b pool_state \<Rightarrow> bool \<Rightarrow> int \<Rightarrow> cursor \<Rightarrow> string + tick_state \<times> cursor" where
  "in_array_tick pool zfo tick cu =
     bindR (ta_next (cu_array cu) tick (ps_tick_spacing pool) zfo) (\<lambda>m.
     let next = (case m of None \<Rightarrow> default_tick | Some t \<Rightarrow> t) in
     if \<not> tk_initialized next \<and> \<not> cu_matches cu
     then bindR (ta_first (cu_array cu) zfo) (\<lambda>t. Inr (t, cu\<lparr>cu_matches := True\<rparr>))
     else Inr (next, cu))"

definition next_array_tick ::
    "'b pool_state \<Rightarrow> 'b \<Rightarrow> bool \<Rightarrow> cursor \<Rightarrow> string + tick_state \<times> cursor" where
  "next_array_tick pool bitmap zfo cu =
     bindR (ps_next_array pool bitmap (cu_start cu) zfo) (\<lambda>m.
     bindR (ok_or m ''swap exhausts initialized tick arrays'') (\<lambda>start.
     case cu_supply cu of
       [] \<Rightarrow> Inl ''quote requires another tick array''
     | array # others \<Rightarrow>
         if ta_start array \<noteq> start then Inl ''tick arrays were not supplied in traversal order''
         else bindR (ta_first array zfo) (\<lambda>t.
           if \<not> tk_initialized t then Inl ''initialized tick array contains no initialized tick''
           else Inr (t, cu\<lparr>cu_start := start, cu_array := array, cu_supply := others,
                           cu_used := cu_used cu @ [start]\<rparr>))))"

definition select_tick ::
    "'b pool_state \<Rightarrow> 'b \<Rightarrow> bool \<Rightarrow> int \<Rightarrow> cursor \<Rightarrow> string + tick_state \<times> cursor" where
  "select_tick pool bitmap zfo tick cu =
     bindR (in_array_tick pool zfo tick cu) (\<lambda>(t, cu1).
     bindR (if \<not> tk_initialized t then next_array_tick pool bitmap zfo cu1 else Inr (t, cu1)) (\<lambda>(t, cu2).
     if tk_limit_orders t
     then Inl ''limit-order liquidity is outside this single-pool quote implementation''
     else Inr (t, cu2)))"

text \<open>The amounts of a step, moved from what remains to what is calculated.\<close>

definition account_step :: "bool \<Rightarrow> swap_step \<Rightarrow> swap_state \<Rightarrow> string + swap_state" where
  "account_step exact_in step s =
     bindR (ok_or (checked_add_w (sp_in step) (sp_fee step)) ''swap input overflow'') (\<lambda>total_in.
     if exact_in then
       bindR (ok_or (checked_sub_w (sw_remaining s) total_in) ''swap input underflow'') (\<lambda>r.
       bindR (ok_or (checked_add_w (sw_calculated s) (sp_out step)) ''swap output overflow'') (\<lambda>c.
       Inr (s\<lparr>sw_remaining := r, sw_calculated := c\<rparr>)))
     else
       bindR (ok_or (checked_sub_w (sw_remaining s) (sp_out step)) ''swap output underflow'') (\<lambda>r.
       bindR (ok_or (checked_add_w (sw_calculated s) total_in) ''swap input overflow'') (\<lambda>c.
       Inr (s\<lparr>sw_remaining := r, sw_calculated := c\<rparr>))))"

text \<open>\<open>i128::checked_neg\<close> and \<open>i32::checked_sub\<close> at their only failing argument.\<close>

definition cross_tick ::
    "clmm_math \<Rightarrow> bool \<Rightarrow> tick_state \<Rightarrow> int \<Rightarrow> u128 \<Rightarrow> swap_step \<Rightarrow> swap_state \<Rightarrow> string + swap_state" where
  "cross_tick M zfo t tick_next sqrt_next step s =
     (let prior = sw_sqrt_price s; s1 = s\<lparr>sw_sqrt_price := sp_price_next step\<rparr> in
      if sp_price_next step = sqrt_next then
        bindR (if tk_initialized t then
            bindR (if zfo then
                (if in_i128 (- tk_liquidity_net t) then Inr (- tk_liquidity_net t)
                 else Inl ''liquidity delta overflow'')
              else Inr (tk_liquidity_net t)) (\<lambda>net. cm_add_delta M (sw_liquidity s) net)
          else Inr (sw_liquidity s)) (\<lambda>l.
        bindR (if zfo then (if in_i32 (tick_next - 1) then Inr (tick_next - 1) else Inl ''tick underflow'')
               else Inr tick_next) (\<lambda>k.
        Inr (s1\<lparr>sw_liquidity := l, sw_tick := k\<rparr>)))
      else if sp_price_next step \<noteq> prior then
        bindR (cm_tick_at_sqrt M (sp_price_next step)) (\<lambda>k. Inr (s1\<lparr>sw_tick := k\<rparr>))
      else Inr s1)"

definition quote_step ::
    "clmm_math \<Rightarrow> bool \<Rightarrow> bool \<Rightarrow> u32 \<Rightarrow> 'b pool_state \<Rightarrow> 'b \<Rightarrow> swap_state \<times> cursor
      \<Rightarrow> string + swap_state \<times> cursor" where
  "quote_step M zfo exact_in fee_rate pool bitmap sc =
     (let (s, cu) = sc in
      bindR (select_tick pool bitmap zfo (sw_tick s) cu) (\<lambda>(t, cu').
      let tick_next = max (cm_min_tick M) (min (cm_max_tick M) (tk_index t)) in
      bindR (cm_sqrt_at_tick M tick_next) (\<lambda>sqrt_next.
      let limit = price_limit M zfo;
          target = (if (zfo \<and> sqrt_next < limit) \<or> (\<not> zfo \<and> limit < sqrt_next) then limit else sqrt_next) in
      bindR (cm_compute_swap M (sw_sqrt_price s) target (sw_liquidity s) (sw_remaining s) fee_rate
               exact_in zfo (ps_fee_on_input pool zfo)) (\<lambda>step.
      bindR (account_step exact_in step s) (\<lambda>s1.
      bindR (cross_tick M zfo t tick_next sqrt_next step s1) (\<lambda>s2.
      Inr (s2, cu')))))))"

definition quote_done :: "clmm_math \<Rightarrow> bool \<Rightarrow> swap_state \<Rightarrow> bool" where
  "quote_done M zfo s \<longleftrightarrow> sw_remaining s = 0 \<or> sw_sqrt_price s = price_limit M zfo
     \<or> cm_max_tick M \<le> sw_tick s \<or> sw_tick s \<le> cm_min_tick M"

fun quote_loop ::
    "clmm_math \<Rightarrow> bool \<Rightarrow> bool \<Rightarrow> u32 \<Rightarrow> 'b pool_state \<Rightarrow> 'b \<Rightarrow> nat \<Rightarrow> swap_state \<times> cursor
      \<Rightarrow> string + u64 \<times> int list" where
  "quote_loop M zfo exact_in fee_rate pool bitmap 0 sc = Inl ''swap quote exceeded the traversal limit''"
| "quote_loop M zfo exact_in fee_rate pool bitmap (Suc n) sc =
     (if quote_done M zfo (fst sc) then Inr (sw_calculated (fst sc), cu_used (snd sc))
      else bindR (quote_step M zfo exact_in fee_rate pool bitmap sc)
             (quote_loop M zfo exact_in fee_rate pool bitmap n))"

definition quote_swap ::
    "clmm_math \<Rightarrow> u64 \<Rightarrow> bool \<Rightarrow> bool \<Rightarrow> u32 \<Rightarrow> 'b pool_state \<Rightarrow> 'b \<Rightarrow> tick_array list
      \<Rightarrow> string + u64 \<times> int list" where
  "quote_swap M amount zfo exact_in fee_rate pool bitmap arrays =
     (if amount = 0 then Inl ''swap amount must be greater than zero''
      else bindR (ps_first_array pool bitmap zfo) (\<lambda>(matches, start).
        case arrays of
          [] \<Rightarrow> Inl ''no initialized tick array is available''
        | array # others \<Rightarrow>
            if ta_start array \<noteq> start then Inl ''tick arrays were not supplied in traversal order''
            else quote_loop M zfo exact_in fee_rate pool bitmap 64
              (\<lparr>sw_remaining = amount, sw_calculated = 0, sw_sqrt_price = ps_sqrt_price pool,
                sw_tick = ps_tick_current pool, sw_liquidity = ps_liquidity pool\<rparr>,
               \<lparr>cu_matches = matches, cu_start = start, cu_array = array, cu_supply = others,
                cu_used = [start]\<rparr>)))"

section \<open>What a quote accounts for\<close>

definition step_in :: "swap_step \<Rightarrow> int" where
  "step_in p = uint (sp_in p) + uint (sp_fee p)"

definition step_out :: "swap_step \<Rightarrow> int" where
  "step_out p = uint (sp_out p)"

text \<open>A step moves exactly its amounts, without wrap-around.\<close>

lemma account_step_exact:
  assumes "account_step exact_in step s = Inr s'"
  shows "uint (sw_remaining s) = uint (sw_remaining s') + (if exact_in then step_in step else step_out step)
    \<and> uint (sw_calculated s') = uint (sw_calculated s) + (if exact_in then step_out step else step_in step)"
  using assms
  by (cases exact_in)
     (auto simp: account_step_def result_simps checked_w_Some step_in_def step_out_def)

lemma cross_tick_amounts:
  "cross_tick M zfo t k q step s = Inr s' \<Longrightarrow>
     sw_remaining s' = sw_remaining s \<and> sw_calculated s' = sw_calculated s"
  by (auto simp: cross_tick_def Let_def result_simps split: if_splits)

definition cursor_ok :: "tick_array list \<Rightarrow> cursor \<Rightarrow> bool" where
  "cursor_ok arrays cu \<longleftrightarrow> (\<exists>pre. pre \<noteq> [] \<and> arrays = pre @ cu_supply cu \<and> cu_used cu = map ta_start pre
     \<and> cu_start cu = List.last (cu_used cu))"

lemma select_tick_cursor:
  assumes "select_tick pool bitmap zfo tick cu = Inr (t, cu')" and "cursor_ok arrays cu"
  shows "cursor_ok arrays cu' \<and> tk_limit_orders t = False"
proof -
  from assms(1) obtain t1 cu1 where a: "in_array_tick pool zfo tick cu = Inr (t1, cu1)"
    and b: "(if \<not> tk_initialized t1 then next_array_tick pool bitmap zfo cu1 else Inr (t1, cu1)) = Inr (t, cu')"
    and l: "\<not> tk_limit_orders t"
    by (auto simp: select_tick_def result_simps split: if_splits)
  have c1: "cursor_ok arrays cu1"
    using a assms(2) by (auto simp: in_array_tick_def result_simps Let_def cursor_ok_def split: if_splits)
  show ?thesis
  proof (cases "tk_initialized t1")
    case True
    with b c1 l show ?thesis by simp
  next
    case False
    with b have n: "next_array_tick pool bitmap zfo cu1 = Inr (t, cu')" by simp
    obtain array others start where s: "cu_supply cu1 = array # others" "ta_start array = start"
      "cu' = cu1\<lparr>cu_start := start, cu_array := array, cu_supply := others,
                 cu_used := cu_used cu1 @ [start]\<rparr>"
      using n by (cases "cu_supply cu1") (auto simp: next_array_tick_def result_simps split: if_splits)
    from c1 obtain pre where "pre \<noteq> []" "arrays = pre @ cu_supply cu1" "cu_used cu1 = map ta_start pre"
      by (auto simp: cursor_ok_def)
    with s have "arrays = (pre @ [array]) @ cu_supply cu'" "cu_used cu' = map ta_start (pre @ [array])"
      "cu_start cu' = List.last (cu_used cu')" by simp_all
    with l show ?thesis unfolding cursor_ok_def by blast
  qed
qed

text \<open>The steps a quote is made of: each one computed by the swap mathematics.\<close>

definition computed_step :: "clmm_math \<Rightarrow> bool \<Rightarrow> bool \<Rightarrow> u32 \<Rightarrow> swap_step \<Rightarrow> bool" where
  "computed_step M zfo exact_in fee p \<longleftrightarrow>
     (\<exists>sqrt target liq rem fi. cm_compute_swap M sqrt target liq rem fee exact_in zfo fi = Inr p)"

definition steps_in :: "swap_step list \<Rightarrow> int" where
  "steps_in ps = sum_list (map step_in ps)"

definition steps_out :: "swap_step list \<Rightarrow> int" where
  "steps_out ps = sum_list (map step_out ps)"

lemma quote_step_facts:
  assumes "quote_step M zfo exact_in fee pool bitmap (s, cu) = Inr (s', cu')" and "cursor_ok arrays cu"
  shows "cursor_ok arrays cu' \<and> (\<exists>p. computed_step M zfo exact_in fee p
    \<and> uint (sw_remaining s) = uint (sw_remaining s') + (if exact_in then step_in p else step_out p)
    \<and> uint (sw_calculated s') = uint (sw_calculated s) + (if exact_in then step_out p else step_in p))"
proof -
  from assms(1) obtain t sqrt_next target p s1 where
    sel: "select_tick pool bitmap zfo (sw_tick s) cu = Inr (t, cu')"
    and p: "cm_compute_swap M (sw_sqrt_price s) target (sw_liquidity s) (sw_remaining s) fee exact_in zfo
        (ps_fee_on_input pool zfo) = Inr p"
    and acc: "account_step exact_in p s = Inr s1"
    and cr: "cross_tick M zfo t (max (cm_min_tick M) (min (cm_max_tick M) (tk_index t))) sqrt_next p s1 = Inr s'"
    by (auto simp: quote_step_def Let_def result_simps)
  have "computed_step M zfo exact_in fee p" using p unfolding computed_step_def by blast
  with select_tick_cursor [OF sel assms(2)] account_step_exact [OF acc] cross_tick_amounts [OF cr]
  show ?thesis by auto
qed

lemma quote_loop_facts:
  assumes "quote_loop M zfo exact_in fee pool bitmap n (s, cu) = Inr (calc, used)"
    and "cursor_ok arrays cu"
  shows "\<exists>ps s' cu'. length ps < n \<and> list_all (computed_step M zfo exact_in fee) ps
    \<and> quote_done M zfo s' \<and> cursor_ok arrays cu' \<and> used = cu_used cu' \<and> calc = sw_calculated s'
    \<and> uint (sw_remaining s) = uint (sw_remaining s') + (if exact_in then steps_in ps else steps_out ps)
    \<and> uint calc = uint (sw_calculated s) + (if exact_in then steps_out ps else steps_in ps)"
  using assms
proof (induction n arbitrary: s cu)
  case 0
  then show ?case by simp
next
  case (Suc n)
  show ?case
  proof (cases "quote_done M zfo s")
    case True
    with Suc.prems show ?thesis
      by (intro exI [of _ "[]"] exI [of _ s] exI [of _ cu]) (simp add: steps_in_def steps_out_def)
  next
    case False
    with Suc.prems obtain s1 cu1 where st: "quote_step M zfo exact_in fee pool bitmap (s, cu) = Inr (s1, cu1)"
      and rest: "quote_loop M zfo exact_in fee pool bitmap n (s1, cu1) = Inr (calc, used)"
      by (auto simp: result_simps)
    from quote_step_facts [OF st Suc.prems(2)] obtain p where c1: "cursor_ok arrays cu1"
      and p: "computed_step M zfo exact_in fee p"
        "uint (sw_remaining s) = uint (sw_remaining s1) + (if exact_in then step_in p else step_out p)"
        "uint (sw_calculated s1) = uint (sw_calculated s) + (if exact_in then step_out p else step_in p)"
      by blast
    from Suc.IH [OF rest c1] obtain ps s' cu' where ps: "length ps < n"
      "list_all (computed_step M zfo exact_in fee) ps" "quote_done M zfo s'" "cursor_ok arrays cu'"
      "used = cu_used cu'" "calc = sw_calculated s'"
      "uint (sw_remaining s1) = uint (sw_remaining s') + (if exact_in then steps_in ps else steps_out ps)"
      "uint calc = uint (sw_calculated s1) + (if exact_in then steps_out ps else steps_in ps)" by blast
    with p show ?thesis
      by (intro exI [of _ "p # ps"] exI [of _ s'] exI [of _ cu']) (auto simp: steps_in_def steps_out_def)
  qed
qed

lemma quote_swap_loop:
  assumes "quote_swap M amount zfo exact_in fee pool bitmap arrays = Inr (calc, used)"
  obtains s cu where "quote_loop M zfo exact_in fee pool bitmap 64 (s, cu) = Inr (calc, used)"
    and "cursor_ok arrays cu" and "sw_remaining s = amount" and "sw_calculated s = 0"
proof (cases arrays)
  case Nil
  with assms show thesis by (auto simp: quote_swap_def result_simps split: if_splits)
next
  case (Cons a others)
  let ?s = "\<lparr>sw_remaining = amount, sw_calculated = 0, sw_sqrt_price = ps_sqrt_price pool,
    sw_tick = ps_tick_current pool, sw_liquidity = ps_liquidity pool\<rparr>"
  from assms Cons obtain matches where "quote_loop M zfo exact_in fee pool bitmap 64
      (?s, \<lparr>cu_matches = matches, cu_start = ta_start a, cu_array = a, cu_supply = others,
            cu_used = [ta_start a]\<rparr>) = Inr (calc, used)"
    by (auto simp: quote_swap_def result_simps simp del: quote_loop.simps split: if_splits)
  moreover have "cursor_ok arrays \<lparr>cu_matches = matches, cu_start = ta_start a, cu_array = a,
      cu_supply = others, cu_used = [ta_start a]\<rparr>"
    by (simp add: cursor_ok_def Cons)
  ultimately show thesis using that [of ?s] by simp
qed

text \<open>
  C7. A quote adds up. The swap is made of at most 63 steps of the swap mathematics; with exact
  input, the inputs and fees of the steps and what remains unswapped are exactly the amount asked
  for, and the result is the sum of the outputs; with exact output the roles are exchanged. No
  sum wraps around.
\<close>

theorem quote_conserves:
  assumes "quote_swap M amount zfo exact_in fee pool bitmap arrays = Inr (calc, used)"
  shows "\<exists>ps rem. length ps < 64 \<and> list_all (computed_step M zfo exact_in fee) ps \<and> 0 \<le> rem
    \<and> uint amount = rem + (if exact_in then steps_in ps else steps_out ps)
    \<and> uint calc = (if exact_in then steps_out ps else steps_in ps)"
proof -
  obtain s cu where loop: "quote_loop M zfo exact_in fee pool bitmap 64 (s, cu) = Inr (calc, used)"
    and ok: "cursor_ok arrays cu" and s: "sw_remaining s = amount" "sw_calculated s = 0"
    using assms by (rule quote_swap_loop)
  from quote_loop_facts [OF loop ok] obtain ps and s' :: swap_state where "length ps < 64"
    "list_all (computed_step M zfo exact_in fee) ps"
    "uint (sw_remaining s) = uint (sw_remaining s') + (if exact_in then steps_in ps else steps_out ps)"
    "uint calc = uint (sw_calculated s) + (if exact_in then steps_out ps else steps_in ps)" by blast
  with s show ?thesis by (intro exI [of _ ps] exI [of _ "uint (sw_remaining s')"]) auto
qed

definition toy_math :: clmm_math where
  "toy_math = \<lparr>cm_min_sqrt = 4, cm_max_sqrt = 1000, cm_min_tick = - 100, cm_max_tick = 100,
     cm_sqrt_at_tick = (\<lambda>_. Inr 5), cm_tick_at_sqrt = (\<lambda>_. Inr 0),
     cm_compute_swap = (\<lambda>_ target _ _ _ _ _ _. Inr \<lparr>sp_in = 2, sp_fee = 1, sp_out = 1, sp_price_next = target\<rparr>),
     cm_add_delta = (\<lambda>l _. Inr l), cm_liquidity_0 = (\<lambda>_ _ _ a. Inr (ucast a)),
     cm_liquidity_1 = (\<lambda>_ _ _ a. Inr (ucast a)), cm_delta_amounts = (\<lambda>_ _ _ _ _. Inr (5, 7)),
     cm_array_start = (\<lambda>t s. t)\<rparr>"

definition toy_array :: tick_array where
  "toy_array = \<lparr>ta_pool = default_pubkey, ta_start = 0,
     ta_next = (\<lambda>_ _ _. Inr (Some \<lparr>tk_index = 3, tk_liquidity_net = 0, tk_initialized = True,
       tk_limit_orders = False\<rparr>)), ta_first = (\<lambda>_. Inl ''empty'')\<rparr>"

definition toy_pool :: "unit pool_state" where
  "toy_pool = \<lparr>ps_amm_config = default_pubkey, ps_mint_0 = default_pubkey, ps_mint_1 = default_pubkey,
     ps_vault_0 = default_pubkey, ps_vault_1 = default_pubkey, ps_observation = default_pubkey,
     ps_decimals_0 = 6, ps_decimals_1 = 6, ps_tick_spacing = 1, ps_sqrt_price = 9, ps_tick_current = 7,
     ps_liquidity = 100, ps_dynamic_fee = False, ps_rewards = [],
     ps_first_array = (\<lambda>_ _. Inr (True, 0)), ps_next_array = (\<lambda>_ _ _. Inr None),
     ps_fee_on_input = (\<lambda>_. True)\<rparr>"

lemma numeral_loop:
  "quote_loop M zfo exact_in fee pool bitmap 64 sc =
     (if quote_done M zfo (fst sc) then Inr (sw_calculated (fst sc), cu_used (snd sc))
      else bindR (quote_step M zfo exact_in fee pool bitmap sc)
             (quote_loop M zfo exact_in fee pool bitmap 63))"
  "quote_loop M zfo exact_in fee pool bitmap 63 sc =
     (if quote_done M zfo (fst sc) then Inr (sw_calculated (fst sc), cu_used (snd sc))
      else bindR (quote_step M zfo exact_in fee pool bitmap sc)
             (quote_loop M zfo exact_in fee pool bitmap 62))"
  using quote_loop.simps(2) [of M zfo exact_in fee pool bitmap 63 sc]
    quote_loop.simps(2) [of M zfo exact_in fee pool bitmap 62 sc] by simp_all

lemma toy_quote: "quote_swap toy_math 10 True exact_in 0 toy_pool () [toy_array] =
    Inr (if exact_in then 1 else 3, [0])"
  by (cases exact_in)
     (simp_all add: quote_swap_def toy_math_def toy_pool_def toy_array_def numeral_loop quote_done_def
      price_limit_def quote_step_def select_tick_def in_array_tick_def account_step_def cross_tick_def
      checked_add_w_def checked_sub_w_def in_i32_def in_i128_def Let_def)

lemma toy_quote_one: "quote_swap toy_math 1 True False 0 toy_pool () [toy_array] = Inr (3, [0])"
  by (simp add: quote_swap_def toy_math_def toy_pool_def toy_array_def numeral_loop quote_done_def
      price_limit_def quote_step_def select_tick_def in_array_tick_def account_step_def cross_tick_def
      checked_add_w_def checked_sub_w_def in_i32_def in_i128_def Let_def)

theorem quote_conserves_witness:
  "\<exists>ps rem. (10::int) = rem + steps_in ps \<and> (1::int) = steps_out ps \<and> length ps < 64"
  using quote_conserves [OF toy_quote [of True]] by auto

text \<open>
  Running into the price limit is a success even when the amount is not used up: an exact-output
  quote for 10 units through a pool that can pay 1 before the limit returns the same answer as a
  quote for 1 unit, with no sign that 9 units are missing.
\<close>

theorem quote_partial_fill:
  "quote_swap toy_math 10 True False 0 toy_pool () [toy_array] = Inr (3, [0])
   \<and> quote_swap toy_math 1 True False 0 toy_pool () [toy_array] = Inr (3, [0])"
  using toy_quote [of False] toy_quote_one by simp

lemma quote_prefix:
  assumes "quote_swap M amount zfo exact_in fee pool bitmap arrays = Inr (calc, used)"
  shows "\<exists>k. 0 < k \<and> k \<le> length arrays \<and> used = map ta_start (take k arrays)"
proof -
  obtain s cu where loop: "quote_loop M zfo exact_in fee pool bitmap 64 (s, cu) = Inr (calc, used)"
    and ok: "cursor_ok arrays cu"
    using assms by (rule quote_swap_loop)
  from quote_loop_facts [OF loop ok] obtain cu' where c: "cursor_ok arrays cu'" "used = cu_used cu'" by blast
  then obtain pre where "pre \<noteq> []" "arrays = pre @ cu_supply cu'" "used = map ta_start pre"
    by (auto simp: cursor_ok_def)
  then show ?thesis by (intro exI [of _ "length pre"]) simp
qed

text \<open>
  The arrays a quote uses are the supplied ones in the order they were supplied: the result
  lists the start indices of a non-empty prefix of them.
\<close>

theorem quote_uses_prefix:
  assumes "quote_swap M amount zfo exact_in fee pool bitmap arrays = Inr (calc, used)"
  shows "\<exists>k. 0 < k \<and> k \<le> length arrays \<and> used = map ta_start (take k arrays)"
  using assms by (rule quote_prefix)

theorem quote_uses_prefix_witness:
  "quote_swap toy_math 10 True True 0 toy_pool () [toy_array] = Inr (1, [0])
   \<and> (\<exists>k > 0. [0] = map ta_start (take k [toy_array]))"
  using quote_uses_prefix [OF toy_quote [of True]] toy_quote [of True] by auto

end
