(* ===== verification/Clmm_Math.thy ===== *)
theory Clmm_Math
  imports Externals Quote_Swap
begin

text \<open>
  The pure part of \<open>crates/raydium-clmm-client/src/lib.rs\<close>: errors and data, addresses, the
  validation of parameters, and the arithmetic of amounts, prices, slippage and transfer fees.
  The token library (account layouts, fees, address derivation) and the Raydium interface are
  the record \<open>raydium_env\<close>. A result is an error or a panic, or a value.
\<close>

section \<open>Errors and data\<close>

datatype 's raydium_error =
    InvalidInput string
  | UnsupportedToken pubkey string
  | MalformedAccount pubkey string
  | Quote string
  | InsufficientBalance pubkey u64 u64  \<comment> \<open>mint, required, available\<close>
  | Rpc string
  | SimulationFailure string "string list"
  | SubmissionFailure string
  | UnclearConfirmation 's string

type_synonym ('s, 'a) raydium = "'s raydium_error fault + 'a"

abbreviation fail :: "'s raydium_error \<Rightarrow> ('s, 'a) raydium" where
  "fail e \<equiv> Inl (Raised e)"

abbreviation quoted :: "string + 'a \<Rightarrow> ('s, 'a) raydium" where
  "quoted r \<equiv> map_err (\<lambda>t. Raised (Quote t)) r"

record account =
  ac_owner :: pubkey
  ac_data :: "u8 list"
  ac_executable :: bool

record mint_info =
  mi_key :: pubkey
  mi_program :: pubkey
  mi_decimals :: u8
  mi_data :: "u8 list"

text \<open>What the token library reads out of a mint and of a token account.\<close>

record mint_state =
  ms_decimals :: u8
  ms_supply :: u64
  ms_extensions :: "string + string list"
  ms_fee :: "(u64 \<Rightarrow> u64 \<Rightarrow> u64 option) option"      \<comment> \<open>\<open>calculate_epoch_fee\<close>\<close>
  ms_inverse_fee :: "(u64 \<Rightarrow> u64 \<Rightarrow> u64 option) option"

record token_state =
  tk_mint :: pubkey
  tk_owner :: pubkey
  tk_amount :: u64
  tk_frozen :: bool

record amm_config =
  cf_index :: u16
  cf_owner :: pubkey
  cf_fund_owner :: pubkey
  cf_tick_spacing :: u16
  cf_trade_fee :: u32
  cf_protocol_fee :: u32
  cf_fund_fee :: u32

record position_state =
  pp_nft_mint :: pubkey
  pp_pool :: pubkey
  pp_tick_lower :: int
  pp_tick_upper :: int
  pp_liquidity :: u128
  pp_fees_0 :: u64
  pp_fees_1 :: u64
  pp_rewards :: "u64 list"

record 'b raydium_env =
  rv_math :: clmm_math
  rv_token_program :: pubkey
  rv_token_2022 :: pubkey
  rv_system_program :: pubkey
  rv_rent :: pubkey
  rv_ata_program :: pubkey
  rv_memo_program :: pubkey
  rv_find_pda :: "u8 list list \<Rightarrow> pubkey \<Rightarrow> pubkey"
  rv_ata :: "pubkey \<Rightarrow> pubkey \<Rightarrow> pubkey \<Rightarrow> pubkey"
  rv_config_seed :: "u8 list"
  rv_pool_seed :: "u8 list"
  rv_vault_seed :: "u8 list"
  rv_observation_seed :: "u8 list"
  rv_position_seed :: "u8 list"
  rv_tick_array_seed :: "u8 list"
  rv_bitmap_seed :: "u8 list"
  rv_support_seed :: "u8 list"
  rv_max_tick_spacing :: u16
  rv_fee_denominator :: u32
  rv_q64 :: u128
  rv_unpack_mint :: "u8 list \<Rightarrow> string + mint_state"
  rv_unpack_token :: "u8 list \<Rightarrow> string + token_state"
  rv_decode_config :: "u8 list \<Rightarrow> string + amm_config"
  rv_decode_pool :: "u8 list \<Rightarrow> string + 'b pool_state"
  rv_decode_bitmap :: "u8 list \<Rightarrow> string + 'b"
  rv_decode_tick_array :: "u8 list \<Rightarrow> string + tick_array"
  rv_decode_position :: "u8 list \<Rightarrow> string + position_state"
  rv_decode_support :: "u8 list \<Rightarrow> string + pubkey"  \<comment> \<open>the mint of the record\<close>
  rv_show_key :: "pubkey \<Rightarrow> string"

record amm_config_params =
  ap_index :: u16
  ap_tick_spacing :: u16
  ap_trade_fee :: u32
  ap_protocol_fee :: u32
  ap_fund_fee :: u32

section \<open>Addresses\<close>

text \<open>\<open>to_be_bytes\<close> of a \<open>u16\<close> and of an \<open>i32\<close> (two's complement).\<close>

definition be_u16 :: "u16 \<Rightarrow> u8 list" where
  "be_u16 w = rev (le_bytes 2 (unat w))"

definition be_i32 :: "int \<Rightarrow> u8 list" where
  "be_i32 z = rev (le_bytes 4 (nat (z mod 2 ^ 32)))"

definition pool_address_for :: "'b raydium_env \<Rightarrow> pubkey \<Rightarrow> pubkey \<Rightarrow> pubkey \<Rightarrow> pubkey \<Rightarrow> pubkey" where
  "pool_address_for V program config m0 m1 =
     rv_find_pda V [rv_pool_seed V, pk_bytes config, pk_bytes m0, pk_bytes m1] program"

definition derive_pool_address ::
    "'b raydium_env \<Rightarrow> pubkey \<Rightarrow> pubkey \<Rightarrow> pubkey \<Rightarrow> pubkey \<Rightarrow> ('s, pubkey) raydium" where
  "derive_pool_address V program config a b =
     (if a < b then Inr (pool_address_for V program config a b)
      else if b < a then Inr (pool_address_for V program config b a)
      else fail (InvalidInput ''pool mints must be different''))"

definition amm_config_address :: "'b raydium_env \<Rightarrow> pubkey \<Rightarrow> u16 \<Rightarrow> pubkey" where
  "amm_config_address V program i = rv_find_pda V [rv_config_seed V, be_u16 i] program"

definition tick_array_address :: "'b raydium_env \<Rightarrow> pubkey \<Rightarrow> pubkey \<Rightarrow> int \<Rightarrow> pubkey" where
  "tick_array_address V program pool start =
     rv_find_pda V [rv_tick_array_seed V, pk_bytes pool, be_i32 start] program"

definition bitmap_address :: "'b raydium_env \<Rightarrow> pubkey \<Rightarrow> pubkey \<Rightarrow> pubkey" where
  "bitmap_address V program pool = rv_find_pda V [rv_bitmap_seed V, pk_bytes pool] program"

definition support_mint_address :: "'b raydium_env \<Rightarrow> pubkey \<Rightarrow> pubkey \<Rightarrow> pubkey" where
  "support_mint_address V program mint = rv_find_pda V [rv_support_seed V, pk_bytes mint] program"

definition personal_position_address :: "'b raydium_env \<Rightarrow> pubkey \<Rightarrow> pubkey \<Rightarrow> pubkey" where
  "personal_position_address V program mint = rv_find_pda V [rv_position_seed V, pk_bytes mint] program"

record pool_accounts =
  pa_pool :: pubkey
  pa_vault_0 :: pubkey
  pa_vault_1 :: pubkey
  pa_observation :: pubkey
  pa_bitmap :: pubkey

definition derive_pool_addresses ::
    "'b raydium_env \<Rightarrow> pubkey \<Rightarrow> pubkey \<Rightarrow> pubkey \<Rightarrow> pubkey \<Rightarrow> pool_accounts" where
  "derive_pool_addresses V program pool m0 m1 =
     \<lparr>pa_pool = pool,
      pa_vault_0 = rv_find_pda V [rv_vault_seed V, pk_bytes pool, pk_bytes m0] program,
      pa_vault_1 = rv_find_pda V [rv_vault_seed V, pk_bytes pool, pk_bytes m1] program,
      pa_observation = rv_find_pda V [rv_observation_seed V, pk_bytes pool] program,
      pa_bitmap = bitmap_address V program pool\<rparr>"

record position_accounts =
  po_pool :: pubkey
  po_nft_mint :: pubkey
  po_nft_account :: pubkey
  po_personal :: pubkey
  po_protocol :: pubkey
  po_lower_array :: pubkey
  po_upper_array :: pubkey
  po_lower_start :: int
  po_upper_start :: int

definition position_addresses ::
    "'b raydium_env \<Rightarrow> pubkey \<Rightarrow> pubkey \<Rightarrow> pubkey \<Rightarrow> pubkey \<Rightarrow> int \<Rightarrow> int \<Rightarrow> u16 \<Rightarrow> position_accounts" where
  "position_addresses V program payer pool mint lower upper spacing =
     (let ls = cm_array_start (rv_math V) lower spacing; us = cm_array_start (rv_math V) upper spacing in
      \<lparr>po_pool = pool, po_nft_mint = mint,
       po_nft_account = rv_ata V payer mint (rv_token_2022 V),
       po_personal = personal_position_address V program mint,
       po_protocol = rv_find_pda V [rv_position_seed V, pk_bytes pool, be_i32 lower, be_i32 upper] program,
       po_lower_array = tick_array_address V program pool ls,
       po_upper_array = tick_array_address V program pool us,
       po_lower_start = ls, po_upper_start = us\<rparr>)"

section \<open>Validation\<close>

definition require_account ::
    "pubkey list \<Rightarrow> account option list \<Rightarrow> nat \<Rightarrow> string \<Rightarrow> ('s, account) raydium" where
  "require_account keys accounts i label =
     (case (if i < length accounts then accounts ! i else None) of
        Some a \<Rightarrow> Inr a
      | None \<Rightarrow> fail (MalformedAccount (if i < length keys then keys ! i else default_pubkey)
                   (''missing '' @ label)))"

definition ensure_positive :: "('d, 'f) dec_ops \<Rightarrow> 'd \<Rightarrow> string \<Rightarrow> ('s, unit) raydium" where
  "ensure_positive D v label =
     (if dec_le D v (dec_zero D) then fail (InvalidInput (label @ '' must be greater than zero''))
      else Inr ())"

definition validate_amm_config_params :: "'b raydium_env \<Rightarrow> amm_config_params \<Rightarrow> ('s, unit) raydium" where
  "validate_amm_config_params V p =
     (if ap_tick_spacing p = 0 \<or> rv_max_tick_spacing V < ap_tick_spacing p then
        fail (InvalidInput (''tick_spacing must be between 1 and '' @ show_nat (unat (rv_max_tick_spacing V))))
      else if rv_fee_denominator V \<le> ap_trade_fee p then
        fail (InvalidInput (''trade_fee_rate must be less than '' @ show_nat (unat (rv_fee_denominator V))))
      else bindR (ok_or (checked_add_w (ap_protocol_fee p) (ap_fund_fee p))
              (Raised (InvalidInput ''owner fee rate overflow''))) (\<lambda>owner_fee.
        if rv_fee_denominator V < owner_fee then
          fail (InvalidInput (''protocol_fee_rate plus fund_fee_rate cannot exceed ''
                  @ show_nat (unat (rv_fee_denominator V))))
        else Inr ()))"

section \<open>Amounts, prices and slippage\<close>

text \<open>\<open>10_u128.pow(d)\<close>, which panics on overflow.\<close>

definition pow10_u128 :: "u8 \<Rightarrow> ('s, u128) raydium" where
  "pow10_u128 d = (if (10::nat) ^ unat d < 2 ^ 128 then Inr (10 ^ unat d) else Inl Panic)"

definition ui_to_raw :: "('d, 'f) dec_ops \<Rightarrow> 'd \<Rightarrow> u8 \<Rightarrow> ('s, u64) raydium" where
  "ui_to_raw D amount decimals =
     bindR (ensure_positive D amount ''token amount'') (\<lambda>_.
     bindR (pow10_u128 decimals) (\<lambda>ten.
     bindR (ok_or (dec_of_u128 D ten) (Raised (Quote ''decimal multiplier overflow''))) (\<lambda>multiplier.
     bindR (ok_or (dec_mul D amount multiplier) (Raised (Quote ''token amount overflow''))) (\<lambda>raw.
     if \<not> dec_eq D (dec_fract D raw) (dec_zero D) then
       fail (InvalidInput (''token amount has more than '' @ show_nat (unat decimals) @ '' decimal places''))
     else ok_or (dec_to_u64 D raw) (Raised (Quote ''token amount does not fit u64''))))))"

definition price_to_sqrt_x64 ::
    "('d, 'f) dec_ops \<Rightarrow> 'b raydium_env \<Rightarrow> 'd \<Rightarrow> u8 \<Rightarrow> u8 \<Rightarrow> ('s, u128) raydium" where
  "price_to_sqrt_x64 D V price decimals_0 decimals_1 =
     bindR (ensure_positive D price ''price'') (\<lambda>_.
     bindR (pow10_u128 decimals_0) (\<lambda>t0.
     bindR (ok_or (dec_of_u128 D t0) (Raised (Quote ''mint 0 decimal scale overflow''))) (\<lambda>scale_0.
     bindR (pow10_u128 decimals_1) (\<lambda>t1.
     bindR (ok_or (dec_of_u128 D t1) (Raised (Quote ''mint 1 decimal scale overflow''))) (\<lambda>scale_1.
     bindR (ok_or (Option.bind (dec_mul D price scale_1) (\<lambda>v. dec_div D v scale_0))
              (Raised (Quote ''price decimal normalization failed''))) (\<lambda>raw_price.
     bindR (ok_or (dec_sqrt D raw_price) (Raised (Quote ''price square root failed''))) (\<lambda>root.
     bindR (ok_or (dec_of_u128 D (rv_q64 V)) (Raised (Quote ''Q64 conversion failed''))) (\<lambda>q64.
     ok_or (Option.bind (dec_mul D root q64) (\<lambda>v. dec_to_u128 D (dec_floor D v)))
       (Raised (Quote ''sqrt price does not fit u128''))))))))))"

definition apply_slippage :: "u64 \<Rightarrow> u16 \<Rightarrow> bool \<Rightarrow> ('s, u64) raydium" where
  "apply_slippage amount bps increase =
     bindR (if increase then Inr (10000 + ucast bps :: u128)
            else ok_or (checked_sub_w 10000 (ucast bps)) (Raised (Quote ''slippage underflow''))) (\<lambda>numerator.
     bindR (ok_or (checked_mul_w (ucast amount) numerator)
              (Raised (Quote ''slippage multiplication overflow''))) (\<lambda>product.
     bindR (if increase then
              bindR (ok_or (checked_add_w product 9999) (Raised (Quote ''slippage rounding overflow'')))
                (\<lambda>s. Inr (s div 10000))
            else Inr (product div 10000)) (\<lambda>adjusted.
     if uint adjusted < 2 ^ 64 then Inr (ucast adjusted)
     else fail (Quote ''slippage result exceeds u64''))))"

section \<open>Transfer fees\<close>

definition unpack_mint :: "'b raydium_env \<Rightarrow> pubkey \<Rightarrow> u8 list \<Rightarrow> ('s, mint_state) raydium" where
  "unpack_mint V key data = map_err (\<lambda>t. Raised (MalformedAccount key t)) (rv_unpack_mint V data)"

definition transfer_fee :: "'b raydium_env \<Rightarrow> mint_info \<Rightarrow> u64 \<Rightarrow> u64 \<Rightarrow> ('s, u64) raydium" where
  "transfer_fee V mint epoch amount =
     (if mi_program mint = rv_token_program V then Inr 0
      else bindR (unpack_mint V (mi_key mint) (mi_data mint)) (\<lambda>st.
        case ms_fee st of
          None \<Rightarrow> Inr 0
        | Some f \<Rightarrow> ok_or (f epoch amount) (Raised (Quote ''transfer fee calculation overflow''))))"

definition inverse_transfer_fee :: "'b raydium_env \<Rightarrow> mint_info \<Rightarrow> u64 \<Rightarrow> u64 \<Rightarrow> ('s, u64) raydium" where
  "inverse_transfer_fee V mint epoch amount =
     (if mi_program mint = rv_token_program V then Inr 0
      else bindR (unpack_mint V (mi_key mint) (mi_data mint)) (\<lambda>st.
        case ms_inverse_fee st of
          None \<Rightarrow> Inr 0
        | Some f \<Rightarrow> ok_or (f epoch amount)
                     (Raised (Quote ''inverse transfer fee calculation overflow''))))"

text \<open>Amounts with the fee added or taken off, the way the quotes use them.\<close>

definition plus_inverse_fee ::
    "'b raydium_env \<Rightarrow> mint_info \<Rightarrow> u64 \<Rightarrow> string \<Rightarrow> u64 \<Rightarrow> ('s, u64) raydium" where
  "plus_inverse_fee V mint epoch what amount =
     bindR (inverse_transfer_fee V mint epoch amount) (\<lambda>f.
     ok_or (checked_add_w amount f) (Raised (Quote what)))"

definition minus_fee ::
    "'b raydium_env \<Rightarrow> mint_info \<Rightarrow> u64 \<Rightarrow> string \<Rightarrow> u64 \<Rightarrow> ('s, u64) raydium" where
  "minus_fee V mint epoch what amount =
     bindR (transfer_fee V mint epoch amount) (\<lambda>f.
     ok_or (checked_sub_w amount f) (Raised (Quote what)))"

section \<open>Slippage\<close>

lemma uint_ucast_u128 [simp]:
  "uint (ucast (w :: u64) :: u128) = uint w" "uint (ucast (b :: u16) :: u128) = uint b"
proof -
  have "uint w < 2 ^ 128" "uint b < 2 ^ 128" using uint_lt2p [of w] uint_lt2p [of b] by simp_all
  then show "uint (ucast w :: u128) = uint w" "uint (ucast b :: u128) = uint b"
    by (simp_all add: unsigned_ucast_eq take_bit_int_eq_self)
qed

lemma uint_u64_of_u128: "uint (x :: u128) < 2 ^ 64 \<Longrightarrow> uint (ucast x :: u64) = uint x"
  by (simp add: unsigned_ucast_eq take_bit_int_eq_self)

text \<open>Neither the product nor the rounding can overflow: the last check alone can fail.\<close>

lemma slippage_core:
  fixes amount :: u64 and numerator :: u128
  assumes "uint numerator \<le> 75535"
  obtains p s where "checked_mul_w (ucast amount) numerator = Some p"
    and "uint p = uint amount * uint numerator"
    and "checked_add_w p 9999 = Some s" and "uint s = uint amount * uint numerator + 9999"
proof -
  have "uint amount * uint numerator \<le> 2 ^ 64 * 75535"
    using uint_lt2p [of amount] assms by (intro mult_mono) simp_all
  then have lt: "uint amount * uint numerator + 9999 < 2 ^ 128" by simp
  obtain p where p: "checked_mul_w (ucast amount) numerator = Some p"
    using lt by (cases "checked_mul_w (ucast amount) numerator") (simp_all add: checked_w_None)
  then have up: "uint p = uint amount * uint numerator" by (simp add: checked_w_Some)
  obtain s where s: "checked_add_w p 9999 = Some s"
    using lt up by (cases "checked_add_w p 9999") (simp_all add: checked_w_None)
  then have "uint s = uint p + 9999" by (simp add: checked_w_Some)
  with that p up s show thesis by simp
qed

lemma ceiling_bps: "\<lceil>rat_of_int x / 10000\<rceil> = (x + 9999) div 10000"
proof -
  have "\<lceil>rat_of_int x / 10000\<rceil> = - \<lfloor>rat_of_int (- x) / rat_of_int 10000\<rfloor>"
    unfolding ceiling_def by (simp only: of_int_minus of_int_numeral minus_divide_left)
  also have "\<dots> = - ((- x) div 10000)" by (simp only: floor_divide_of_int_eq)
  also have "\<dots> = (x + 9999) div 10000"
  proof -
    have "(x + 9999) div 10000 = x div 10000 + (x mod 10000 + 9999) div 10000"
    proof -
      have "x + 9999 = x div 10000 * 10000 + (x mod 10000 + 9999)" by simp
      then show ?thesis by (simp only: div_mult_self4)
    qed
    moreover have "(x mod 10000 + 9999) div 10000 = (if x mod 10000 = 0 then 0 else 1)"
    proof (cases "x mod 10000 = 0")
      case False
      then have "1 \<le> x mod 10000" "x mod 10000 < 10000"
        using pos_mod_sign [of 10000 x] pos_mod_bound [of 10000 x] by linarith+
      then show ?thesis using False by (simp add: div_pos_geq)
    qed simp
    ultimately show ?thesis by (simp add: zdiv_zminus1_eq_if)
  qed
  finally show ?thesis .
qed

lemma floor_bps: "\<lfloor>rat_of_int x / 10000\<rfloor> = x div 10000"
  using floor_divide_of_int_eq [of x 10000, where ?'a = rat] by simp

lemma slippage_up:
  "apply_slippage amount bps True =
     (let r = (uint amount * (10000 + uint bps) + 9999) div 10000 in
      if r < 2 ^ 64 then Inr (word_of_int r) else fail (Quote ''slippage result exceeds u64''))"
proof -
  have b: "uint bps \<le> 65535" using uint_lt2p [of bps] by simp
  have n: "uint (10000 + ucast bps :: u128) = 10000 + uint bps"
  proof -
    have "uint (10000 :: u128) + uint (ucast bps :: u128) < 2 ^ LENGTH(128)" using b by simp
    then have "uint (10000 + ucast bps :: u128) = uint (10000 :: u128) + uint (ucast bps :: u128)"
      using uint_add_lem by blast
    then show ?thesis by simp
  qed
  with b have "uint (10000 + ucast bps :: u128) \<le> 75535" by simp
  then obtain p s where p: "checked_mul_w (ucast amount) (10000 + ucast bps :: u128) = Some p"
    and "uint p = uint amount * uint (10000 + ucast bps :: u128)" and s: "checked_add_w p 9999 = Some s"
    and "uint s = uint amount * uint (10000 + ucast bps :: u128) + 9999"
    by (rule slippage_core)
  then have us: "uint s = uint amount * (10000 + uint bps) + 9999" by (simp only: n)
  have d: "uint (s div 10000) = (uint amount * (10000 + uint bps) + 9999) div 10000"
    using us by (simp add: uint_div)
  have c: "(ucast (s div 10000) :: u64) = word_of_int ((uint amount * (10000 + uint bps) + 9999) div 10000)"
    by (simp only: ucast_eq d)
  show ?thesis
    by (simp only: apply_slippage_def p s d c Let_def if_True bindR.simps ok_or_simps)
qed

lemma slippage_down:
  "apply_slippage amount bps False =
     (if uint bps \<le> 10000 then Inr (word_of_int (uint amount * (10000 - uint bps) div 10000))
      else fail (Quote ''slippage underflow''))"
proof (cases "uint bps \<le> 10000")
  case True
  then obtain n where n: "checked_sub_w 10000 (ucast bps :: u128) = Some n"
    and un: "uint n = 10000 - uint bps"
    by (cases "checked_sub_w 10000 (ucast bps :: u128)") (simp_all add: checked_w_None checked_w_Some)
  have "uint n \<le> 75535" using un uint_ge_0 [of bps] by linarith
  then obtain p s where p: "checked_mul_w (ucast amount) n = Some p"
    and "uint p = uint amount * uint n" and "checked_add_w p 9999 = Some s"
    and "uint s = uint amount * uint n + 9999"
    by (rule slippage_core)
  then have up: "uint p = uint amount * (10000 - uint bps)" by (simp only: un)
  have d: "uint (p div 10000) = uint amount * (10000 - uint bps) div 10000"
    using up by (simp add: uint_div)
  have "uint amount * (10000 - uint bps) div 10000 \<le> uint amount * 10000 div 10000"
    by (intro zdiv_mono1 mult_left_mono) simp_all
  also have "\<dots> < 2 ^ 64" using uint_lt2p [of amount] by simp
  finally have l: "uint amount * (10000 - uint bps) div 10000 < 2 ^ 64" .
  have c: "(ucast (p div 10000) :: u64) = word_of_int (uint amount * (10000 - uint bps) div 10000)"
    by (simp only: ucast_eq d)
  show ?thesis
    by (simp only: apply_slippage_def n p d c l True if_True if_False bindR.simps ok_or_simps)
next
  case False
  then have "checked_sub_w 10000 (ucast bps :: u128) = None" by (simp add: checked_w_None)
  then show ?thesis using False by (simp add: apply_slippage_def)
qed

text \<open>
  Slippage. Increased, an amount is \<open>amount * (10000 + bps) / 10000\<close> rounded up, and the only
  failure is a result beyond \<open>u64\<close>; decreased, it is \<open>amount * (10000 - bps) / 10000\<close> rounded down,
  and the only failure is a slippage above 100 percent.
\<close>

theorem apply_slippage_spec:
  "apply_slippage amount bps increase =
     (if increase then
        let r = \<lceil>rat_of_int (uint amount * (10000 + uint bps)) / 10000\<rceil> in
        if r < 2 ^ 64 then Inr (word_of_int r) else fail (Quote ''slippage result exceeds u64'')
      else if uint bps \<le> 10000 then
        Inr (word_of_int \<lfloor>rat_of_int (uint amount * (10000 - uint bps)) / 10000\<rfloor>)
      else fail (Quote ''slippage underflow''))"
  unfolding ceiling_bps floor_bps by (simp add: slippage_up slippage_down)

section \<open>Amounts\<close>

text \<open>The documented behaviour of the conversions \<open>ui_to_raw\<close> uses.\<close>

definition dec_amounts :: "('d, 'f) dec_ops \<Rightarrow> ('d \<Rightarrow> rat) \<Rightarrow> bool" where
  "dec_amounts D val \<longleftrightarrow>
     (\<forall>w. if uint w < 2 ^ 96 then \<exists>d. dec_of_u128 D w = Some d \<and> val d = of_int (uint w)
          else dec_of_u128 D w = None)
     \<and> (\<forall>a b. 2 ^ 96 \<le> \<bar>val a * val b\<bar> \<longrightarrow> dec_mul D a b = None)
     \<and> (\<forall>a. val (dec_fract D a) = val a - of_int (trunc_rat (val a)))
     \<and> (\<forall>a. dec_to_u64 D a = (if 0 \<le> trunc_rat (val a) \<and> trunc_rat (val a) < 2 ^ 64
              then Some (word_of_int (trunc_rat (val a))) else None))"

lemma rat_dec_amounts: "dec_amounts rat_dec id"
  by (simp add: dec_amounts_def bounded_def)

text \<open>Scaling a decimal by a power of ten is exact or overflows.\<close>

lemma dec_repr_scaled:
  assumes "dec_repr a"
  shows "dec_repr (a * 10 ^ d) \<or> 2 ^ 96 \<le> \<bar>a * 10 ^ d\<bar>"
proof -
  obtain m s where s: "s \<le> 28" and m: "\<bar>m\<bar> < 2 ^ 96" and a: "a = of_int m / 10 ^ s"
    using assms unfolding dec_repr_def by blast
  show ?thesis
  proof (cases "d \<le> s")
    case True
    then have "a * 10 ^ d = of_int m / 10 ^ (s - d)" using a by (simp add: power_diff)
    moreover have "s - d \<le> 28" using s by simp
    ultimately show ?thesis using m dec_repr_frac by blast
  next
    case False
    then have "a * 10 ^ d = of_int m * 10 ^ (d - s)" using a by (simp add: power_diff)
    then have e: "a * 10 ^ d = of_int (m * 10 ^ (d - s))" by simp
    show ?thesis
    proof (cases "\<bar>m * 10 ^ (d - s)\<bar> < 2 ^ 96")
      case True
      then show ?thesis unfolding e by (blast intro: dec_repr_int)
    next
      case False
      then have "(of_int (2 ^ 96) :: rat) \<le> of_int \<bar>m * 10 ^ (d - s)\<bar>"
        by (simp only: of_int_le_iff not_less)
      then show ?thesis unfolding e by simp
    qed
  qed
qed

lemma uint_pow10_u128:
  assumes "d < 39"
  shows "uint (10 ^ d :: u128) = 10 ^ d"
proof -
  have "(10::int) ^ d \<le> 10 ^ 38" using assms by (intro power_increasing) simp_all
  then have "(10::int) ^ d < 2 ^ 128" by simp
  then have "uint (word_of_int (10 ^ d) :: u128) = 10 ^ d"
    by (simp add: word_of_int_inverse)
  then show ?thesis by simp
qed

lemma pow10_u128_cases:
  "pow10_u128 d = (if unat d < 39 then Inr (10 ^ unat d) else Inl Panic)"
proof (cases "unat d < 39")
  case True
  then have "(10::nat) ^ unat d \<le> 10 ^ 38" by (intro power_increasing) simp_all
  then show ?thesis using True by (simp add: pow10_u128_def)
next
  case False
  then have "(10::nat) ^ 39 \<le> 10 ^ unat d" by (intro power_increasing) simp_all
  then show ?thesis using False by (simp add: pow10_u128_def)
qed

lemma decimal_unit:
  assumes "dec_amounts D val" and "unat decimals \<le> 28"
  obtains mul where "dec_of_u128 D (10 ^ unat decimals) = Some mul" and "val mul = 10 ^ unat decimals"
proof -
  have "(10::int) ^ unat decimals \<le> 10 ^ 28" using assms(2) by (intro power_increasing) simp_all
  then have "uint (10 ^ unat decimals :: u128) < 2 ^ 96" using assms(2) by (simp add: uint_pow10_u128)
  then obtain mul where "dec_of_u128 D (10 ^ unat decimals) = Some mul"
    and "val mul = of_int (uint (10 ^ unat decimals :: u128))"
    using assms(1) unfolding dec_amounts_def by metis
  then show thesis using that assms(2) by (simp add: uint_pow10_u128)
qed

text \<open>
  C28. A UI amount becomes raw units exactly or not at all: for a mint of at most 28 decimals the
  result is the amount times \<open>10 ^ decimals\<close>, an amount with more decimal places than the mint is
  rejected, and so is one that is not positive or does not fit \<open>u64\<close>; nothing is ever rounded.
\<close>

theorem ui_to_raw_spec:
  assumes "dec_order D val" and "dec_exact D val" and "dec_amounts D val"
    and "dec_repr (val amount)" and "unat decimals \<le> 28"
  shows "ui_to_raw D amount decimals =
    (let raw = val amount * 10 ^ unat decimals in
     if val amount \<le> 0 then fail (InvalidInput ''token amount must be greater than zero'')
     else if 2 ^ 96 \<le> raw then fail (Quote ''token amount overflow'')
     else if raw \<noteq> of_int \<lfloor>raw\<rfloor> then
       fail (InvalidInput (''token amount has more than '' @ show_nat (unat decimals) @ '' decimal places''))
     else if raw < 2 ^ 64 then Inr (word_of_int \<lfloor>raw\<rfloor>)
     else fail (Quote ''token amount does not fit u64''))"
proof (cases "val amount \<le> 0")
  case True
  then show ?thesis using assms(1) by (simp add: ui_to_raw_def ensure_positive_def dec_order_def)
next
  case False
  define raw where "raw = val amount * 10 ^ unat decimals"
  have pos: "0 < raw" using False by (simp add: raw_def)
  obtain mul where mul: "dec_of_u128 D (10 ^ unat decimals) = Some mul" and vmul: "val mul = 10 ^ unat decimals"
    using decimal_unit [OF assms(3,5)] .
  have start: "ui_to_raw D amount decimals =
     bindR (ok_or (dec_mul D amount mul) (Raised (Quote ''token amount overflow''))) (\<lambda>r.
     if \<not> dec_eq D (dec_fract D r) (dec_zero D) then
       fail (InvalidInput (''token amount has more than '' @ show_nat (unat decimals) @ '' decimal places''))
     else ok_or (dec_to_u64 D r) (Raised (Quote ''token amount does not fit u64'')))"
    using False assms(1,5) mul
    by (simp add: ui_to_raw_def ensure_positive_def dec_order_def pow10_u128_cases)
  show ?thesis
  proof (cases "2 ^ 96 \<le> raw")
    case True
    then have "dec_mul D amount mul = None"
      using assms(3) pos vmul unfolding dec_amounts_def raw_def by auto
    then show ?thesis using start True False by (simp add: raw_def Let_def)
  next
    case small: False
    then have "dec_repr (val amount * val mul)"
      using dec_repr_scaled [OF assms(4), of "unat decimals"] pos by (auto simp: raw_def vmul)
    then obtain r where r: "dec_mul D amount mul = Some r" and vr: "val r = raw"
      using dec_exact_mul [OF assms(2)] vmul unfolding raw_def by metis
    have tr: "trunc_rat raw = \<lfloor>raw\<rfloor>" using pos by (simp add: trunc_rat_def)
    have fr: "dec_eq D (dec_fract D r) (dec_zero D) \<longleftrightarrow> raw = of_int \<lfloor>raw\<rfloor>"
      using assms(1,3) vr tr of_int_floor_le [of raw]
      unfolding dec_order_def dec_amounts_def by (auto intro: antisym)
    have u: "dec_to_u64 D r = (if \<lfloor>raw\<rfloor> < 2 ^ 64 then Some (word_of_int \<lfloor>raw\<rfloor>) else None)"
      using assms(3) vr tr pos unfolding dec_amounts_def by simp
    have "raw = of_int \<lfloor>raw\<rfloor> \<Longrightarrow> \<lfloor>raw\<rfloor> < 2 ^ 64 \<longleftrightarrow> raw < 2 ^ 64"
      by (metis of_int_less_iff of_int_numeral of_int_power)
    then show ?thesis using start small False r fr u by (auto simp: Let_def simp flip: raw_def)
  qed
qed

theorem ui_to_raw_spec_witness:
  "ui_to_raw rat_dec (5 / 2) 6 = Inr 2500000
   \<and> ui_to_raw rat_dec (5 / 2) 0
     = fail (InvalidInput (''token amount has more than '' @ show_nat 0 @ '' decimal places''))"
proof -
  have r: "dec_repr (id (5 / 2))" by (rule dec_repr_frac [of 25 1]) simp_all
  show ?thesis
    using ui_to_raw_spec [OF rat_dec_order rat_dec_exact rat_dec_amounts r, of 6]
      ui_to_raw_spec [OF rat_dec_order rat_dec_exact rat_dec_amounts r, of 0]
    by (simp add: Let_def)
qed

text \<open>
  A mint with 39 or more decimals (the field is a byte of the mint account) crashes the
  conversion of any positive amount and of any positive price: the power of ten overflows \<open>u128\<close>
  before the checked conversion that was meant to reject it.
\<close>

theorem decimals_panic:
  assumes "dec_order D val" and "0 < val amount" and "39 \<le> unat decimals"
  shows "ui_to_raw D amount decimals = Inl Panic
    \<and> price_to_sqrt_x64 D V amount decimals d = Inl Panic"
  using assms
  by (simp_all add: ui_to_raw_def price_to_sqrt_x64_def ensure_positive_def dec_order_def
      pow10_u128_cases)

theorem decimals_panic_witness: "ui_to_raw rat_dec 1 39 = Inl Panic"
  by (rule decimals_panic [OF rat_dec_order, THEN conjunct1]) simp_all

section \<open>Addresses, parameters and fees\<close>

text \<open>
  The address of a pool does not depend on the order in which its mints are given, and its
  seeds list the smaller mint first, as the pool's own check requires.
\<close>

theorem derive_pool_address_symmetric:
  "derive_pool_address V program config a b = derive_pool_address V program config b a
   \<and> derive_pool_address V program config a b =
      (if a = b then fail (InvalidInput ''pool mints must be different'')
       else Inr (pool_address_for V program config (min a b) (max a b)))"
  by (auto simp: derive_pool_address_def min_def max_def)

lemma validate_amm_config_params_iff:
  "(validate_amm_config_params V p :: ('s, unit) raydium) = Inr ()
     \<longleftrightarrow> 0 < ap_tick_spacing p \<and> ap_tick_spacing p \<le> rv_max_tick_spacing V
       \<and> ap_trade_fee p < rv_fee_denominator V
       \<and> uint (ap_protocol_fee p) + uint (ap_fund_fee p) \<le> uint (rv_fee_denominator V)"
proof (cases "checked_add_w (ap_protocol_fee p) (ap_fund_fee p)")
  case None
  then have "2 ^ 32 \<le> uint (ap_protocol_fee p) + uint (ap_fund_fee p)" by (simp add: checked_w_None)
  then have "\<not> uint (ap_protocol_fee p) + uint (ap_fund_fee p) \<le> uint (rv_fee_denominator V)"
    using uint_lt2p [of "rv_fee_denominator V"] by simp
  with None show ?thesis by (simp add: validate_amm_config_params_def)
next
  case (Some s)
  then have "uint s = uint (ap_protocol_fee p) + uint (ap_fund_fee p)" by (simp add: checked_w_Some)
  then show ?thesis using Some
    by (auto simp: validate_amm_config_params_def word_less_def word_le_def word_neq_0_conv not_le)
qed

lemma minus_fee_Inr:
  "(minus_fee V m e what a :: ('s, u64) raydium) = Inr r \<longleftrightarrow>
     (\<exists>f. (transfer_fee V m e a :: ('s, u64) raydium) = Inr f \<and> uint r = uint a - uint f)"
  by (auto simp: minus_fee_def result_simps checked_w_Some)

lemma plus_inverse_fee_Inr:
  "(plus_inverse_fee V m e what a :: ('s, u64) raydium) = Inr r \<longleftrightarrow>
     (\<exists>f. (inverse_transfer_fee V m e a :: ('s, u64) raydium) = Inr f \<and> uint r = uint a + uint f)"
  by (auto simp: plus_inverse_fee_def result_simps checked_w_Some)

lemma minus_fee_le: "minus_fee V m e what a = Inr r \<Longrightarrow> r \<le> a"
  unfolding minus_fee_Inr word_le_def using uint_ge_0 by (auto simp: diff_le_eq)

lemma plus_inverse_fee_ge: "plus_inverse_fee V m e what a = Inr r \<Longrightarrow> a \<le> r"
  unfolding plus_inverse_fee_Inr word_le_def using uint_ge_0 by auto

text \<open>A classic token carries no fee in either direction.\<close>

lemma classic_token_no_fee:
  "mi_program m = rv_token_program V \<Longrightarrow>
     transfer_fee V m e a = Inr 0 \<and> inverse_transfer_fee V m e a = Inr 0"
  by (simp add: transfer_fee_def inverse_transfer_fee_def)

end
