(* ===== verification/Clmm_World.thy ===== *)
theory Clmm_World
  imports Clmm_Math Chain
begin

text \<open>
  What the client of \<open>crates/raydium-clmm-client/src/lib.rs\<close> talks to, and how its actions are
  modelled. An action reads and changes a world \<open>'w\<close>, returns an error, a panic or a value, and
  records the calls it made. It is undefined when the confirmation loop of a submission outlives
  its fuel. The instruction builders of the Raydium interface and of the associated-token
  library are parameters; the accounts and arguments the client hands them are records with the
  source's field names.
\<close>

section \<open>Instructions\<close>

record create_config_accounts =
  cc_owner :: pubkey
  cc_amm_config :: pubkey
  cc_system_program :: pubkey

record create_pool_accounts =
  cp_pool_creator :: pubkey
  cp_amm_config :: pubkey
  cp_pool_state :: pubkey
  cp_token_mint_0 :: pubkey
  cp_token_mint_1 :: pubkey
  cp_token_vault_0 :: pubkey
  cp_token_vault_1 :: pubkey
  cp_observation_state :: pubkey
  cp_tick_array_bitmap :: pubkey
  cp_token_program_0 :: pubkey
  cp_token_program_1 :: pubkey
  cp_system_program :: pubkey
  cp_rent :: pubkey

record open_position_accounts =
  op_payer :: pubkey
  op_position_nft_owner :: pubkey
  op_position_nft_mint :: pubkey
  op_position_nft_account :: pubkey
  op_pool_state :: pubkey
  op_protocol_position :: pubkey
  op_tick_array_lower :: pubkey
  op_tick_array_upper :: pubkey
  op_personal_position :: pubkey
  op_token_account_0 :: pubkey
  op_token_account_1 :: pubkey
  op_token_vault_0 :: pubkey
  op_token_vault_1 :: pubkey
  op_rent :: pubkey
  op_system_program :: pubkey
  op_token_program :: pubkey
  op_associated_token_program :: pubkey
  op_token_program_2022 :: pubkey
  op_vault_0_mint :: pubkey
  op_vault_1_mint :: pubkey

record open_position_args =
  oa_liquidity :: u128
  oa_amount_0_max :: u64
  oa_amount_1_max :: u64
  oa_tick_lower :: int
  oa_tick_upper :: int
  oa_array_lower_start :: int
  oa_array_upper_start :: int
  oa_with_metadata :: bool
  oa_base_flag :: "bool option"

record increase_accounts =
  il_nft_owner :: pubkey
  il_nft_account :: pubkey
  il_pool_state :: pubkey
  il_protocol_position :: pubkey
  il_personal_position :: pubkey
  il_tick_array_lower :: pubkey
  il_tick_array_upper :: pubkey
  il_token_account_0 :: pubkey
  il_token_account_1 :: pubkey
  il_token_vault_0 :: pubkey
  il_token_vault_1 :: pubkey
  il_token_program :: pubkey
  il_token_program_2022 :: pubkey
  il_vault_0_mint :: pubkey
  il_vault_1_mint :: pubkey

record decrease_accounts =
  dl_nft_owner :: pubkey
  dl_nft_account :: pubkey
  dl_personal_position :: pubkey
  dl_pool_state :: pubkey
  dl_protocol_position :: pubkey
  dl_token_vault_0 :: pubkey
  dl_token_vault_1 :: pubkey
  dl_tick_array_lower :: pubkey
  dl_tick_array_upper :: pubkey
  dl_recipient_0 :: pubkey
  dl_recipient_1 :: pubkey
  dl_token_program :: pubkey
  dl_token_program_2022 :: pubkey
  dl_memo_program :: pubkey
  dl_vault_0_mint :: pubkey
  dl_vault_1_mint :: pubkey

record close_accounts =
  cl_nft_owner :: pubkey
  cl_nft_mint :: pubkey
  cl_nft_account :: pubkey
  cl_personal_position :: pubkey
  cl_system_program :: pubkey
  cl_token_program :: pubkey

record swap_ix_accounts =
  sx_payer :: pubkey
  sx_amm_config :: pubkey
  sx_pool_state :: pubkey
  sx_input_account :: pubkey
  sx_output_account :: pubkey
  sx_input_vault :: pubkey
  sx_output_vault :: pubkey
  sx_observation :: pubkey
  sx_token_program :: pubkey
  sx_token_program_2022 :: pubkey
  sx_memo_program :: pubkey
  sx_input_mint :: pubkey
  sx_output_mint :: pubkey

record swap_args =
  sa_amount :: u64
  sa_threshold :: u64
  sa_sqrt_price_limit :: u128
  sa_is_base_input :: bool

datatype raydium_call =
    CreateAmmConfig create_config_accounts amm_config_params
  | CreatePool create_pool_accounts u128 u64      \<comment> \<open>square-root price, open time\<close>
  | OpenPositionWithToken22Nft open_position_accounts open_position_args
  | IncreaseLiquidityV2 increase_accounts u128 u64 u64 "bool option"  \<comment> \<open>liquidity, maxima, base flag\<close>
  | DecreaseLiquidityV2 decrease_accounts u128 u64 u64  \<comment> \<open>liquidity, minima\<close>
  | ClosePosition close_accounts
  | SwapV2 swap_ix_accounts swap_args

section \<open>The world and the client\<close>

record ('w, 'h, 's) clmm_node =
  nd_rpc :: "('w, 'h, 's) chain_rpc"
  nd_accounts :: "pubkey list \<Rightarrow> 'w \<Rightarrow> (string + account option list) \<times> 'w"
  nd_epoch :: "'w \<Rightarrow> (string + u64) \<times> 'w"
  nd_keypair :: "'w \<Rightarrow> pubkey \<times> 'w"  \<comment> \<open>\<open>Keypair::new\<close>\<close>
  nd_call_metas :: "raydium_call \<Rightarrow> account_meta list"
  nd_call_data :: "raydium_call \<Rightarrow> u8 list"
  nd_create_ata :: "pubkey \<Rightarrow> pubkey \<Rightarrow> pubkey \<Rightarrow> pubkey \<Rightarrow> raw_instruction"
    \<comment> \<open>payer, owner, mint, token program\<close>
  nd_show_error :: "'s submission_error \<Rightarrow> string"
  nd_fuel :: nat  \<comment> \<open>rounds of the confirmation loop\<close>

record ('w, 'h, 's, 'b, 'd, 'f) clmm_client =
  cl_env :: "'b raydium_env"
  cl_node :: "('w, 'h, 's) clmm_node"
  cl_dec :: "('d, 'f) dec_ops"
  cl_program :: pubkey
  cl_payer :: pubkey
  cl_slippage :: u16
  cl_submission :: submission_config

definition clmm_new ::
    "'b raydium_env \<Rightarrow> ('w, 'h, 's) clmm_node \<Rightarrow> ('d, 'f) dec_ops \<Rightarrow> pubkey \<Rightarrow> pubkey \<Rightarrow> u16 \<Rightarrow> u32
      \<Rightarrow> u64 \<Rightarrow> commitment \<Rightarrow> ('s, ('w, 'h, 's, 'b, 'd, 'f) clmm_client) raydium" where
  "clmm_new V N D program payer slippage units price level =
     (if 10000 < slippage then fail (InvalidInput ''slippage_bps cannot exceed 10,000'')
      else if units = 0 then fail (InvalidInput ''compute_unit_limit must be greater than zero'')
      else Inr \<lparr>cl_env = V, cl_node = N, cl_dec = D, cl_program = program, cl_payer = payer,
        cl_slippage = slippage,
        cl_submission = default_submission\<lparr>sc_unit_limit := units, sc_unit_price := price,
                                           sc_commitment := level\<rparr>\<rparr>)"

section \<open>Actions\<close>

datatype client_call =
    FetchAccounts "pubkey list"
  | FetchEpoch
  | SubmitTx "instruction list" "pubkey list"  \<comment> \<open>instructions, signers beside the payer\<close>

type_synonym ('w, 'e, 'c, 'a) run = "'w \<Rightarrow> (('e + 'a) \<times> 'w \<times> 'c list) option"

type_synonym ('w, 's, 'a) action = "('w, 's raydium_error fault, client_call, 'a) run"

text \<open>A step that touches nothing, and sequencing that stops at the first error.\<close>

definition pureA :: "'e + 'a \<Rightarrow> ('w, 'e, 'c, 'a) run" where
  "pureA r = (\<lambda>w. Some (r, w, []))"

definition bindA ::
    "('w, 'e, 'c, 'a) run \<Rightarrow> ('a \<Rightarrow> ('w, 'e, 'c, 'b) run) \<Rightarrow> ('w, 'e, 'c, 'b) run" where
  "bindA m f = (\<lambda>w.
     case m w of
       None \<Rightarrow> None
     | Some (Inl e, w1, cs) \<Rightarrow> Some (Inl e, w1, cs)
     | Some (Inr x, w1, cs) \<Rightarrow>
         (case f x w1 of None \<Rightarrow> None | Some (r, w2, cs') \<Rightarrow> Some (r, w2, cs @ cs')))"

definition fetch_optional ::
    "('w, 'h, 's, 'b, 'd, 'f) clmm_client \<Rightarrow> pubkey list \<Rightarrow> ('w, 's, account option list) action" where
  "fetch_optional S keys = (\<lambda>w.
     let (r, w1) = nd_accounts (cl_node S) keys w
     in Some (map_err (\<lambda>t. Raised (Rpc t)) r, w1, [FetchAccounts keys]))"

definition fetch_epoch :: "('w, 'h, 's, 'b, 'd, 'f) clmm_client \<Rightarrow> ('w, 's, u64) action" where
  "fetch_epoch S = (\<lambda>w.
     let (r, w1) = nd_epoch (cl_node S) w
     in Some (map_err (\<lambda>t. Raised (Rpc t)) r, w1, [FetchEpoch]))"

definition new_keypair :: "('w, 'h, 's, 'b, 'd, 'f) clmm_client \<Rightarrow> ('w, 's, pubkey) action" where
  "new_keypair S = (\<lambda>w. let (k, w1) = nd_keypair (cl_node S) w in Some (Inr k, w1, []))"

text \<open>\<open>submit\<close>: the chain client's submission with its errors translated.\<close>

definition submission_failure ::
    "('w, 'h, 's, 'b, 'd, 'f) clmm_client \<Rightarrow> 's submission_error \<Rightarrow> 's raydium_error" where
  "submission_failure S e =
     (case e of
        Simulation t logs \<Rightarrow> SimulationFailure t logs
      | SimulationRpc t \<Rightarrow> SimulationFailure t []
      | AmbiguousConfirmation sig reason \<Rightarrow> UnclearConfirmation sig reason
      | other \<Rightarrow> SubmissionFailure (nd_show_error (cl_node S) other))"

definition submit_action ::
    "('w, 'h, 's, 'b, 'd, 'f) clmm_client \<Rightarrow> instruction list \<Rightarrow> pubkey list
      \<Rightarrow> ('w, 's, 's outcome) action" where
  "submit_action S ixs extra = (\<lambda>w.
     case submit (nd_rpc (cl_node S)) (nd_fuel (cl_node S)) ixs (cl_payer S) extra (cl_submission S) w of
       None \<Rightarrow> None
     | Some (r, w1, _) \<Rightarrow>
         Some (map_err (\<lambda>e. Raised (submission_failure S e)) r, w1, [SubmitTx ixs extra]))"

definition raydium_instruction ::
    "('w, 'h, 's, 'b, 'd, 'f) clmm_client \<Rightarrow> raydium_call \<Rightarrow> account_meta list \<Rightarrow> instruction" where
  "raydium_instruction S call remaining =
     Invoke \<lparr>ix_program = cl_program S, ix_accounts = nd_call_metas (cl_node S) call @ remaining,
       ix_data = nd_call_data (cl_node S) call\<rparr>"

definition ata_instruction ::
    "('w, 'h, 's, 'b, 'd, 'f) clmm_client \<Rightarrow> mint_info \<Rightarrow> instruction" where
  "ata_instruction S m =
     Invoke (nd_create_ata (cl_node S) (cl_payer S) (cl_payer S) (mi_key m) (mi_program m))"

end
