(* ===== verification/Clmm_Client.thy ===== *)
theory Clmm_Client
  imports Clmm_World
begin

text \<open>
  The private methods of \<open>RaydiumClmmClient\<close> (\<open>crates/raydium-clmm-client/src/lib.rs\<close>): decoding and
  validation of accounts, loading of a pool and of a position, the quotes of liquidity, the
  reward accounts and the tick arrays. A pure check is a \<open>raydium\<close> result, a method that reads the
  chain is an action.
\<close>

section \<open>Accounts\<close>

text \<open>\<open>accounts[i]\<close>, which panics out of range.\<close>

definition account_at :: "account option list \<Rightarrow> nat \<Rightarrow> ('s, account option) raydium" where
  "account_at accounts i = (if i < length accounts then Inr (accounts ! i) else Inl Panic)"

definition malformed :: "pubkey \<Rightarrow> string \<Rightarrow> ('s, 'a) raydium" where
  "malformed key reason = fail (MalformedAccount key reason)"

definition decode_program_account ::
    "('w, 'h, 's, 'b, 'd, 'f) clmm_client \<Rightarrow> (u8 list \<Rightarrow> string + 'a) \<Rightarrow> pubkey \<Rightarrow> account
      \<Rightarrow> ('s, 'a) raydium" where
  "decode_program_account S decode key a =
     (if ac_owner a \<noteq> cl_program S then
        malformed key (''expected owner '' @ rv_show_key (cl_env S) (cl_program S) @ '', got ''
          @ rv_show_key (cl_env S) (ac_owner a))
      else map_err (\<lambda>t. Raised (MalformedAccount key t)) (decode (ac_data a)))"

definition decode_mint ::
    "('w, 'h, 's, 'b, 'd, 'f) clmm_client \<Rightarrow> pubkey \<Rightarrow> account \<Rightarrow> ('s, mint_info) raydium" where
  "decode_mint S key a =
     (let V = cl_env S in
      if ac_owner a \<noteq> rv_token_program V \<and> ac_owner a \<noteq> rv_token_2022 V then
        fail (UnsupportedToken key (''unsupported token program '' @ rv_show_key V (ac_owner a)))
      else bindR (unpack_mint V key (ac_data a)) (\<lambda>st.
        Inr \<lparr>mi_key = key, mi_program = ac_owner a, mi_decimals = ms_decimals st, mi_data = ac_data a\<rparr>))"

definition allowed_extensions :: "string list" where
  "allowed_extensions = [''TransferFeeConfig'', ''MetadataPointer'', ''TokenMetadata'',
     ''InterestBearingConfig'', ''ScaledUiAmount'']"

fun join_comma :: "string list \<Rightarrow> string" where
  "join_comma [] = []"
| "join_comma [x] = x"
| "join_comma (x # y # ys) = x @ '', '' @ join_comma (y # ys)"

definition validate_supported_mint ::
    "('w, 'h, 's, 'b, 'd, 'f) clmm_client \<Rightarrow> mint_info \<Rightarrow> account option \<Rightarrow> ('s, unit) raydium" where
  "validate_supported_mint S m support =
     (let V = cl_env S in
      if mi_program m = rv_token_program V then Inr ()
      else case support of
        Some a \<Rightarrow>
          (let key = support_mint_address V (cl_program S) (mi_key m) in
           bindR (decode_program_account S (rv_decode_support V) key a) (\<lambda>mint.
           if mint \<noteq> mi_key m then malformed key ''support-mint PDA contains a different mint''
           else Inr ()))
      | None \<Rightarrow>
          bindR (unpack_mint V (mi_key m) (mi_data m)) (\<lambda>st.
          bindR (map_err (\<lambda>t. Raised (MalformedAccount (mi_key m) t)) (ms_extensions st)) (\<lambda>exts.
          let unsupported = filter (\<lambda>e. e \<notin> set allowed_extensions) exts in
          if unsupported = [] then Inr ()
          else fail (UnsupportedToken (mi_key m)
                 (''unsupported Token-2022 extensions: '' @ join_comma unsupported)))))"

definition unpack_token ::
    "'b raydium_env \<Rightarrow> pubkey \<Rightarrow> account \<Rightarrow> ('s, token_state) raydium" where
  "unpack_token V key a =
     map_err (\<lambda>t. Raised (MalformedAccount key t)) (rv_unpack_token V (ac_data a))"

definition validate_vault ::
    "('w, 'h, 's, 'b, 'd, 'f) clmm_client \<Rightarrow> pubkey \<Rightarrow> pubkey \<Rightarrow> account \<Rightarrow> mint_info \<Rightarrow> ('s, unit) raydium" where
  "validate_vault S pool key a m =
     (if ac_owner a \<noteq> mi_program m then malformed key ''vault is owned by the wrong token program''
      else bindR (unpack_token (cl_env S) key a) (\<lambda>st.
        if tk_mint st \<noteq> mi_key m \<or> tk_owner st \<noteq> pool then
          malformed key ''vault mint or authority does not match the pool''
        else Inr ()))"

definition validate_token_account ::
    "('w, 'h, 's, 'b, 'd, 'f) clmm_client \<Rightarrow> pubkey \<Rightarrow> account option \<Rightarrow> mint_info \<Rightarrow> bool
      \<Rightarrow> ('s, u64) raydium" where
  "validate_token_account S key found m required =
     (case found of
        None \<Rightarrow> if required then fail (InsufficientBalance (mi_key m) 1 0) else Inr 0
      | Some a \<Rightarrow>
          if ac_owner a \<noteq> mi_program m then
            malformed key ''token account is owned by the wrong token program''
          else bindR (unpack_token (cl_env S) key a) (\<lambda>st.
            if tk_mint st \<noteq> mi_key m \<or> tk_owner st \<noteq> cl_payer S then
              malformed key ''token account mint or authority is invalid''
            else if tk_frozen st then malformed key ''fungible token account is frozen''
            else Inr (tk_amount st)))"

section \<open>Loading a pool\<close>

record 'b pool_bundle =
  bd_pool :: "'b pool_state"
  bd_config_account :: account
  bd_amm_config :: pubkey
  bd_mint_0 :: mint_info
  bd_mint_1 :: mint_info
  bd_vault_0 :: pubkey
  bd_vault_1 :: pubkey
  bd_observation :: pubkey
  bd_bitmap_key :: pubkey
  bd_bitmap :: 'b
  bd_tick_spacing :: u16
  bd_user_0 :: pubkey
  bd_user_1 :: pubkey
  bd_balance_0 :: u64
  bd_balance_1 :: u64
  bd_epoch :: u64
  bd_key :: pubkey

definition pool_keys :: "('w, 'h, 's, 'b, 'd, 'f) clmm_client \<Rightarrow> pubkey \<Rightarrow> 'b pool_state \<Rightarrow> pubkey list" where
  "pool_keys S key pool =
     [ps_amm_config pool, ps_mint_0 pool, ps_mint_1 pool, bitmap_address (cl_env S) (cl_program S) key,
      ps_vault_0 pool, ps_vault_1 pool, ps_observation pool]"

definition check_pool ::
    "('w, 'h, 's, 'b, 'd, 'f) clmm_client \<Rightarrow> pubkey \<Rightarrow> 'b pool_state \<Rightarrow> account option list
      \<Rightarrow> ('s, account \<times> mint_info \<times> mint_info \<times> 'b) raydium" where
  "check_pool S key pool accounts =
     (let V = cl_env S; keys = pool_keys S key pool; amm = ps_amm_config pool;
          m0 = ps_mint_0 pool; m1 = ps_mint_1 pool in
      bindR (require_account keys accounts 0 ''amm config'') (\<lambda>config_account.
      bindR (decode_program_account S (rv_decode_config V) amm config_account) (\<lambda>config.
      if amm_config_address V (cl_program S) (cf_index config) \<noteq> amm then
        malformed amm ''AMM config is not its canonical PDA''
      else if cf_tick_spacing config \<noteq> ps_tick_spacing pool then
        malformed key ''pool tick spacing does not match its config''
      else
      bindR (bindR (require_account keys accounts 1 ''mint 0'') (decode_mint S m0)) (\<lambda>mint_0.
      bindR (bindR (require_account keys accounts 2 ''mint 1'') (decode_mint S m1)) (\<lambda>mint_1.
      if \<not> m0 < m1 \<or> pool_address_for V (cl_program S) amm m0 m1 \<noteq> key then
        malformed key ''pool mint order or canonical PDA is invalid''
      else if ps_decimals_0 pool \<noteq> mi_decimals mint_0 \<or> ps_decimals_1 pool \<noteq> mi_decimals mint_1 then
        malformed key ''pool mint decimals do not match mint accounts''
      else
      bindR (bindR (require_account keys accounts 3 ''tick-array bitmap'')
        (decode_program_account S (rv_decode_bitmap V) (bitmap_address V (cl_program S) key))) (\<lambda>bitmap.
      bindR (bindR (require_account keys accounts 4 ''vault 0'')
        (\<lambda>a. validate_vault S key (ps_vault_0 pool) a mint_0)) (\<lambda>_.
      bindR (bindR (require_account keys accounts 5 ''vault 1'')
        (\<lambda>a. validate_vault S key (ps_vault_1 pool) a mint_1)) (\<lambda>_.
      bindR (require_account keys accounts 6 ''observation'') (\<lambda>a.
      if ac_owner a \<noteq> cl_program S then
        malformed (ps_observation pool) ''observation account has the wrong owner''
      else Inr (config_account, mint_0, mint_1, bitmap))))))))))"

definition user_balances ::
    "('w, 'h, 's, 'b, 'd, 'f) clmm_client \<Rightarrow> pubkey \<Rightarrow> pubkey \<Rightarrow> mint_info \<Rightarrow> mint_info
      \<Rightarrow> account option list \<Rightarrow> ('s, u64 \<times> u64) raydium" where
  "user_balances S u0 u1 m0 m1 accounts =
     bindR (account_at accounts 0) (\<lambda>a0.
     bindR (validate_token_account S u0 a0 m0 False) (\<lambda>b0.
     bindR (account_at accounts 1) (\<lambda>a1.
     bindR (validate_token_account S u1 a1 m1 False) (\<lambda>b1. Inr (b0, b1)))))"

definition user_token :: "('w, 'h, 's, 'b, 'd, 'f) clmm_client \<Rightarrow> mint_info \<Rightarrow> pubkey" where
  "user_token S m = rv_ata (cl_env S) (cl_payer S) (mi_key m) (mi_program m)"

definition load_pool ::
    "('w, 'h, 's, 'b, 'd, 'f) clmm_client \<Rightarrow> pubkey \<Rightarrow> ('w, 's, 'b pool_bundle) action" where
  "load_pool S key =
     bindA (fetch_optional S [key]) (\<lambda>first.
     bindA (pureA (bindR (require_account [key] first 0 ''pool'')
       (decode_program_account S (rv_decode_pool (cl_env S)) key))) (\<lambda>pool.
     bindA (fetch_optional S (pool_keys S key pool)) (\<lambda>accounts.
     bindA (pureA (check_pool S key pool accounts)) (\<lambda>(config_account, m0, m1, bitmap).
     bindA (fetch_epoch S) (\<lambda>epoch.
     bindA (fetch_optional S [user_token S m0, user_token S m1]) (\<lambda>users.
     bindA (pureA (user_balances S (user_token S m0) (user_token S m1) m0 m1 users)) (\<lambda>(b0, b1).
     pureA (Inr \<lparr>bd_pool = pool, bd_config_account = config_account, bd_amm_config = ps_amm_config pool,
       bd_mint_0 = m0, bd_mint_1 = m1, bd_vault_0 = ps_vault_0 pool, bd_vault_1 = ps_vault_1 pool,
       bd_observation = ps_observation pool,
       bd_bitmap_key = bitmap_address (cl_env S) (cl_program S) key, bd_bitmap = bitmap,
       bd_tick_spacing = ps_tick_spacing pool, bd_user_0 = user_token S m0, bd_user_1 = user_token S m1,
       bd_balance_0 = b0, bd_balance_1 = b1, bd_epoch = epoch, bd_key = key\<rparr>))))))))"

section \<open>Loading a position\<close>

record position_view =
  pv_address :: pubkey
  pv_pool :: pubkey
  pv_nft_account :: pubkey
  pv_nft_program :: pubkey
  pv_tick_lower :: int
  pv_tick_upper :: int
  pv_liquidity :: u128
  pv_fees_0 :: u64
  pv_fees_1 :: u64
  pv_rewards :: "u64 list"

definition position_keys :: "('w, 'h, 's, 'b, 'd, 'f) clmm_client \<Rightarrow> pubkey \<Rightarrow> pubkey list" where
  "position_keys S mint =
     (let V = cl_env S in
      [personal_position_address V (cl_program S) mint, mint,
       rv_ata V (cl_payer S) mint (rv_token_2022 V), rv_ata V (cl_payer S) mint (rv_token_program V)])"

text \<open>The account that holds the position's token, by the token program of its mint.\<close>

definition nft_holder ::
    "('w, 'h, 's, 'b, 'd, 'f) clmm_client \<Rightarrow> pubkey \<Rightarrow> pubkey \<Rightarrow> account option list
      \<Rightarrow> ('s, pubkey \<times> account option) raydium" where
  "nft_holder S mint program accounts =
     (let V = cl_env S in
      if program = rv_token_2022 V then
        bindR (account_at accounts 2) (\<lambda>a. Inr (rv_ata V (cl_payer S) mint (rv_token_2022 V), a))
      else if program = rv_token_program V then
        bindR (account_at accounts 3) (\<lambda>a. Inr (rv_ata V (cl_payer S) mint (rv_token_program V), a))
      else malformed mint ''position NFT uses an unsupported token program'')"

definition check_position ::
    "('w, 'h, 's, 'b, 'd, 'f) clmm_client \<Rightarrow> pubkey \<Rightarrow> account option list \<Rightarrow> ('s, position_view) raydium" where
  "check_position S mint accounts =
     (let V = cl_env S; keys = position_keys S mint;
          address = personal_position_address V (cl_program S) mint in
      bindR (bindR (require_account keys accounts 0 ''personal position'')
        (decode_program_account S (rv_decode_position V) address)) (\<lambda>state.
      if pp_nft_mint state \<noteq> mint then
        malformed address ''personal position contains a different NFT mint''
      else
      bindR (require_account keys accounts 1 ''position NFT mint'') (\<lambda>mint_account.
      bindR (unpack_mint V mint (ac_data mint_account)) (\<lambda>nft.
      if ms_decimals nft \<noteq> 0 \<or> ms_supply nft \<noteq> 1 then
        malformed mint ''position NFT mint must have decimals 0 and supply 1''
      else
      bindR (nft_holder S mint (ac_owner mint_account) accounts) (\<lambda>(nft_account, found).
      bindR (ok_or found (Raised (InsufficientBalance mint 1 0))) (\<lambda>holder.
      if ac_owner holder \<noteq> ac_owner mint_account then
        malformed nft_account ''position NFT account owner is invalid''
      else
      bindR (unpack_token V nft_account holder) (\<lambda>st.
      if tk_amount st \<noteq> 1 \<or> tk_mint st \<noteq> mint \<or> tk_owner st \<noteq> cl_payer S then
        fail (InsufficientBalance mint 1 (tk_amount st))
      else
      Inr \<lparr>pv_address = address, pv_pool = pp_pool state, pv_nft_account = nft_account,
        pv_nft_program = ac_owner mint_account, pv_tick_lower = pp_tick_lower state,
        pv_tick_upper = pp_tick_upper state, pv_liquidity = pp_liquidity state,
        pv_fees_0 = pp_fees_0 state, pv_fees_1 = pp_fees_1 state, pv_rewards = pp_rewards state\<rparr>)))))))"

definition load_position ::
    "('w, 'h, 's, 'b, 'd, 'f) clmm_client \<Rightarrow> pubkey \<Rightarrow> ('w, 's, position_view) action" where
  "load_position S mint =
     bindA (fetch_optional S (position_keys S mint)) (\<lambda>accounts. pureA (check_position S mint accounts))"

section \<open>Quotes of liquidity\<close>

record liquidity_quote =
  lq_liquidity :: u128
  lq_tick_lower :: int
  lq_tick_upper :: int
  lq_input_mint :: pubkey
  lq_input_raw :: u64
  lq_amount_0 :: u64
  lq_amount_1 :: u64
  lq_amount_0_max :: u64
  lq_amount_1_max :: u64
  lq_amount_0_min :: u64
  lq_amount_1_min :: u64

record 'd token_amount =
  ta_mint :: pubkey
  ta_amount :: 'd

definition ensure_position_balances ::
    "'b pool_bundle \<Rightarrow> liquidity_quote \<Rightarrow> ('s, unit) raydium" where
  "ensure_position_balances bd q =
     (if bd_balance_0 bd < lq_amount_0_max q then
        fail (InsufficientBalance (mi_key (bd_mint_0 bd)) (lq_amount_0_max q) (bd_balance_0 bd))
      else if bd_balance_1 bd < lq_amount_1_max q then
        fail (InsufficientBalance (mi_key (bd_mint_1 bd)) (lq_amount_1_max q) (bd_balance_1 bd))
      else Inr ())"

text \<open>\<open>i128::try_from\<close> of a liquidity.\<close>

definition liquidity_i128 :: "u128 \<Rightarrow> ('s, int) raydium" where
  "liquidity_i128 l = (if in_i128 (uint l) then Inr (uint l) else fail (Quote ''liquidity exceeds i128''))"

definition position_quote_for_ticks ::
    "('w, 'h, 's, 'b, 'd, 'f) clmm_client \<Rightarrow> 'b pool_bundle \<Rightarrow> position_view \<Rightarrow> 'd token_amount
      \<Rightarrow> ('s, liquidity_quote) raydium" where
  "position_quote_for_ticks S bd pos input =
     (let D = cl_dec S; V = cl_env S; M = rv_math V; bps = cl_slippage S; epoch = bd_epoch bd;
          lower = pv_tick_lower pos; upper = pv_tick_upper pos; current = ps_sqrt_price (bd_pool bd) in
      bindR (ensure_positive D (ta_amount input) ''token amount'') (\<lambda>_.
      bindR (if ta_mint input = mi_key (bd_mint_0 bd) then Inr (bd_mint_0 bd)
             else if ta_mint input = mi_key (bd_mint_1 bd) then Inr (bd_mint_1 bd)
             else fail (InvalidInput ''input mint does not belong to the pool'')) (\<lambda>input_mint.
      bindR (ui_to_raw D (ta_amount input) (mi_decimals input_mint)) (\<lambda>raw.
      bindR (quoted (cm_sqrt_at_tick M lower)) (\<lambda>lower_sqrt.
      bindR (quoted (cm_sqrt_at_tick M upper)) (\<lambda>upper_sqrt.
      bindR (quoted (if ta_mint input = mi_key (bd_mint_0 bd)
                     then cm_liquidity_0 M current lower_sqrt upper_sqrt raw
                     else cm_liquidity_1 M current lower_sqrt upper_sqrt raw)) (\<lambda>liquidity.
      if liquidity = 0 then fail (Quote ''token amount resolves to zero liquidity'')
      else
      bindR (liquidity_i128 liquidity) (\<lambda>l.
      bindR (quoted (cm_delta_amounts M (ps_tick_current (bd_pool bd)) current lower upper l)) (\<lambda>(a0, a1).
      bindR (apply_slippage a0 bps True) (\<lambda>s0.
      bindR (apply_slippage a1 bps True) (\<lambda>s1.
      bindR (plus_inverse_fee V (bd_mint_0 bd) epoch ''token 0 maximum overflow'' s0) (\<lambda>max0.
      bindR (plus_inverse_fee V (bd_mint_1 bd) epoch ''token 1 maximum overflow'' s1) (\<lambda>max1.
      Inr \<lparr>lq_liquidity = liquidity, lq_tick_lower = lower, lq_tick_upper = upper,
        lq_input_mint = ta_mint input, lq_input_raw = raw, lq_amount_0 = a0, lq_amount_1 = a1,
        lq_amount_0_max = max0, lq_amount_1_max = max1, lq_amount_0_min = 0, lq_amount_1_min = 0\<rparr>)))))))))))))"

text \<open>
  The ticks of a price range: the lower one rounded down to the tick spacing, the upper one up.
  A spacing of zero and a product beyond \<open>i32\<close> panic.
\<close>

definition lower_tick :: "int \<Rightarrow> int \<Rightarrow> ('s, int) raydium" where
  "lower_tick spacing raw =
     (if spacing = 0 then Inl Panic
      else let t = raw div spacing * spacing in if in_i32 t then Inr t else Inl Panic)"

definition upper_tick :: "int \<Rightarrow> int \<Rightarrow> ('s, int) raydium" where
  "upper_tick spacing raw =
     (if spacing = 0 then Inl Panic
      else if raw mod spacing = 0 then Inr raw
      else let q = raw div spacing + 1 in
        if in_i32 q \<and> in_i32 (q * spacing) then Inr (q * spacing) else fail (Quote ''upper tick overflow''))"

definition range_position :: "int \<Rightarrow> int \<Rightarrow> position_view" where
  "range_position lower upper =
     \<lparr>pv_address = default_pubkey, pv_pool = default_pubkey, pv_nft_account = default_pubkey,
      pv_nft_program = default_pubkey, pv_tick_lower = lower, pv_tick_upper = upper, pv_liquidity = 0,
      pv_fees_0 = 0, pv_fees_1 = 0, pv_rewards = [0, 0, 0]\<rparr>"

definition position_quote ::
    "('w, 'h, 's, 'b, 'd, 'f) clmm_client \<Rightarrow> 'b pool_bundle \<Rightarrow> 'd \<Rightarrow> 'd \<Rightarrow> 'd token_amount
      \<Rightarrow> ('s, liquidity_quote) raydium" where
  "position_quote S bd lower_price upper_price input =
     (let D = cl_dec S; V = cl_env S; d0 = mi_decimals (bd_mint_0 bd); d1 = mi_decimals (bd_mint_1 bd);
          spacing = uint (bd_tick_spacing bd) in
      bindR (ensure_positive D lower_price ''lower_price'') (\<lambda>_.
      bindR (ensure_positive D upper_price ''upper_price'') (\<lambda>_.
      if dec_le D upper_price lower_price then
        fail (InvalidInput ''lower_price must be less than upper_price'')
      else
      bindR (price_to_sqrt_x64 D V lower_price d0 d1) (\<lambda>lower_sqrt.
      bindR (price_to_sqrt_x64 D V upper_price d0 d1) (\<lambda>upper_sqrt.
      bindR (quoted (cm_tick_at_sqrt (rv_math V) lower_sqrt)) (\<lambda>lower_raw.
      bindR (quoted (cm_tick_at_sqrt (rv_math V) upper_sqrt)) (\<lambda>upper_raw.
      bindR (lower_tick spacing lower_raw) (\<lambda>lower.
      bindR (upper_tick spacing upper_raw) (\<lambda>upper.
      if upper \<le> lower then fail (InvalidInput ''price range is narrower than one tick spacing'')
      else position_quote_for_ticks S bd (range_position lower upper) input)))))))))"

definition decrease_quote ::
    "('w, 'h, 's, 'b, 'd, 'f) clmm_client \<Rightarrow> 'b pool_bundle \<Rightarrow> position_view \<Rightarrow> u128
      \<Rightarrow> ('s, liquidity_quote) raydium" where
  "decrease_quote S bd pos liquidity =
     (let V = cl_env S; pool = bd_pool bd; bps = cl_slippage S; epoch = bd_epoch bd in
      bindR (liquidity_i128 liquidity) (\<lambda>l.
      bindR (quoted (cm_delta_amounts (rv_math V) (ps_tick_current pool) (ps_sqrt_price pool)
               (pv_tick_lower pos) (pv_tick_upper pos) (- l))) (\<lambda>(a0, a1).
      bindR (apply_slippage a0 bps False) (\<lambda>s0.
      bindR (apply_slippage a1 bps False) (\<lambda>s1.
      bindR (minus_fee V (bd_mint_0 bd) epoch ''token 0 minimum underflow'' s0) (\<lambda>min0.
      bindR (minus_fee V (bd_mint_1 bd) epoch ''token 1 minimum underflow'' s1) (\<lambda>min1.
      Inr \<lparr>lq_liquidity = liquidity, lq_tick_lower = pv_tick_lower pos, lq_tick_upper = pv_tick_upper pos,
        lq_input_mint = default_pubkey, lq_input_raw = 0, lq_amount_0 = a0, lq_amount_1 = a1,
        lq_amount_0_max = 0, lq_amount_1_max = 0, lq_amount_0_min = min0, lq_amount_1_min = min1\<rparr>)))))))"

section \<open>Tick arrays\<close>

definition max_swap_tick_arrays :: nat where
  "max_swap_tick_arrays = 6"

definition tick_array_discovery_limit :: nat where
  "tick_array_discovery_limit = 24"

text \<open>The start indices after the first one, at most as many as the counter says.\<close>

fun discover_starts :: "'b pool_state \<Rightarrow> 'b \<Rightarrow> bool \<Rightarrow> nat \<Rightarrow> int \<Rightarrow> string + int list" where
  "discover_starts pool bitmap zfo 0 start = Inr []"
| "discover_starts pool bitmap zfo (Suc n) start =
     bindR (ps_next_array pool bitmap start zfo) (\<lambda>m.
     case m of
       None \<Rightarrow> Inr []
     | Some next \<Rightarrow> bindR (discover_starts pool bitmap zfo n next) (\<lambda>starts. Inr (next # starts)))"

definition swap_starts :: "'b pool_bundle \<Rightarrow> bool \<Rightarrow> string + int list" where
  "swap_starts bd zfo =
     bindR (ps_first_array (bd_pool bd) (bd_bitmap bd) zfo) (\<lambda>(_, start).
     bindR (discover_starts (bd_pool bd) (bd_bitmap bd) zfo (tick_array_discovery_limit - 1) start)
       (\<lambda>starts. Inr (start # starts)))"

definition check_tick_array ::
    "('w, 'h, 's, 'b, 'd, 'f) clmm_client \<Rightarrow> pubkey \<Rightarrow> pubkey \<Rightarrow> int \<Rightarrow> string \<Rightarrow> account
      \<Rightarrow> ('s, tick_array) raydium" where
  "check_tick_array S pool key start what a =
     bindR (decode_program_account S (rv_decode_tick_array (cl_env S)) key a) (\<lambda>array.
     if ta_pool array \<noteq> pool \<or> ta_start array \<noteq> start then
       malformed key (what @ '' pool or start index mismatch'')
     else Inr array)"

definition load_swap_tick_arrays ::
    "('w, 'h, 's, 'b, 'd, 'f) clmm_client \<Rightarrow> 'b pool_bundle \<Rightarrow> bool
      \<Rightarrow> ('w, 's, tick_array list \<times> pubkey list) action" where
  "load_swap_tick_arrays S bd zfo =
     bindA (pureA (quoted (swap_starts bd zfo))) (\<lambda>starts.
     let keys = map (tick_array_address (cl_env S) (cl_program S) (bd_key bd)) starts in
     bindA (fetch_optional S keys) (\<lambda>accounts.
     bindA (pureA (traverseR (\<lambda>i.
         bindR (require_account keys accounts i ''tick array'')
           (check_tick_array S (bd_key bd) (keys ! i) (starts ! i) ''tick array'')) [0..<length keys]))
       (\<lambda>arrays. pureA (Inr (arrays, keys)))))"

definition check_position_array ::
    "('w, 'h, 's, 'b, 'd, 'f) clmm_client \<Rightarrow> pubkey \<Rightarrow> bool \<Rightarrow> account option list \<Rightarrow> nat \<Rightarrow> pubkey \<Rightarrow> int
      \<Rightarrow> ('s, unit) raydium" where
  "check_position_array S pool required accounts i key start =
     bindR (account_at accounts i) (\<lambda>found.
     case found of
       None \<Rightarrow> if required then malformed key ''position tick array is missing'' else Inr ()
     | Some a \<Rightarrow> bindR (check_tick_array S pool key start ''position tick array'' a) (\<lambda>_. Inr ()))"

definition validate_position_tick_arrays ::
    "('w, 'h, 's, 'b, 'd, 'f) clmm_client \<Rightarrow> position_accounts \<Rightarrow> bool \<Rightarrow> ('w, 's, unit) action" where
  "validate_position_tick_arrays S pos required =
     bindA (fetch_optional S [po_lower_array pos, po_upper_array pos]) (\<lambda>accounts.
     pureA (
       bindR (check_position_array S (po_pool pos) required accounts 0 (po_lower_array pos) (po_lower_start pos))
         (\<lambda>_. check_position_array S (po_pool pos) required accounts 1 (po_upper_array pos) (po_upper_start pos))))"

section \<open>Rewards\<close>

definition active_rewards :: "'b pool_state \<Rightarrow> (pubkey \<times> pubkey) list" where
  "active_rewards pool =
     filter (\<lambda>(mint, vault). mint \<noteq> default_pubkey \<and> vault \<noteq> default_pubkey) (ps_rewards pool)"

text \<open>The instruction that makes the owner's reward account exist, and the three metas of a reward.\<close>

definition reward_entry ::
    "('w, 'h, 's, 'b, 'd, 'f) clmm_client \<Rightarrow> pubkey \<Rightarrow> pubkey list \<Rightarrow> account option list
      \<Rightarrow> nat \<times> pubkey \<times> pubkey \<Rightarrow> ('s, instruction \<times> account_meta list) raydium" where
  "reward_entry S pool keys accounts = (\<lambda>(i, mint, vault).
     bindR (bindR (require_account keys accounts (i * 2) ''reward mint'') (decode_mint S mint)) (\<lambda>m.
     bindR (bindR (require_account keys accounts (i * 2 + 1) ''reward vault'')
       (\<lambda>a. validate_vault S pool vault a m)) (\<lambda>_.
     Inr (ata_instruction S m,
       [writable_meta vault False, writable_meta (user_token S m) False, readonly_meta mint False]))))"

definition reward_accounts ::
    "('w, 'h, 's, 'b, 'd, 'f) clmm_client \<Rightarrow> 'b pool_bundle
      \<Rightarrow> ('w, 's, instruction list \<times> account_meta list) action" where
  "reward_accounts S bd =
     (let rewards = active_rewards (bd_pool bd); start = [writable_meta (bd_bitmap_key bd) False] in
      if rewards = [] then pureA (Inr ([], start))
      else
        let keys = concat (map (\<lambda>(mint, vault). [mint, vault]) rewards) in
        bindA (fetch_optional S keys) (\<lambda>accounts.
        pureA (bindR (traverseR (reward_entry S (bd_key bd) keys accounts) (enumerate 0 rewards)) (\<lambda>es.
          Inr (map fst es, start @ concat (map snd es))))))"

section \<open>Instructions\<close>

definition position_ata_instructions ::
    "('w, 'h, 's, 'b, 'd, 'f) clmm_client \<Rightarrow> 'b pool_bundle \<Rightarrow> instruction list" where
  "position_ata_instructions S bd = [ata_instruction S (bd_mint_0 bd), ata_instruction S (bd_mint_1 bd)]"

definition decrease_instruction ::
    "('w, 'h, 's, 'b, 'd, 'f) clmm_client \<Rightarrow> 'b pool_bundle \<Rightarrow> position_view \<Rightarrow> position_accounts
      \<Rightarrow> liquidity_quote \<Rightarrow> account_meta list \<Rightarrow> instruction" where
  "decrease_instruction S bd pos accounts q remaining =
     raydium_instruction S
       (DecreaseLiquidityV2
         \<lparr>dl_nft_owner = cl_payer S, dl_nft_account = pv_nft_account pos,
          dl_personal_position = pv_address pos, dl_pool_state = pv_pool pos,
          dl_protocol_position = po_protocol accounts,
          dl_token_vault_0 = bd_vault_0 bd, dl_token_vault_1 = bd_vault_1 bd,
          dl_tick_array_lower = po_lower_array accounts, dl_tick_array_upper = po_upper_array accounts,
          dl_recipient_0 = bd_user_0 bd, dl_recipient_1 = bd_user_1 bd,
          dl_token_program = rv_token_program (cl_env S), dl_token_program_2022 = rv_token_2022 (cl_env S),
          dl_memo_program = rv_memo_program (cl_env S),
          dl_vault_0_mint = mi_key (bd_mint_0 bd), dl_vault_1_mint = mi_key (bd_mint_1 bd)\<rparr>
         (lq_liquidity q) (lq_amount_0_min q) (lq_amount_1_min q))
       remaining"

definition addresses_of ::
    "('w, 'h, 's, 'b, 'd, 'f) clmm_client \<Rightarrow> pubkey \<Rightarrow> pubkey \<Rightarrow> int \<Rightarrow> int \<Rightarrow> u16 \<Rightarrow> position_accounts" where
  "addresses_of S pool mint lower upper spacing =
     position_addresses (cl_env S) (cl_program S) (cl_payer S) pool mint lower upper spacing"

end
