(* ===== verification/Clmm_Actions.thy ===== *)
theory Clmm_Actions
  imports Clmm_Client
begin

text \<open>
  The public actions of \<open>RaydiumClmmClient\<close> (\<open>crates/raydium-clmm-client/src/lib.rs\<close>), each the whole
  method: the accounts it reads, its checks in their order, the quote, the instructions it builds
  and the transaction it submits. The wrapper \<open>run\<close> only logs and counts; it returns the result
  of the action unchanged and is not modelled.
\<close>

section \<open>Configuration and pool\<close>

record 's config_outcome =
  co_transaction :: "'s outcome option"
  co_created :: bool
  co_amm_config :: pubkey
  co_admin :: pubkey
  co_params :: amm_config_params

definition existing_config ::
    "('w, 'h, 's, 'b, 'd, 'f) clmm_client \<Rightarrow> amm_config_params \<Rightarrow> pubkey \<Rightarrow> account
      \<Rightarrow> ('s, 's config_outcome) raydium" where
  "existing_config S p address a =
     bindR (decode_program_account S (rv_decode_config (cl_env S)) address a) (\<lambda>c.
     if cf_index c \<noteq> ap_index p \<or> cf_tick_spacing c \<noteq> ap_tick_spacing p
        \<or> cf_trade_fee c \<noteq> ap_trade_fee p \<or> cf_protocol_fee c \<noteq> ap_protocol_fee p
        \<or> cf_fund_fee c \<noteq> ap_fund_fee p \<or> cf_owner c \<noteq> cl_payer S \<or> cf_fund_owner c \<noteq> cl_payer S
     then fail (InvalidInput (''existing AMM config '' @ rv_show_key (cl_env S) address
            @ '' does not match the requested admin or fee settings''))
     else Inr \<lparr>co_transaction = None, co_created = False, co_amm_config = address,
       co_admin = cf_owner c, co_params = p\<rparr>)"

definition create_config_instruction ::
    "('w, 'h, 's, 'b, 'd, 'f) clmm_client \<Rightarrow> amm_config_params \<Rightarrow> pubkey \<Rightarrow> instruction" where
  "create_config_instruction S p address =
     raydium_instruction S (CreateAmmConfig
       \<lparr>cc_owner = cl_payer S, cc_amm_config = address,
        cc_system_program = rv_system_program (cl_env S)\<rparr> p) []"

definition ensure_amm_config ::
    "('w, 'h, 's, 'b, 'd, 'f) clmm_client \<Rightarrow> amm_config_params \<Rightarrow> ('w, 's, 's config_outcome) action" where
  "ensure_amm_config S p =
     (let address = amm_config_address (cl_env S) (cl_program S) (ap_index p) in
      bindA (pureA (validate_amm_config_params (cl_env S) p)) (\<lambda>_.
      bindA (fetch_optional S [cl_program S, address]) (\<lambda>accounts.
      bindA (pureA (require_account [cl_program S, address] accounts 0 ''Raydium program'')) (\<lambda>program.
      if \<not> ac_executable program then
        pureA (malformed (cl_program S) ''Raydium program account is not executable'')
      else bindA (pureA (account_at accounts 1)) (\<lambda>found.
        case found of
          Some a \<Rightarrow> pureA (existing_config S p address a)
        | None \<Rightarrow>
            bindA (submit_action S [create_config_instruction S p address] []) (\<lambda>t.
            pureA (Inr \<lparr>co_transaction = Some t, co_created = True, co_amm_config = address,
              co_admin = cl_payer S, co_params = p\<rparr>)))))))"

record 'd create_pool_params =
  cr_amm_config :: pubkey
  cr_mint_a :: pubkey
  cr_mint_b :: pubkey
  cr_initial_price :: 'd
  cr_open_time :: "u64 option"

record ('s, 'd) create_pool_outcome =
  cu_transaction :: "'s outcome"
  cu_mint_0 :: pubkey
  cu_mint_1 :: pubkey
  cu_normalized_price :: 'd
  cu_sqrt_price :: u128
  cu_open_time :: u64
  cu_accounts :: pool_accounts

text \<open>The mints in order, with the price of the first in the second.\<close>

definition ordered_mints ::
    "('d, 'f) dec_ops \<Rightarrow> 'd create_pool_params \<Rightarrow> ('s, pubkey \<times> pubkey \<times> 'd) raydium" where
  "ordered_mints D p =
     (if cr_mint_a p < cr_mint_b p then Inr (cr_mint_a p, cr_mint_b p, cr_initial_price p)
      else if cr_mint_b p < cr_mint_a p then
        bindR (ok_or (dec_div D (dec_one D) (cr_initial_price p)) (Raised (Quote ''price inversion failed'')))
          (\<lambda>price. Inr (cr_mint_b p, cr_mint_a p, price))
      else fail (InvalidInput ''pool mints must be different''))"

definition create_pool_keys ::
    "('w, 'h, 's, 'b, 'd, 'f) clmm_client \<Rightarrow> pubkey \<Rightarrow> pubkey \<Rightarrow> pubkey \<Rightarrow> pubkey \<Rightarrow> pubkey list" where
  "create_pool_keys S amm pool m0 m1 =
     [amm, m0, m1, pool, support_mint_address (cl_env S) (cl_program S) m0,
      support_mint_address (cl_env S) (cl_program S) m1]"

definition check_new_pool ::
    "('w, 'h, 's, 'b, 'd, 'f) clmm_client \<Rightarrow> pubkey \<Rightarrow> pubkey \<Rightarrow> pubkey \<Rightarrow> pubkey \<Rightarrow> account option list
      \<Rightarrow> ('s, mint_info \<times> mint_info \<times> bool \<times> bool) raydium" where
  "check_new_pool S amm pool m0 m1 accounts =
     (let V = cl_env S; keys = create_pool_keys S amm pool m0 m1 in
      bindR (bindR (require_account keys accounts 0 ''amm config'')
        (decode_program_account S (rv_decode_config V) amm)) (\<lambda>config.
      if amm_config_address V (cl_program S) (cf_index config) \<noteq> amm then
        malformed amm ''AMM config is not its canonical PDA''
      else
      bindR (bindR (require_account keys accounts 1 ''mint 0'') (decode_mint S m0)) (\<lambda>mint_0.
      bindR (bindR (require_account keys accounts 2 ''mint 1'') (decode_mint S m1)) (\<lambda>mint_1.
      bindR (account_at accounts 3) (\<lambda>existing.
      if existing \<noteq> None then
        fail (InvalidInput (''pool '' @ rv_show_key V pool @ '' is already initialized''))
      else
      bindR (account_at accounts 4) (\<lambda>support_0.
      bindR (validate_supported_mint S mint_0 support_0) (\<lambda>_.
      bindR (account_at accounts 5) (\<lambda>support_1.
      bindR (validate_supported_mint S mint_1 support_1) (\<lambda>_.
      Inr (mint_0, mint_1, support_0 \<noteq> None, support_1 \<noteq> None))))))))))"

definition create_pool_instruction ::
    "('w, 'h, 's, 'b, 'd, 'f) clmm_client \<Rightarrow> pubkey \<Rightarrow> pool_accounts \<Rightarrow> mint_info \<Rightarrow> mint_info
      \<Rightarrow> bool \<Rightarrow> bool \<Rightarrow> u128 \<Rightarrow> u64 \<Rightarrow> instruction" where
  "create_pool_instruction S amm addresses mint_0 mint_1 support_0 support_1 sqrt_price open_time =
     (let V = cl_env S; support = support_mint_address V (cl_program S) in
      raydium_instruction S
        (CreatePool
          \<lparr>cp_pool_creator = cl_payer S, cp_amm_config = amm, cp_pool_state = pa_pool addresses,
           cp_token_mint_0 = mi_key mint_0, cp_token_mint_1 = mi_key mint_1,
           cp_token_vault_0 = pa_vault_0 addresses, cp_token_vault_1 = pa_vault_1 addresses,
           cp_observation_state = pa_observation addresses, cp_tick_array_bitmap = pa_bitmap addresses,
           cp_token_program_0 = mi_program mint_0, cp_token_program_1 = mi_program mint_1,
           cp_system_program = rv_system_program V, cp_rent = rv_rent V\<rparr>
          sqrt_price open_time)
        ((if support_0 then [readonly_meta (support (mi_key mint_0)) False] else [])
         @ (if support_1 then [readonly_meta (support (mi_key mint_1)) False] else [])))"

definition create_pool ::
    "('w, 'h, 's, 'b, 'd, 'f) clmm_client \<Rightarrow> 'd create_pool_params
      \<Rightarrow> ('w, 's, ('s, 'd) create_pool_outcome) action" where
  "create_pool S p =
     (let V = cl_env S; D = cl_dec S; amm = cr_amm_config p;
          open_time = (case cr_open_time p of None \<Rightarrow> 0 | Some t \<Rightarrow> t) in
      bindA (pureA (ensure_positive D (cr_initial_price p) ''initial_price'')) (\<lambda>_.
      bindA (pureA (ordered_mints D p)) (\<lambda>(m0, m1, price).
      let pool = pool_address_for V (cl_program S) amm m0 m1 in
      bindA (fetch_optional S (create_pool_keys S amm pool m0 m1)) (\<lambda>accounts.
      bindA (pureA (check_new_pool S amm pool m0 m1 accounts)) (\<lambda>(mint_0, mint_1, support_0, support_1).
      bindA (pureA (price_to_sqrt_x64 D V price (mi_decimals mint_0) (mi_decimals mint_1))) (\<lambda>sqrt_price.
      bindA (pureA (quoted (cm_tick_at_sqrt (rv_math V) sqrt_price))) (\<lambda>_.
      let addresses = derive_pool_addresses V (cl_program S) pool m0 m1 in
      bindA (submit_action S [create_pool_instruction S amm addresses mint_0 mint_1 support_0 support_1
               sqrt_price open_time] []) (\<lambda>t.
      pureA (Inr \<lparr>cu_transaction = t, cu_mint_0 = m0, cu_mint_1 = m1, cu_normalized_price = price,
        cu_sqrt_price = sqrt_price, cu_open_time = open_time, cu_accounts = addresses\<rparr>)))))))))"

section \<open>Positions\<close>

record 's position_outcome =
  so_transaction :: "'s outcome"
  so_quote :: liquidity_quote
  so_accounts :: position_accounts

record 'd open_position_params =
  on_pool :: pubkey
  on_lower_price :: 'd
  on_upper_price :: 'd
  on_input :: "'d token_amount"
  on_with_metadata :: bool

definition open_instruction ::
    "('w, 'h, 's, 'b, 'd, 'f) clmm_client \<Rightarrow> 'b pool_bundle \<Rightarrow> pubkey \<Rightarrow> position_accounts
      \<Rightarrow> liquidity_quote \<Rightarrow> bool \<Rightarrow> instruction" where
  "open_instruction S bd pool accounts q with_metadata =
     (let V = cl_env S in
      raydium_instruction S
        (OpenPositionWithToken22Nft
          \<lparr>op_payer = cl_payer S, op_position_nft_owner = cl_payer S,
           op_position_nft_mint = po_nft_mint accounts, op_position_nft_account = po_nft_account accounts,
           op_pool_state = pool, op_protocol_position = po_protocol accounts,
           op_tick_array_lower = po_lower_array accounts, op_tick_array_upper = po_upper_array accounts,
           op_personal_position = po_personal accounts,
           op_token_account_0 = bd_user_0 bd, op_token_account_1 = bd_user_1 bd,
           op_token_vault_0 = bd_vault_0 bd, op_token_vault_1 = bd_vault_1 bd,
           op_rent = rv_rent V, op_system_program = rv_system_program V,
           op_token_program = rv_token_program V, op_associated_token_program = rv_ata_program V,
           op_token_program_2022 = rv_token_2022 V,
           op_vault_0_mint = mi_key (bd_mint_0 bd), op_vault_1_mint = mi_key (bd_mint_1 bd)\<rparr>
          \<lparr>oa_liquidity = lq_liquidity q, oa_amount_0_max = lq_amount_0_max q,
           oa_amount_1_max = lq_amount_1_max q, oa_tick_lower = lq_tick_lower q,
           oa_tick_upper = lq_tick_upper q, oa_array_lower_start = po_lower_start accounts,
           oa_array_upper_start = po_upper_start accounts, oa_with_metadata = with_metadata,
           oa_base_flag = None\<rparr>)
        [writable_meta (bd_bitmap_key bd) False])"

definition open_position ::
    "('w, 'h, 's, 'b, 'd, 'f) clmm_client \<Rightarrow> 'd open_position_params \<Rightarrow> ('w, 's, 's position_outcome) action" where
  "open_position S p =
     bindA (load_pool S (on_pool p)) (\<lambda>bd.
     bindA (pureA (position_quote S bd (on_lower_price p) (on_upper_price p) (on_input p))) (\<lambda>q.
     bindA (pureA (ensure_position_balances bd q)) (\<lambda>_.
     bindA (new_keypair S) (\<lambda>nft_mint.
     let accounts = addresses_of S (on_pool p) nft_mint (lq_tick_lower q) (lq_tick_upper q)
                      (bd_tick_spacing bd) in
     bindA (validate_position_tick_arrays S accounts False) (\<lambda>_.
     bindA (submit_action S (position_ata_instructions S bd
              @ [open_instruction S bd (on_pool p) accounts q (on_with_metadata p)]) [nft_mint]) (\<lambda>t.
     pureA (Inr \<lparr>so_transaction = t, so_quote = q, so_accounts = accounts\<rparr>)))))))"

definition increase_instruction ::
    "('w, 'h, 's, 'b, 'd, 'f) clmm_client \<Rightarrow> 'b pool_bundle \<Rightarrow> position_view \<Rightarrow> position_accounts
      \<Rightarrow> liquidity_quote \<Rightarrow> instruction" where
  "increase_instruction S bd pos accounts q =
     raydium_instruction S
       (IncreaseLiquidityV2
         \<lparr>il_nft_owner = cl_payer S, il_nft_account = pv_nft_account pos, il_pool_state = pv_pool pos,
          il_protocol_position = po_protocol accounts, il_personal_position = pv_address pos,
          il_tick_array_lower = po_lower_array accounts, il_tick_array_upper = po_upper_array accounts,
          il_token_account_0 = bd_user_0 bd, il_token_account_1 = bd_user_1 bd,
          il_token_vault_0 = bd_vault_0 bd, il_token_vault_1 = bd_vault_1 bd,
          il_token_program = rv_token_program (cl_env S), il_token_program_2022 = rv_token_2022 (cl_env S),
          il_vault_0_mint = mi_key (bd_mint_0 bd), il_vault_1_mint = mi_key (bd_mint_1 bd)\<rparr>
         (lq_liquidity q) (lq_amount_0_max q) (lq_amount_1_max q) None)
       [writable_meta (bd_bitmap_key bd) False]"

definition accounts_of_position ::
    "('w, 'h, 's, 'b, 'd, 'f) clmm_client \<Rightarrow> 'b pool_bundle \<Rightarrow> position_view \<Rightarrow> pubkey \<Rightarrow> position_accounts" where
  "accounts_of_position S bd pos mint =
     addresses_of S (pv_pool pos) mint (pv_tick_lower pos) (pv_tick_upper pos) (bd_tick_spacing bd)"

definition increase_liquidity ::
    "('w, 'h, 's, 'b, 'd, 'f) clmm_client \<Rightarrow> pubkey \<Rightarrow> 'd token_amount \<Rightarrow> ('w, 's, 's position_outcome) action" where
  "increase_liquidity S mint input =
     bindA (load_position S mint) (\<lambda>pos.
     bindA (load_pool S (pv_pool pos)) (\<lambda>bd.
     bindA (pureA (position_quote_for_ticks S bd pos input)) (\<lambda>q.
     bindA (pureA (ensure_position_balances bd q)) (\<lambda>_.
     let accounts = accounts_of_position S bd pos mint in
     bindA (validate_position_tick_arrays S accounts True) (\<lambda>_.
     bindA (submit_action S (position_ata_instructions S bd
              @ [increase_instruction S bd pos accounts q]) []) (\<lambda>t.
     pureA (Inr \<lparr>so_transaction = t, so_quote = q, so_accounts = accounts\<rparr>)))))))"

text \<open>The liquidity a decrease removes: that of an amount, or all of it.\<close>

definition decrease_amount ::
    "('w, 'h, 's, 'b, 'd, 'f) clmm_client \<Rightarrow> 'b pool_bundle \<Rightarrow> position_view \<Rightarrow> 'd token_amount option
      \<Rightarrow> ('s, u128) raydium" where
  "decrease_amount S bd pos amount =
     bindR (case amount of
              Some a \<Rightarrow> bindR (position_quote_for_ticks S bd pos a) (\<lambda>q. Inr (lq_liquidity q))
            | None \<Rightarrow> Inr (pv_liquidity pos)) (\<lambda>liquidity.
     if liquidity = 0 \<or> pv_liquidity pos < liquidity then
       fail (InvalidInput
         ''decrease amount must resolve to non-zero liquidity no greater than the position'')
     else Inr liquidity)"

definition decrease_liquidity ::
    "('w, 'h, 's, 'b, 'd, 'f) clmm_client \<Rightarrow> pubkey \<Rightarrow> 'd token_amount option
      \<Rightarrow> ('w, 's, 's position_outcome) action" where
  "decrease_liquidity S mint amount =
     bindA (load_position S mint) (\<lambda>pos.
     bindA (load_pool S (pv_pool pos)) (\<lambda>bd.
     bindA (pureA (decrease_amount S bd pos amount)) (\<lambda>liquidity.
     bindA (pureA (decrease_quote S bd pos liquidity)) (\<lambda>q.
     let accounts = accounts_of_position S bd pos mint in
     bindA (validate_position_tick_arrays S accounts True) (\<lambda>_.
     bindA (reward_accounts S bd) (\<lambda>(reward_ixs, remaining).
     bindA (submit_action S (position_ata_instructions S bd @ reward_ixs
              @ [decrease_instruction S bd pos accounts q remaining]) []) (\<lambda>t.
     pureA (Inr \<lparr>so_transaction = t, so_quote = q, so_accounts = accounts\<rparr>))))))))"

text \<open>Collecting fees and rewards: a decrease of zero liquidity.\<close>

definition collect_position ::
    "('w, 'h, 's, 'b, 'd, 'f) clmm_client \<Rightarrow> pubkey
      \<Rightarrow> ('w, 's, 's outcome \<times> position_accounts) action" where
  "collect_position S mint =
     bindA (load_position S mint) (\<lambda>pos.
     bindA (load_pool S (pv_pool pos)) (\<lambda>bd.
     let accounts = accounts_of_position S bd pos mint in
     bindA (validate_position_tick_arrays S accounts True) (\<lambda>_.
     bindA (pureA (decrease_quote S bd pos 0)) (\<lambda>q.
     bindA (reward_accounts S bd) (\<lambda>(reward_ixs, remaining).
     bindA (submit_action S (position_ata_instructions S bd @ reward_ixs
              @ [decrease_instruction S bd pos accounts q remaining]) []) (\<lambda>t.
     pureA (Inr (t, accounts))))))))"

record 's close_outcome =
  ce_transaction :: "'s outcome"
  ce_position :: pubkey
  ce_nft_mint :: pubkey
  ce_nft_account :: pubkey
  ce_pool :: pubkey

definition close_instruction ::
    "('w, 'h, 's, 'b, 'd, 'f) clmm_client \<Rightarrow> position_view \<Rightarrow> pubkey \<Rightarrow> instruction" where
  "close_instruction S pos mint =
     raydium_instruction S
       (ClosePosition
         \<lparr>cl_nft_owner = cl_payer S, cl_nft_mint = mint, cl_nft_account = pv_nft_account pos,
          cl_personal_position = pv_address pos, cl_system_program = rv_system_program (cl_env S),
          cl_token_program = pv_nft_program pos\<rparr>)
       [writable_meta (pv_pool pos) False]"

definition require_empty :: "position_view \<Rightarrow> ('s, unit) raydium" where
  "require_empty pos =
     (if pv_liquidity pos \<noteq> 0 \<or> pv_fees_0 pos \<noteq> 0 \<or> pv_fees_1 pos \<noteq> 0
         \<or> list_ex (\<lambda>r. r \<noteq> 0) (pv_rewards pos)
      then fail (InvalidInput ''position must have zero liquidity, fees, and rewards before close'')
      else Inr ())"

definition close_position ::
    "('w, 'h, 's, 'b, 'd, 'f) clmm_client \<Rightarrow> pubkey \<Rightarrow> ('w, 's, 's close_outcome) action" where
  "close_position S mint =
     bindA (load_position S mint) (\<lambda>pos.
     bindA (pureA (require_empty pos)) (\<lambda>_.
     bindA (load_pool S (pv_pool pos)) (\<lambda>_.
     bindA (submit_action S [close_instruction S pos mint] []) (\<lambda>t.
     pureA (Inr \<lparr>ce_transaction = t, ce_position = pv_address pos, ce_nft_mint = mint,
       ce_nft_account = pv_nft_account pos, ce_pool = pv_pool pos\<rparr>)))))"

section \<open>Swaps\<close>

record swap_quote =
  sq_exact_in :: bool
  sq_input_mint :: pubkey
  sq_output_mint :: pubkey
  sq_expected_input :: u64
  sq_expected_output :: u64
  sq_threshold :: u64
  sq_tick_arrays :: "pubkey list"

record swap_accounts =
  sc_pool :: pubkey
  sc_input_account :: pubkey
  sc_output_account :: pubkey
  sc_input_vault :: pubkey
  sc_output_vault :: pubkey
  sc_observation :: pubkey
  sc_bitmap :: pubkey
  sc_tick_arrays :: "pubkey list"

record 's swap_outcome =
  wo_transaction :: "'s outcome"
  wo_quote :: swap_quote
  wo_accounts :: swap_accounts

definition swap_direction :: "'b pool_bundle \<Rightarrow> pubkey \<Rightarrow> pubkey \<Rightarrow> ('s, bool) raydium" where
  "swap_direction bd input output =
     (if input = mi_key (bd_mint_0 bd) \<and> output = mi_key (bd_mint_1 bd) then Inr True
      else if input = mi_key (bd_mint_1 bd) \<and> output = mi_key (bd_mint_0 bd) then Inr False
      else fail (InvalidInput ''swap mints do not match the pool''))"

text \<open>The amount put into the instruction and the amount that is quoted.\<close>

definition swap_amounts ::
    "'b raydium_env \<Rightarrow> bool \<Rightarrow> mint_info \<Rightarrow> mint_info \<Rightarrow> u64 \<Rightarrow> u64 \<Rightarrow> ('s, u64 \<times> u64) raydium" where
  "swap_amounts V exact_in input output epoch requested =
     (if exact_in then
        bindR (minus_fee V input epoch ''input transfer fee exceeds amount'' requested)
          (\<lambda>net. Inr (requested, net))
      else bindR (plus_inverse_fee V output epoch ''output transfer fee overflow'' requested)
          (\<lambda>gross. Inr (requested, gross)))"

text \<open>The threshold of the instruction, the expected input and the expected output.\<close>

definition swap_terms ::
    "('w, 'h, 's, 'b, 'd, 'f) clmm_client \<Rightarrow> bool \<Rightarrow> mint_info \<Rightarrow> mint_info \<Rightarrow> u64 \<Rightarrow> u64 \<Rightarrow> u64
      \<Rightarrow> ('s, u64 \<times> u64 \<times> u64) raydium" where
  "swap_terms S exact_in input output epoch requested calculated =
     (let V = cl_env S; bps = cl_slippage S in
      if exact_in then
        bindR (transfer_fee V output epoch calculated) (\<lambda>fee.
        bindR (apply_slippage calculated bps False) (\<lambda>threshold.
        bindR (ok_or (checked_sub_w calculated fee) (Raised (Quote ''output transfer fee exceeds quote'')))
          (\<lambda>received. Inr (threshold, requested, received))))
      else
        bindR (apply_slippage calculated bps True) (\<lambda>slipped.
        bindR (inverse_transfer_fee V input epoch slipped) (\<lambda>fee.
        bindR (inverse_transfer_fee V input epoch calculated) (\<lambda>expected_fee.
        bindR (ok_or (checked_add_w slipped fee) (Raised (Quote ''maximum input overflow''))) (\<lambda>threshold.
        bindR (ok_or (checked_add_w calculated expected_fee) (Raised (Quote ''expected input overflow'')))
          (\<lambda>spent. Inr (threshold, spent, requested)))))))"

definition check_used_arrays ::
    "pubkey \<Rightarrow> int list \<Rightarrow> pubkey list \<Rightarrow> pubkey list \<Rightarrow> ('s, unit) raydium" where
  "check_used_arrays pool starts used fetched =
     (if max_swap_tick_arrays < length starts then
        fail (Quote (''swap requires '' @ show_nat (length starts)
          @ '' tick arrays; the single-pool transaction limit is '' @ show_nat max_swap_tick_arrays))
      else if \<not> list_all (\<lambda>k. k \<in> set fetched) used then
        malformed pool ''quote selected an unfetched tick array''
      else Inr ())"

definition check_swap_balances ::
    "('w, 'h, 's, 'b, 'd, 'f) clmm_client \<Rightarrow> mint_info \<Rightarrow> mint_info \<Rightarrow> u64 \<Rightarrow> u64 \<Rightarrow> account option list
      \<Rightarrow> ('s, unit) raydium" where
  "check_swap_balances S input output amount threshold accounts =
     bindR (account_at accounts 0) (\<lambda>a0.
     bindR (validate_token_account S (user_token S input) a0 input True) (\<lambda>balance.
     if balance < max threshold amount then
       fail (InsufficientBalance (mi_key input) (max threshold amount) balance)
     else
     bindR (account_at accounts 1) (\<lambda>a1.
     bindR (validate_token_account S (user_token S output) a1 output False) (\<lambda>_. Inr ()))))"

definition swap_instruction ::
    "('w, 'h, 's, 'b, 'd, 'f) clmm_client \<Rightarrow> 'b pool_bundle \<Rightarrow> pubkey \<Rightarrow> mint_info \<Rightarrow> mint_info
      \<Rightarrow> pubkey \<Rightarrow> pubkey \<Rightarrow> u64 \<Rightarrow> u64 \<Rightarrow> bool \<Rightarrow> pubkey list \<Rightarrow> instruction" where
  "swap_instruction S bd pool input output input_vault output_vault amount threshold exact_in used =
     (let V = cl_env S in
      raydium_instruction S
        (SwapV2
          \<lparr>sx_payer = cl_payer S, sx_amm_config = bd_amm_config bd, sx_pool_state = pool,
           sx_input_account = user_token S input, sx_output_account = user_token S output,
           sx_input_vault = input_vault, sx_output_vault = output_vault,
           sx_observation = bd_observation bd, sx_token_program = rv_token_program V,
           sx_token_program_2022 = rv_token_2022 V, sx_memo_program = rv_memo_program V,
           sx_input_mint = mi_key input, sx_output_mint = mi_key output\<rparr>
          \<lparr>sa_amount = amount, sa_threshold = threshold, sa_sqrt_price_limit = 0,
           sa_is_base_input = exact_in\<rparr>)
        (readonly_meta (bd_bitmap_key bd) False # map (\<lambda>k. writable_meta k False) used))"

text \<open>Everything of a swap that is known before the balances are read.\<close>

record swap_plan =
  wp_zero_for_one :: bool
  wp_input :: mint_info
  wp_output :: mint_info
  wp_amount :: u64
  wp_threshold :: u64
  wp_expected_input :: u64
  wp_expected_output :: u64
  wp_used :: "pubkey list"

definition plan_swap ::
    "('w, 'h, 's, 'b, 'd, 'f) clmm_client \<Rightarrow> 'b pool_bundle \<Rightarrow> pubkey \<Rightarrow> pubkey \<Rightarrow> pubkey \<Rightarrow> 'd \<Rightarrow> bool
      \<Rightarrow> ('w, 's, swap_plan) action" where
  "plan_swap S bd pool input_mint output_mint amount exact_in =
     (let V = cl_env S in
      bindA (pureA (swap_direction bd input_mint output_mint)) (\<lambda>zfo.
      let input = (if zfo then bd_mint_0 bd else bd_mint_1 bd);
          output = (if zfo then bd_mint_1 bd else bd_mint_0 bd) in
      bindA (fetch_epoch S) (\<lambda>epoch.
      bindA (pureA (ui_to_raw (cl_dec S) amount (mi_decimals (if exact_in then input else output)))) (\<lambda>requested.
      bindA (pureA (swap_amounts V exact_in input output epoch requested)) (\<lambda>(ix_amount, quote_amount).
      bindA (pureA (decode_program_account S (rv_decode_config V) (bd_amm_config bd) (bd_config_account bd)))
        (\<lambda>config.
      if ps_dynamic_fee (bd_pool bd) then
        pureA (fail (Quote ''dynamic-fee pools are outside this single-pool quote implementation''))
      else
      bindA (load_swap_tick_arrays S bd zfo) (\<lambda>(arrays, array_keys).
      bindA (pureA (quoted (quote_swap (rv_math V) quote_amount zfo exact_in (cf_trade_fee config)
               (bd_pool bd) (bd_bitmap bd) arrays))) (\<lambda>(calculated, starts).
      let used = map (tick_array_address V (cl_program S) pool) starts in
      bindA (pureA (check_used_arrays pool starts used array_keys)) (\<lambda>_.
      bindA (pureA (swap_terms S exact_in input output epoch requested calculated))
        (\<lambda>(threshold, spent, received).
      pureA (Inr \<lparr>wp_zero_for_one = zfo, wp_input = input, wp_output = output, wp_amount = ix_amount,
        wp_threshold = threshold, wp_expected_input = spent, wp_expected_output = received,
        wp_used = used\<rparr>)))))))))))"

definition swap ::
    "('w, 'h, 's, 'b, 'd, 'f) clmm_client \<Rightarrow> pubkey \<Rightarrow> pubkey \<Rightarrow> pubkey \<Rightarrow> 'd \<Rightarrow> bool
      \<Rightarrow> ('w, 's, 's swap_outcome) action" where
  "swap S pool input_mint output_mint amount exact_in =
     bindA (pureA (ensure_positive (cl_dec S) amount ''swap amount'')) (\<lambda>_.
     bindA (load_pool S pool) (\<lambda>bd.
     bindA (plan_swap S bd pool input_mint output_mint amount exact_in) (\<lambda>p.
     let input = wp_input p; output = wp_output p;
         in_vault = (if wp_zero_for_one p then bd_vault_0 bd else bd_vault_1 bd);
         out_vault = (if wp_zero_for_one p then bd_vault_1 bd else bd_vault_0 bd) in
     bindA (fetch_optional S [user_token S input, user_token S output]) (\<lambda>accounts.
     bindA (pureA (check_swap_balances S input output (wp_amount p) (wp_threshold p) accounts)) (\<lambda>_.
     bindA (pureA (if wp_used p = [] then fail (Quote ''swap quote used no tick arrays'') else Inr ())) (\<lambda>_.
     bindA (submit_action S [ata_instruction S input, ata_instruction S output,
              swap_instruction S bd pool input output in_vault out_vault (wp_amount p) (wp_threshold p)
                exact_in (wp_used p)] []) (\<lambda>t.
     pureA (Inr \<lparr>wo_transaction = t,
       wo_quote = \<lparr>sq_exact_in = exact_in, sq_input_mint = input_mint, sq_output_mint = output_mint,
         sq_expected_input = wp_expected_input p, sq_expected_output = wp_expected_output p,
         sq_threshold = wp_threshold p, sq_tick_arrays = wp_used p\<rparr>,
       wo_accounts = \<lparr>sc_pool = pool, sc_input_account = user_token S input,
         sc_output_account = user_token S output, sc_input_vault = in_vault,
         sc_output_vault = out_vault, sc_observation = bd_observation bd,
         sc_bitmap = bd_bitmap_key bd, sc_tick_arrays = wp_used p\<rparr>\<rparr>))))))))"

definition swap_exact_in ::
    "('w, 'h, 's, 'b, 'd, 'f) clmm_client \<Rightarrow> pubkey \<Rightarrow> pubkey \<Rightarrow> pubkey \<Rightarrow> 'd
      \<Rightarrow> ('w, 's, 's swap_outcome) action" where
  "swap_exact_in S pool input_mint output_mint amount_in = swap S pool input_mint output_mint amount_in True"

definition swap_exact_out ::
    "('w, 'h, 's, 'b, 'd, 'f) clmm_client \<Rightarrow> pubkey \<Rightarrow> pubkey \<Rightarrow> pubkey \<Rightarrow> 'd
      \<Rightarrow> ('w, 's, 's swap_outcome) action" where
  "swap_exact_out S pool input_mint output_mint amount_out = swap S pool input_mint output_mint amount_out False"

end
