(* ===== verification/Clmm_Sample.thy ===== *)
theory Clmm_Sample
  imports Clmm_Actions
begin

text \<open>
  A concrete pool, a position and a client on a cluster that answers, on which the actions run:
  short keys, addresses that append their seeds, and account data that is the account's own
  address. The user's balance of both tokens is a parameter.
\<close>

section \<open>Keys and accounts\<close>

definition pool_bytes :: "u8 list" where
  "pool_bytes = [31, 30, 0, 0, 10, 11]"

text \<open>
  An address below 30 is an account of the token program, the others are the pool program's. The
  data of an account is its address, except for the two mints, whose base layout is written
  out, and the position, which is marked as empty once time has come to 33.
\<close>

definition sample_authority :: "u8 list" where
  "sample_authority = replicate 32 8"

definition mint_bytes :: "u8 list" where
  "mint_bytes = [1, 0, 0, 0] @ sample_authority @ replicate 46 0"

definition sample_data :: "nat \<Rightarrow> u8 list \<Rightarrow> u8 list" where
  "sample_data w k =
     (if k = [10] \<or> k = [11] then mint_bytes
      else if k = [34, 12] \<and> 33 \<le> w then [34, 12, 1] else k)"

definition sample_account :: "nat \<Rightarrow> pubkey \<Rightarrow> account option" where
  "sample_account w k =
     (case pk_bytes k of
        [] \<Rightarrow> None
      | b # _ \<Rightarrow> Some \<lparr>ac_owner = Pubkey [if b < 30 then 1 else 9], ac_data = sample_data w (pk_bytes k),
                     ac_executable = True\<rparr>)"

definition sample_token :: "u64 \<Rightarrow> u8 list \<Rightarrow> token_state" where
  "sample_token balance data =
     (let state = \<lambda>m own amt. \<lparr>tk_mint = Pubkey m, tk_owner = Pubkey own, tk_amount = amt, tk_frozen = False\<rparr> in
      if data = [20] then state [10] pool_bytes 0
      else if data = [21] then state [11] pool_bytes 0
      else if data = [5, 10, 1] then state [10] [5] balance
      else if data = [5, 11, 1] then state [11] [5] balance
      else state [12] [5] 1)"

definition sample_math :: clmm_math where
  "sample_math = toy_math\<lparr>
     cm_compute_swap := (\<lambda>_ target _ _ _ _ _ _.
        Inr \<lparr>sp_in = 10, sp_fee = 0, sp_out = 1000, sp_price_next = target\<rparr>),
     cm_tick_at_sqrt := (\<lambda>x. Inr (uint x)), cm_array_start := (\<lambda>_ _. 0)\<rparr>"

definition sample_array :: tick_array where
  "sample_array = toy_array\<lparr>ta_pool := Pubkey pool_bytes\<rparr>"

definition sample_pool :: "unit pool_state" where
  "sample_pool = toy_pool\<lparr>ps_amm_config := Pubkey [30, 0, 0], ps_mint_0 := Pubkey [10],
     ps_mint_1 := Pubkey [11], ps_vault_0 := Pubkey [20], ps_vault_1 := Pubkey [21],
     ps_observation := Pubkey [38], ps_decimals_0 := 0, ps_decimals_1 := 0, ps_tick_spacing := 2\<rparr>"

definition sample_env :: "u64 \<Rightarrow> unit raydium_env" where
  "sample_env balance =
     \<lparr>rv_math = sample_math, rv_token_program = Pubkey [1], rv_token_2022 = Pubkey [2],
      rv_system_program = Pubkey [3], rv_rent = Pubkey [4], rv_ata_program = Pubkey [6],
      rv_memo_program = Pubkey [7],
      rv_find_pda = (\<lambda>seeds _. Pubkey (concat seeds)),
      rv_ata = (\<lambda>owner mint program. Pubkey (pk_bytes owner @ pk_bytes mint @ pk_bytes program)),
      rv_config_seed = [30], rv_pool_seed = [31], rv_vault_seed = [35], rv_observation_seed = [36],
      rv_position_seed = [34], rv_tick_array_seed = [33], rv_bitmap_seed = [32], rv_support_seed = [37],
      rv_max_tick_spacing = 1000, rv_fee_denominator = 1000000, rv_q64 = 1,
      rv_unpack_mint = (\<lambda>_. Inr \<lparr>ms_decimals = 0, ms_supply = 1, ms_extensions = Inr [], ms_fee = None,
        ms_inverse_fee = None\<rparr>),
      rv_unpack_token = (\<lambda>data. Inr (sample_token balance data)),
      rv_decode_config = (\<lambda>_. Inr \<lparr>cf_index = 0, cf_owner = Pubkey [5], cf_fund_owner = Pubkey [5],
        cf_tick_spacing = 2, cf_trade_fee = 0, cf_protocol_fee = 0, cf_fund_fee = 0\<rparr>),
      rv_decode_pool = (\<lambda>_. Inr sample_pool), rv_decode_bitmap = (\<lambda>_. Inr ()),
      rv_decode_tick_array = (\<lambda>_. Inr sample_array),
      rv_decode_position = (\<lambda>data. Inr \<lparr>pp_nft_mint = Pubkey [12], pp_pool = Pubkey pool_bytes,
        pp_tick_lower = 0, pp_tick_upper = 10, pp_liquidity = (if data = [34, 12, 1] then 0 else 100), pp_fees_0 = 0, pp_fees_1 = 0,
        pp_rewards = [0, 0, 0]\<rparr>),
      rv_decode_support = (\<lambda>_. Inl ''none''), rv_show_key = (\<lambda>_. ''key'')\<rparr>"

definition sample_node :: "(nat, nat, nat) clmm_node" where
  "sample_node =
     \<lparr>nd_rpc = sample_rpc, nd_accounts = (\<lambda>keys w. (Inr (map (sample_account w) keys), w)),
      nd_epoch = (\<lambda>w. (Inr 0, w)), nd_keypair = (\<lambda>w. (Pubkey [if w < 9 then 5 else 12], w)),
      nd_call_metas = (\<lambda>_. []), nd_call_data = (\<lambda>_. []),
      nd_create_ata = (\<lambda>_ _ _ _. \<lparr>ix_program = Pubkey [6], ix_accounts = [], ix_data = []\<rparr>),
      nd_show_error = (\<lambda>_. ''failed''), nd_fuel = 91\<rparr>"

definition sample_client :: "u64 \<Rightarrow> (nat, nat, nat, unit, rat, rat) clmm_client" where
  "sample_client balance =
     \<lparr>cl_env = sample_env balance, cl_node = sample_node, cl_dec = rat_dec, cl_program = Pubkey [9],
      cl_payer = Pubkey [5], cl_slippage = 500,
      cl_submission = default_submission\<lparr>sc_unit_limit := 1400000, sc_unit_price := 0,
        sc_commitment := Confirmed\<rparr>\<rparr>"

lemma sample_client_new:
  "clmm_new (sample_env balance) sample_node rat_dec (Pubkey [9]) (Pubkey [5]) 500 1400000 0 Confirmed
     = Inr (sample_client balance)"
  by (simp add: clmm_new_def sample_client_def)

section \<open>Evaluation\<close>

lemma sample_account [simp]:
  "sample_account w (Pubkey (b # bs))
     = Some \<lparr>ac_owner = Pubkey [if b < 30 then 1 else 9], ac_data = sample_data w (b # bs),
         ac_executable = True\<rparr>"
  by (simp add: sample_account_def)

lemma le_bytes_zero: "le_bytes k 0 = replicate k 0"
  by (induction k) simp_all

lemma sample_be [simp]: "be_u16 0 = [0, 0]" "be_i32 0 = [0, 0, 0, 0]"
  by (simp_all add: be_u16_def be_i32_def le_bytes_zero numeral_eq_Suc del: power_numeral)

lemmas sample_defs = sample_data_def sample_client_def sample_node_def sample_env_def sample_pool_def

lemmas run_defs = bindA_def pureA_def fetch_optional_def fetch_epoch_def

lemmas loading_defs = load_pool_def run_defs require_account_def decode_program_account_def
  pool_keys_def check_pool_def amm_config_address_def pool_address_for_def bitmap_address_def
  decode_mint_def unpack_mint_def validate_vault_def unpack_token_def user_token_def
  user_balances_def account_at_def validate_token_account_def sample_token_def Let_def

lemma key_order [simp]: "Pubkey [10] < Pubkey [11]"
  by (simp add: less_pubkey_def)

definition sample_mint :: "u8 list \<Rightarrow> mint_info" where
  "sample_mint m = \<lparr>mi_key = Pubkey m, mi_program = Pubkey [1], mi_decimals = 0, mi_data = mint_bytes\<rparr>"

definition sample_bundle :: "u64 \<Rightarrow> unit pool_bundle" where
  "sample_bundle balance =
     \<lparr>bd_pool = sample_pool, bd_config_account = \<lparr>ac_owner = Pubkey [9], ac_data = [30, 0, 0], ac_executable = True\<rparr>,
      bd_amm_config = Pubkey [30, 0, 0], bd_mint_0 = sample_mint [10], bd_mint_1 = sample_mint [11],
      bd_vault_0 = Pubkey [20], bd_vault_1 = Pubkey [21], bd_observation = Pubkey [38],
      bd_bitmap_key = Pubkey (32 # pool_bytes), bd_bitmap = (), bd_tick_spacing = 2,
      bd_user_0 = Pubkey [5, 10, 1], bd_user_1 = Pubkey [5, 11, 1], bd_balance_0 = balance,
      bd_balance_1 = balance, bd_epoch = 0, bd_key = Pubkey pool_bytes\<rparr>"

definition pool_calls :: "client_call list" where
  "pool_calls = [FetchAccounts [Pubkey pool_bytes],
     FetchAccounts [Pubkey [30, 0, 0], Pubkey [10], Pubkey [11], Pubkey (32 # pool_bytes), Pubkey [20],
       Pubkey [21], Pubkey [38]],
     FetchEpoch, FetchAccounts [Pubkey [5, 10, 1], Pubkey [5, 11, 1]]]"

lemma sample_load:
  "load_pool (sample_client balance) (Pubkey pool_bytes) w
     = Some (Inr (sample_bundle balance), w, pool_calls)"
  by (simp add: loading_defs sample_defs pool_bytes_def sample_bundle_def sample_mint_def pool_calls_def)

lemmas position_defs = load_position_def check_position_def position_keys_def
  personal_position_address_def nft_holder_def

definition sample_position :: "u128 \<Rightarrow> position_view" where
  "sample_position l = \<lparr>pv_address = Pubkey [34, 12], pv_pool = Pubkey pool_bytes,
     pv_nft_account = Pubkey [5, 12, 1], pv_nft_program = Pubkey [1], pv_tick_lower = 0,
     pv_tick_upper = 10, pv_liquidity = l, pv_fees_0 = 0, pv_fees_1 = 0, pv_rewards = [0, 0, 0]\<rparr>"

lemma sample_position:
  "load_position (sample_client balance) (Pubkey [12]) w
     = Some (Inr (sample_position (if 33 \<le> w then 0 else 100)), w, [FetchAccounts [Pubkey [34, 12], Pubkey [12], Pubkey [5, 12, 2],
         Pubkey [5, 12, 1]]])"
  by (simp add: position_defs loading_defs sample_defs sample_position_def)

lemma discover_starts_none:
  "ps_next_array pool bitmap start zfo = Inr None \<Longrightarrow> discover_starts pool bitmap zfo n start = Inr []"
  by (cases n) simp_all

lemma sample_arrays:
  "load_swap_tick_arrays (sample_client balance) (sample_bundle balance) zfo w
     = Some (Inr ([sample_array], [Pubkey (33 # pool_bytes @ [0, 0, 0, 0])]), w,
         [FetchAccounts [Pubkey (33 # pool_bytes @ [0, 0, 0, 0])]])"
  by (simp add: load_swap_tick_arrays_def swap_starts_def tick_array_discovery_limit_def sample_bundle_def
      toy_pool_def tick_array_address_def discover_starts_none
      check_tick_array_def loading_defs sample_defs sample_array_def toy_array_def pool_bytes_def)

lemma sample_quote:
  "quote_swap sample_math amount True True 0 sample_pool () [sample_array] = Inr (1000, [0])"
  if "amount = 10"
  by (simp add: that quote_swap_def sample_math_def toy_math_def sample_pool_def toy_pool_def sample_array_def
      toy_array_def numeral_loop quote_done_def price_limit_def quote_step_def select_tick_def
      in_array_tick_def account_step_def cross_tick_def checked_add_w_def checked_sub_w_def in_i32_def
      in_i128_def Let_def)

section \<open>Quotes of the sample\<close>

lemma sample_units: "(ui_to_raw rat_dec 10 0 :: ('s, u64) raydium) = Inr 10"
  by (simp add: ui_to_raw_def ensure_positive_def pow10_u128_def bounded_def trunc_rat_def)

lemma uint_bound_u64: "uint (a :: u64) < 18446744073709551616"
  using uint_lt2p [of a] by simp

lemma sample_fees:
  "(plus_inverse_fee (sample_env balance) (sample_mint m) e what a :: ('s, u64) raydium) = Inr a"
  "(minus_fee (sample_env balance) (sample_mint m) e what a :: ('s, u64) raydium) = Inr a"
  "(transfer_fee (sample_env balance) (sample_mint m) e a :: ('s, u64) raydium) = Inr 0"
  "(inverse_transfer_fee (sample_env balance) (sample_mint m) e a :: ('s, u64) raydium) = Inr 0"
  by (simp_all add: plus_inverse_fee_def minus_fee_def transfer_fee_def inverse_transfer_fee_def
      sample_env_def sample_mint_def checked_add_w_def checked_sub_w_def uint_bound_u64)

lemma sample_parts:
  "cl_env (sample_client balance) = sample_env balance" "cl_node (sample_client balance) = sample_node"
  "cl_dec (sample_client balance) = rat_dec" "cl_slippage (sample_client balance) = 500"
  "cl_payer (sample_client balance) = Pubkey [5]" "cl_program (sample_client balance) = Pubkey [9]"
  "bd_pool (sample_bundle balance) = sample_pool" "bd_bitmap (sample_bundle balance) = ()"
  "bd_mint_0 (sample_bundle balance) = sample_mint [10]" "bd_mint_1 (sample_bundle balance) = sample_mint [11]"
  "bd_tick_spacing (sample_bundle balance) = 2" "bd_key (sample_bundle balance) = Pubkey pool_bytes"
  "rv_math (sample_env balance) = sample_math" "rv_q64 (sample_env balance) = 1"
  "mi_key (sample_mint x) = Pubkey x" "mi_decimals (sample_mint x) = 0"
  "mi_program (sample_mint x) = Pubkey [1]" "rv_token_program (sample_env balance) = Pubkey [1]"
  by (simp_all add: sample_client_def sample_bundle_def sample_env_def sample_mint_def)

definition ten_tokens :: "rat token_amount" where
  "ten_tokens = \<lparr>ta_mint = Pubkey [10], ta_amount = 10\<rparr>"

definition sample_liquidity :: "int \<Rightarrow> int \<Rightarrow> liquidity_quote" where
  "sample_liquidity lower upper =
     \<lparr>lq_liquidity = 10, lq_tick_lower = lower, lq_tick_upper = upper, lq_input_mint = Pubkey [10],
      lq_input_raw = 10, lq_amount_0 = 5, lq_amount_1 = 7, lq_amount_0_max = 6, lq_amount_1_max = 8,
      lq_amount_0_min = 0, lq_amount_1_min = 0\<rparr>"

lemma sample_add:
  "(position_quote_for_ticks (sample_client balance) (sample_bundle balance) pos ten_tokens
      :: (nat, liquidity_quote) raydium)
    = Inr (sample_liquidity (pv_tick_lower pos) (pv_tick_upper pos))"
  by (simp add: position_quote_for_ticks_def ten_tokens_def sample_liquidity_def Let_def sample_parts
      ensure_positive_def sample_units sample_fees slippage_up sample_math_def toy_math_def
      liquidity_i128_def in_i128_def)

lemma sample_remove:
  "q = 0 \<or> q = 4 \<or> q = 100 \<Longrightarrow> (decrease_quote (sample_client balance) (sample_bundle balance) (sample_position l) q
      :: (nat, liquidity_quote) raydium)
    = Inr \<lparr>lq_liquidity = q, lq_tick_lower = 0, lq_tick_upper = 10, lq_input_mint = default_pubkey,
        lq_input_raw = 0, lq_amount_0 = 5, lq_amount_1 = 7, lq_amount_0_max = 0, lq_amount_1_max = 0,
        lq_amount_0_min = 4, lq_amount_1_min = 6\<rparr>"
  by (auto simp: decrease_quote_def Let_def sample_parts sample_fees slippage_down sample_math_def
      toy_math_def sample_position_def liquidity_i128_def in_i128_def)

lemma sample_price:
  "price = 1 \<or> price = 5 \<Longrightarrow>
     (price_to_sqrt_x64 rat_dec (sample_env balance) price 0 0 :: ('s, u128) raydium)
       = Inr (word_of_int \<lfloor>price\<rfloor>)"
  by (auto simp: price_to_sqrt_x64_def ensure_positive_def pow10_u128_def bounded_def trunc_rat_def
      rat_dec_def sample_parts)

lemma sample_range:
  "(position_quote (sample_client balance) (sample_bundle balance) 1 5 ten_tokens
      :: (nat, liquidity_quote) raydium) = Inr (sample_liquidity 0 6)"
  by (simp add: position_quote_def Let_def sample_parts sample_price sample_add ensure_positive_def
      sample_math_def lower_tick_def upper_tick_def in_i32_def range_position_def)

section \<open>Submissions of the sample\<close>

lemma sample_confirmed:
  "5 \<le> w \<Longrightarrow> \<exists>out calls. submit sample_rpc (Suc fuel) ixs payer extra
     (cl_submission (sample_client balance)) w = Some (Inr out, w + 4, calls)"
  by (simp add: submit_eval sample_client_def upt_rec Let_def)

section \<open>A swap of the sample\<close>

definition sample_plan :: swap_plan where
  "sample_plan =
     \<lparr>wp_zero_for_one = True, wp_input = sample_mint [10], wp_output = sample_mint [11], wp_amount = 10,
      wp_threshold = 950, wp_expected_input = 10, wp_expected_output = 1000,
      wp_used = [Pubkey (33 # pool_bytes @ [0, 0, 0, 0])]\<rparr>"

lemma sample_quote_10:
  "quote_swap sample_math 10 True True 0 sample_pool () [sample_array] = Inr (1000, [0])"
  by (rule sample_quote) simp

lemma sample_tick_array:
  "tick_array_address (sample_env balance) (Pubkey [9]) (Pubkey pool_bytes) 0
     = Pubkey (33 # pool_bytes @ [0, 0, 0, 0])"
  by (simp add: tick_array_address_def sample_env_def pool_bytes_def)

lemma sample_decode_config:
  "(decode_program_account (sample_client balance) (rv_decode_config (sample_env balance))
      (bd_amm_config (sample_bundle balance)) (bd_config_account (sample_bundle balance))
      :: (nat, amm_config) raydium)
   = Inr \<lparr>cf_index = 0, cf_owner = Pubkey [5], cf_fund_owner = Pubkey [5],
        cf_tick_spacing = 2, cf_trade_fee = 0, cf_protocol_fee = 0, cf_fund_fee = 0\<rparr>"
  by (simp add: decode_program_account_def sample_bundle_def sample_parts) (simp add: sample_env_def)

lemma sample_plan:
  "plan_swap (sample_client balance) (sample_bundle balance) (Pubkey pool_bytes) (Pubkey [10])
     (Pubkey [11]) 10 True w
   = Some (Inr sample_plan, w, [FetchEpoch, FetchAccounts [Pubkey (33 # pool_bytes @ [0, 0, 0, 0])]])"
proof -
  have direction: "(swap_direction (sample_bundle balance) (Pubkey [10]) (Pubkey [11]) :: (nat, bool) raydium)
      = Inr True" by (simp add: swap_direction_def sample_parts)
  have epoch: "fetch_epoch (sample_client balance) w = Some (Inr 0, w, [FetchEpoch])" for w
    by (simp add: fetch_epoch_def sample_parts sample_node_def)
  have amounts: "(swap_amounts (sample_env balance) True (sample_mint [10]) (sample_mint [11]) 0 10
      :: (nat, u64 \<times> u64) raydium) = Inr (10, 10)" by (simp add: swap_amounts_def sample_fees)
  have terms: "(swap_terms (sample_client balance) True (sample_mint [10]) (sample_mint [11]) 0 10 1000
      :: (nat, u64 \<times> u64 \<times> u64) raydium) = Inr (950, 10, 1000)"
    by (simp add: swap_terms_def sample_parts sample_fees slippage_down checked_sub_w_def)
  have fixed: "\<not> ps_dynamic_fee sample_pool" by (simp add: sample_pool_def toy_pool_def)
  show ?thesis
    by (simp add: plan_swap_def Let_def bindA_def pureA_def sample_parts direction epoch sample_units
        amounts sample_decode_config sample_arrays fixed sample_quote_10 sample_tick_array
        check_used_arrays_def max_swap_tick_arrays_def terms sample_plan_def)
qed

lemma sample_user_accounts:
  "fetch_optional (sample_client balance) [user_token (sample_client balance) (sample_mint [10]),
     user_token (sample_client balance) (sample_mint [11])] w
   = Some (Inr [sample_account w (Pubkey [5, 10, 1]), sample_account w (Pubkey [5, 11, 1])], w,
       [FetchAccounts [Pubkey [5, 10, 1], Pubkey [5, 11, 1]]])"
  by (simp add: fetch_optional_def user_token_def sample_parts sample_node_def)
     (simp add: sample_env_def)

lemma sample_validate:
  assumes "m = 10 \<or> m = 11"
  shows "(validate_token_account (sample_client balance) key (sample_account w (Pubkey [5, m, 1]))
     (sample_mint [m]) required :: (nat, u64) raydium) = Inr balance"
proof -
  have "rv_unpack_token (sample_env balance) [5, m, 1]
      = Inr \<lparr>tk_mint = Pubkey [m], tk_owner = Pubkey [5], tk_amount = balance, tk_frozen = False\<rparr>"
    using assms by (auto simp: sample_env_def sample_token_def)
  then show ?thesis
    by (simp add: validate_token_account_def sample_parts unpack_token_def sample_data_def)
qed

lemma sample_balances:
  "(check_swap_balances (sample_client balance) (sample_mint [10]) (sample_mint [11]) 10 950
     [sample_account w (Pubkey [5, 10, 1]), sample_account w (Pubkey [5, 11, 1])] :: (nat, unit) raydium)
   = (if balance < 950 then fail (InsufficientBalance (Pubkey [10]) 950 balance) else Inr ())"
  using sample_validate [of 10] sample_validate [of 11]
  by (simp add: check_swap_balances_def account_at_def sample_parts del: sample_account)

definition swap_reads :: "client_call list" where
  "swap_reads = pool_calls @ [FetchEpoch, FetchAccounts [Pubkey (33 # pool_bytes @ [0, 0, 0, 0])],
     FetchAccounts [Pubkey [5, 10, 1], Pubkey [5, 11, 1]]]"

lemma sample_swap_rejected:
  assumes "balance < 950"
  shows "swap (sample_client balance) (Pubkey pool_bytes) (Pubkey [10]) (Pubkey [11]) 10 True w
    = Some (fail (InsufficientBalance (Pubkey [10]) 950 balance), w, swap_reads)"
proof -
  have "wp_input sample_plan = sample_mint [10]" "wp_output sample_plan = sample_mint [11]"
    "wp_amount sample_plan = 10" "wp_threshold sample_plan = 950" by (simp_all add: sample_plan_def)
  then show ?thesis using assms
    by (simp add: swap_def bindA_def pureA_def Let_def ensure_positive_def sample_parts sample_load
        sample_plan sample_user_accounts sample_balances swap_reads_def del: sample_account)
qed

lemma sample_submission:
  assumes "5 \<le> w"
  shows "\<exists>t. submit_action (sample_client balance) ixs extra w = Some (Inr t, w + 4, [SubmitTx ixs extra])"
proof -
  have "nd_fuel sample_node = Suc 90" "nd_rpc sample_node = sample_rpc" by (simp_all add: sample_node_def)
  then show ?thesis using sample_confirmed [OF assms, of 90 ixs "Pubkey [5]" extra balance]
    by (auto simp: submit_action_def sample_parts)
qed

lemma sample_swap_sent:
  assumes "950 \<le> balance" and "5 \<le> w"
  shows "\<exists>out cs. swap (sample_client balance) (Pubkey pool_bytes) (Pubkey [10]) (Pubkey [11]) 10 True w
    = Some (Inr out, w + 4, cs)"
proof -
  let ?S = "sample_client balance"
  let ?ixs = "[ata_instruction ?S (sample_mint [10]), ata_instruction ?S (sample_mint [11]),
     swap_instruction ?S (sample_bundle balance) (Pubkey pool_bytes) (sample_mint [10]) (sample_mint [11])
       (Pubkey [20]) (Pubkey [21]) 10 950 True (wp_used sample_plan)]"
  have p: "wp_input sample_plan = sample_mint [10]" "wp_output sample_plan = sample_mint [11]"
    "wp_amount sample_plan = 10" "wp_threshold sample_plan = 950" "wp_used sample_plan \<noteq> []"
    by (simp_all add: sample_plan_def)
  have v: "bd_vault_0 (sample_bundle balance) = Pubkey [20]" "bd_vault_1 (sample_bundle balance) = Pubkey [21]"
    "wp_zero_for_one sample_plan" by (simp_all add: sample_bundle_def sample_plan_def)
  obtain t where "submit_action ?S ?ixs [] w = Some (Inr t, w + 4, [SubmitTx ?ixs []])"
    using sample_submission [OF assms(2)] by blast
  then show ?thesis using assms(1) p
    by (simp add: swap_def bindA_def pureA_def Let_def ensure_positive_def sample_parts sample_load
        sample_plan sample_user_accounts sample_balances v del: sample_account)
qed

section \<open>The other direction\<close>

lemma sample_quote_out:
  "quote_swap sample_math 1000 False False 0 sample_pool () [sample_array] = Inr (10, [0])"
  by (simp add: quote_swap_def sample_math_def toy_math_def sample_pool_def toy_pool_def sample_array_def
      toy_array_def numeral_loop quote_done_def price_limit_def quote_step_def select_tick_def
      in_array_tick_def account_step_def cross_tick_def checked_add_w_def checked_sub_w_def in_i32_def
      in_i128_def Let_def)

lemma sample_units_out: "(ui_to_raw rat_dec 1000 0 :: ('s, u64) raydium) = Inr 1000"
  by (simp add: ui_to_raw_def ensure_positive_def pow10_u128_def bounded_def trunc_rat_def)

definition sample_plan_back :: swap_plan where
  "sample_plan_back =
     \<lparr>wp_zero_for_one = False, wp_input = sample_mint [11], wp_output = sample_mint [10],
      wp_amount = 1000, wp_threshold = 11, wp_expected_input = 10, wp_expected_output = 1000,
      wp_used = [Pubkey (33 # pool_bytes @ [0, 0, 0, 0])]\<rparr>"

lemma sample_plan_back:
  "plan_swap (sample_client balance) (sample_bundle balance) (Pubkey pool_bytes) (Pubkey [11])
     (Pubkey [10]) 1000 False w
   = Some (Inr sample_plan_back, w, [FetchEpoch, FetchAccounts [Pubkey (33 # pool_bytes @ [0, 0, 0, 0])]])"
proof -
  have direction: "(swap_direction (sample_bundle balance) (Pubkey [11]) (Pubkey [10]) :: (nat, bool) raydium)
      = Inr False" by (simp add: swap_direction_def sample_parts)
  have epoch: "fetch_epoch (sample_client balance) w = Some (Inr 0, w, [FetchEpoch])" for w
    by (simp add: fetch_epoch_def sample_parts sample_node_def)
  have amounts: "(swap_amounts (sample_env balance) False (sample_mint [11]) (sample_mint [10]) 0 1000
      :: (nat, u64 \<times> u64) raydium) = Inr (1000, 1000)" by (simp add: swap_amounts_def sample_fees)
  have terms: "(swap_terms (sample_client balance) False (sample_mint [11]) (sample_mint [10]) 0 1000 10
      :: (nat, u64 \<times> u64 \<times> u64) raydium) = Inr (11, 10, 1000)"
    by (simp add: swap_terms_def sample_parts sample_fees slippage_up checked_add_w_def)
  have fixed: "\<not> ps_dynamic_fee sample_pool" by (simp add: sample_pool_def toy_pool_def)
  show ?thesis
    by (simp add: plan_swap_def Let_def bindA_def pureA_def sample_parts direction epoch sample_units_out
        amounts sample_decode_config sample_arrays fixed sample_quote_out sample_tick_array
        check_used_arrays_def max_swap_tick_arrays_def terms sample_plan_back_def)
qed

lemma sample_accounts_back:
  "fetch_optional (sample_client balance) [user_token (sample_client balance) (sample_mint [11]),
     user_token (sample_client balance) (sample_mint [10])] w
   = Some (Inr [sample_account w (Pubkey [5, 11, 1]), sample_account w (Pubkey [5, 10, 1])], w,
       [FetchAccounts [Pubkey [5, 11, 1], Pubkey [5, 10, 1]]])"
  by (simp add: fetch_optional_def user_token_def sample_parts sample_node_def)
     (simp add: sample_env_def)

lemma sample_balances_back:
  "1000 \<le> balance \<Longrightarrow>
   (check_swap_balances (sample_client balance) (sample_mint [11]) (sample_mint [10]) 1000 11
     [sample_account w (Pubkey [5, 11, 1]), sample_account w (Pubkey [5, 10, 1])] :: (nat, unit) raydium)
   = Inr ()"
  using sample_validate [of 10] sample_validate [of 11]
  by (simp add: check_swap_balances_def account_at_def sample_parts not_less max_def del: sample_account)

lemma sample_swap_back:
  assumes "1000 \<le> balance" and "5 \<le> w"
  shows "\<exists>out cs. swap (sample_client balance) (Pubkey pool_bytes) (Pubkey [11]) (Pubkey [10]) 1000 False w
    = Some (Inr out, w + 4, cs)"
proof -
  let ?S = "sample_client balance"
  let ?ixs = "[ata_instruction ?S (sample_mint [11]), ata_instruction ?S (sample_mint [10]),
     swap_instruction ?S (sample_bundle balance) (Pubkey pool_bytes) (sample_mint [11]) (sample_mint [10])
       (Pubkey [21]) (Pubkey [20]) 1000 11 False (wp_used sample_plan_back)]"
  have p: "wp_input sample_plan_back = sample_mint [11]" "wp_output sample_plan_back = sample_mint [10]"
    "wp_amount sample_plan_back = 1000" "wp_threshold sample_plan_back = 11" "wp_used sample_plan_back \<noteq> []"
    by (simp_all add: sample_plan_back_def)
  have v: "bd_vault_0 (sample_bundle balance) = Pubkey [20]" "bd_vault_1 (sample_bundle balance) = Pubkey [21]"
    "\<not> wp_zero_for_one sample_plan_back" by (simp_all add: sample_bundle_def sample_plan_back_def)
  obtain t where "submit_action ?S ?ixs [] w = Some (Inr t, w + 4, [SubmitTx ?ixs []])"
    using sample_submission [OF assms(2)] by blast
  then show ?thesis using assms(1) p
    by (simp add: swap_def bindA_def pureA_def Let_def ensure_positive_def sample_parts sample_load
        sample_plan_back sample_accounts_back sample_balances_back v del: sample_account)
qed

section \<open>The life of a position of the sample\<close>

lemma sample_position_arrays:
  "validate_position_tick_arrays (sample_client balance)
     (addresses_of (sample_client balance) (Pubkey pool_bytes) (Pubkey [12]) lower upper 2) req w
   = Some (Inr (), w, [FetchAccounts [Pubkey (33 # pool_bytes @ [0, 0, 0, 0]),
       Pubkey (33 # pool_bytes @ [0, 0, 0, 0])]])"
  by (simp add: validate_position_tick_arrays_def addresses_of_def position_addresses_def
      check_position_array_def check_tick_array_def loading_defs sample_defs tick_array_address_def
      sample_math_def sample_array_def toy_array_def pool_bytes_def)

lemma sample_rewards:
  "reward_accounts (sample_client balance) (sample_bundle balance) w
     = Some (Inr ([], [writable_meta (bd_bitmap_key (sample_bundle balance)) False]), w, [])"
  by (simp add: reward_accounts_def active_rewards_def pureA_def sample_parts Let_def)
     (simp add: sample_pool_def toy_pool_def)

lemma sample_position_parts:
  "pv_pool (sample_position l) = Pubkey pool_bytes" "pv_tick_lower (sample_position l) = 0"
  "pv_tick_upper (sample_position l) = 10" "pv_liquidity (sample_position l) = l"
  "pv_fees_0 (sample_position l) = 0" "pv_fees_1 (sample_position l) = 0"
  "pv_rewards (sample_position l) = [0, 0, 0]"
  by (simp_all add: sample_position_def)

lemma sample_affordable:
  "8 \<le> balance \<Longrightarrow> (ensure_position_balances (sample_bundle balance) (sample_liquidity lower upper)
     :: (nat, unit) raydium) = Inr ()"
  using order_trans [of 6 8 balance]
  by (auto simp: ensure_position_balances_def sample_liquidity_def sample_bundle_def not_less)

lemma sample_open:
  assumes "8 \<le> balance" and "9 \<le> w"
  shows "\<exists>out cs. open_position (sample_client balance) \<lparr>on_pool = Pubkey pool_bytes, on_lower_price = 1,
      on_upper_price = 5, on_input = ten_tokens, on_with_metadata = False\<rparr> w = Some (Inr out, w + 4, cs)
    \<and> po_nft_mint (so_accounts out) = Pubkey [12]"
proof -
  let ?S = "sample_client balance"
  let ?a = "addresses_of ?S (Pubkey pool_bytes) (Pubkey [12]) 0 6 2"
  have key: "new_keypair ?S w = Some (Inr (Pubkey [12]), w, [])"
    using assms(2) by (simp add: new_keypair_def sample_parts sample_node_def)
  have l: "lq_tick_lower (sample_liquidity 0 6) = 0" "lq_tick_upper (sample_liquidity 0 6) = 6"
    by (simp_all add: sample_liquidity_def)
  have m: "po_nft_mint ?a = Pubkey [12]" by (simp add: addresses_of_def position_addresses_def Let_def)
  obtain t where "submit_action ?S (position_ata_instructions ?S (sample_bundle balance)
      @ [open_instruction ?S (sample_bundle balance) (Pubkey pool_bytes) ?a (sample_liquidity 0 6) False])
      [Pubkey [12]] w = Some (Inr t, w + 4, [SubmitTx (position_ata_instructions ?S (sample_bundle balance)
      @ [open_instruction ?S (sample_bundle balance) (Pubkey pool_bytes) ?a (sample_liquidity 0 6) False])
      [Pubkey [12]]])"
    using sample_submission [of w] assms(2) by force
  then show ?thesis
    by (simp add: open_position_def bindA_def pureA_def Let_def sample_load sample_range
        sample_affordable [OF assms(1)] key l sample_position_arrays sample_parts m)
qed

lemma sample_submits:
  assumes "5 \<le> w"
  shows "\<exists>t. \<forall>ixs. submit_action (sample_client balance) ixs [] w = Some (Inr (t ixs), w + 4, [SubmitTx ixs []])"
  using sample_submission [OF assms, of balance _ "[]"] by metis

lemma sample_increase:
  assumes "8 \<le> balance" and "5 \<le> w"
  shows "\<exists>out cs. increase_liquidity (sample_client balance) (Pubkey [12]) ten_tokens w
    = Some (Inr out, w + 4, cs)"
proof -
  let ?S = "sample_client balance"
  obtain t where "\<And>ixs. submit_action ?S ixs [] w = Some (Inr (t ixs), w + 4, [SubmitTx ixs []])"
    using sample_submits [OF assms(2)] by blast
  then show ?thesis
    by (simp add: increase_liquidity_def bindA_def pureA_def Let_def sample_load sample_position sample_add
        sample_affordable [OF assms(1)] accounts_of_position_def sample_position_arrays sample_parts
        sample_position_parts)
qed

lemma sample_decrease:
  assumes "5 \<le> w" and "w < 33"
  shows "\<exists>out cs. decrease_liquidity (sample_client balance) (Pubkey [12]) None w = Some (Inr out, w + 4, cs)"
proof -
  let ?S = "sample_client balance"
  obtain t where "\<And>ixs. submit_action ?S ixs [] w = Some (Inr (t ixs), w + 4, [SubmitTx ixs []])"
    using sample_submits [OF assms(1)] by blast
  moreover have "(decrease_amount ?S (sample_bundle balance) (sample_position 100) None :: (nat, u128) raydium)
      = Inr 100" by (simp add: decrease_amount_def sample_position_parts)
  ultimately show ?thesis using assms(2)
    by (simp add: decrease_liquidity_def bindA_def pureA_def Let_def sample_load sample_position
        sample_remove sample_rewards accounts_of_position_def sample_position_arrays sample_parts
        sample_position_parts)
qed

lemma sample_collect:
  assumes "5 \<le> w"
  shows "\<exists>out cs. collect_position (sample_client balance) (Pubkey [12]) w = Some (Inr out, w + 4, cs)"
proof -
  let ?S = "sample_client balance"
  obtain t where "\<And>ixs. submit_action ?S ixs [] w = Some (Inr (t ixs), w + 4, [SubmitTx ixs []])"
    using sample_submits [OF assms(1)] by blast
  then show ?thesis
    by (simp add: collect_position_def bindA_def pureA_def Let_def sample_load sample_position
        sample_remove sample_rewards accounts_of_position_def sample_position_arrays sample_parts
        sample_position_parts)
qed

lemma sample_close:
  assumes "33 \<le> w"
  shows "\<exists>out cs. close_position (sample_client balance) (Pubkey [12]) w = Some (Inr out, w + 4, cs)"
proof -
  let ?S = "sample_client balance"
  obtain t where "\<And>ixs. submit_action ?S ixs [] w = Some (Inr (t ixs), w + 4, [SubmitTx ixs []])"
    using sample_submits [of w balance] assms by force
  then show ?thesis using assms
    by (simp add: close_position_def bindA_def pureA_def Let_def sample_load sample_position
        require_empty_def sample_position_parts)
qed

end
