(* ===== verification/Clmm_Safety.thy ===== *)
theory Clmm_Safety
  imports Clmm_Sample
begin

text \<open>
  What an action does to the chain. Every action first only reads; it sends at most one
  transaction, as its last call; and the kind of its error tells whether it did. The two
  predicates \<open>reader\<close> and \<open>transacts\<close> are closed under sequencing, so each action is proved by its
  introduction rules.
\<close>

section \<open>Errors raised before anything is sent\<close>

named_theorems local_intros
named_theorems reader_intros
named_theorems transacts_intros

fun local_error :: "'s raydium_error \<Rightarrow> bool" where
  "local_error (SimulationFailure t logs) = False"
| "local_error (SubmissionFailure t) = False"
| "local_error (UnclearConfirmation sig t) = False"
| "local_error e = True"

definition localR :: "('s, 'a) raydium \<Rightarrow> bool" where
  "localR r \<longleftrightarrow> (\<forall>e. r = Inl (Raised e) \<longrightarrow> local_error e)"

lemma localR_Inr [local_intros]: "localR (Inr x)"
  by (simp add: localR_def)

lemma localR_Panic [local_intros]: "localR (Inl Panic)"
  by (simp add: localR_def)

lemma localR_fail [local_intros]: "local_error e \<Longrightarrow> localR (fail e)"
  by (simp add: localR_def)

lemma localR_malformed [local_intros]: "localR (malformed k t)"
  by (simp add: localR_def malformed_def)

lemma localR_bind [local_intros]:
  "localR m \<Longrightarrow> (\<And>x. localR (f x)) \<Longrightarrow> localR (bindR m f)"
  by (cases m) (auto simp: localR_def)

lemma localR_ok_or [local_intros]: "local_error e \<Longrightarrow> localR (ok_or m (Raised e))"
  by (cases m) (auto simp: localR_def)

lemma localR_map_err [local_intros]:
  "(\<And>t. local_error (g t)) \<Longrightarrow> localR (map_err (\<lambda>t. Raised (g t)) r)"
  by (cases r) (auto simp: localR_def)

lemma localR_if [local_intros]:
  "(c \<Longrightarrow> localR a) \<Longrightarrow> (\<not> c \<Longrightarrow> localR b) \<Longrightarrow> localR (if c then a else b)"
  by simp

lemma localR_option [local_intros]:
  "localR a \<Longrightarrow> (\<And>x. localR (f x)) \<Longrightarrow> localR (case m of None \<Rightarrow> a | Some x \<Rightarrow> f x)"
  by (cases m) simp_all

lemma localR_prod [local_intros]: "(\<And>x y. localR (f x y)) \<Longrightarrow> localR (case p of (x, y) \<Rightarrow> f x y)"
  by (cases p) simp

lemma localR_traverse [local_intros]: "(\<And>x. localR (f x)) \<Longrightarrow> localR (traverseR f xs)"
  by (induction xs) (auto intro!: local_intros)

text \<open>Every pure step of an action.\<close>

lemma local_basic [local_intros]:
  "localR (require_account keys accounts i what)" "localR (account_at accounts i)"
  "localR (decode_program_account S dec key a)" "localR (unpack_mint V key data)"
  "localR (unpack_token V key a)" "localR (ensure_positive D v what)" "localR (pow10_u128 d)"
  "localR (liquidity_i128 l)" "localR (lower_tick s r)" "localR (upper_tick s r)"
  by (auto simp: require_account_def account_at_def decode_program_account_def unpack_mint_def
      unpack_token_def ensure_positive_def pow10_u128_def liquidity_i128_def lower_tick_def
      upper_tick_def Let_def intro!: local_intros)

lemma local_amounts [local_intros]:
  "localR (validate_amm_config_params V p)" "localR (ui_to_raw D x d)"
  "localR (price_to_sqrt_x64 D V price d0 d1)" "localR (apply_slippage a b inc)"
  "localR (transfer_fee V m e a)" "localR (inverse_transfer_fee V m e a)"
  by (auto simp: validate_amm_config_params_def ui_to_raw_def price_to_sqrt_x64_def
      apply_slippage_def transfer_fee_def inverse_transfer_fee_def Let_def intro!: local_intros)

lemma local_fees [local_intros]:
  "localR (plus_inverse_fee V m e t a)" "localR (minus_fee V m e t a)"
  by (auto simp: plus_inverse_fee_def minus_fee_def intro!: local_intros)

lemma local_accounts [local_intros]:
  "localR (decode_mint S key a)" "localR (validate_supported_mint S m found)"
  "localR (validate_vault S pool key a m)" "localR (validate_token_account S key found m req)"
  by (auto simp: decode_mint_def validate_supported_mint_def validate_vault_def
      validate_token_account_def Let_def intro!: local_intros)

lemma local_loading [local_intros]:
  "localR (check_pool S key pool accounts)" "localR (user_balances S u0 u1 m0 m1 accounts)"
  "localR (nft_holder S mint program accounts)"
  by (auto simp: check_pool_def user_balances_def nft_holder_def Let_def intro!: local_intros)

lemma local_position [local_intros]: "localR (check_position S mint accounts)"
  by (auto simp: check_position_def Let_def intro!: local_intros)

lemma local_quotes [local_intros]:
  "localR (ensure_position_balances bd q)" "localR (position_quote_for_ticks S bd pos input)"
  "localR (decrease_quote S bd pos l)"
  by (auto simp: ensure_position_balances_def position_quote_for_ticks_def decrease_quote_def Let_def
      intro!: local_intros)

lemma local_position_quote [local_intros]: "localR (position_quote S bd lo up input)"
  by (auto simp: position_quote_def Let_def intro!: local_intros)

lemma local_arrays [local_intros]:
  "localR (check_tick_array S pool key start t a)"
  "localR (check_position_array S pool req accounts i key start)"
  "localR (reward_entry S pool keys accounts e)"
  by (auto simp: check_tick_array_def check_position_array_def reward_entry_def intro!: local_intros)

lemma local_actions [local_intros]:
  "localR (existing_config S p address a)" "localR (ordered_mints D cp)"
  "localR (check_new_pool S amm pool m0 m1 accounts)" "localR (decrease_amount S bd pos amount)"
  "localR (require_empty pos)" "localR (swap_direction bd input output)"
  "localR (swap_amounts V ex m1' m2' epoch req)" "localR (swap_terms S ex m1' m2' epoch req calc)"
  "localR (check_used_arrays pool' starts used fetched)"
  "localR (check_swap_balances S m1' m2' amt thr accounts)"
  by (auto simp: existing_config_def ordered_mints_def check_new_pool_def decrease_amount_def
      require_empty_def swap_direction_def swap_amounts_def swap_terms_def check_used_arrays_def
      check_swap_balances_def Let_def intro!: local_intros)

section \<open>Readers\<close>

fun is_read :: "client_call \<Rightarrow> bool" where
  "is_read (SubmitTx ixs extra) = False"
| "is_read c = True"

text \<open>A reader always returns, has only read, and its errors are local.\<close>

definition reader :: "('w, 's, 'a) action \<Rightarrow> bool" where
  "reader m \<longleftrightarrow> (\<forall>w. \<exists>r w' cs. m w = Some (r, w', cs) \<and> list_all is_read cs \<and> localR r)"

lemma reader_pure [reader_intros]: "localR r \<Longrightarrow> reader (pureA r)"
  by (simp add: reader_def pureA_def)

lemma reader_bind [reader_intros]:
  assumes "reader m" and "\<And>x. reader (f x)"
  shows "reader (bindA m f)"
  unfolding reader_def
proof
  fix w
  from assms(1) obtain r w' cs where m: "m w = Some (r, w', cs)" "list_all is_read cs" "localR r"
    unfolding reader_def by blast
  show "\<exists>r w' cs. bindA m f w = Some (r, w', cs) \<and> list_all is_read cs \<and> localR r"
  proof (cases r)
    case (Inl e)
    then show ?thesis using m by (auto simp: bindA_def localR_def)
  next
    case (Inr x)
    from assms(2) obtain r2 w2 cs2 where "f x w' = Some (r2, w2, cs2)" "list_all is_read cs2" "localR r2"
      unfolding reader_def by blast
    then show ?thesis using m Inr by (auto simp: bindA_def)
  qed
qed

lemma reader_fetch [reader_intros]: "reader (fetch_optional S keys)"
  by (auto simp: reader_def fetch_optional_def split: prod.split intro!: local_intros)

lemma reader_epoch [reader_intros]: "reader (fetch_epoch S)"
  by (auto simp: reader_def fetch_epoch_def split: prod.split intro!: local_intros)

lemma reader_keypair [reader_intros]: "reader (new_keypair S)"
  by (auto simp: reader_def new_keypair_def split: prod.split intro!: local_intros)

lemma reader_if [reader_intros]:
  "(c \<Longrightarrow> reader a) \<Longrightarrow> (\<not> c \<Longrightarrow> reader b) \<Longrightarrow> reader (if c then a else b)"
  by simp

lemma reader_prod [reader_intros]: "(\<And>x y. reader (f x y)) \<Longrightarrow> reader (case p of (x, y) \<Rightarrow> f x y)"
  by (cases p) simp

lemma reader_loading [reader_intros]:
  "reader (load_pool S key)" "reader (load_position S mint)" "reader (load_swap_tick_arrays S bd zfo)"
  "reader (validate_position_tick_arrays S pos req)" "reader (reward_accounts S bd)"
  by (auto simp: load_pool_def load_position_def load_swap_tick_arrays_def
      validate_position_tick_arrays_def reward_accounts_def Let_def
      intro!: reader_intros local_intros)

lemma reader_plan [reader_intros]: "reader (plan_swap S bd pool m_in m_out amount ex)"
  by (auto simp: plan_swap_def Let_def intro!: reader_intros local_intros)

section \<open>Actions that send\<close>

text \<open>
  How an action ends: either nothing was sent and the error (or panic) is local, or exactly one
  transaction was sent, last, and the result is a success or an error of the submission. An
  action \<open>transacts\<close> when it always returns and ends in one of these ways.
\<close>

definition unsent :: "('s, 'a) raydium \<Rightarrow> client_call list \<Rightarrow> bool" where
  "unsent r cs \<longleftrightarrow> list_all is_read cs \<and> (\<exists>e. r = Inl e) \<and> localR r"

definition sent_once :: "('s, 'a) raydium \<Rightarrow> client_call list \<Rightarrow> bool" where
  "sent_once r cs \<longleftrightarrow>
     (\<exists>reads ixs extra. cs = reads @ [SubmitTx ixs extra] \<and> list_all is_read reads)
     \<and> (\<forall>f. r = Inl f \<longrightarrow> (\<exists>e. f = Raised e \<and> \<not> local_error e))"

definition transacts :: "('w, 's, 'a) action \<Rightarrow> bool" where
  "transacts m \<longleftrightarrow> (\<forall>w. \<exists>r w' cs. m w = Some (r, w', cs) \<and> (unsent r cs \<or> sent_once r cs))"

text \<open>The submissions of a client return; a client made by \<open>clmm_new\<close> is live (\<open>live_client\<close>).\<close>

definition live :: "('w, 'h, 's, 'b, 'd, 'f) clmm_client \<Rightarrow> bool" where
  "live S \<longleftrightarrow> (\<forall>ixs extra w. submit (nd_rpc (cl_node S)) (nd_fuel (cl_node S)) ixs (cl_payer S) extra
      (cl_submission S) w \<noteq> None)"

lemma live_client:
  assumes "clmm_new V N D program payer slippage units price level = Inr S"
    and "time_passes (nd_rpc N)" and "91 \<le> nd_fuel N"
  shows "live S"
proof -
  have S: "nd_rpc (cl_node S) = nd_rpc N" "nd_fuel (cl_node S) = nd_fuel N"
      "sc_poll_interval (cl_submission S) = 500 * 10 ^ 6"
      "sc_confirmation_timeout (cl_submission S) = 45 * 10 ^ 9"
    using assms(1) by (auto simp: clmm_new_def default_submission_def split: if_splits)
  have "91 * (500 * 10 ^ 6) \<le> nd_fuel N * (500 * 10 ^ 6)" using assms(3) by (rule mult_le_mono1)
  then have "45 * 10 ^ 9 + 500 * 10 ^ 6 \<le> nd_fuel N * (500 * 10 ^ 6)" by simp
  then show ?thesis using assms(2) unfolding live_def S by (intro allI submit_not_None) (simp_all only: S, simp_all)
qed

lemma transacts_bind [transacts_intros]:
  assumes m: "reader m" and f: "\<And>x. transacts (f x)"
  shows "transacts (bindA m f)"
  unfolding transacts_def
proof
  fix w
  from m obtain r1 w1 c1 where m1: "m w = Some (r1, w1, c1)" "list_all is_read c1" "localR r1"
    unfolding reader_def by blast
  show "\<exists>r w' cs. bindA m f w = Some (r, w', cs) \<and> (unsent r cs \<or> sent_once r cs)"
  proof (cases r1)
    case (Inl e)
    then show ?thesis using m1 by (auto simp: bindA_def unsent_def localR_def)
  next
    case (Inr x)
    from f obtain r w' c2 where c2: "f x w1 = Some (r, w', c2)" and ends: "unsent r c2 \<or> sent_once r c2"
      unfolding transacts_def by blast
    have "unsent r (c1 @ c2) \<or> sent_once r (c1 @ c2)" using ends
    proof
      assume "unsent r c2"
      then show ?thesis using m1 by (simp add: unsent_def)
    next
      assume "sent_once r c2"
      then have "sent_once r (c1 @ c2)" using m1 by (fastforce simp: sent_once_def)
      then show ?thesis ..
    qed
    then show ?thesis using m1 Inr c2 by (simp add: bindA_def)
  qed
qed

lemma transacts_error [transacts_intros]: "localR r \<Longrightarrow> \<exists>e. r = Inl e \<Longrightarrow> transacts (pureA r)"
  by (auto simp: transacts_def pureA_def unsent_def)

lemma not_local_submission: "\<not> local_error (submission_failure S e)"
  by (cases e) (simp_all add: submission_failure_def)

lemma run_submit:
  "bindA (submit_action S ixs extra) (\<lambda>t. pureA (Inr (g t))) w = Some (r, w', cs) \<longleftrightarrow>
     (\<exists>res calls. submit (nd_rpc (cl_node S)) (nd_fuel (cl_node S)) ixs (cl_payer S) extra
         (cl_submission S) w = Some (res, w', calls)
       \<and> cs = [SubmitTx ixs extra]
       \<and> r = (case res of Inl e \<Rightarrow> Inl (Raised (submission_failure S e)) | Inr t \<Rightarrow> Inr (g t)))"
proof (cases "submit (nd_rpc (cl_node S)) (nd_fuel (cl_node S)) ixs (cl_payer S) extra
    (cl_submission S) w")
  case None
  then show ?thesis by (simp add: bindA_def submit_action_def)
next
  case (Some out)
  obtain res w1 calls where "out = (res, w1, calls)" by (rule prod_cases3)
  then show ?thesis using Some
    by (cases res) (auto simp: bindA_def submit_action_def pureA_def)
qed

lemma sent_once_submit:
  "sent_once (case res of Inl e \<Rightarrow> Inl (Raised (submission_failure S e)) | Inr t \<Rightarrow> Inr (g t))
     [SubmitTx ixs extra]"
  by (cases res) (auto simp: sent_once_def not_local_submission)

lemma transacts_submit [transacts_intros]:
  assumes "live S"
  shows "transacts (bindA (submit_action S ixs extra) (\<lambda>t. pureA (Inr (g t))))"
  unfolding transacts_def
proof
  fix w
  obtain res w' calls where "submit (nd_rpc (cl_node S)) (nd_fuel (cl_node S)) ixs (cl_payer S) extra
      (cl_submission S) w = Some (res, w', calls)"
    using assms unfolding live_def by (metis option.exhaust prod_cases3)
  then show "\<exists>r w' cs. bindA (submit_action S ixs extra) (\<lambda>t. pureA (Inr (g t))) w = Some (r, w', cs)
      \<and> (unsent r cs \<or> sent_once r cs)"
    unfolding run_submit using sent_once_submit by blast
qed

lemma transacts_if [transacts_intros]:
  "(c \<Longrightarrow> transacts a) \<Longrightarrow> (\<not> c \<Longrightarrow> transacts b) \<Longrightarrow> transacts (if c then a else b)"
  by simp

lemma transacts_prod [transacts_intros]:
  "(\<And>x y. transacts (f x y)) \<Longrightarrow> transacts (case p of (x, y) \<Rightarrow> f x y)"
  by (cases p) simp

lemma transacts_positions:
  assumes "live S"
  shows "transacts (open_position S p)" "transacts (increase_liquidity S mint input)"
    "transacts (decrease_liquidity S mint amount)" "transacts (collect_position S mint)"
    "transacts (close_position S mint)"
  using assms
  by (auto simp: open_position_def increase_liquidity_def decrease_liquidity_def collect_position_def
      close_position_def Let_def intro!: transacts_intros reader_intros local_intros)

lemma transacts_create_pool: "live S \<Longrightarrow> transacts (create_pool S p)"
  by (auto simp: create_pool_def Let_def intro!: transacts_intros reader_intros local_intros)

lemma transacts_swap: "live S \<Longrightarrow> transacts (swap S pool m_in m_out amount ex)"
  by (auto simp: swap_def Let_def intro!: transacts_intros reader_intros local_intros)



section \<open>Successful runs\<close>

lemma bindA_Some:
  "bindA m f w = Some (Inr y, w2, cs) \<longleftrightarrow>
     (\<exists>x w1 c1 c2. m w = Some (Inr x, w1, c1) \<and> f x w1 = Some (Inr y, w2, c2) \<and> cs = c1 @ c2)"
  by (auto simp: bindA_def split: option.splits prod.splits sum.splits)

lemma pureA_Some: "pureA r w = Some (Inr y, w2, cs) \<longleftrightarrow> r = Inr y \<and> w2 = w \<and> cs = []"
  by (auto simp: pureA_def)

lemma fetch_Some:
  "fetch_optional S keys w = Some (Inr accounts, w1, cs) \<longleftrightarrow>
     nd_accounts (cl_node S) keys w = (Inr accounts, w1) \<and> cs = [FetchAccounts keys]"
  by (auto simp: fetch_optional_def map_err_Inr split: prod.splits)

lemma epoch_Some:
  "fetch_epoch S w = Some (Inr e, w1, cs) \<longleftrightarrow> nd_epoch (cl_node S) w = (Inr e, w1) \<and> cs = [FetchEpoch]"
  by (auto simp: fetch_epoch_def map_err_Inr split: prod.splits)

lemma case_prod_Some: "(case p of (a, b) \<Rightarrow> f a b) w = z \<longleftrightarrow> (\<forall>a b. p = (a, b) \<longrightarrow> f a b w = z)"
  by (cases p) simp

lemma if_fail_Some:
  "(if c then pureA (Inl e) else m) w = Some (Inr y, w2, cs) \<longleftrightarrow> \<not> c \<and> m w = Some (Inr y, w2, cs)"
  by (auto simp: pureA_def)

lemma submit_Some:
  "submit_action S ixs extra w = Some (Inr t, w', cs) \<longleftrightarrow>
     (\<exists>calls. submit (nd_rpc (cl_node S)) (nd_fuel (cl_node S)) ixs (cl_payer S) extra
         (cl_submission S) w = Some (Inr t, w', calls)) \<and> cs = [SubmitTx ixs extra]"
  by (auto simp: submit_action_def map_err_Inr split: option.splits prod.splits)

lemmas run_simps = bindA_Some pureA_Some fetch_Some epoch_Some

section \<open>The fee configuration\<close>

lemma existing_config_Inr:
  assumes "(existing_config S p address a :: ('s, 's config_outcome) raydium) = Inr out"
  shows "out = \<lparr>co_transaction = None, co_created = False, co_amm_config = address,
      co_admin = cl_payer S, co_params = p\<rparr>
    \<and> ac_owner a = cl_program S \<and> rv_decode_config (cl_env S) (ac_data a) = Inr
        \<lparr>cf_index = ap_index p, cf_owner = cl_payer S, cf_fund_owner = cl_payer S,
         cf_tick_spacing = ap_tick_spacing p, cf_trade_fee = ap_trade_fee p,
         cf_protocol_fee = ap_protocol_fee p, cf_fund_fee = ap_fund_fee p\<rparr>"
  using assms
  by (auto simp: existing_config_def decode_program_account_def malformed_def result_simps
      intro!: amm_config.equality split: if_splits)

text \<open>
  C25. \<open>ensure_amm_config\<close> creates the configuration once. When it succeeds, either the account at
  the canonical address of the index was missing and it sent the one transaction that creates
  it, or it sent nothing and the account belongs to the program and already holds exactly the
  requested parameters with the payer as owner and fund owner.
\<close>

theorem ensure_config_once:
  fixes S :: "('w, 'h, 's, 'b, 'd, 'f) clmm_client"
  assumes "ensure_amm_config S p w = Some (Inr out, w', cs)"
  shows "co_amm_config out = amm_config_address (cl_env S) (cl_program S) (ap_index p)
    \<and> co_admin out = cl_payer S \<and> co_params out = p
    \<and> (\<exists>program found w1.
         nd_accounts (cl_node S) [cl_program S, co_amm_config out] w = (Inr (Some program # found), w1)
       \<and> ac_executable program
       \<and> (if co_created out
          then hd found = None \<and> co_transaction out \<noteq> None
            \<and> cs = [FetchAccounts [cl_program S, co_amm_config out],
                SubmitTx [create_config_instruction S p (co_amm_config out)] []]
          else co_transaction out = None \<and> cs = [FetchAccounts [cl_program S, co_amm_config out]]
            \<and> (\<exists>a. hd found = Some a \<and> ac_owner a = cl_program S
                 \<and> rv_decode_config (cl_env S) (ac_data a) = Inr
                     \<lparr>cf_index = ap_index p, cf_owner = cl_payer S, cf_fund_owner = cl_payer S,
                      cf_tick_spacing = ap_tick_spacing p, cf_trade_fee = ap_trade_fee p,
                      cf_protocol_fee = ap_protocol_fee p, cf_fund_fee = ap_fund_fee p\<rparr>)))"
proof -
  let ?address = "amm_config_address (cl_env S) (cl_program S) (ap_index p)"
  from assms obtain accounts program found w1 where
    n: "nd_accounts (cl_node S) [cl_program S, ?address] w = (Inr accounts, w1)"
    and pr: "(require_account [cl_program S, ?address] accounts 0 ''Raydium program'' :: ('s, account) raydium)
        = Inr program"
    and ex: "ac_executable program"
    and fo: "(account_at accounts 1 :: ('s, account option) raydium) = Inr found"
    and rest: "(case found of
        Some a \<Rightarrow> pureA (existing_config S p ?address a)
      | None \<Rightarrow> bindA (submit_action S [create_config_instruction S p ?address] []) (\<lambda>t.
          pureA (Inr \<lparr>co_transaction = Some t, co_created = True, co_amm_config = ?address,
            co_admin = cl_payer S, co_params = p\<rparr>))) w1 = Some (Inr out, w', tl cs)"
    and cs: "cs = FetchAccounts [cl_program S, ?address] # tl cs"
    by (auto simp: ensure_amm_config_def Let_def run_simps malformed_def split: if_splits)
  from pr fo obtain more where acc: "accounts = Some program # more" "hd more = found"
    by (cases accounts) (auto simp: require_account_def account_at_def hd_conv_nth
        split: option.splits if_splits)
  show ?thesis
  proof (cases found)
    case None
    then obtain t where "out = \<lparr>co_transaction = Some t, co_created = True, co_amm_config = ?address,
            co_admin = cl_payer S, co_params = p\<rparr>"
        and "tl cs = [SubmitTx [create_config_instruction S p ?address] []]"
      using rest by (auto simp: run_simps submit_Some)
    then show ?thesis using cs n acc ex None by auto
  next
    case (Some a)
    then have "(existing_config S p ?address a :: ('s, 's config_outcome) raydium) = Inr out" "tl cs = []"
      using rest by (simp_all add: pureA_def)
    with existing_config_Inr [OF this(1)] show ?thesis using cs n acc ex Some by auto
  qed
qed

theorem ensure_config_once_witness:
  "\<exists>a. sample_account 0 (Pubkey [30, 0, 0]) = Some a \<and> ac_owner a = Pubkey [9]
     \<and> rv_decode_config (cl_env (sample_client 5)) (ac_data a) = Inr
     \<lparr>cf_index = 0, cf_owner = Pubkey [5], cf_fund_owner = Pubkey [5], cf_tick_spacing = 2,
      cf_trade_fee = 0, cf_protocol_fee = 0, cf_fund_fee = 0\<rparr>"
proof -
  let ?p = "\<lparr>ap_index = 0, ap_tick_spacing = 2, ap_trade_fee = 0, ap_protocol_fee = 0, ap_fund_fee = 0\<rparr>"
  have "ensure_amm_config (sample_client 5) ?p w = Some (Inr \<lparr>co_transaction = None, co_created = False,
      co_amm_config = Pubkey [30, 0, 0], co_admin = Pubkey [5], co_params = ?p\<rparr>, w,
      [FetchAccounts [Pubkey [9], Pubkey [30, 0, 0]]])" for w
    by (simp add: ensure_amm_config_def existing_config_def validate_amm_config_params_def
        checked_add_w_def loading_defs sample_defs)
  from ensure_config_once [OF this [of 0]] show ?thesis by (simp add: sample_defs)
qed

end
