(* ===== verification/Clmm_Loading.thy ===== *)
theory Clmm_Loading
  imports Clmm_Safety
begin

text \<open>
  What the loaded data satisfies: a pool bundle is canonical, a position is owned by the payer,
  tick arrays belong to the pool and come in traversal order, quotes of liquidity respect the
  tick spacing and the slippage.
\<close>

section \<open>Pools\<close>

text \<open>A mint as the account of a token program holds it.\<close>

definition holds_mint ::
    "('w, 'h, 's, 'b, 'd, 'f) clmm_client \<Rightarrow> account option \<Rightarrow> mint_info \<Rightarrow> bool" where
  "holds_mint S found m \<longleftrightarrow>
     (case found of
        None \<Rightarrow> False
      | Some a \<Rightarrow> ac_owner a = mi_program m \<and> ac_owner a \<in> {rv_token_program (cl_env S), rv_token_2022 (cl_env S)}
          \<and> (\<exists>st. rv_unpack_mint (cl_env S) (ac_data a) = Inr st \<and> ms_decimals st = mi_decimals m))"

text \<open>The configuration account of a pool at its canonical address.\<close>

definition holds_config ::
    "('w, 'h, 's, 'b, 'd, 'f) clmm_client \<Rightarrow> account option \<Rightarrow> pubkey \<Rightarrow> u16 \<Rightarrow> bool" where
  "holds_config S found key spacing \<longleftrightarrow>
     (case found of
        None \<Rightarrow> False
      | Some a \<Rightarrow> ac_owner a = cl_program S \<and> (\<exists>config. rv_decode_config (cl_env S) (ac_data a) = Inr config
          \<and> amm_config_address (cl_env S) (cl_program S) (cf_index config) = key \<and> cf_tick_spacing config = spacing))"

lemma decode_mint_Inr:
  "(decode_mint S key a :: ('s, mint_info) raydium) = Inr m \<Longrightarrow>
     mi_key m = key \<and> mi_program m = ac_owner a \<and> mi_data m = ac_data a
     \<and> mi_program m \<in> {rv_token_program (cl_env S), rv_token_2022 (cl_env S)} \<and> holds_mint S (Some a) m"
  by (auto simp: decode_mint_def Let_def result_simps holds_mint_def unpack_mint_def split: if_splits)

lemma decode_program_account_Inr:
  "(decode_program_account S decode key a :: ('s, 'x) raydium) = Inr x \<longleftrightarrow>
     ac_owner a = cl_program S \<and> decode (ac_data a) = Inr x"
  by (auto simp: decode_program_account_def malformed_def map_err_Inr)

definition bundle_ok :: "('w, 'h, 's, 'b, 'd, 'f) clmm_client \<Rightarrow> pubkey \<Rightarrow> 'b pool_bundle \<Rightarrow> bool" where
  "bundle_ok S key bd \<longleftrightarrow>
     (let V = cl_env S; m0 = bd_mint_0 bd; m1 = bd_mint_1 bd in
      bd_key bd = key \<and> mi_key m0 < mi_key m1
      \<and> pool_address_for V (cl_program S) (bd_amm_config bd) (mi_key m0) (mi_key m1) = key
      \<and> (\<exists>i. amm_config_address V (cl_program S) i = bd_amm_config bd)
      \<and> mi_decimals m0 = ps_decimals_0 (bd_pool bd) \<and> mi_decimals m1 = ps_decimals_1 (bd_pool bd)
      \<and> {mi_program m0, mi_program m1} \<subseteq> {rv_token_program V, rv_token_2022 V}
      \<and> bd_user_0 bd = user_token S m0 \<and> bd_user_1 bd = user_token S m1
      \<and> bd_tick_spacing bd = ps_tick_spacing (bd_pool bd)
      \<and> bd_bitmap_key bd = bitmap_address V (cl_program S) key)"

text \<open>A token account of a mint and an authority, as the chain returned it.\<close>

definition holds_tokens ::
    "('w, 'h, 's, 'b, 'd, 'f) clmm_client \<Rightarrow> account option \<Rightarrow> pubkey \<Rightarrow> pubkey \<Rightarrow> pubkey \<Rightarrow> token_state \<Rightarrow> bool" where
  "holds_tokens S found program mint authority st \<longleftrightarrow>
     (case found of
        None \<Rightarrow> False
      | Some a \<Rightarrow> ac_owner a = program \<and> rv_unpack_token (cl_env S) (ac_data a) = Inr st
          \<and> tk_mint st = mint \<and> tk_owner st = authority)"

lemma validate_vault_Inr:
  "(validate_vault S pool key a m :: ('s, unit) raydium) = Inr () \<Longrightarrow>
     \<exists>st. holds_tokens S (Some a) (mi_program m) (mi_key m) pool st"
  by (auto simp: validate_vault_def unpack_token_def holds_tokens_def result_simps malformed_def
      split: if_splits)

lemma require_account_Inr:
  "(require_account keys accounts i what :: ('s, account) raydium) = Inr a \<Longrightarrow>
     i < length accounts \<and> accounts ! i = Some a"
  by (auto simp: require_account_def split: option.splits if_splits)

lemma check_pool_Inr:
  assumes "(check_pool S key pool accounts :: ('s, account \<times> mint_info \<times> mint_info \<times> 'b) raydium)
      = Inr (config_account, m0, m1, bitmap)"
  shows "mi_key m0 = ps_mint_0 pool \<and> mi_key m1 = ps_mint_1 pool \<and> mi_key m0 < mi_key m1
    \<and> pool_address_for (cl_env S) (cl_program S) (ps_amm_config pool) (mi_key m0) (mi_key m1) = key
    \<and> (\<exists>i. amm_config_address (cl_env S) (cl_program S) i = ps_amm_config pool)
    \<and> mi_decimals m0 = ps_decimals_0 pool \<and> mi_decimals m1 = ps_decimals_1 pool
    \<and> {mi_program m0, mi_program m1} \<subseteq> {rv_token_program (cl_env S), rv_token_2022 (cl_env S)}
    \<and> holds_config S (accounts ! 0) (ps_amm_config pool) (ps_tick_spacing pool)
    \<and> holds_mint S (accounts ! 1) m0 \<and> holds_mint S (accounts ! 2) m1
    \<and> (\<exists>st. holds_tokens S (accounts ! 4) (mi_program m0) (mi_key m0) key st)
    \<and> (\<exists>st. holds_tokens S (accounts ! 5) (mi_program m1) (mi_key m1) key st)"
  using assms
  by (clarsimp simp: check_pool_def Let_def result_simps malformed_def split: if_splits)
     (auto simp: holds_config_def decode_program_account_Inr dest!: decode_mint_Inr validate_vault_Inr require_account_Inr)

lemma load_pool_Inr:
  fixes S :: "('w, 'h, 's, 'b, 'd, 'f) clmm_client"
  assumes "load_pool S key w = Some (Inr bd, w', cs)"
  obtains first a accounts w1 w2 where "bundle_ok S key bd"
    and "nd_accounts (cl_node S) [key] w = (Inr first, w1)" and "first ! 0 = Some a" and "ac_owner a = cl_program S"
    and "rv_decode_pool (cl_env S) (ac_data a) = Inr (bd_pool bd)"
    and "nd_accounts (cl_node S) (pool_keys S key (bd_pool bd)) w1 = (Inr accounts, w2)"
    and "mi_key (bd_mint_0 bd) = ps_mint_0 (bd_pool bd)" and "mi_key (bd_mint_1 bd) = ps_mint_1 (bd_pool bd)"
    and "bd_amm_config bd = ps_amm_config (bd_pool bd)"
    and "bd_vault_0 bd = ps_vault_0 (bd_pool bd)" and "bd_vault_1 bd = ps_vault_1 (bd_pool bd)"
    and "holds_config S (accounts ! 0) (bd_amm_config bd) (bd_tick_spacing bd)"
    and "holds_mint S (accounts ! 1) (bd_mint_0 bd)" and "holds_mint S (accounts ! 2) (bd_mint_1 bd)"
    and "\<exists>st. holds_tokens S (accounts ! 4) (mi_program (bd_mint_0 bd)) (mi_key (bd_mint_0 bd)) key st"
    and "\<exists>st. holds_tokens S (accounts ! 5) (mi_program (bd_mint_1 bd)) (mi_key (bd_mint_1 bd)) key st"
proof -
  from assms obtain first a pool accounts w1 w2 config_account m0 m1 bitmap epoch b0 b1 where
    f: "nd_accounts (cl_node S) [key] w = (Inr first, w1)" "first ! 0 = Some a" "ac_owner a = cl_program S"
      "rv_decode_pool (cl_env S) (ac_data a) = Inr pool"
    and n: "nd_accounts (cl_node S) (pool_keys S key pool) w1 = (Inr accounts, w2)"
    and c: "(check_pool S key pool accounts :: ('s, account \<times> mint_info \<times> mint_info \<times> 'b) raydium)
      = Inr (config_account, m0, m1, bitmap)"
    and bd: "bd = \<lparr>bd_pool = pool, bd_config_account = config_account, bd_amm_config = ps_amm_config pool,
       bd_mint_0 = m0, bd_mint_1 = m1, bd_vault_0 = ps_vault_0 pool, bd_vault_1 = ps_vault_1 pool,
       bd_observation = ps_observation pool,
       bd_bitmap_key = bitmap_address (cl_env S) (cl_program S) key, bd_bitmap = bitmap,
       bd_tick_spacing = ps_tick_spacing pool, bd_user_0 = user_token S m0, bd_user_1 = user_token S m1,
       bd_balance_0 = b0, bd_balance_1 = b1, bd_epoch = epoch, bd_key = key\<rparr>"
    by (auto simp: load_pool_def run_simps result_simps decode_program_account_Inr
        split: prod.splits dest!: require_account_Inr)
  have "bundle_ok S key bd" using check_pool_Inr [OF c] by (auto simp: bd bundle_ok_def)
  then show thesis
    by (rule that [of first w1 a accounts w2]) (use f n check_pool_Inr [OF c] in \<open>auto simp: bd\<close>)
qed

text \<open>
  C23. A pool is only used when its accounts are what they claim: its state is read from the
  program's account at its address, and that address is the one derived from its configuration and its
  mints in order; the configuration's account belongs to the program, is the canonical one of its
  index and has the pool's tick spacing; each mint's account belongs to one of the two token programs and
  decodes with the decimals the pool says; the two vaults hold tokens of these mints, of the mint's
  own token program, under the pool's authority; the user's accounts are the associated accounts
  of the mints.
\<close>

theorem loaded_pool_canonical:
  fixes S :: "('w, 'h, 's, 'b, 'd, 'f) clmm_client"
  assumes "load_pool S key w = Some (Inr bd, w', cs)"
  shows "bd_key bd = key \<and> mi_key (bd_mint_0 bd) < mi_key (bd_mint_1 bd)
    \<and> (derive_pool_address (cl_env S) (cl_program S) (bd_amm_config bd) (mi_key (bd_mint_1 bd))
        (mi_key (bd_mint_0 bd)) :: ('s, pubkey) raydium) = Inr key
    \<and> {mi_program (bd_mint_0 bd), mi_program (bd_mint_1 bd)} \<subseteq> {rv_token_program (cl_env S), rv_token_2022 (cl_env S)}
    \<and> mi_decimals (bd_mint_0 bd) = ps_decimals_0 (bd_pool bd)
    \<and> mi_decimals (bd_mint_1 bd) = ps_decimals_1 (bd_pool bd)
    \<and> bd_user_0 bd = user_token S (bd_mint_0 bd) \<and> bd_user_1 bd = user_token S (bd_mint_1 bd)
    \<and> (\<exists>first a accounts w1 w2 st0 st1.
         nd_accounts (cl_node S) [key] w = (Inr first, w1) \<and> first ! 0 = Some a \<and> ac_owner a = cl_program S
       \<and> rv_decode_pool (cl_env S) (ac_data a) = Inr (bd_pool bd)
       \<and> nd_accounts (cl_node S) [bd_amm_config bd, mi_key (bd_mint_0 bd), mi_key (bd_mint_1 bd),
           bd_bitmap_key bd, bd_vault_0 bd, bd_vault_1 bd, ps_observation (bd_pool bd)] w1 = (Inr accounts, w2)
       \<and> holds_config S (accounts ! 0) (bd_amm_config bd) (bd_tick_spacing bd)
       \<and> holds_mint S (accounts ! 1) (bd_mint_0 bd) \<and> holds_mint S (accounts ! 2) (bd_mint_1 bd)
       \<and> holds_tokens S (accounts ! 4) (mi_program (bd_mint_0 bd)) (mi_key (bd_mint_0 bd)) key st0
       \<and> holds_tokens S (accounts ! 5) (mi_program (bd_mint_1 bd)) (mi_key (bd_mint_1 bd)) key st1)"
proof (rule load_pool_Inr [OF assms], goal_cases)
  case (1 first a accounts w1 w2)
  then have keys: "pool_keys S key (bd_pool bd) = [bd_amm_config bd, mi_key (bd_mint_0 bd), mi_key (bd_mint_1 bd),
      bd_bitmap_key bd, bd_vault_0 bd, bd_vault_1 bd, ps_observation (bd_pool bd)]"
    and derive: "(derive_pool_address (cl_env S) (cl_program S) (bd_amm_config bd) (mi_key (bd_mint_1 bd))
      (mi_key (bd_mint_0 bd)) :: ('s, pubkey) raydium) = Inr key"
    by (auto simp: bundle_ok_def Let_def derive_pool_address_def pool_keys_def)
  from 1(15,16) obtain st0 st1 where
    "holds_tokens S (accounts ! 4) (mi_program (bd_mint_0 bd)) (mi_key (bd_mint_0 bd)) key st0"
    "holds_tokens S (accounts ! 5) (mi_program (bd_mint_1 bd)) (mi_key (bd_mint_1 bd)) key st1" by blast
  note fetched = 1(2-5) 1(6) [unfolded keys] 1(12-14) this
  show ?case
    using 1(1) derive
    by (intro conjI exI [of _ first] exI [of _ a] exI [of _ accounts] exI [of _ w1] exI [of _ w2]
        exI [of _ st0] exI [of _ st1] fetched) (simp_all add: bundle_ok_def Let_def)
qed

theorem loaded_pool_canonical_witness:
  "(derive_pool_address (sample_env 5) (Pubkey [9]) (Pubkey [30, 0, 0]) (Pubkey [11]) (Pubkey [10])
      :: (nat, pubkey) raydium) = Inr (Pubkey pool_bytes)"
  using loaded_pool_canonical [OF sample_load [of 5 0]]
  by (simp add: sample_client_def sample_bundle_def sample_mint_def)

section \<open>Positions\<close>

lemma check_position_Inr:
  assumes "(check_position S mint accounts :: ('s, position_view) raydium) = Inr pos"
  shows "\<exists>a0 a1 (state :: position_state) (nft :: mint_state) found (st :: token_state).
      accounts ! 0 = Some a0 \<and> ac_owner a0 = cl_program S \<and> rv_decode_position (cl_env S) (ac_data a0) = Inr state
    \<and> accounts ! 1 = Some a1 \<and> rv_unpack_mint (cl_env S) (ac_data a1) = Inr nft
    \<and> ac_owner a1 = pv_nft_program pos
    \<and> pp_nft_mint state = mint \<and> pp_pool state = pv_pool pos
    \<and> pp_liquidity state = pv_liquidity pos \<and> ms_decimals nft = 0 \<and> ms_supply nft = 1
    \<and> (nft_holder S mint (pv_nft_program pos) accounts :: ('s, pubkey \<times> account option) raydium)
        = Inr (pv_nft_account pos, found)
    \<and> holds_tokens S found (pv_nft_program pos) mint (cl_payer S) st \<and> tk_amount st = 1
    \<and> pv_address pos = personal_position_address (cl_env S) (cl_program S) mint"
  using assms
  by (clarsimp simp: check_position_def Let_def result_simps malformed_def decode_program_account_def
      unpack_mint_def unpack_token_def holds_tokens_def
      split: if_splits prod.splits dest!: require_account_Inr)

lemma nft_holder_Inr:
  "(nft_holder S mint program accounts :: ('s, pubkey \<times> account option) raydium) = Inr (key, found) \<Longrightarrow>
     program \<in> {rv_token_program (cl_env S), rv_token_2022 (cl_env S)}
     \<and> key = rv_ata (cl_env S) (cl_payer S) mint program
     \<and> found = accounts ! (if program = rv_token_2022 (cl_env S) then 2 else 3)"
  by (auto simp: nft_holder_def Let_def account_at_def result_simps malformed_def split: if_splits)

text \<open>
  C24. A position is only acted on when the payer holds its token: the personal position is the
  program's account at the address derived from the token's mint and names that mint, the mint
  has no decimals and a supply of one, and the associated account of the payer, of the token
  program that owns the mint, holds exactly that one.
\<close>

theorem loaded_position_owned:
  assumes "load_position S mint w = Some (Inr pos, w', cs)"
  shows "pv_address pos = personal_position_address (cl_env S) (cl_program S) mint
    \<and> pv_nft_program pos \<in> {rv_token_program (cl_env S), rv_token_2022 (cl_env S)}
    \<and> pv_nft_account pos = rv_ata (cl_env S) (cl_payer S) mint (pv_nft_program pos)
    \<and> cs = [FetchAccounts (position_keys S mint)]
    \<and> (\<exists>accounts a0 a1 (state :: position_state) (nft :: mint_state) (st :: token_state).
         nd_accounts (cl_node S) (position_keys S mint) w = (Inr accounts, w')
       \<and> accounts ! 0 = Some a0 \<and> ac_owner a0 = cl_program S
       \<and> rv_decode_position (cl_env S) (ac_data a0) = Inr state
       \<and> pp_nft_mint state = mint \<and> pp_pool state = pv_pool pos \<and> pp_liquidity state = pv_liquidity pos
       \<and> accounts ! 1 = Some a1 \<and> ac_owner a1 = pv_nft_program pos
       \<and> rv_unpack_mint (cl_env S) (ac_data a1) = Inr nft \<and> ms_decimals nft = 0 \<and> ms_supply nft = 1
       \<and> holds_tokens S (accounts ! (if pv_nft_program pos = rv_token_2022 (cl_env S) then 2 else 3))
           (pv_nft_program pos) mint (cl_payer S) st
       \<and> tk_amount st = 1)"
proof -
  from assms obtain accounts where n: "nd_accounts (cl_node S) (position_keys S mint) w = (Inr accounts, w')"
    and c: "check_position S mint accounts = Inr pos"
    and cs: "cs = [FetchAccounts (position_keys S mint)]"
    by (auto simp: load_position_def run_simps)
  from check_position_Inr [OF c] obtain a0 a1 and state :: position_state and nft :: mint_state
      and found and st :: token_state where
    s: "accounts ! 0 = Some a0" "ac_owner a0 = cl_program S"
      "rv_decode_position (cl_env S) (ac_data a0) = Inr state"
      "pp_nft_mint state = mint" "pp_pool state = pv_pool pos" "pp_liquidity state = pv_liquidity pos"
    and n1: "accounts ! 1 = Some a1" "ac_owner a1 = pv_nft_program pos"
      "rv_unpack_mint (cl_env S) (ac_data a1) = Inr nft" "ms_decimals nft = 0" "ms_supply nft = 1"
    and h: "nft_holder S mint (pv_nft_program pos) accounts = Inr (pv_nft_account pos, found)"
    and t: "holds_tokens S found (pv_nft_program pos) mint (cl_payer S) st" "tk_amount st = 1"
    and pos: "pv_address pos = personal_position_address (cl_env S) (cl_program S) mint"
    by blast
  show ?thesis using nft_holder_Inr [OF h] s n n1 t cs pos by blast
qed

theorem loaded_position_owned_witness:
  "\<exists>accounts w'. nd_accounts sample_node (position_keys (sample_client 5) (Pubkey [12])) 0 = (Inr accounts, w')
     \<and> pv_nft_account (sample_position 100) = rv_ata (sample_env 5) (Pubkey [5]) (Pubkey [12]) (Pubkey [1])"
  using loaded_position_owned [OF sample_position [of 5 0]]
  by (auto simp: sample_client_def sample_position_def)

section \<open>Ranges and quotes of liquidity\<close>

lemma lower_tick_Inr:
  assumes "(lower_tick spacing raw :: ('s, int) raydium) = Inr t" and "0 \<le> spacing"
  shows "spacing dvd t \<and> t \<le> raw \<and> raw < t + spacing"
proof -
  from assms have t: "t = raw div spacing * spacing" and pos: "0 < spacing"
    by (auto simp: lower_tick_def Let_def split: if_splits)
  have "raw = t + raw mod spacing" by (simp only: t div_mult_mod_eq)
  moreover have "spacing dvd t" by (simp add: t)
  ultimately show ?thesis using pos_mod_bound [OF pos, of raw] pos_mod_sign [OF pos, of raw]
    by linarith
qed

lemma upper_tick_Inr:
  assumes "(upper_tick spacing raw :: ('s, int) raydium) = Inr t" and "0 \<le> spacing"
  shows "spacing dvd t \<and> raw \<le> t \<and> t < raw + spacing"
proof (cases "raw mod spacing = 0")
  case True
  then have "t = raw" "0 < spacing" using assms by (auto simp: upper_tick_def split: if_splits)
  then show ?thesis using True by auto
next
  case False
  then have t: "t = (raw div spacing + 1) * spacing" and pos: "0 < spacing"
    using assms by (auto simp: upper_tick_def Let_def split: if_splits)
  have m: "0 < raw mod spacing" using False pos_mod_sign [OF pos, of raw] by linarith
  have "t = raw div spacing * spacing + spacing" using t by (simp only: distrib_right mult_1)
  then have "raw + spacing = t + raw mod spacing"
    using div_mult_mod_eq [of raw spacing] by linarith
  moreover have "spacing dvd t" by (simp add: t)
  ultimately show ?thesis using m pos_mod_bound [OF pos, of raw] by linarith
qed

lemma quote_for_ticks_Inr:
  assumes "(position_quote_for_ticks S bd pos input :: ('s, liquidity_quote) raydium) = Inr q"
  shows "lq_tick_lower q = pv_tick_lower pos \<and> lq_tick_upper q = pv_tick_upper pos
    \<and> lq_liquidity q \<noteq> 0 \<and> lq_input_mint q = ta_mint input
    \<and> ta_mint input \<in> {mi_key (bd_mint_0 bd), mi_key (bd_mint_1 bd)}"
  using assms
  by (auto simp: position_quote_for_ticks_def Let_def result_simps split: if_splits prod.splits)

lemma slippage_down_Inr:
  assumes "(apply_slippage a bps False :: ('s, u64) raydium) = Inr r"
  shows "uint r = uint a * (10000 - uint bps) div 10000 \<and> uint bps \<le> 10000 \<and> r \<le> a"
proof -
  from assms have b: "uint bps \<le> 10000" and r: "r = word_of_int (uint a * (10000 - uint bps) div 10000)"
    by (auto simp: slippage_down split: if_splits)
  have "uint a * (10000 - uint bps) div 10000 \<le> uint a * 10000 div 10000"
    by (intro zdiv_mono1 mult_left_mono) simp_all
  then have le: "uint a * (10000 - uint bps) div 10000 \<le> uint a" by simp
  moreover have "0 \<le> uint a * (10000 - uint bps) div 10000"
    using b by (intro pos_imp_zdiv_nonneg_iff [THEN iffD2] mult_nonneg_nonneg) simp_all
  ultimately have "uint r = uint a * (10000 - uint bps) div 10000"
    using uint_lt2p [of a] unfolding r by (intro word_of_int_inverse) simp_all
  with le b show ?thesis by (simp add: word_le_def)
qed

lemma slippage_up_Inr:
  assumes "(apply_slippage a bps True :: ('s, u64) raydium) = Inr r"
  shows "uint r = (uint a * (10000 + uint bps) + 9999) div 10000 \<and> a \<le> r"
proof -
  let ?x = "(uint a * (10000 + uint bps) + 9999) div 10000"
  from assms have x: "?x < 2 ^ 64" and r: "r = word_of_int ?x"
    by (auto simp: slippage_up Let_def split: if_splits)
  have "uint a * 10000 div 10000 \<le> ?x"
    by (intro zdiv_mono1) (simp_all add: distrib_left)
  then have le: "uint a \<le> ?x" by simp
  moreover have "0 \<le> uint a" by simp
  ultimately have "uint r = ?x" using x unfolding r by (intro word_of_int_inverse) (linarith | simp)+
  with le show ?thesis by (simp add: word_le_def)
qed

text \<open>
  C26. The range of a new position. Let the ticks of the two prices be those that the CLMM library's
  \<open>get_tick_at_sqrt_price\<close> gives for their square roots; the statement is about these ticks, not about
  the prices themselves, which the library rounds to them.
  The range's ticks are multiples of the pool's spacing, in order; the lower one is the tick of the
  lower price rounded down and the upper one the tick of the upper price rounded up, each by less than
  one spacing. So the range encloses the ticks of the two prices, as tightly as the spacing allows.
\<close>

theorem position_range:
  assumes "(position_quote S bd lower_price upper_price input :: ('s, liquidity_quote) raydium) = Inr q"
  shows "\<exists>ls us lo up.
    (price_to_sqrt_x64 (cl_dec S) (cl_env S) lower_price (mi_decimals (bd_mint_0 bd))
       (mi_decimals (bd_mint_1 bd)) :: ('s, u128) raydium) = Inr ls
    \<and> (price_to_sqrt_x64 (cl_dec S) (cl_env S) upper_price (mi_decimals (bd_mint_0 bd))
       (mi_decimals (bd_mint_1 bd)) :: ('s, u128) raydium) = Inr us
    \<and> cm_tick_at_sqrt (rv_math (cl_env S)) ls = Inr lo \<and> cm_tick_at_sqrt (rv_math (cl_env S)) us = Inr up
    \<and> uint (bd_tick_spacing bd) dvd lq_tick_lower q \<and> uint (bd_tick_spacing bd) dvd lq_tick_upper q
    \<and> lq_tick_lower q < lq_tick_upper q
    \<and> lq_tick_lower q \<le> lo \<and> lo < lq_tick_lower q + uint (bd_tick_spacing bd)
    \<and> up \<le> lq_tick_upper q \<and> lq_tick_upper q < up + uint (bd_tick_spacing bd)"
proof -
  let ?s = "uint (bd_tick_spacing bd)"
  from assms obtain ls us lo up lower upper where
    p: "price_to_sqrt_x64 (cl_dec S) (cl_env S) lower_price (mi_decimals (bd_mint_0 bd))
       (mi_decimals (bd_mint_1 bd)) = (Inr ls :: ('s, u128) raydium)"
      "price_to_sqrt_x64 (cl_dec S) (cl_env S) upper_price (mi_decimals (bd_mint_0 bd))
       (mi_decimals (bd_mint_1 bd)) = (Inr us :: ('s, u128) raydium)"
    and t: "cm_tick_at_sqrt (rv_math (cl_env S)) ls = Inr lo" "cm_tick_at_sqrt (rv_math (cl_env S)) us = Inr up"
    and lower: "(lower_tick ?s lo :: ('s, int) raydium) = Inr lower"
    and upper: "(upper_tick ?s up :: ('s, int) raydium) = Inr upper"
    and lt: "lower < upper"
    and q: "(position_quote_for_ticks S bd (range_position lower upper) input :: ('s, liquidity_quote) raydium) = Inr q"
    by (auto simp: position_quote_def Let_def result_simps not_le split: if_splits)
  from quote_for_ticks_Inr [OF q] have "lq_tick_lower q = lower" "lq_tick_upper q = upper"
    by (simp_all add: range_position_def)
  with lower_tick_Inr [OF lower] upper_tick_Inr [OF upper] lt p t show ?thesis by auto
qed

theorem position_range_witness:
  "\<exists>lo up. cm_tick_at_sqrt sample_math 1 = Inr lo \<and> cm_tick_at_sqrt sample_math 5 = Inr up
     \<and> (0::int) \<le> lo \<and> lo < 2 \<and> up \<le> 6 \<and> 6 < up + (2::int)"
proof -
  from position_range [OF sample_range [of 5]] show ?thesis
    by (auto simp: sample_parts sample_price sample_liquidity_def)
qed

text \<open>The limits of either token: the amount, its slippage, the fee of the mint.\<close>

lemma maximum_limit:
  fixes S :: "('w, 'h, 's, 'b, 'd, 'f) clmm_client"
  assumes "(apply_slippage a (cl_slippage S) True :: ('s, u64) raydium) = Inr s"
    and "(plus_inverse_fee (cl_env S) m epoch t s :: ('s, u64) raydium) = Inr limit"
  shows "a \<le> limit
    \<and> (mi_program m = rv_token_program (cl_env S) \<longrightarrow>
        uint limit = (uint a * (10000 + uint (cl_slippage S)) + 9999) div 10000)"
  using slippage_up_Inr [OF assms(1)] plus_inverse_fee_ge [OF assms(2)] assms(2)
  by (auto simp: plus_inverse_fee_Inr classic_token_no_fee)

lemma minimum_limit:
  fixes S :: "('w, 'h, 's, 'b, 'd, 'f) clmm_client"
  assumes "(apply_slippage a (cl_slippage S) False :: ('s, u64) raydium) = Inr s"
    and "(minus_fee (cl_env S) m epoch t s :: ('s, u64) raydium) = Inr limit"
  shows "limit \<le> a
    \<and> (mi_program m = rv_token_program (cl_env S) \<longrightarrow>
        uint limit = uint a * (10000 - uint (cl_slippage S)) div 10000)"
  using slippage_down_Inr [OF assms(1)] minus_fee_le [OF assms(2)] assms(2)
  by (auto simp: minus_fee_Inr classic_token_no_fee)

text \<open>
  C27. The limits of a liquidity change, for each of the two tokens. A quote to add liquidity never
  limits the payment below the quoted amount, and for a classic token the limit is that amount plus
  the slippage, rounded up. A quote to remove liquidity is for exactly the liquidity asked for and never
  demands more than the quoted amount; for a classic token the demand is that amount less the
  slippage, rounded down. The two statements are independent of each other.
\<close>

theorem liquidity_limits:
  fixes S :: "('w, 'h, 's, 'b, 'd, 'f) clmm_client"
  shows "((position_quote_for_ticks S bd pos input :: ('s, liquidity_quote) raydium) = Inr q \<longrightarrow>
      lq_amount_0 q \<le> lq_amount_0_max q \<and> lq_amount_1 q \<le> lq_amount_1_max q
    \<and> (mi_program (bd_mint_0 bd) = rv_token_program (cl_env S) \<longrightarrow>
         uint (lq_amount_0_max q) = (uint (lq_amount_0 q) * (10000 + uint (cl_slippage S)) + 9999) div 10000)
    \<and> (mi_program (bd_mint_1 bd) = rv_token_program (cl_env S) \<longrightarrow>
         uint (lq_amount_1_max q) = (uint (lq_amount_1 q) * (10000 + uint (cl_slippage S)) + 9999) div 10000))
    \<and> ((decrease_quote S bd pos l :: ('s, liquidity_quote) raydium) = Inr r \<longrightarrow>
      lq_liquidity r = l \<and> lq_amount_0_min r \<le> lq_amount_0 r \<and> lq_amount_1_min r \<le> lq_amount_1 r
    \<and> (mi_program (bd_mint_0 bd) = rv_token_program (cl_env S) \<longrightarrow>
         uint (lq_amount_0_min r) = uint (lq_amount_0 r) * (10000 - uint (cl_slippage S)) div 10000)
    \<and> (mi_program (bd_mint_1 bd) = rv_token_program (cl_env S) \<longrightarrow>
         uint (lq_amount_1_min r) = uint (lq_amount_1 r) * (10000 - uint (cl_slippage S)) div 10000))"
proof (intro conjI [of "_ \<longrightarrow> _" "_ \<longrightarrow> _"] impI)
  assume "(position_quote_for_ticks S bd pos input :: ('s, liquidity_quote) raydium) = Inr q"
  then obtain s0 s1 where
    "(apply_slippage (lq_amount_0 q) (cl_slippage S) True :: ('s, u64) raydium) = Inr s0"
    "(apply_slippage (lq_amount_1 q) (cl_slippage S) True :: ('s, u64) raydium) = Inr s1"
    "(plus_inverse_fee (cl_env S) (bd_mint_0 bd) (bd_epoch bd) ''token 0 maximum overflow'' s0
        :: ('s, u64) raydium) = Inr (lq_amount_0_max q)"
    "(plus_inverse_fee (cl_env S) (bd_mint_1 bd) (bd_epoch bd) ''token 1 maximum overflow'' s1
        :: ('s, u64) raydium) = Inr (lq_amount_1_max q)"
    by (auto simp: position_quote_for_ticks_def Let_def result_simps split: if_splits prod.splits)
  from maximum_limit [OF this(1,3)] maximum_limit [OF this(2,4)] show
    "lq_amount_0 q \<le> lq_amount_0_max q \<and> lq_amount_1 q \<le> lq_amount_1_max q
    \<and> (mi_program (bd_mint_0 bd) = rv_token_program (cl_env S) \<longrightarrow>
         uint (lq_amount_0_max q) = (uint (lq_amount_0 q) * (10000 + uint (cl_slippage S)) + 9999) div 10000)
    \<and> (mi_program (bd_mint_1 bd) = rv_token_program (cl_env S) \<longrightarrow>
         uint (lq_amount_1_max q) = (uint (lq_amount_1 q) * (10000 + uint (cl_slippage S)) + 9999) div 10000)" by blast
next
  assume "(decrease_quote S bd pos l :: ('s, liquidity_quote) raydium) = Inr r"
  then obtain t0 t1 where
    "(apply_slippage (lq_amount_0 r) (cl_slippage S) False :: ('s, u64) raydium) = Inr t0"
    "(apply_slippage (lq_amount_1 r) (cl_slippage S) False :: ('s, u64) raydium) = Inr t1"
    "(minus_fee (cl_env S) (bd_mint_0 bd) (bd_epoch bd) ''token 0 minimum underflow'' t0
        :: ('s, u64) raydium) = Inr (lq_amount_0_min r)"
    "(minus_fee (cl_env S) (bd_mint_1 bd) (bd_epoch bd) ''token 1 minimum underflow'' t1
        :: ('s, u64) raydium) = Inr (lq_amount_1_min r)"
    and l: "lq_liquidity r = l"
    by (auto simp: decrease_quote_def Let_def result_simps split: prod.splits)
  from minimum_limit [OF this(1,3)] minimum_limit [OF this(2,4)] l show
    "lq_liquidity r = l \<and> lq_amount_0_min r \<le> lq_amount_0 r \<and> lq_amount_1_min r \<le> lq_amount_1 r
    \<and> (mi_program (bd_mint_0 bd) = rv_token_program (cl_env S) \<longrightarrow>
         uint (lq_amount_0_min r) = uint (lq_amount_0 r) * (10000 - uint (cl_slippage S)) div 10000)
    \<and> (mi_program (bd_mint_1 bd) = rv_token_program (cl_env S) \<longrightarrow>
         uint (lq_amount_1_min r) = uint (lq_amount_1 r) * (10000 - uint (cl_slippage S)) div 10000)" by blast
qed

theorem liquidity_limits_witness:
  "\<exists>q r. (position_quote_for_ticks (sample_client 5) (sample_bundle 5) (sample_position 100) ten_tokens
       :: (nat, liquidity_quote) raydium) = Inr q
     \<and> (decrease_quote (sample_client 5) (sample_bundle 5) (sample_position 100) 4
       :: (nat, liquidity_quote) raydium) = Inr r
     \<and> lq_amount_0 q \<le> lq_amount_0_max q \<and> lq_liquidity r = 4
     \<and> uint (lq_amount_1_min r) = uint (lq_amount_1 r) * 9500 div 10000"
  using liquidity_limits [of "sample_client 5" "sample_bundle 5" "sample_position 100" ten_tokens]
    sample_add [of 5 "sample_position 100"] sample_remove [of 4 5 100]
  by (simp add: sample_parts sample_liquidity_def)

end
