(* ===== verification/Clmm_Swaps.thy ===== *)
theory Clmm_Swaps
  imports Clmm_Loading
begin

text \<open>
  Swaps: the tick arrays that are fetched against the ones the quote uses, what a successful swap
  has submitted, and the two places where its limits do not say what they are meant to.
\<close>

section \<open>Tick arrays\<close>

lemma length_discover_starts:
  "discover_starts pool bitmap zfo n start = Inr starts \<Longrightarrow> length starts \<le> n"
  by (induction n arbitrary: start starts) (auto simp: result_simps split: option.splits)

lemma swap_starts_length: "swap_starts bd zfo = Inr starts \<Longrightarrow> starts \<noteq> [] \<and> length starts \<le> 24"
  by (auto simp: swap_starts_def tick_array_discovery_limit_def result_simps
      dest: length_discover_starts split: prod.splits)

lemma check_tick_array_Inr:
  "(check_tick_array S pool key start t a :: ('s, tick_array) raydium) = Inr array \<Longrightarrow>
     ta_pool array = pool \<and> ta_start array = start"
  by (auto simp: check_tick_array_def result_simps malformed_def split: if_splits)

lemma load_swap_tick_arrays_Inr:
  assumes "load_swap_tick_arrays S bd zfo w = Some (Inr (arrays, keys), w', cs)"
  shows "\<exists>starts. swap_starts bd zfo = Inr starts \<and> map ta_start arrays = starts
    \<and> keys = map (tick_array_address (cl_env S) (cl_program S) (bd_key bd)) starts
    \<and> (\<forall>a \<in> set arrays. ta_pool a = bd_key bd) \<and> cs = [FetchAccounts keys]"
proof -
  from assms obtain starts accounts where s: "swap_starts bd zfo = Inr starts"
    and keys: "keys = map (tick_array_address (cl_env S) (cl_program S) (bd_key bd)) starts"
    and cs: "cs = [FetchAccounts keys]"
    and tr: "traverseR (\<lambda>i. bindR (require_account keys accounts i ''tick array'')
      (check_tick_array S (bd_key bd) (keys ! i) (starts ! i) ''tick array'')) [0..<length keys] = Inr arrays"
    by (auto simp: load_swap_tick_arrays_def run_simps map_err_Inr Let_def)
  have len: "length arrays = length starts" using traverseR_Inr_length [OF tr] keys by simp
  have el: "ta_pool (arrays ! i) = bd_key bd \<and> ta_start (arrays ! i) = starts ! i"
    if "i < length starts" for i
    using traverseR_Inr_nth [OF tr, of i] that keys
    by (auto simp: result_simps dest: check_tick_array_Inr)
  then have "map ta_start arrays = starts" using len by (simp add: list_eq_iff_nth_eq)
  moreover have "\<forall>a \<in> set arrays. ta_pool a = bd_key bd" using el len by (auto simp: in_set_conv_nth)
  ultimately show ?thesis using s keys cs by blast
qed

lemma used_arrays_fetched:
  assumes "load_swap_tick_arrays S bd zfo w = Some (Inr (arrays, keys), w', cs)"
    and "quote_swap M amount zfo ex fee pool bitmap arrays = Inr (calc, used)"
  shows "\<exists>k. 0 < k \<and> used = take k (map ta_start arrays)
    \<and> map (tick_array_address (cl_env S) (cl_program S) (bd_key bd)) used = take k keys"
proof -
  from load_swap_tick_arrays_Inr [OF assms(1)] have
    keys: "keys = map (tick_array_address (cl_env S) (cl_program S) (bd_key bd)) (map ta_start arrays)"
    by blast
  from quote_prefix [OF assms(2)] obtain k where "0 < k" "used = map ta_start (take k arrays)" by blast
  then show ?thesis by (intro exI [of _ k]) (simp add: keys take_map)
qed

text \<open>
  The tick arrays of a swap. At most 24 arrays are fetched, all of the pool; the quote uses
  a non-empty prefix of them in traversal order, so the check that it selected only fetched
  arrays always passes, and the only rejection left is a quote over more than six of them.
\<close>

theorem swap_arrays_fetched:
  assumes "load_swap_tick_arrays S bd zfo w = Some (Inr (arrays, keys), w', cs)"
    and "quote_swap M amount zfo ex fee pool bitmap arrays = Inr (calc, used)"
  shows "length keys \<le> 24 \<and> used \<noteq> [] \<and> (\<forall>a \<in> set arrays. ta_pool a = bd_key bd)
    \<and> (check_used_arrays (bd_key bd) used
         (map (tick_array_address (cl_env S) (cl_program S) (bd_key bd)) used) keys
         :: ('s, unit) raydium)
      = (if length used \<le> 6 then Inr ()
         else fail (Quote (''swap requires '' @ show_nat (length used)
           @ '' tick arrays; the single-pool transaction limit is '' @ show_nat 6)))"
proof -
  from load_swap_tick_arrays_Inr [OF assms(1)] have
    ne: "arrays \<noteq> []" and len: "length keys \<le> 24" and pool: "\<forall>a \<in> set arrays. ta_pool a = bd_key bd"
    by (auto dest: swap_starts_length)
  from used_arrays_fetched [OF assms] obtain k where k: "0 < k" "used = take k (map ta_start arrays)"
    and u: "map (tick_array_address (cl_env S) (cl_program S) (bd_key bd)) used = take k keys"
    by blast
  have "list_all (\<lambda>x. x \<in> set keys)
      (map (tick_array_address (cl_env S) (cl_program S) (bd_key bd)) used)"
    unfolding u by (auto simp: list_all_iff dest: in_set_takeD)
  moreover have "used \<noteq> []" using k ne by simp
  ultimately show ?thesis using len pool by (simp add: check_used_arrays_def max_swap_tick_arrays_def)
qed

theorem swap_arrays_fetched_witness:
  "(check_used_arrays (Pubkey pool_bytes) [0] [Pubkey (33 # pool_bytes @ [0, 0, 0, 0])]
      [Pubkey (33 # pool_bytes @ [0, 0, 0, 0])] :: (nat, unit) raydium) = Inr ()"
  using swap_arrays_fetched [OF sample_arrays [of 5 True 0] sample_quote_10, where ?'s = nat]
  by (simp add: sample_parts sample_tick_array)

section \<open>A successful swap\<close>

lemma swap_direction_Inr:
  "(swap_direction bd m_in m_out :: ('s, bool) raydium) = Inr zfo \<Longrightarrow>
     m_in = mi_key (if zfo then bd_mint_0 bd else bd_mint_1 bd)
     \<and> m_out = mi_key (if zfo then bd_mint_1 bd else bd_mint_0 bd)"
  by (auto simp: swap_direction_def split: if_splits)

text \<open>A transfer fee of an amount, and the fee that has to be added so that the amount arrives.\<close>

abbreviation fee_of :: "('w, 'h, 's, 'b, 'd, 'f) clmm_client \<Rightarrow> mint_info \<Rightarrow> u64 \<Rightarrow> u64 \<Rightarrow> u64 \<Rightarrow> bool" where
  "fee_of S m epoch amount f \<equiv> (transfer_fee (cl_env S) m epoch amount :: ('s, u64) raydium) = Inr f"

abbreviation fee_for :: "('w, 'h, 's, 'b, 'd, 'f) clmm_client \<Rightarrow> mint_info \<Rightarrow> u64 \<Rightarrow> u64 \<Rightarrow> u64 \<Rightarrow> bool" where
  "fee_for S m epoch amount f \<equiv> (inverse_transfer_fee (cl_env S) m epoch amount :: ('s, u64) raydium) = Inr f"

text \<open>
  The numbers of a swap from the quote: for an exact input, the quote is asked for what arrives of
  the amount, the minimum output is the quoted output less the slippage; for an exact output, it is
  asked for what has to be sent for the amount to arrive, the maximum input is the quoted input
  with the slippage and the fee of that sum.
\<close>

definition terms_ok ::
    "('w, 'h, 's, 'b, 'd, 'f) clmm_client \<Rightarrow> bool \<Rightarrow> u64 \<Rightarrow> u64 \<Rightarrow> u64 \<Rightarrow> swap_plan \<Rightarrow> bool" where
  "terms_ok S ex epoch quoted_amt calc p \<longleftrightarrow>
     (if ex then
        (\<exists>f g. fee_of S (wp_input p) epoch (wp_amount p) f \<and> uint quoted_amt = uint (wp_amount p) - uint f
         \<and> uint (wp_threshold p) = uint calc * (10000 - uint (cl_slippage S)) div 10000
         \<and> wp_expected_input p = wp_amount p
         \<and> fee_of S (wp_output p) epoch calc g \<and> uint (wp_expected_output p) = uint calc - uint g)
      else
        (\<exists>f g h slipped. fee_for S (wp_output p) epoch (wp_amount p) f \<and> uint quoted_amt = uint (wp_amount p) + uint f
         \<and> uint slipped = (uint calc * (10000 + uint (cl_slippage S)) + 9999) div 10000
         \<and> fee_for S (wp_input p) epoch slipped h \<and> uint (wp_threshold p) = uint slipped + uint h
         \<and> wp_expected_output p = wp_amount p
         \<and> fee_for S (wp_input p) epoch calc g \<and> uint (wp_expected_input p) = uint calc + uint g))"

lemma swap_terms_in:
  fixes S :: "('w, 'h, 's, 'b, 'd, 'f) clmm_client"
  assumes "(swap_amounts (cl_env S) True input output epoch requested :: ('s, u64 \<times> u64) raydium) = Inr (amt, quoted_amt)"
    and "(swap_terms S True input output epoch requested calc :: ('s, u64 \<times> u64 \<times> u64) raydium)
      = Inr (thr, spent, received)"
  shows "amt = requested \<and> spent = requested
    \<and> uint thr = uint calc * (10000 - uint (cl_slippage S)) div 10000
    \<and> (\<exists>f. fee_of S input epoch requested f \<and> uint quoted_amt = uint requested - uint f)
    \<and> (\<exists>g. fee_of S output epoch calc g \<and> uint received = uint calc - uint g)"
  using assms slippage_down_Inr [of calc "cl_slippage S" thr]
  by (auto simp: swap_amounts_def swap_terms_def Let_def result_simps minus_fee_Inr checked_w_Some)

lemma swap_terms_out:
  fixes S :: "('w, 'h, 's, 'b, 'd, 'f) clmm_client"
  assumes "(swap_amounts (cl_env S) False input output epoch requested :: ('s, u64 \<times> u64) raydium) = Inr (amt, quoted_amt)"
    and "(swap_terms S False input output epoch requested calc :: ('s, u64 \<times> u64 \<times> u64) raydium)
      = Inr (thr, spent, received)"
  shows "amt = requested \<and> received = requested
    \<and> (\<exists>f. fee_for S output epoch requested f \<and> uint quoted_amt = uint requested + uint f)
    \<and> (\<exists>slipped h. uint slipped = (uint calc * (10000 + uint (cl_slippage S)) + 9999) div 10000
        \<and> fee_for S input epoch slipped h \<and> uint thr = uint slipped + uint h)
    \<and> (\<exists>g. fee_for S input epoch calc g \<and> uint spent = uint calc + uint g)"
proof -
  from assms obtain slipped h where s: "(apply_slippage calc (cl_slippage S) True :: ('s, u64) raydium) = Inr slipped"
    and h: "fee_for S input epoch slipped h" "checked_add_w slipped h = Some thr"
    and rest: "amt = requested" "received = requested"
      "\<exists>g. fee_for S input epoch calc g \<and> checked_add_w calc g = Some spent"
      "(plus_inverse_fee (cl_env S) output epoch ''output transfer fee overflow'' requested :: ('s, u64) raydium) = Inr quoted_amt"
    by (auto simp: swap_amounts_def swap_terms_def Let_def result_simps)
  show ?thesis
    using rest h slippage_up_Inr [OF s] unfolding plus_inverse_fee_Inr checked_w_Some by blast
qed

text \<open>
  The relation between a plan, the request and the quote behind it; the epoch and the tick arrays are
  read on the way from the world \<open>w\<close> to \<open>w'\<close>.
\<close>

definition plan_ok ::
    "('w, 'h, 's, 'b, 'd, 'f) clmm_client \<Rightarrow> 'b pool_bundle \<Rightarrow> pubkey \<Rightarrow> pubkey \<Rightarrow> pubkey \<Rightarrow> 'd \<Rightarrow> bool
      \<Rightarrow> swap_plan \<Rightarrow> 'w \<Rightarrow> 'w \<Rightarrow> bool" where
  "plan_ok S bd pool m_in m_out amount ex p w w' \<longleftrightarrow>
     wp_input p = (if wp_zero_for_one p then bd_mint_0 bd else bd_mint_1 bd)
     \<and> wp_output p = (if wp_zero_for_one p then bd_mint_1 bd else bd_mint_0 bd)
     \<and> mi_key (wp_input p) = m_in \<and> mi_key (wp_output p) = m_out
     \<and> (ui_to_raw (cl_dec S) amount (mi_decimals (if ex then wp_input p else wp_output p))
          :: ('s, u64) raydium) = Inr (wp_amount p)
     \<and> (\<exists>epoch v config quoted_amt arrays keys cs calc used.
          nd_epoch (cl_node S) w = (Inr epoch, v)
          \<and> ac_owner (bd_config_account bd) = cl_program S
          \<and> rv_decode_config (cl_env S) (ac_data (bd_config_account bd)) = Inr config
          \<and> load_swap_tick_arrays S bd (wp_zero_for_one p) v = Some (Inr (arrays, keys), w', cs)
          \<and> quote_swap (rv_math (cl_env S)) quoted_amt (wp_zero_for_one p) ex (cf_trade_fee config) (bd_pool bd)
              (bd_bitmap bd) arrays = Inr (calc, used)
          \<and> terms_ok S ex epoch quoted_amt calc p
          \<and> wp_used p = map (tick_array_address (cl_env S) (cl_program S) pool) used
          \<and> used \<noteq> [] \<and> length used \<le> 6)"

lemma plan_swap_Inr:
  fixes S :: "('w, 'h, 's, 'b, 'd, 'f) clmm_client"
  assumes "plan_swap S bd pool m_in m_out amount ex w = Some (Inr p, w', cs)"
  shows "plan_ok S bd pool m_in m_out amount ex p w w'"
proof -
  let ?in = "\<lambda>zfo. if zfo then bd_mint_0 bd else bd_mint_1 bd"
  let ?out = "\<lambda>zfo. if zfo then bd_mint_1 bd else bd_mint_0 bd"
  let ?addr = "tick_array_address (cl_env S) (cl_program S) pool"
  from assms obtain zfo v epoch requested amt quoted_amt config arrays keys c1 calc used thr spent received where
    dir: "(swap_direction bd m_in m_out :: ('s, bool) raydium) = Inr zfo"
    and ep: "nd_epoch (cl_node S) w = (Inr epoch, v)"
    and raw: "(ui_to_raw (cl_dec S) amount (mi_decimals (if ex then ?in zfo else ?out zfo))
        :: ('s, u64) raydium) = Inr requested"
    and am: "(swap_amounts (cl_env S) ex (?in zfo) (?out zfo) epoch requested :: ('s, u64 \<times> u64) raydium)
        = Inr (amt, quoted_amt)"
    and cf: "(decode_program_account S (rv_decode_config (cl_env S)) (bd_amm_config bd) (bd_config_account bd)
        :: ('s, amm_config) raydium) = Inr config"
    and arr: "load_swap_tick_arrays S bd zfo v = Some (Inr (arrays, keys), w', c1)"
    and q: "quote_swap (rv_math (cl_env S)) quoted_amt zfo ex (cf_trade_fee config) (bd_pool bd)
        (bd_bitmap bd) arrays = Inr (calc, used)"
    and ck: "(check_used_arrays pool used (map ?addr used) keys :: ('s, unit) raydium) = Inr ()"
    and tm: "(swap_terms S ex (?in zfo) (?out zfo) epoch requested calc
        :: ('s, u64 \<times> u64 \<times> u64) raydium) = Inr (thr, spent, received)"
    and p: "p = \<lparr>wp_zero_for_one = zfo, wp_input = ?in zfo, wp_output = ?out zfo, wp_amount = amt,
        wp_threshold = thr, wp_expected_input = spent, wp_expected_output = received,
        wp_used = map ?addr used\<rparr>"
    unfolding plan_swap_def Let_def
    by (clarsimp simp: run_simps map_err_Inr if_fail_Some simp del: if_split split: prod.splits)
  have used: "used \<noteq> []" "length used \<le> 6"
    using quote_prefix [OF q] ck by (auto simp: check_used_arrays_def max_swap_tick_arrays_def split: if_splits)
  have config: "ac_owner (bd_config_account bd) = cl_program S"
    "rv_decode_config (cl_env S) (ac_data (bd_config_account bd)) = Inr config"
    using cf by (auto simp: decode_program_account_def malformed_def map_err_Inr split: if_splits)
  have terms: "terms_ok S ex epoch quoted_amt calc p \<and> wp_amount p = requested"
  proof (cases ex)
    case True
    then have "ex = True" by simp
    from swap_terms_in [OF am [unfolded this] tm [unfolded this]] show ?thesis
      using True by (simp add: terms_ok_def p)
  next
    case False
    then have "ex = False" by simp
    from swap_terms_out [OF am [unfolded this] tm [unfolded this]] show ?thesis
      using False by (cases zfo) (simp_all add: terms_ok_def p, blast+)
  qed
  have "wp_input p = ?in (wp_zero_for_one p)" "wp_output p = ?out (wp_zero_for_one p)"
      "mi_key (wp_input p) = m_in" "mi_key (wp_output p) = m_out"
      "(ui_to_raw (cl_dec S) amount (mi_decimals (if ex then wp_input p else wp_output p))
          :: ('s, u64) raydium) = Inr (wp_amount p)"
      "wp_used p = map ?addr used" "wp_zero_for_one p = zfo"
    using swap_direction_Inr [OF dir] raw [folded terms [THEN conjunct2]] by (simp_all add: p split: if_splits)
  moreover have "load_swap_tick_arrays S bd (wp_zero_for_one p) v = Some (Inr (arrays, keys), w', c1)"
    "quote_swap (rv_math (cl_env S)) quoted_amt (wp_zero_for_one p) ex (cf_trade_fee config) (bd_pool bd)
        (bd_bitmap bd) arrays = Inr (calc, used)"
    using arr q by (simp_all add: p)
  ultimately show ?thesis using ep config terms used unfolding plan_ok_def by blast
qed

text \<open>A reader has only read when it succeeds.\<close>

lemma reader_reads: "reader m \<Longrightarrow> m w = Some (r, w', cs) \<Longrightarrow> list_all is_read cs"
  unfolding reader_def by (metis option.inject prod.inject)

lemma check_swap_balances_Inr:
  assumes "(check_swap_balances S input output amt thr accounts :: ('s, unit) raydium) = Inr ()"
  shows "\<exists>st. holds_tokens S (accounts ! 0) (mi_program input) (mi_key input) (cl_payer S) st
    \<and> \<not> tk_frozen st \<and> thr \<le> tk_amount st \<and> amt \<le> tk_amount st"
  using assms
  by (auto simp: check_swap_balances_def account_at_def result_simps not_less validate_token_account_def
      unpack_token_def holds_tokens_def malformed_def split: if_splits option.splits)

lemma swap_run:
  fixes S :: "('w, 'h, 's, 'b, 'd, 'f) clmm_client"
  assumes "swap S pool m_in m_out amount ex w = Some (Inr out, w', cs)"
  obtains bd p c1 c2 accounts st w1 w2 w3 ixs where "load_pool S pool w = Some (Inr bd, w1, c1)"
    and "bundle_ok S pool bd" and "plan_ok S bd pool m_in m_out amount ex p w1 w2" and "list_all is_read (c1 @ c2)"
    and "nd_accounts (cl_node S) [user_token S (wp_input p), user_token S (wp_output p)] w2 = (Inr accounts, w3)"
    and "holds_tokens S (accounts ! 0) (mi_program (wp_input p)) m_in (cl_payer S) st" and "\<not> tk_frozen st"
    and "wp_threshold p \<le> tk_amount st" and "wp_amount p \<le> tk_amount st"
    and "ixs = [ata_instruction S (wp_input p), ata_instruction S (wp_output p),
         swap_instruction S bd pool (wp_input p) (wp_output p)
           (if wp_zero_for_one p then bd_vault_0 bd else bd_vault_1 bd)
           (if wp_zero_for_one p then bd_vault_1 bd else bd_vault_0 bd)
           (wp_amount p) (wp_threshold p) ex (wp_used p)]"
    and "submit_action S ixs [] w3 = Some (Inr (wo_transaction out), w', [SubmitTx ixs []])"
    and "cs = (c1 @ c2) @ [FetchAccounts [user_token S (wp_input p), user_token S (wp_output p)], SubmitTx ixs []]"
    and "wo_quote out = \<lparr>sq_exact_in = ex, sq_input_mint = m_in, sq_output_mint = m_out,
         sq_expected_input = wp_expected_input p, sq_expected_output = wp_expected_output p,
         sq_threshold = wp_threshold p, sq_tick_arrays = wp_used p\<rparr>"
proof -
  from assms obtain bd p w1 w2 w3 c1 c2 accounts ixs where
    l: "load_pool S pool w = Some (Inr bd, w1, c1)"
    and pl: "plan_swap S bd pool m_in m_out amount ex w1 = Some (Inr p, w2, c2)"
    and n: "nd_accounts (cl_node S) [user_token S (wp_input p), user_token S (wp_output p)] w2 = (Inr accounts, w3)"
    and ck: "(check_swap_balances S (wp_input p) (wp_output p) (wp_amount p) (wp_threshold p) accounts
        :: ('s, unit) raydium) = Inr ()"
    and ixs: "ixs = [ata_instruction S (wp_input p), ata_instruction S (wp_output p),
         swap_instruction S bd pool (wp_input p) (wp_output p)
           (if wp_zero_for_one p then bd_vault_0 bd else bd_vault_1 bd)
           (if wp_zero_for_one p then bd_vault_1 bd else bd_vault_0 bd)
           (wp_amount p) (wp_threshold p) ex (wp_used p)]"
    and sub: "submit_action S ixs [] w3 = Some (Inr (wo_transaction out), w', [SubmitTx ixs []])"
    and cs: "cs = (c1 @ c2) @ [FetchAccounts [user_token S (wp_input p), user_token S (wp_output p)], SubmitTx ixs []]"
    and q: "wo_quote out = \<lparr>sq_exact_in = ex, sq_input_mint = m_in, sq_output_mint = m_out,
         sq_expected_input = wp_expected_input p, sq_expected_output = wp_expected_output p,
         sq_threshold = wp_threshold p, sq_tick_arrays = wp_used p\<rparr>"
    unfolding swap_def Let_def
    by (clarsimp simp: run_simps submit_Some simp del: if_split)
  have r: "list_all is_read (c1 @ c2)"
    using reader_reads [OF reader_loading(1) l] reader_reads [OF reader_plan pl] by simp
  obtain st where st: "holds_tokens S (accounts ! 0) (mi_program (wp_input p)) (mi_key (wp_input p)) (cl_payer S) st"
    "\<not> tk_frozen st" "wp_threshold p \<le> tk_amount st" "wp_amount p \<le> tk_amount st"
    using check_swap_balances_Inr [OF ck] by blast
  have b: "bundle_ok S pool bd" by (rule load_pool_Inr [OF l])
  have m: "mi_key (wp_input p) = m_in" using plan_swap_Inr [OF pl] unfolding plan_ok_def by blast
  show thesis
    by (rule that [OF l b plan_swap_Inr [OF pl] r n st(1) [unfolded m] st(2-4) ixs sub cs q])
qed

text \<open>
  C9. What a successful swap did. It read only, then sent exactly one transaction: the two
  associated accounts are made to exist and one swap instruction follows, between the mints asked
  for, for exactly the raw amount of the request, over one to six tick arrays in the order the quote
  crossed them. The threshold is exactly this: for an exact input, the quoted output less the slippage,
  rounded down; for an exact output, the quoted input plus the slippage, rounded up, plus the transfer
  fee of that sum. The quote is of the loaded pool, for the amount less its transfer fee (exact input) or
  for the amount plus the fee with which it arrives in full (exact output).
  The last read was of the payer's two token accounts; the input account read there is the payer's, of
  the input mint, not frozen, and its balance covers the amount and the threshold. The outcome
  reports these numbers.
\<close>

theorem swap_submits:
  fixes S :: "('w, 'h, 's, 'b, 'd, 'f) clmm_client"
  assumes "swap S pool m_in m_out amount ex w = Some (Inr out, w', cs)"
  shows "\<exists>bd p c1 c2 accounts st w1 w2 w3 ixs. load_pool S pool w = Some (Inr bd, w1, c1)
    \<and> bundle_ok S pool bd \<and> plan_ok S bd pool m_in m_out amount ex p w1 w2 \<and> list_all is_read (c1 @ c2)
    \<and> nd_accounts (cl_node S) [user_token S (wp_input p), user_token S (wp_output p)] w2 = (Inr accounts, w3)
    \<and> holds_tokens S (accounts ! 0) (mi_program (wp_input p)) m_in (cl_payer S) st \<and> \<not> tk_frozen st
    \<and> wp_threshold p \<le> tk_amount st \<and> wp_amount p \<le> tk_amount st
    \<and> ixs = [ata_instruction S (wp_input p), ata_instruction S (wp_output p),
         swap_instruction S bd pool (wp_input p) (wp_output p)
           (if wp_zero_for_one p then bd_vault_0 bd else bd_vault_1 bd)
           (if wp_zero_for_one p then bd_vault_1 bd else bd_vault_0 bd)
           (wp_amount p) (wp_threshold p) ex (wp_used p)]
    \<and> submit_action S ixs [] w3 = Some (Inr (wo_transaction out), w', [SubmitTx ixs []])
    \<and> cs = (c1 @ c2) @ [FetchAccounts [user_token S (wp_input p), user_token S (wp_output p)], SubmitTx ixs []]
    \<and> wo_quote out = \<lparr>sq_exact_in = ex, sq_input_mint = m_in, sq_output_mint = m_out,
         sq_expected_input = wp_expected_input p, sq_expected_output = wp_expected_output p,
         sq_threshold = wp_threshold p, sq_tick_arrays = wp_used p\<rparr>"
  by (rule swap_run [OF assms]) blast

theorem swap_submits_witness:
  "\<exists>out w' reads ixs. swap (sample_client 1000) (Pubkey pool_bytes) (Pubkey [10]) (Pubkey [11]) 10 True 5
      = Some (Inr out, w', reads @ [SubmitTx ixs []]) \<and> sq_exact_in (wo_quote out) \<and> length ixs = 3"
proof -
  obtain out cs where s: "swap (sample_client 1000) (Pubkey pool_bytes) (Pubkey [10]) (Pubkey [11]) 10
      True 5 = Some (Inr out, 5 + 4, cs)" using sample_swap_sent [of 1000 5] by auto
  from swap_submits [OF s] obtain reads c ixs where "cs = (reads @ [c]) @ [SubmitTx ixs []]" "length ixs = 3"
    "sq_exact_in (wo_quote out)" by auto
  with s show ?thesis by blast
qed

section \<open>Limits that do not say what they are meant to\<close>

text \<open>
  The balance check of a swap compares the balance of the input token with the larger of the
  amount and the threshold. The threshold of an exact-input swap is an amount of the output
  token: a payer with exactly the 10 units the swap spends is refused for not holding 950
  units, the minimum output, and nothing is sent.
\<close>

theorem swap_balance_rejects:
  "swap (sample_client 10) (Pubkey pool_bytes) (Pubkey [10]) (Pubkey [11]) 10 True w
     = Some (fail (InsufficientBalance (Pubkey [10]) 950 10), w, swap_reads)
   \<and> (\<exists>p calls. plan_swap (sample_client 10) (sample_bundle 10) (Pubkey pool_bytes) (Pubkey [10])
        (Pubkey [11]) 10 True w = Some (Inr p, w, calls) \<and> wp_amount p = 10 \<and> wp_expected_output p = 1000)"
  using sample_swap_rejected [of 10 w] sample_plan [of 10 w] by (simp add: sample_plan_def)

text \<open>
  The threshold of an exact-input swap is taken from the quoted output, the expected output
  from what is left of it after the transfer fee. When the fee exceeds the slippage, the swap
  demands more than it expects to receive.
\<close>

theorem threshold_above_expected:
  assumes "(swap_terms S True input output epoch requested calc :: ('s, u64 \<times> u64 \<times> u64) raydium)
      = Inr (thr, spent, received)"
    and "(transfer_fee (cl_env S) output epoch calc :: ('s, u64) raydium) = Inr fee"
    and "uint calc * uint (cl_slippage S) \<le> 10000 * (uint fee - 1)"
  shows "received < thr"
proof -
  from assms(1,2) have t: "(apply_slippage calc (cl_slippage S) False :: ('s, u64) raydium) = Inr thr"
    and r: "uint received = uint calc - uint fee"
    by (auto simp: swap_terms_def Let_def result_simps checked_w_Some)
  have "(uint calc - uint fee + 1) * 10000 \<le> uint calc * (10000 - uint (cl_slippage S))"
    using assms(3) by (simp add: algebra_simps)
  from zdiv_mono1 [OF this, of 10000] have "uint calc - uint fee + 1 \<le> uint thr"
    using slippage_down_Inr [OF t] by simp
  then show ?thesis using r by (simp add: word_less_def)
qed

text \<open>The sample with a mint that keeps a tenth of every transfer.\<close>

definition tax_env :: "unit raydium_env" where
  "tax_env = (sample_env 10)\<lparr>rv_unpack_mint := (\<lambda>_. Inr \<lparr>ms_decimals = 0, ms_supply = 1,
     ms_extensions = Inr [], ms_fee = Some (\<lambda>_ a. Some (a div 10)), ms_inverse_fee = None\<rparr>)\<rparr>"

definition tax_mint :: mint_info where
  "tax_mint = \<lparr>mi_key = Pubkey [11], mi_program = Pubkey [2], mi_decimals = 0, mi_data = []\<rparr>"

theorem threshold_above_expected_witness:
  "(swap_terms ((sample_client 10)\<lparr>cl_env := tax_env\<rparr>) True (sample_mint [10]) tax_mint 0 10 1000
      :: (nat, u64 \<times> u64 \<times> u64) raydium) = Inr (950, 10, 900)
   \<and> (900::u64) < 950"
proof -
  let ?S = "(sample_client 10)\<lparr>cl_env := tax_env\<rparr>"
  have f: "(transfer_fee (cl_env ?S) tax_mint 0 1000 :: (nat, u64) raydium) = Inr 100"
    by (simp add: transfer_fee_def tax_env_def tax_mint_def sample_parts unpack_mint_def)
  then have t: "(swap_terms ?S True (sample_mint [10]) tax_mint 0 10 1000
      :: (nat, u64 \<times> u64 \<times> u64) raydium) = Inr (950, 10, 900)"
    by (simp add: swap_terms_def sample_parts slippage_down checked_sub_w_def)
  with threshold_above_expected [OF t f] show ?thesis by (simp add: sample_parts)
qed

end
