(* ===== verification/Orchestrator.thy ===== *)
theory Orchestrator
  imports Clmm_Actions
begin

text \<open>
  The crate \<open>raydium-clmm-orchestrator\<close> (\<open>crates/raydium-clmm-orchestrator/src/lib.rs\<close>): the admin
  orchestrator, the creation of a pool, the funding of a user and the user flow, as actions on
  the same world as the client's. \<open>Pubkey::from_str\<close> is a parameter; spans and log lines are left
  out.
\<close>

section \<open>Errors and configuration\<close>

datatype 's orchestration_error =
    InvalidFlowInput string
  | MissingProgram pubkey
  | InvalidProgram pubkey
  | MissingAmmConfig pubkey
  | MalformedAmmConfig pubkey pubkey pubkey  \<comment> \<open>config, expected owner, actual owner\<close>
  | MissingMint pubkey
  | MalformedMint pubkey string
  | UnsupportedMint pubkey string
  | FlowRpc string
  | FundingSubmission "'s submission_error"
  | Raydium "'s raydium_error"

type_synonym ('s, 'a) orchestration = "'s orchestration_error fault + 'a"

type_synonym ('w, 's, 'a) flow = "('w, 's orchestration_error fault, client_call, 'a) run"

abbreviation refuse :: "'s orchestration_error \<Rightarrow> ('s, 'a) orchestration" where
  "refuse e \<equiv> Inl (Raised e)"

text \<open>\<open>From<RaydiumClmmError>\<close>, on a result and on an action.\<close>

definition of_raydium :: "('s, 'a) raydium \<Rightarrow> ('s, 'a) orchestration" where
  "of_raydium r = map_err (\<lambda>e. case e of Panic \<Rightarrow> Panic | Raised x \<Rightarrow> Raised (Raydium x)) r"

definition lift_action :: "('w, 's, 'a) action \<Rightarrow> ('w, 's, 'a) flow" where
  "lift_action m = (\<lambda>w. case m w of None \<Rightarrow> None | Some (r, w1, cs) \<Rightarrow> Some (of_raydium r, w1, cs))"

record orchestration_config =
  oc_slippage :: u16
  oc_unit_limit :: u32
  oc_unit_price :: u64
  oc_commitment :: commitment

definition default_orchestration :: orchestration_config where
  "default_orchestration =
     \<lparr>oc_slippage = 50, oc_unit_limit = 1400000, oc_unit_price = 0, oc_commitment = Confirmed\<rparr>"

text \<open>The chain client of the orchestrator is the node of its Raydium client, the payer its payer.\<close>

record ('w, 'h, 's, 'b, 'd, 'f) orchestrator =
  or_client :: "('w, 'h, 's, 'b, 'd, 'f) clmm_client"
  or_mint_authority :: pubkey
  or_funding :: submission_config
  or_pubkey :: "string \<Rightarrow> string + pubkey"  \<comment> \<open>\<open>Pubkey::from_str\<close>\<close>

definition orchestrator_new ::
    "'b raydium_env \<Rightarrow> ('w, 'h, 's) clmm_node \<Rightarrow> ('d, 'f) dec_ops \<Rightarrow> (string \<Rightarrow> string + pubkey)
      \<Rightarrow> pubkey \<Rightarrow> pubkey \<Rightarrow> pubkey \<Rightarrow> orchestration_config
      \<Rightarrow> ('s, ('w, 'h, 's, 'b, 'd, 'f) orchestrator) orchestration" where
  "orchestrator_new V N D parse program payer mint_authority c =
     bindR (of_raydium (clmm_new V N D program payer (oc_slippage c) (oc_unit_limit c)
              (oc_unit_price c) (oc_commitment c))) (\<lambda>S.
     Inr \<lparr>or_client = S, or_mint_authority = mint_authority,
       or_funding = default_submission\<lparr>sc_unit_limit := oc_unit_limit c,
         sc_unit_price := oc_unit_price c, sc_commitment := oc_commitment c\<rparr>,
       or_pubkey = parse\<rparr>)"

definition derive_pool_address_flow ::
    "'b raydium_env \<Rightarrow> pubkey \<Rightarrow> pubkey \<Rightarrow> pubkey \<Rightarrow> pubkey \<Rightarrow> ('s, pubkey) orchestration" where
  "derive_pool_address_flow V program amm mint_a mint_b =
     of_raydium (derive_pool_address V program amm mint_a mint_b)"

section \<open>The admin orchestrator\<close>

record ('w, 'h, 's, 'b, 'd, 'f) admin_orchestrator =
  ao_client :: "('w, 'h, 's, 'b, 'd, 'f) clmm_client"
  ao_program :: pubkey
  ao_admin :: pubkey

definition admin_new ::
    "'b raydium_env \<Rightarrow> ('w, 'h, 's) clmm_node \<Rightarrow> ('d, 'f) dec_ops \<Rightarrow> pubkey \<Rightarrow> pubkey \<Rightarrow> u32 \<Rightarrow> u64
      \<Rightarrow> commitment \<Rightarrow> ('s, ('w, 'h, 's, 'b, 'd, 'f) admin_orchestrator) orchestration" where
  "admin_new V N D program admin units price level =
     bindR (of_raydium (clmm_new V N D program admin 0 units price level)) (\<lambda>S.
     Inr \<lparr>ao_client = S, ao_program = program, ao_admin = admin\<rparr>)"

definition admin_ensure_config ::
    "('w, 'h, 's, 'b, 'd, 'f) admin_orchestrator \<Rightarrow> amm_config_params \<Rightarrow> ('w, 's, 's config_outcome) flow" where
  "admin_ensure_config A p = lift_action (ensure_amm_config (ao_client A) p)"

section \<open>Parameters\<close>

record 'd pool_creation_params =
  pc_amm_config :: pubkey
  pc_mint_a :: pubkey
  pc_mint_b :: pubkey
  pc_initial_price :: 'd
  pc_open_time :: "u64 option"

record 'd user_flow_params =
  uf_amm_config :: pubkey
  uf_pool :: pubkey
  uf_mint_a :: pubkey
  uf_mint_b :: pubkey
  uf_funding_a :: 'd
  uf_funding_b :: 'd
  uf_lower_price :: 'd
  uf_upper_price :: 'd
  uf_open_amount :: 'd
  uf_increase_amount :: 'd
  uf_exact_in :: 'd
  uf_exact_out :: 'd
  uf_with_metadata :: bool

definition flow_positive :: "('d, 'f) dec_ops \<Rightarrow> 'd \<Rightarrow> string \<Rightarrow> ('s, unit) orchestration" where
  "flow_positive D v name =
     (if dec_le D v (dec_zero D) then refuse (InvalidFlowInput (name @ '' must be greater than zero''))
      else Inr ())"

definition validate_pool_creation_params ::
    "('d, 'f) dec_ops \<Rightarrow> 'd pool_creation_params \<Rightarrow> ('s, unit) orchestration" where
  "validate_pool_creation_params D p =
     (if pc_mint_a p = pc_mint_b p then refuse (InvalidFlowInput ''mint_a and mint_b must differ'')
      else flow_positive D (pc_initial_price p) ''initial_price'')"

fun all_positive :: "('d, 'f) dec_ops \<Rightarrow> (string \<times> 'd) list \<Rightarrow> ('s, unit) orchestration" where
  "all_positive D [] = Inr ()"
| "all_positive D ((name, v) # rest) = bindR (flow_positive D v name) (\<lambda>_. all_positive D rest)"

definition validate_user_flow_params ::
    "('d, 'f) dec_ops \<Rightarrow> 'd user_flow_params \<Rightarrow> ('s, unit) orchestration" where
  "validate_user_flow_params D p =
     (if uf_mint_a p = uf_mint_b p then refuse (InvalidFlowInput ''mint_a and mint_b must differ'')
      else
      bindR (all_positive D
        [(''funding_a'', uf_funding_a p), (''funding_b'', uf_funding_b p),
         (''lower_price'', uf_lower_price p), (''upper_price'', uf_upper_price p),
         (''open_amount'', uf_open_amount p), (''increase_amount'', uf_increase_amount p),
         (''exact_in_amount'', uf_exact_in p), (''exact_out_amount'', uf_exact_out p)]) (\<lambda>_.
      if dec_le D (uf_upper_price p) (uf_lower_price p) then
        refuse (InvalidFlowInput ''lower_price must be less than upper_price'')
      else Inr ()))"

text \<open>The price range in the order of the pool's mints.\<close>

definition normalized_range ::
    "('d, 'f) dec_ops \<Rightarrow> pubkey \<Rightarrow> pubkey \<Rightarrow> 'd \<Rightarrow> 'd \<Rightarrow> ('s, 'd \<times> 'd) orchestration" where
  "normalized_range D mint_a mint_b lower upper =
     (if mint_a < mint_b then Inr (lower, upper)
      else
      bindR (ok_or (dec_div D (dec_one D) upper)
               (Raised (InvalidFlowInput ''upper price inversion failed''))) (\<lambda>normalized_lower.
      bindR (ok_or (dec_div D (dec_one D) lower)
               (Raised (InvalidFlowInput ''lower price inversion failed''))) (\<lambda>normalized_upper.
      Inr (normalized_lower, normalized_upper))))"

text \<open>\<open>10_u64.checked_pow\<close> and the conversion of a UI amount.\<close>

definition checked_pow10_u64 :: "u8 \<Rightarrow> u64 option" where
  "checked_pow10_u64 d = (if (10::nat) ^ unat d < 2 ^ 64 then Some (10 ^ unat d) else None)"

definition flow_ui_to_raw :: "('d, 'f) dec_ops \<Rightarrow> 'd \<Rightarrow> u8 \<Rightarrow> ('s, u64) orchestration" where
  "flow_ui_to_raw D amount decimals =
     bindR (ok_or (checked_pow10_u64 decimals) (Raised (InvalidFlowInput
              (''mint decimals '' @ show_nat (unat decimals) @ '' cannot be represented as a u64 scale''))))
       (\<lambda>factor_raw.
     bindR (ok_or (dec_mul D amount (dec_of_u64 D factor_raw))
              (Raised (InvalidFlowInput ''token amount overflow''))) (\<lambda>scaled.
     if \<not> dec_eq D (dec_fract D scaled) (dec_zero D) then
       refuse (InvalidFlowInput (''token amount has more than '' @ show_nat (unat decimals)
         @ '' decimal places''))
     else ok_or (dec_to_u64 D scaled) (Raised (InvalidFlowInput ''token amount exceeds u64''))))"

section \<open>Mints and token accounts\<close>

definition classic_token_id :: string where
  "classic_token_id = ''TokenkegQfeZyiNwAJbNbGKPFXCWuBvf9Ss623VQ5DA''"

definition token_2022_id :: string where
  "token_2022_id = ''TokenzQdBNbLqP5VEhdkAS6EPFLC1PHnBqCXEpPxuEb''"

definition associated_program_id :: string where
  "associated_program_id = ''ATokenGPvbdGVxr1b2hvZbsiqW5xWH25efTNsLJA8knL''"

definition parse_program_id ::
    "(string \<Rightarrow> string + pubkey) \<Rightarrow> string \<Rightarrow> ('s, pubkey) orchestration" where
  "parse_program_id parse t =
     map_err (\<lambda>e. Raised (InvalidFlowInput (''invalid program ID: '' @ e))) (parse t)"

record funding_mint =
  fm_program :: pubkey
  fm_decimals :: u8

definition mint_base_len :: nat where "mint_base_len = 82"

definition mint_authority_offset :: nat where "mint_authority_offset = 4"

definition mint_authority_end :: nat where "mint_authority_end = 36"

definition mint_decimals_offset :: nat where "mint_decimals_offset = 44"

definition decode_funding_mint ::
    "('w, 'h, 's, 'b, 'd, 'f) orchestrator \<Rightarrow> pubkey \<Rightarrow> account option \<Rightarrow> pubkey
      \<Rightarrow> ('s, funding_mint) orchestration" where
  "decode_funding_mint P key found expected =
     (let show_key = rv_show_key (cl_env (or_client P)) in
      bindR (ok_or found (Raised (MissingMint key))) (\<lambda>a.
      bindR (parse_program_id (or_pubkey P) classic_token_id) (\<lambda>classic.
      bindR (parse_program_id (or_pubkey P) token_2022_id) (\<lambda>token_2022.
      if ac_owner a \<noteq> classic \<and> ac_owner a \<noteq> token_2022 then
        refuse (UnsupportedMint key (''unsupported token program '' @ show_key (ac_owner a)))
      else if length (ac_data a) < mint_base_len then
        refuse (MalformedMint key (''mint data is only '' @ show_nat (length (ac_data a)) @ '' bytes''))
      else if of_le_bytes (take mint_authority_offset (ac_data a)) \<noteq> 1 then
        refuse (UnsupportedMint key ''mint has no mint authority'')
      else
      let authority = Pubkey (take (mint_authority_end - mint_authority_offset)
                                (drop mint_authority_offset (ac_data a))) in
      if authority \<noteq> expected then
        refuse (UnsupportedMint key (''mint authority is '' @ show_key authority
          @ '', but injected signer is '' @ show_key expected))
      else Inr \<lparr>fm_program = ac_owner a, fm_decimals = ac_data a ! mint_decimals_offset\<rparr>))))"

definition flow_token_address ::
    "('w, 'h, 's, 'b, 'd, 'f) orchestrator \<Rightarrow> pubkey \<Rightarrow> pubkey \<Rightarrow> pubkey \<Rightarrow> ('s, pubkey) orchestration" where
  "flow_token_address P own mint program =
     bindR (parse_program_id (or_pubkey P) associated_program_id) (\<lambda>associated.
     Inr (rv_find_pda (cl_env (or_client P)) [pk_bytes own, pk_bytes program, pk_bytes mint] associated))"

definition create_ata_raw ::
    "pubkey \<Rightarrow> pubkey \<Rightarrow> pubkey \<Rightarrow> pubkey \<Rightarrow> pubkey \<Rightarrow> pubkey \<Rightarrow> instruction" where
  "create_ata_raw associated payer own mint program ata =
     Invoke \<lparr>ix_program = associated,
       ix_accounts = [writable_meta payer True, writable_meta ata False, readonly_meta own False,
         readonly_meta mint False, readonly_meta default_pubkey False, readonly_meta program False],
       ix_data = [1]\<rparr>"

definition flow_create_ata ::
    "('w, 'h, 's, 'b, 'd, 'f) orchestrator \<Rightarrow> pubkey \<Rightarrow> pubkey \<Rightarrow> pubkey \<Rightarrow> pubkey \<Rightarrow> pubkey
      \<Rightarrow> ('s, instruction) orchestration" where
  "flow_create_ata P payer own mint program ata =
     bindR (parse_program_id (or_pubkey P) associated_program_id) (\<lambda>associated.
     Inr (create_ata_raw associated payer own mint program ata))"

definition mint_to_checked ::
    "pubkey \<Rightarrow> pubkey \<Rightarrow> pubkey \<Rightarrow> pubkey \<Rightarrow> u64 \<Rightarrow> u8 \<Rightarrow> instruction" where
  "mint_to_checked mint destination authority program amount decimals =
     Invoke \<lparr>ix_program = program,
       ix_accounts = [writable_meta mint False, writable_meta destination False,
         readonly_meta authority True],
       ix_data = 14 # u64_bytes amount @ [decimals]\<rparr>"

section \<open>Funding\<close>

text \<open>\<open>accounts.get(i).and_then(Option::as_ref)\<close>.\<close>

definition account_found :: "account option list \<Rightarrow> nat \<Rightarrow> account option" where
  "account_found accounts i = (if i < length accounts then accounts ! i else None)"

definition flow_accounts ::
    "('w, 'h, 's, 'b, 'd, 'f) orchestrator \<Rightarrow> pubkey list \<Rightarrow> ('w, 's, account option list) flow" where
  "flow_accounts P keys = (\<lambda>w.
     let (r, w1) = nd_accounts (cl_node (or_client P)) keys w
     in Some (map_err (\<lambda>t. Raised (FlowRpc t)) r, w1, [FetchAccounts keys]))"

definition flow_submit ::
    "('w, 'h, 's, 'b, 'd, 'f) orchestrator \<Rightarrow> instruction list \<Rightarrow> ('w, 's, 's outcome) flow" where
  "flow_submit P ixs = (\<lambda>w.
     let N = cl_node (or_client P); extra = [or_mint_authority P] in
     case submit (nd_rpc N) (nd_fuel N) ixs (cl_payer (or_client P)) extra (or_funding P) w of
       None \<Rightarrow> None
     | Some (r, w1, _) \<Rightarrow> Some (map_err (\<lambda>e. Raised (FundingSubmission e)) r, w1, [SubmitTx ixs extra]))"

record funding_plan =
  fp_instructions :: "instruction list"
  fp_account_a :: pubkey
  fp_account_b :: pubkey
  fp_raw_a :: u64
  fp_raw_b :: u64

record 's funding_outcome =
  fo_transaction :: "'s outcome"
  fo_account_a :: pubkey
  fo_account_b :: pubkey
  fo_raw_a :: u64
  fo_raw_b :: u64

text \<open>Everything of the funding between the read of the mints and the submission.\<close>

definition plan_funding ::
    "('w, 'h, 's, 'b, 'd, 'f) orchestrator \<Rightarrow> pubkey \<Rightarrow> 'd \<Rightarrow> pubkey \<Rightarrow> 'd \<Rightarrow> account option list
      \<Rightarrow> ('s, funding_plan) orchestration" where
  "plan_funding P mint_a amount_a mint_b amount_b accounts =
     (let D = cl_dec (or_client P); payer = cl_payer (or_client P); authority = or_mint_authority P in
      bindR (decode_funding_mint P mint_a (account_found accounts 0) authority) (\<lambda>info_a.
      bindR (decode_funding_mint P mint_b (account_found accounts 1) authority) (\<lambda>info_b.
      bindR (flow_ui_to_raw D amount_a (fm_decimals info_a)) (\<lambda>raw_a.
      bindR (flow_ui_to_raw D amount_b (fm_decimals info_b)) (\<lambda>raw_b.
      bindR (flow_token_address P payer mint_a (fm_program info_a)) (\<lambda>account_a.
      bindR (flow_token_address P payer mint_b (fm_program info_b)) (\<lambda>account_b.
      bindR (flow_create_ata P payer payer mint_a (fm_program info_a) account_a) (\<lambda>create_a.
      bindR (flow_create_ata P payer payer mint_b (fm_program info_b) account_b) (\<lambda>create_b.
      Inr \<lparr>fp_instructions =
          [create_a,
           mint_to_checked mint_a account_a authority (fm_program info_a) raw_a (fm_decimals info_a),
           create_b,
           mint_to_checked mint_b account_b authority (fm_program info_b) raw_b (fm_decimals info_b)],
        fp_account_a = account_a, fp_account_b = account_b, fp_raw_a = raw_a, fp_raw_b = raw_b\<rparr>)))))))))"

definition fund_payer ::
    "('w, 'h, 's, 'b, 'd, 'f) orchestrator \<Rightarrow> pubkey \<Rightarrow> 'd \<Rightarrow> pubkey \<Rightarrow> 'd \<Rightarrow> ('w, 's, 's funding_outcome) flow" where
  "fund_payer P mint_a amount_a mint_b amount_b =
     (let D = cl_dec (or_client P) in
      bindA (pureA (flow_positive D amount_a ''funding_a'')) (\<lambda>_.
      bindA (pureA (flow_positive D amount_b ''funding_b'')) (\<lambda>_.
      bindA (pureA (if mint_a = mint_b then refuse (InvalidFlowInput ''funding mints must be different'')
                    else Inr ())) (\<lambda>_.
      bindA (flow_accounts P [mint_a, mint_b]) (\<lambda>accounts.
      bindA (pureA (plan_funding P mint_a amount_a mint_b amount_b accounts)) (\<lambda>p.
      bindA (flow_submit P (fp_instructions p)) (\<lambda>t.
      pureA (Inr \<lparr>fo_transaction = t, fo_account_a = fp_account_a p, fo_account_b = fp_account_b p,
        fo_raw_a = fp_raw_a p, fo_raw_b = fp_raw_b p\<rparr>))))))))"

section \<open>The flows\<close>

definition check_prerequisites ::
    "('w, 'h, 's, 'b, 'd, 'f) orchestrator \<Rightarrow> pubkey \<Rightarrow> account option list \<Rightarrow> ('s, unit) orchestration" where
  "check_prerequisites P amm accounts =
     (let program_id = cl_program (or_client P) in
      bindR (ok_or (account_found accounts 0) (Raised (MissingProgram program_id))) (\<lambda>program.
      if \<not> ac_executable program then refuse (InvalidProgram program_id)
      else
      bindR (ok_or (account_found accounts 1) (Raised (MissingAmmConfig amm))) (\<lambda>config.
      if ac_owner config \<noteq> program_id then refuse (MalformedAmmConfig amm program_id (ac_owner config))
      else Inr ())))"

definition validate_prerequisites ::
    "('w, 'h, 's, 'b, 'd, 'f) orchestrator \<Rightarrow> pubkey \<Rightarrow> ('w, 's, unit) flow" where
  "validate_prerequisites P amm =
     bindA (flow_accounts P [cl_program (or_client P), amm]) (\<lambda>accounts.
     pureA (check_prerequisites P amm accounts))"

definition create_pool_flow ::
    "('w, 'h, 's, 'b, 'd, 'f) orchestrator \<Rightarrow> 'd pool_creation_params
      \<Rightarrow> ('w, 's, ('s, 'd) create_pool_outcome) flow" where
  "create_pool_flow P p =
     bindA (pureA (validate_pool_creation_params (cl_dec (or_client P)) p)) (\<lambda>_.
     bindA (validate_prerequisites P (pc_amm_config p)) (\<lambda>_.
     lift_action (create_pool (or_client P)
       \<lparr>cr_amm_config = pc_amm_config p, cr_mint_a = pc_mint_a p, cr_mint_b = pc_mint_b p,
        cr_initial_price = pc_initial_price p, cr_open_time = pc_open_time p\<rparr>)))"

record 's user_flow_outcome =
  ut_funding :: "'s funding_outcome"
  ut_open :: "'s position_outcome"
  ut_increase :: "'s position_outcome"
  ut_exact_in :: "'s swap_outcome"
  ut_exact_out :: "'s swap_outcome"
  ut_decrease :: "'s position_outcome"
  ut_collect :: "'s outcome \<times> position_accounts"
  ut_close :: "'s close_outcome"

definition run_user_flow ::
    "('w, 'h, 's, 'b, 'd, 'f) orchestrator \<Rightarrow> 'd user_flow_params \<Rightarrow> ('w, 's, 's user_flow_outcome) flow" where
  "run_user_flow P p =
     (let S = or_client P; D = cl_dec S; a = uf_mint_a p; b = uf_mint_b p; pool = uf_pool p in
      bindA (pureA (validate_user_flow_params D p)) (\<lambda>_.
      bindA (validate_prerequisites P (uf_amm_config p)) (\<lambda>_.
      bindA (fund_payer P a (uf_funding_a p) b (uf_funding_b p)) (\<lambda>funding.
      bindA (pureA (normalized_range D a b (uf_lower_price p) (uf_upper_price p))) (\<lambda>(lower, upper).
      bindA (lift_action (open_position S
               \<lparr>on_pool = pool, on_lower_price = lower, on_upper_price = upper,
                on_input = \<lparr>ta_mint = a, ta_amount = uf_open_amount p\<rparr>,
                on_with_metadata = uf_with_metadata p\<rparr>)) (\<lambda>opened.
      let nft = po_nft_mint (so_accounts opened) in
      bindA (lift_action (increase_liquidity S nft \<lparr>ta_mint = a, ta_amount = uf_increase_amount p\<rparr>)) (\<lambda>increased.
      bindA (lift_action (swap_exact_in S pool a b (uf_exact_in p))) (\<lambda>swapped_in.
      bindA (lift_action (swap_exact_out S pool b a (uf_exact_out p))) (\<lambda>swapped_out.
      bindA (lift_action (decrease_liquidity S nft None)) (\<lambda>decreased.
      bindA (lift_action (collect_position S nft)) (\<lambda>collected.
      bindA (lift_action (close_position S nft)) (\<lambda>closed.
      pureA (Inr \<lparr>ut_funding = funding, ut_open = opened, ut_increase = increased,
        ut_exact_in = swapped_in, ut_exact_out = swapped_out, ut_decrease = decreased,
        ut_collect = collected, ut_close = closed\<rparr>)))))))))))))"

end
