(* ===== verification/Orchestrator_Flow.thy ===== *)
theory Orchestrator_Flow
  imports Orchestrator Clmm_Swaps
begin

text \<open>
  What the orchestrator's flows do: how many transactions a run sends and in which order, what the
  funding mints, and when its amounts agree with the client's.
\<close>

section \<open>Submissions of a run\<close>

named_theorems flow_intros

definition submissions :: "client_call list \<Rightarrow> client_call list" where
  "submissions cs = filter (\<lambda>c. \<not> is_read c) cs"

lemma submissions_simps [simp]:
  "submissions [] = []" "submissions (cs @ ds) = submissions cs @ submissions ds"
  "submissions (SubmitTx ixs extra # cs) = SubmitTx ixs extra # submissions cs"
  "submissions (FetchAccounts keys # cs) = submissions cs" "submissions (FetchEpoch # cs) = submissions cs"
  by (simp_all add: submissions_def)

lemma submissions_reads: "list_all is_read cs \<Longrightarrow> submissions cs = []"
  by (simp add: submissions_def filter_empty_conv list_all_iff)

text \<open>
  A run \<open>sends n\<close> when it returns from every world, has sent at most \<open>n\<close> transactions, and exactly
  \<open>n\<close> when it succeeds.
\<close>

definition sends :: "nat \<Rightarrow> ('w, 'e, client_call, 'a) run \<Rightarrow> bool" where
  "sends n m \<longleftrightarrow> (\<forall>w. \<exists>r w' cs. m w = Some (r, w', cs) \<and> length (submissions cs) \<le> n
     \<and> (\<forall>x. r = Inr x \<longrightarrow> length (submissions cs) = n))"

lemma sends_pure [flow_intros]: "sends 0 (pureA r)"
  by (simp add: sends_def pureA_def)

lemma sends_bind [flow_intros]:
  assumes m: "sends n m" and f: "\<And>x. sends k (f x)"
  shows "sends (n + k) (bindA m f)"
  unfolding sends_def
proof
  fix w
  from m obtain r w1 cs where m1: "m w = Some (r, w1, cs)" "length (submissions cs) \<le> n"
    "\<And>x. r = Inr x \<Longrightarrow> length (submissions cs) = n" unfolding sends_def by metis
  show "\<exists>r w' cs. bindA m f w = Some (r, w', cs) \<and> length (submissions cs) \<le> n + k
     \<and> (\<forall>x. r = Inr x \<longrightarrow> length (submissions cs) = n + k)"
  proof (cases r)
    case (Inl e)
    then show ?thesis using m1 by (auto simp: bindA_def)
  next
    case (Inr x)
    from f obtain r2 w2 ds where "f x w1 = Some (r2, w2, ds)" "length (submissions ds) \<le> k"
      "\<And>y. r2 = Inr y \<Longrightarrow> length (submissions ds) = k" unfolding sends_def by metis
    then show ?thesis using m1 Inr by (auto simp: bindA_def)
  qed
qed

text \<open>The number of transactions is the sum over the steps.\<close>

lemma sends_sum: "sends k m \<Longrightarrow> k = n \<Longrightarrow> sends n m"
  by simp

lemma sends_prod [flow_intros]: "(\<And>x y. sends n (f x y)) \<Longrightarrow> sends n (case p of (x, y) \<Rightarrow> f x y)"
  by (cases p) simp

lemma sends_transacts: "transacts m \<Longrightarrow> sends 1 m"
  unfolding transacts_def sends_def
proof
  fix w
  assume "\<forall>w. \<exists>r w' cs. m w = Some (r, w', cs) \<and> (unsent r cs \<or> sent_once r cs)"
  then obtain r w' cs where "m w = Some (r, w', cs)" and "unsent r cs \<or> sent_once r cs" by blast
  moreover from this(2) have "length (submissions cs) \<le> 1 \<and> (\<forall>x. r = Inr x \<longrightarrow> length (submissions cs) = 1)"
    by (auto simp: unsent_def sent_once_def submissions_reads)
  ultimately show "\<exists>r w' cs. m w = Some (r, w', cs) \<and> length (submissions cs) \<le> 1
     \<and> (\<forall>x. r = Inr x \<longrightarrow> length (submissions cs) = 1)" by blast
qed

lemma sends_lift [flow_intros]: "sends n m \<Longrightarrow> sends n (lift_action m)"
  unfolding sends_def lift_action_def
proof
  fix w
  assume "\<forall>w. \<exists>r w' cs. m w = Some (r, w', cs) \<and> length (submissions cs) \<le> n
     \<and> (\<forall>x. r = Inr x \<longrightarrow> length (submissions cs) = n)"
  then obtain r w' cs where "m w = Some (r, w', cs)" "length (submissions cs) \<le> n"
     "\<forall>x. r = Inr x \<longrightarrow> length (submissions cs) = n" by blast
  then show "\<exists>r w' cs. (case m w of None \<Rightarrow> None | Some (r, w1, cs) \<Rightarrow> Some (of_raydium r, w1, cs))
     = Some (r, w', cs) \<and> length (submissions cs) \<le> n \<and> (\<forall>x. r = Inr x \<longrightarrow> length (submissions cs) = n)"
    by (cases r) (simp_all add: of_raydium_def)
qed

section \<open>The orchestrator's own steps\<close>

text \<open>The submissions of an orchestrator return; one made by \<open>orchestrator_new\<close> is ready.\<close>

definition ready :: "('w, 'h, 's, 'b, 'd, 'f) orchestrator \<Rightarrow> bool" where
  "ready P \<longleftrightarrow> live (or_client P) \<and> (\<forall>ixs extra w. submit (nd_rpc (cl_node (or_client P)))
      (nd_fuel (cl_node (or_client P))) ixs (cl_payer (or_client P)) extra (or_funding P) w \<noteq> None)"

lemma of_raydium_Inr: "of_raydium r = Inr x \<longleftrightarrow> r = Inr x"
  by (simp add: of_raydium_def map_err_Inr)

lemma ready_orchestrator:
  assumes "orchestrator_new V N D parse program payer authority c = Inr P"
    and "time_passes (nd_rpc N)" and "91 \<le> nd_fuel N"
  shows "ready P"
proof -
  from assms(1) obtain S where S: "clmm_new V N D program payer (oc_slippage c) (oc_unit_limit c)
      (oc_unit_price c) (oc_commitment c) = Inr S" and P: "or_client P = S"
      "or_funding P = default_submission\<lparr>sc_unit_limit := oc_unit_limit c,
         sc_unit_price := oc_unit_price c, sc_commitment := oc_commitment c\<rparr>"
    by (auto simp: orchestrator_new_def result_simps of_raydium_Inr)
  have "cl_submission S = or_funding P"
    unfolding P(2) using S by (auto simp: clmm_new_def split: if_splits)
  with live_client [OF S assms(2,3)] show ?thesis unfolding ready_def live_def P(1) by simp
qed

lemma sends_accounts [flow_intros]: "sends 0 (flow_accounts P keys)"
  by (auto simp: sends_def flow_accounts_def split: prod.split)

lemma sends_submit [flow_intros]: "ready P \<Longrightarrow> sends 1 (flow_submit P ixs)"
  unfolding sends_def
proof
  fix w
  assume "ready P"
  then obtain r w' calls where "submit (nd_rpc (cl_node (or_client P))) (nd_fuel (cl_node (or_client P))) ixs
      (cl_payer (or_client P)) [or_mint_authority P] (or_funding P) w = Some (r, w', calls)"
    unfolding ready_def by (metis option.exhaust prod_cases3)
  then show "\<exists>r w' cs. flow_submit P ixs w = Some (r, w', cs) \<and> length (submissions cs) \<le> 1
     \<and> (\<forall>x. r = Inr x \<longrightarrow> length (submissions cs) = 1)" by (simp add: flow_submit_def)
qed

lemma sends_prerequisites [flow_intros]: "sends 0 (validate_prerequisites P amm)"
  by (rule sends_sum, unfold validate_prerequisites_def, (rule flow_intros)+) simp

lemma sends_fund_payer [flow_intros]: "ready P \<Longrightarrow> sends 1 (fund_payer P a x b y)"
  by (rule sends_sum, unfold fund_payer_def Let_def, (rule flow_intros | assumption)+) simp

lemma sends_actions [flow_intros]:
  assumes "ready P"
  shows "sends 1 (create_pool (or_client P) cp)" "sends 1 (open_position (or_client P) q)"
    "sends 1 (increase_liquidity (or_client P) mint input)"
    "sends 1 (decrease_liquidity (or_client P) mint amount)" "sends 1 (collect_position (or_client P) mint)"
    "sends 1 (close_position (or_client P) mint)" "sends 1 (swap_exact_in (or_client P) pool a b x)"
    "sends 1 (swap_exact_out (or_client P) pool a b x)"
proof -
  have "live (or_client P)" using assms unfolding ready_def by blast
  note intros = transacts_positions [OF this] transacts_create_pool [OF this] transacts_swap [OF this]
  show "sends 1 (create_pool (or_client P) cp)" "sends 1 (open_position (or_client P) q)"
    "sends 1 (increase_liquidity (or_client P) mint input)"
    "sends 1 (decrease_liquidity (or_client P) mint amount)" "sends 1 (collect_position (or_client P) mint)"
    "sends 1 (close_position (or_client P) mint)" "sends 1 (swap_exact_in (or_client P) pool a b x)"
    "sends 1 (swap_exact_out (or_client P) pool a b x)"
    unfolding swap_exact_in_def swap_exact_out_def by (rule sends_transacts, rule intros)+
qed

lemma sends_flows:
  assumes "ready P"
  shows "sends 1 (create_pool_flow P cp)" "sends 8 (run_user_flow P p)"
proof -
  show "sends 1 (create_pool_flow P cp)"
    by (rule sends_sum, unfold create_pool_flow_def, (rule flow_intros | rule assms)+) simp
  show "sends 8 (run_user_flow P p)"
    by (rule sends_sum, unfold run_user_flow_def Let_def, (rule flow_intros | rule assms)+) simp
qed

section \<open>Which instruction each transaction carries\<close>

datatype flow_step = Opens | Increases | Swaps_In | Swaps_Out | Decreases | Collects | Closes

text \<open>Collecting is a decrease of no liquidity.\<close>

fun step_of :: "raydium_call \<Rightarrow> flow_step option" where
  "step_of (OpenPositionWithToken22Nft a g) = Some Opens"
| "step_of (IncreaseLiquidityV2 a l m0 m1 f) = Some Increases"
| "step_of (SwapV2 a g) = Some (if sa_is_base_input g then Swaps_In else Swaps_Out)"
| "step_of (DecreaseLiquidityV2 a l m0 m1) = Some (if l = 0 then Collects else Decreases)"
| "step_of (ClosePosition a) = Some Closes"
| "step_of c = None"

text \<open>A transaction that ends with the Raydium instruction of a step, with the given extra signers.\<close>

definition performs ::
    "('w, 'h, 's, 'b, 'd, 'f) clmm_client \<Rightarrow> flow_step \<Rightarrow> pubkey list \<Rightarrow> client_call \<Rightarrow> bool" where
  "performs S step extra c \<longleftrightarrow> (\<exists>ixs call remaining.
     c = SubmitTx (ixs @ [raydium_instruction S call remaining]) extra \<and> step_of call = Some step)"

lemma performsI: "step_of call = Some step \<Longrightarrow>
    performs S step extra (SubmitTx (ixs @ [raydium_instruction S call remaining]) extra)"
  unfolding performs_def by blast

lemma reading_steps:
  "load_pool S key w = Some (r, w', cs) \<Longrightarrow> submissions cs = []"
  "load_position S mint w = Some (r1, w', cs) \<Longrightarrow> submissions cs = []"
  "validate_position_tick_arrays S pos req w = Some (r2, w', cs) \<Longrightarrow> submissions cs = []"
  "reward_accounts S bd w = Some (r3, w', cs) \<Longrightarrow> submissions cs = []"
  "plan_swap S bd pool a b x ex w = Some (r4, w', cs) \<Longrightarrow> submissions cs = []"
  "new_keypair S w = Some (r5, w', cs) \<Longrightarrow> submissions cs = []"
  using reader_reads reader_loading reader_plan reader_keypair by (metis submissions_reads)+

lemma open_performs:
  assumes "open_position S p w = Some (Inr out, w', cs)"
  shows "\<exists>c. submissions cs = [c] \<and> performs S Opens [po_nft_mint (so_accounts out)] c"
  using assms
  by (auto simp: open_position_def run_simps submit_Some Let_def open_instruction_def addresses_of_def
      position_addresses_def position_ata_instructions_def
      dest!: reading_steps intro!: performsI [of _ _ _ _ "[_, _]", simplified])

lemma increase_performs:
  assumes "increase_liquidity S mint input w = Some (Inr out, w', cs)"
  shows "\<exists>c. submissions cs = [c] \<and> performs S Increases [] c"
  using assms
  by (auto simp: increase_liquidity_def run_simps submit_Some Let_def increase_instruction_def
      position_ata_instructions_def
      dest!: reading_steps intro!: performsI [of _ _ _ _ "[_, _]", simplified])

lemma decrease_amount_Inr:
  "(decrease_amount S bd pos amount :: ('s, u128) raydium) = Inr l \<Longrightarrow> l \<noteq> 0 \<and> l \<le> pv_liquidity pos
     \<and> (amount = None \<longrightarrow> l = pv_liquidity pos)"
  by (auto simp: decrease_amount_def result_simps not_less split: if_splits option.splits)

lemma decrease_quote_liquidity:
  "(decrease_quote S bd pos l :: ('s, liquidity_quote) raydium) = Inr q \<Longrightarrow> lq_liquidity q = l"
  by (auto simp: decrease_quote_def Let_def result_simps split: prod.splits)

lemma decrease_performs:
  assumes "decrease_liquidity S mint amount w = Some (Inr out, w', cs)"
  shows "\<exists>c. submissions cs = [c] \<and> performs S Decreases [] c"
  using assms
  by (auto simp: decrease_liquidity_def run_simps submit_Some Let_def decrease_instruction_def
      position_ata_instructions_def decrease_quote_liquidity
      dest!: reading_steps decrease_amount_Inr
      intro!: performsI [of _ _ _ _ "_ # _ # _", simplified] split: prod.splits)

lemma collect_performs:
  assumes "collect_position S mint w = Some (Inr out, w', cs)"
  shows "\<exists>c. submissions cs = [c] \<and> performs S Collects [] c"
  using assms
  by (auto simp: collect_position_def run_simps submit_Some Let_def decrease_instruction_def
      position_ata_instructions_def decrease_quote_liquidity
      dest!: reading_steps
      intro!: performsI [of _ _ _ _ "_ # _ # _", simplified] split: prod.splits)

lemma close_performs:
  assumes "close_position S mint w = Some (Inr out, w', cs)"
  shows "\<exists>c. submissions cs = [c] \<and> performs S Closes [] c"
  using assms
  by (auto simp: close_position_def run_simps submit_Some close_instruction_def
      dest!: reading_steps intro!: performsI [of _ _ _ _ "[]", simplified])

lemma swap_performs:
  assumes "swap S pool a b x ex w = Some (Inr out, w', cs)"
  shows "\<exists>c. submissions cs = [c] \<and> performs S (if ex then Swaps_In else Swaps_Out) [] c"
proof (rule swap_run [OF assms], goal_cases)
  case (1 bd p c1 c2)
  then show ?case
    by (auto simp: submissions_reads swap_instruction_def Let_def
        intro!: performsI [of _ _ _ _ "[_, _]", simplified])
qed

section \<open>Successful flows\<close>

lemma lift_Some: "lift_action m w = Some (Inr y, w', cs) \<longleftrightarrow> m w = Some (Inr y, w', cs)"
  by (auto simp: lift_action_def of_raydium_Inr split: option.splits)

lemma flow_accounts_Some:
  "flow_accounts P keys w = Some (Inr accounts, w', cs) \<longleftrightarrow>
     nd_accounts (cl_node (or_client P)) keys w = (Inr accounts, w') \<and> cs = [FetchAccounts keys]"
  by (auto simp: flow_accounts_def map_err_Inr split: prod.splits)

lemma flow_submit_Some:
  "flow_submit P ixs w = Some (Inr t, w', cs) \<Longrightarrow> cs = [SubmitTx ixs [or_mint_authority P]]"
  by (auto simp: flow_submit_def Let_def split: option.splits prod.splits)

lemmas flow_run_simps = bindA_Some pureA_Some lift_Some flow_accounts_Some

text \<open>Making the payer's token account exist and minting to it.\<close>

definition mint_steps ::
    "('w, 'h, 's, 'b, 'd, 'f) orchestrator \<Rightarrow> pubkey \<Rightarrow> pubkey \<Rightarrow> funding_mint \<Rightarrow> u64 \<Rightarrow> pubkey \<Rightarrow> instruction list" where
  "mint_steps P associated mint info raw token_account =
     [create_ata_raw associated (cl_payer (or_client P)) (cl_payer (or_client P)) mint (fm_program info)
        token_account,
      mint_to_checked mint token_account (or_mint_authority P) (fm_program info) raw (fm_decimals info)]"

definition token_account_of ::
    "('w, 'h, 's, 'b, 'd, 'f) orchestrator \<Rightarrow> pubkey \<Rightarrow> pubkey \<Rightarrow> funding_mint \<Rightarrow> pubkey" where
  "token_account_of P associated mint info =
     rv_find_pda (cl_env (or_client P))
       [pk_bytes (cl_payer (or_client P)), pk_bytes (fm_program info), pk_bytes mint] associated"

text \<open>
  A mint that may be funded, as its account holds it: an account of a token program, long enough for
  the base layout of a mint, which names the injected authority; the decimals are its byte 44.
\<close>

definition funding_mint_ok ::
    "('w, 'h, 's, 'b, 'd, 'f) orchestrator \<Rightarrow> account option \<Rightarrow> funding_mint \<Rightarrow> bool" where
  "funding_mint_ok P found info \<longleftrightarrow>
     (\<exists>a classic newer. found = Some a
       \<and> or_pubkey P classic_token_id = Inr classic \<and> or_pubkey P token_2022_id = Inr newer
       \<and> ac_owner a \<in> {classic, newer} \<and> fm_program info = ac_owner a
       \<and> 82 \<le> length (ac_data a) \<and> of_le_bytes (take 4 (ac_data a)) = 1
       \<and> Pubkey (take 32 (drop 4 (ac_data a))) = or_mint_authority P
       \<and> fm_decimals info = ac_data a ! 44)"

lemma parse_program_id_Inr: "(parse_program_id f t :: ('s, pubkey) orchestration) = Inr k \<longleftrightarrow> f t = Inr k"
  by (auto simp: parse_program_id_def map_err_Inr)

lemma decode_funding_mint_Inr:
  "(decode_funding_mint P key found (or_mint_authority P) :: ('s, funding_mint) orchestration) = Inr info \<Longrightarrow>
     funding_mint_ok P found info"
  by (auto simp: decode_funding_mint_def Let_def result_simps parse_program_id_Inr funding_mint_ok_def
      mint_base_len_def mint_authority_offset_def mint_authority_end_def mint_decimals_offset_def split: if_splits)

lemma plan_funding_Inr:
  fixes P :: "('w, 'h, 's, 'b, 'd, 'f) orchestrator"
  assumes "(plan_funding P mint_a x mint_b y accounts :: ('s, funding_plan) orchestration) = Inr p"
  shows "\<exists>info_a info_b associated.
      funding_mint_ok P (account_found accounts 0) info_a \<and> funding_mint_ok P (account_found accounts 1) info_b
    \<and> or_pubkey P associated_program_id = Inr associated
    \<and> (flow_ui_to_raw (cl_dec (or_client P)) x (fm_decimals info_a) :: ('s, u64) orchestration) = Inr (fp_raw_a p)
    \<and> (flow_ui_to_raw (cl_dec (or_client P)) y (fm_decimals info_b) :: ('s, u64) orchestration) = Inr (fp_raw_b p)
    \<and> fp_account_a p = token_account_of P associated mint_a info_a
    \<and> fp_account_b p = token_account_of P associated mint_b info_b
    \<and> fp_instructions p = mint_steps P associated mint_a info_a (fp_raw_a p) (fp_account_a p)
        @ mint_steps P associated mint_b info_b (fp_raw_b p) (fp_account_b p)"
proof -
  from assms obtain info_a info_b associated where
    a: "(decode_funding_mint P mint_a (account_found accounts 0) (or_mint_authority P)
      :: ('s, funding_mint) orchestration) = Inr info_a"
    and b: "(decode_funding_mint P mint_b (account_found accounts 1) (or_mint_authority P)
      :: ('s, funding_mint) orchestration) = Inr info_b"
    and rest: "or_pubkey P associated_program_id = Inr associated"
      "(flow_ui_to_raw (cl_dec (or_client P)) x (fm_decimals info_a) :: ('s, u64) orchestration) = Inr (fp_raw_a p)"
      "(flow_ui_to_raw (cl_dec (or_client P)) y (fm_decimals info_b) :: ('s, u64) orchestration) = Inr (fp_raw_b p)"
      "fp_account_a p = token_account_of P associated mint_a info_a"
      "fp_account_b p = token_account_of P associated mint_b info_b"
      "fp_instructions p = mint_steps P associated mint_a info_a (fp_raw_a p) (fp_account_a p)
        @ mint_steps P associated mint_b info_b (fp_raw_b p) (fp_account_b p)"
    by (auto simp: plan_funding_def Let_def result_simps flow_token_address_def flow_create_ata_def
        parse_program_id_Inr mint_steps_def token_account_of_def)
  show ?thesis
    using decode_funding_mint_Inr [OF a] decode_funding_mint_Inr [OF b] rest by blast
qed

text \<open>
  C30. Funding mints what was asked, once. A successful \<open>fund_payer\<close> has read the two mints, which
  differ: each account belongs to one of the two token programs, is long enough for a mint, and names
  the injected authority in its bytes 4 to 36 (with the tag 1 before them). It has then sent one
  transaction, signed by the mint authority beside the payer: for each mint in turn, the payer's
  account derived under the associated-token program is made to exist and the raw amount of the
  request, at the decimals in byte 44 of the mint, is minted to it.
\<close>

theorem fund_payer_mints:
  fixes P :: "('w, 'h, 's, 'b, 'd, 'f) orchestrator"
  assumes "fund_payer P mint_a x mint_b y w = Some (Inr out, w', cs)"
  shows "mint_a \<noteq> mint_b \<and> (\<exists>accounts w1 info_a info_b associated.
      nd_accounts (cl_node (or_client P)) [mint_a, mint_b] w = (Inr accounts, w1)
    \<and> funding_mint_ok P (account_found accounts 0) info_a \<and> funding_mint_ok P (account_found accounts 1) info_b
    \<and> or_pubkey P associated_program_id = Inr associated
    \<and> (flow_ui_to_raw (cl_dec (or_client P)) x (fm_decimals info_a) :: ('s, u64) orchestration) = Inr (fo_raw_a out)
    \<and> (flow_ui_to_raw (cl_dec (or_client P)) y (fm_decimals info_b) :: ('s, u64) orchestration) = Inr (fo_raw_b out)
    \<and> fo_account_a out = token_account_of P associated mint_a info_a
    \<and> fo_account_b out = token_account_of P associated mint_b info_b
    \<and> cs = [FetchAccounts [mint_a, mint_b],
        SubmitTx (mint_steps P associated mint_a info_a (fo_raw_a out) (fo_account_a out)
          @ mint_steps P associated mint_b info_b (fo_raw_b out) (fo_account_b out)) [or_mint_authority P]])"
proof -
  from assms obtain accounts w1 p where ne: "mint_a \<noteq> mint_b"
    and n: "nd_accounts (cl_node (or_client P)) [mint_a, mint_b] w = (Inr accounts, w1)"
    and p: "(plan_funding P mint_a x mint_b y accounts :: ('s, funding_plan) orchestration) = Inr p"
    and out: "fo_raw_a out = fp_raw_a p" "fo_raw_b out = fp_raw_b p" "fo_account_a out = fp_account_a p"
      "fo_account_b out = fp_account_b p"
    and cs: "cs = [FetchAccounts [mint_a, mint_b], SubmitTx (fp_instructions p) [or_mint_authority P]]"
    by (auto simp: fund_payer_def Let_def flow_run_simps split: if_splits dest!: flow_submit_Some)
  from plan_funding_Inr [OF p] show ?thesis using ne n out cs by auto
qed

lemma fund_payer_submits:
  assumes "fund_payer P mint_a x mint_b y w = Some (Inr out, w', cs)"
  shows "\<exists>ixs. submissions cs = [SubmitTx ixs [or_mint_authority P]]"
  using assms
  by (auto simp: fund_payer_def Let_def flow_run_simps dest!: flow_submit_Some)

text \<open>
  C8. The order of a user flow. A successful run has sent eight transactions, in this order: the funding, then the opening of a position (signed by its new token
  mint), the increase, the exact-input swap, the exact-output swap, the withdrawal of liquidity,
  the collection and the closing.
\<close>

theorem user_flow_order:
  fixes P :: "('w, 'h, 's, 'b, 'd, 'f) orchestrator"
  assumes "run_user_flow P p w = Some (Inr out, w', cs)"
  shows "\<exists>ixs rest. submissions cs = SubmitTx ixs [or_mint_authority P] # rest
    \<and> list_all2 (\<lambda>(step, extra). performs (or_client P) step extra)
        [(Opens, [po_nft_mint (so_accounts (ut_open out))]), (Increases, []), (Swaps_In, []),
         (Swaps_Out, []), (Decreases, []), (Collects, []), (Closes, [])] rest"
proof -
  let ?S = "or_client P"
  from assms obtain w1 c1 c2 w2 w3 c3 w4 c4 w5 c5 w6 c6 w7 c7 w8 c8 w9 c9 op_params mint
      input pool a b x c d y e g where
    pre: "validate_prerequisites P (uf_amm_config p) w = Some (Inr (), w1, c1)"
    and fund: "fund_payer P a x b y w1 = Some (Inr (ut_funding out), w2, c2)"
    and op: "open_position ?S op_params w2 = Some (Inr (ut_open out), w3, c3)"
    and inc: "increase_liquidity ?S mint input w3 = Some (Inr (ut_increase out), w4, c4)"
    and sin: "swap ?S pool c d e True w4 = Some (Inr (ut_exact_in out), w5, c5)"
    and sout: "swap ?S pool d c g False w5 = Some (Inr (ut_exact_out out), w6, c6)"
    and dec: "decrease_liquidity ?S mint None w6 = Some (Inr (ut_decrease out), w7, c7)"
    and col: "collect_position ?S mint w7 = Some (Inr (ut_collect out), w8, c8)"
    and clo: "close_position ?S mint w8 = Some (Inr (ut_close out), w9, c9)"
    and cs: "cs = c1 @ c2 @ c3 @ c4 @ c5 @ c6 @ c7 @ c8 @ c9"
    unfolding run_user_flow_def Let_def swap_exact_in_def swap_exact_out_def
    by (clarsimp simp: flow_run_simps split: prod.splits)
  have "submissions c1 = []"
    using pre by (auto simp: validate_prerequisites_def flow_run_simps)
  with fund_payer_submits [OF fund] open_performs [OF op] increase_performs [OF inc] swap_performs [OF sin]
    swap_performs [OF sout] decrease_performs [OF dec] collect_performs [OF col] close_performs [OF clo]
  show ?thesis by (fastforce simp: cs)
qed

section \<open>A flow of the sample\<close>

definition sample_ids :: "string \<Rightarrow> string + pubkey" where
  "sample_ids t = Inr (Pubkey [if t = classic_token_id then 1 else if t = token_2022_id then 2 else 6])"

definition sample_settings :: orchestration_config where
  "sample_settings = \<lparr>oc_slippage = 500, oc_unit_limit = 1400000, oc_unit_price = 0, oc_commitment = Confirmed\<rparr>"

definition sample_orchestrator :: "u64 \<Rightarrow> (nat, nat, nat, unit, rat, rat) orchestrator" where
  "sample_orchestrator balance =
     \<lparr>or_client = sample_client balance, or_mint_authority = Pubkey sample_authority,
      or_funding = cl_submission (sample_client balance), or_pubkey = sample_ids\<rparr>"

lemma sample_orchestrator_new:
  "orchestrator_new (sample_env balance) sample_node rat_dec sample_ids (Pubkey [9]) (Pubkey [5])
     (Pubkey sample_authority) sample_settings = Inr (sample_orchestrator balance)"
  by (simp add: orchestrator_new_def sample_settings_def sample_client_new of_raydium_def)
     (simp add: sample_orchestrator_def sample_client_def)

definition sample_flow :: "rat user_flow_params" where
  "sample_flow =
     \<lparr>uf_amm_config = Pubkey [30, 0, 0], uf_pool = Pubkey pool_bytes, uf_mint_a = Pubkey [10],
      uf_mint_b = Pubkey [11], uf_funding_a = 10, uf_funding_b = 10, uf_lower_price = 1,
      uf_upper_price = 5, uf_open_amount = 10, uf_increase_amount = 10, uf_exact_in = 10,
      uf_exact_out = 1000, uf_with_metadata = False\<rparr>"

lemma sample_orchestrator_parts:
  "or_client (sample_orchestrator balance) = sample_client balance"
  "or_mint_authority (sample_orchestrator balance) = Pubkey sample_authority"
  "or_funding (sample_orchestrator balance) = cl_submission (sample_client balance)"
  "or_pubkey (sample_orchestrator balance) = sample_ids"
  by (simp_all add: sample_orchestrator_def)

lemma sample_ids_parse:
  "parse_program_id sample_ids classic_token_id = Inr (Pubkey [1])"
  "parse_program_id sample_ids token_2022_id = Inr (Pubkey [2])"
  "parse_program_id sample_ids associated_program_id = Inr (Pubkey [6])"
  by (simp_all add: parse_program_id_def sample_ids_def classic_token_id_def token_2022_id_def
      associated_program_id_def)

lemma mint_bytes_parts:
  "length mint_bytes = 82" "of_le_bytes (take 4 mint_bytes) = 1" "take 32 (drop 4 mint_bytes) = sample_authority"
  "mint_bytes ! 44 = 0"
  by (simp_all add: mint_bytes_def sample_authority_def nth_append)

lemma sample_funding_mint:
  assumes "m = 10 \<or> m = 11"
  shows "(decode_funding_mint (sample_orchestrator balance) (Pubkey [m]) (sample_account w (Pubkey [m]))
      (Pubkey sample_authority) :: (nat, funding_mint) orchestration)
    = Inr \<lparr>fm_program = Pubkey [1], fm_decimals = 0\<rparr>"
proof -
  have "sample_data w [m] = mint_bytes" "m < 30" using assms by (auto simp: sample_data_def)
  then show ?thesis
    by (simp add: decode_funding_mint_def Let_def sample_orchestrator_parts sample_ids_parse mint_base_len_def
        mint_authority_offset_def mint_authority_end_def mint_decimals_offset_def mint_bytes_parts)
qed

lemma sample_flow_units: "(flow_ui_to_raw rat_dec 10 0 :: ('s, u64) orchestration) = Inr 10"
  by (simp add: flow_ui_to_raw_def checked_pow10_u64_def bounded_def trunc_rat_def)

lemma sample_plan_funding:
  "\<exists>p. (plan_funding (sample_orchestrator balance) (Pubkey [10]) 10 (Pubkey [11]) 10
     [sample_account w (Pubkey [10]), sample_account w (Pubkey [11])] :: (nat, funding_plan) orchestration) = Inr p"
  using sample_funding_mint [of 10] sample_funding_mint [of 11]
  by (simp add: plan_funding_def account_found_def Let_def sample_orchestrator_parts sample_parts sample_flow_units
      flow_token_address_def flow_create_ata_def sample_ids_parse del: sample_account)

lemma sample_fund:
  assumes "5 \<le> w"
  shows "\<exists>out cs. fund_payer (sample_orchestrator balance) (Pubkey [10]) 10 (Pubkey [11]) 10 w
    = Some (Inr out, w + 4, cs)"
proof -
  have f: "nd_fuel sample_node = Suc 90" "nd_rpc sample_node = sample_rpc" by (simp_all add: sample_node_def)
  have acc: "flow_accounts (sample_orchestrator balance) [Pubkey [10], Pubkey [11]] w
      = Some (Inr [sample_account w (Pubkey [10]), sample_account w (Pubkey [11])], w,
          [FetchAccounts [Pubkey [10], Pubkey [11]]])"
    by (simp add: flow_accounts_def sample_orchestrator_parts sample_parts sample_node_def)
  obtain p where p: "(plan_funding (sample_orchestrator balance) (Pubkey [10]) 10 (Pubkey [11]) 10
     [sample_account w (Pubkey [10]), sample_account w (Pubkey [11])] :: (nat, funding_plan) orchestration) = Inr p"
    using sample_plan_funding by blast
  obtain t where "flow_submit (sample_orchestrator balance) (fp_instructions p) w
      = Some (Inr t, w + 4, [SubmitTx (fp_instructions p) [Pubkey sample_authority]])"
    using sample_confirmed [OF assms, of 90 "fp_instructions p" "Pubkey [5]" "[Pubkey sample_authority]" balance]
    by (auto simp: flow_submit_def sample_orchestrator_parts sample_parts f Let_def)
  with acc p show ?thesis
    by (simp add: fund_payer_def bindA_def pureA_def flow_positive_def sample_orchestrator_parts sample_parts
        del: sample_account)
qed

lemma sample_prerequisites:
  "validate_prerequisites (sample_orchestrator balance) (Pubkey [30, 0, 0]) w
     = Some (Inr (), w, [FetchAccounts [Pubkey [9], Pubkey [30, 0, 0]]])"
  by (simp add: validate_prerequisites_def bindA_def pureA_def flow_accounts_def check_prerequisites_def
      account_found_def sample_orchestrator_parts sample_parts sample_node_def Let_def)

lemma sample_flow_succeeds:
  assumes "5 \<le> w" and "w \<le> 12"
  shows "\<exists>out cs. run_user_flow (sample_orchestrator 1000) sample_flow w = Some (Inr out, w + 32, cs)
     \<and> po_nft_mint (so_accounts (ut_open out)) = Pubkey [12]"
proof -
  let ?P = "sample_orchestrator 1000" and ?S = "sample_client 1000"
  have params: "(validate_user_flow_params rat_dec sample_flow :: (nat, unit) orchestration) = Inr ()"
    by (simp add: validate_user_flow_params_def sample_flow_def flow_positive_def)
  have range: "(normalized_range rat_dec (Pubkey [10]) (Pubkey [11]) 1 5 :: (nat, rat \<times> rat) orchestration)
      = Inr (1, 5)" by (simp add: normalized_range_def)
  obtain o1 c1 where o1: "fund_payer ?P (Pubkey [10]) 10 (Pubkey [11]) 10 w = Some (Inr o1, w + 4, c1)"
    using sample_fund [of w 1000] assms by auto
  obtain o2 c2 where o2: "open_position ?S \<lparr>on_pool = Pubkey pool_bytes, on_lower_price = 1,
      on_upper_price = 5, on_input = ten_tokens, on_with_metadata = False\<rparr> (w + 4) = Some (Inr o2, w + 8, c2)"
    and nft: "po_nft_mint (so_accounts o2) = Pubkey [12]"
    using sample_open [of 1000 "w + 4"] assms by auto
  obtain o3 c3 where o3: "increase_liquidity ?S (Pubkey [12]) ten_tokens (w + 8) = Some (Inr o3, w + 12, c3)"
    using sample_increase [of 1000 "w + 8"] assms by auto
  obtain o4 c4 where o4: "swap_exact_in ?S (Pubkey pool_bytes) (Pubkey [10]) (Pubkey [11]) 10 (w + 12) = Some (Inr o4, w + 16, c4)"
    using sample_swap_sent [of 1000 "w + 12"] assms by (auto simp: swap_exact_in_def)
  obtain o5 c5 where o5: "swap_exact_out ?S (Pubkey pool_bytes) (Pubkey [11]) (Pubkey [10]) 1000 (w + 16) = Some (Inr o5, w + 20, c5)"
    using sample_swap_back [of 1000 "w + 16"] assms by (auto simp: swap_exact_out_def)
  obtain o6 c6 where o6: "decrease_liquidity ?S (Pubkey [12]) None (w + 20) = Some (Inr o6, w + 24, c6)"
    using sample_decrease [of "w + 20" 1000] assms by auto
  obtain o7 c7 where o7: "collect_position ?S (Pubkey [12]) (w + 24) = Some (Inr o7, w + 28, c7)"
    using sample_collect [of "w + 24" 1000] assms by auto
  obtain o8 c8 where o8: "close_position ?S (Pubkey [12]) (w + 28) = Some (Inr o8, w + 32, c8)"
    using sample_close [of "w + 28" 1000] assms by auto
  note steps = o2 o3 o4 o5 o6 o7 o8
  have fields: "uf_amm_config sample_flow = Pubkey [30, 0, 0]" "uf_pool sample_flow = Pubkey pool_bytes"
    "uf_mint_a sample_flow = Pubkey [10]" "uf_mint_b sample_flow = Pubkey [11]" "uf_funding_a sample_flow = 10"
    "uf_funding_b sample_flow = 10" "uf_lower_price sample_flow = 1" "uf_upper_price sample_flow = 5"
    "uf_open_amount sample_flow = 10" "uf_increase_amount sample_flow = 10" "uf_exact_in sample_flow = 10"
    "uf_exact_out sample_flow = 1000" "\<not> uf_with_metadata sample_flow" by (simp_all add: sample_flow_def)
  show ?thesis
    by (simp add: run_user_flow_def Let_def bindA_def pureA_def sample_orchestrator_parts sample_parts fields
        params sample_prerequisites o1 range nft lift_action_def of_raydium_def
        steps [unfolded ten_tokens_def])
qed

text \<open>
  A user flow always returns when the client's submissions time out, having sent at most eight
  transactions; a flow that succeeds has sent exactly eight. Creating a pool sends at most one.
\<close>

theorem user_flow_sends:
  assumes "orchestrator_new V N D parse program payer authority c = Inr P"
    and "time_passes (nd_rpc N)" and "91 \<le> nd_fuel N"
  shows "sends 8 (run_user_flow P p) \<and> sends 1 (create_pool_flow P q)"
  using sends_flows [OF ready_orchestrator [OF assms]] by blast

theorem user_flow_sends_witness: "sends 8 (run_user_flow (sample_orchestrator 1000) sample_flow)"
proof -
  have "time_passes (nd_rpc sample_node)" "91 \<le> nd_fuel sample_node"
    by (simp_all add: sample_node_def sample_time)
  from user_flow_sends [OF sample_orchestrator_new this] show ?thesis by blast
qed

theorem user_flow_order_witness:
  "\<exists>out cs rest. run_user_flow (sample_orchestrator 1000) sample_flow 5 = Some (Inr out, 37, cs)
     \<and> length (submissions cs) = 8
     \<and> performs (sample_client 1000) Opens [Pubkey [12]] (submissions cs ! 1)
     \<and> performs (sample_client 1000) Closes [] (submissions cs ! 7)"
proof -
  obtain out cs where run: "run_user_flow (sample_orchestrator 1000) sample_flow 5 = Some (Inr out, 37, cs)"
    and nft: "po_nft_mint (so_accounts (ut_open out)) = Pubkey [12]" using sample_flow_succeeds [of 5] by auto
  from user_flow_order [OF run] nft show ?thesis using run
    by (fastforce simp: list_all2_Cons1 sample_orchestrator_parts)
qed

theorem fund_payer_mints_witness:
  "\<exists>out cs. fund_payer (sample_orchestrator 1000) (Pubkey [10]) 10 (Pubkey [11]) 10 5 = Some (Inr out, 9, cs)
     \<and> fo_raw_a out = 10 \<and> fo_raw_b out = 10"
proof -
  obtain out cs where run: "fund_payer (sample_orchestrator 1000) (Pubkey [10]) 10 (Pubkey [11]) 10 5
      = Some (Inr out, 9, cs)" using sample_fund [of 5 1000] by auto
  have decimals: "fm_decimals info = 0" if "funding_mint_ok (sample_orchestrator 1000) (sample_account 5 (Pubkey [m])) info"
    "m = 10 \<or> m = 11" for m info
    using that by (auto simp: funding_mint_ok_def sample_data_def mint_bytes_parts)
  from fund_payer_mints [OF run] have "fo_raw_a out = 10 \<and> fo_raw_b out = 10"
    by (auto simp: sample_orchestrator_parts sample_parts sample_node_def account_found_def sample_flow_units
        simp del: sample_account dest!: decimals)
  with run show ?thesis by blast
qed

end
