(* ===== verification/Orchestrator_Amounts.thy ===== *)
theory Orchestrator_Amounts
  imports Orchestrator_Flow
begin

text \<open>
  The orchestrator's conversions: its amounts against the client's, its reading of a mint against
  the layout of the account, and the price range in the order of the pool's mints.
\<close>

section \<open>Two conversions of a UI amount\<close>

lemma checked_pow10_u64_cases:
  "checked_pow10_u64 d = (if unat d \<le> 19 then Some (10 ^ unat d) else None)"
proof (cases "unat d \<le> 19")
  case True
  then have "(10::nat) ^ unat d \<le> 10 ^ 19" by (intro power_increasing) simp_all
  then show ?thesis using True by (simp add: checked_pow10_u64_def)
next
  case False
  then have "(10::nat) ^ 20 \<le> 10 ^ unat d" by (intro power_increasing) simp_all
  then show ?thesis using False by (simp add: checked_pow10_u64_def)
qed

lemma ucast_pow10:
  assumes "n \<le> 19"
  shows "ucast (10 ^ n :: u64) = (10 ^ n :: u128)"
proof -
  have b: "(10::int) ^ n \<le> 10 ^ 19" using assms by (intro power_increasing) simp_all
  then have "(10::int) ^ n < 2 ^ 64" by simp
  then have "uint (word_of_int (10 ^ n) :: u64) = 10 ^ n" by (simp add: word_of_int_inverse)
  then have "uint (10 ^ n :: u64) = 10 ^ n" by simp
  moreover have "uint (10 ^ n :: u128) = 10 ^ n" using assms by (intro uint_pow10_u128) simp
  ultimately show ?thesis by (simp add: word_uint_eq_iff)
qed

text \<open>
  C29. The orchestrator and the client convert amounts by two different routines: the orchestrator
  scales by a \<open>u64\<close> power of ten, the client by a \<open>u128\<close> one. For a positive amount they agree on
  every result: the orchestrator converts exactly the amounts the client converts to the same
  raw value, for mints of at most 19 decimals, and refuses any mint with more.
\<close>

theorem flow_units_agree:
  fixes D :: "('d, 'f) dec_ops"
  assumes "\<And>v :: u64. dec_of_u128 D (ucast v) = Some (dec_of_u64 D v)"
    and "\<not> dec_le D amount (dec_zero D)"
  shows "(flow_ui_to_raw D amount decimals :: ('s, u64) orchestration) = Inr raw
    \<longleftrightarrow> unat decimals \<le> 19 \<and> (ui_to_raw D amount decimals :: ('t, u64) raydium) = Inr raw"
proof (cases "unat decimals \<le> 19")
  case True
  have "dec_of_u128 D (10 ^ unat decimals) = Some (dec_of_u64 D (10 ^ unat decimals))"
    using assms(1) [of "10 ^ unat decimals"] ucast_pow10 [OF True] by simp
  then show ?thesis using True assms(2)
    by (auto simp: flow_ui_to_raw_def ui_to_raw_def checked_pow10_u64_cases pow10_u128_cases
        ensure_positive_def result_simps split: if_splits)
next
  case False
  then show ?thesis by (simp add: flow_ui_to_raw_def checked_pow10_u64_cases)
qed

theorem flow_units_agree_witness:
  "(ui_to_raw rat_dec 10 0 :: (nat, u64) raydium) = Inr 10
   \<and> (flow_ui_to_raw rat_dec 10 20 :: (nat, u64) orchestration) \<noteq> Inr 10"
proof -
  have law: "dec_of_u128 rat_dec (ucast v) = Some (dec_of_u64 rat_dec v)" for v :: u64
  proof -
    have "uint v < 2 ^ 96" using uint_lt2p [of v] by simp
    then show ?thesis by simp
  qed
  have "\<not> dec_le rat_dec 10 (dec_zero rat_dec)" by simp
  from flow_units_agree [where ?'s = nat and ?'t = nat, OF law this]
  show ?thesis using sample_flow_units by (auto simp del: rat_dec_simps)
qed

section \<open>The layout of a mint\<close>

text \<open>The base of a mint account: authority, supply, decimals, state and freeze authority.\<close>

definition mint_layout :: "u8 list \<Rightarrow> pubkey \<Rightarrow> u64 \<Rightarrow> u8 \<Rightarrow> u8 list \<Rightarrow> u8 list" where
  "mint_layout tag authority issued decimals rest =
     tag @ pk_bytes authority @ u64_bytes issued @ [decimals] @ rest"

lemma mint_layout_parts:
  assumes "length tag = 4" and "pubkey_ok authority" and "37 \<le> length rest"
  shows "82 \<le> length (mint_layout tag authority issued decimals rest)"
    and "take 4 (mint_layout tag authority issued decimals rest) = tag"
    and "take 32 (drop 4 (mint_layout tag authority issued decimals rest)) = pk_bytes authority"
    and "mint_layout tag authority issued decimals rest ! 44 = decimals"
  using assms by (simp_all add: mint_layout_def pubkey_ok_def nth_append u64_bytes_def)

text \<open>
  Reading a mint. From an account of a token program that holds the base layout of a mint,
  \<open>decode_mint\<close> recovers its program and its decimals exactly when the mint has an authority and it
  is the injected signer; otherwise it refuses the mint.
\<close>

theorem decode_funding_mint_layout:
  fixes P :: "('w, 'h, 's, 'b, 'd, 'f) orchestrator"
  assumes "(parse_program_id (or_pubkey P) classic_token_id :: ('s, pubkey) orchestration) = Inr classic"
    and "(parse_program_id (or_pubkey P) token_2022_id :: ('s, pubkey) orchestration) = Inr newer"
    and "ac_owner a = classic \<or> ac_owner a = newer"
    and "ac_data a = mint_layout tag authority issued decimals rest"
    and "length tag = 4" and "pubkey_ok authority" and "37 \<le> length rest"
  shows "(decode_funding_mint P key (Some a) signer :: ('s, funding_mint) orchestration) = Inr m
    \<longleftrightarrow> tag = [1, 0, 0, 0] \<and> authority = signer \<and> m = \<lparr>fm_program = ac_owner a, fm_decimals = decimals\<rparr>"
proof -
  note layout = mint_layout_parts [OF assms(5-7), of issued decimals]
  have tag: "of_le_bytes tag = 1 \<longleftrightarrow> tag = [1, 0, 0, 0]"
  proof
    assume "of_le_bytes tag = 1"
    then have "tag = le_bytes 4 1" using le_bytes_of_le_bytes [of tag] assms(5) by simp
    moreover have "le_bytes 4 1 = [1, 0, 0, 0]" by code_simp
    ultimately show "tag = [1, 0, 0, 0]" by simp
  qed simp
  define d where "d = mint_layout tag authority issued decimals rest"
  have d: "\<not> length d < 82" "take 4 d = tag" "Pubkey (take 32 (drop 4 d)) = authority" "d ! 44 = decimals"
    using layout unfolding d_def by simp_all
  have "ac_data a = d" using assms(4) by (simp add: d_def)
  then show ?thesis
    using assms(1-3) d tag [unfolded One_nat_def]
    by (auto simp: decode_funding_mint_def Let_def mint_base_len_def
        mint_authority_offset_def mint_authority_end_def mint_decimals_offset_def split: if_splits)
qed

theorem decode_funding_mint_layout_witness:
  "(decode_funding_mint (sample_orchestrator 5) (Pubkey [10])
      (Some \<lparr>ac_owner = Pubkey [1], ac_data = mint_layout [1, 0, 0, 0] default_pubkey 7 6 (replicate 37 0),
        ac_executable = False\<rparr>) default_pubkey
      :: (nat, funding_mint) orchestration) = Inr \<lparr>fm_program = Pubkey [1], fm_decimals = 6\<rparr>"
proof -
  have ids: "(parse_program_id (or_pubkey (sample_orchestrator 5)) classic_token_id :: (nat, pubkey) orchestration)
      = Inr (Pubkey [1])"
    "(parse_program_id (or_pubkey (sample_orchestrator 5)) token_2022_id :: (nat, pubkey) orchestration)
      = Inr (Pubkey [2])" by (simp_all add: sample_orchestrator_parts sample_ids_parse)
  let ?a = "\<lparr>ac_owner = Pubkey [1], ac_data = mint_layout [1, 0, 0, 0] default_pubkey 7 6 (replicate 37 0),
      ac_executable = False\<rparr>"
  have "ac_owner ?a = Pubkey [1] \<or> ac_owner ?a = Pubkey [2]" "length [1, 0, 0, 0 :: u8] = 4"
    "ac_data ?a = mint_layout [1, 0, 0, 0] default_pubkey 7 6 (replicate 37 0)"
    "pubkey_ok default_pubkey" "37 \<le> length (replicate 37 (0 :: u8))"
    by (simp_all add: pubkey_ok_def default_pubkey_def)
  from decode_funding_mint_layout [OF ids this(1) this(3) this(2) this(4,5), of "Pubkey [10]" default_pubkey]
  show ?thesis by simp
qed

section \<open>Prices in the order of the mints\<close>

text \<open>
  Reversing a pair. For mints given in descending order the range is that of the inverted
  price: when the inverses are representable, the flow uses exactly \<open>[1 / upper, 1 / lower]\<close>, which
  is again a proper positive range, and reversing it once more gives back the original one.
\<close>

theorem normalized_range_inverts:
  fixes D :: "('d, 'f) dec_ops"
  assumes "dec_order D val" and "dec_exact D val"
    and "mint_b < mint_a" and "0 < val lower" and "val lower < val upper"
    and "dec_repr (1 / val lower)" and "dec_repr (1 / val upper)"
  shows "\<exists>l u. (normalized_range D mint_a mint_b lower upper :: ('s, 'd \<times> 'd) orchestration) = Inr (l, u)
    \<and> val l = 1 / val upper \<and> val u = 1 / val lower \<and> 0 < val l \<and> val l < val u
    \<and> 1 / val u = val lower \<and> 1 / val l = val upper"
proof -
  have one: "val (dec_one D) = 1" using assms(1) by (simp add: dec_order_def)
  obtain l where l: "dec_div D (dec_one D) upper = Some l" "val l = 1 / val upper"
    using dec_exact_div [OF assms(2), of upper "dec_one D"] assms(4,5,7) one by auto
  obtain u where u: "dec_div D (dec_one D) lower = Some u" "val u = 1 / val lower"
    using dec_exact_div [OF assms(2), of lower "dec_one D"] assms(4,6) one by auto
  have "\<not> mint_a < mint_b" using assms(3) by auto
  then show ?thesis using l u assms(4,5) by (simp add: normalized_range_def frac_less2)
qed

theorem normalized_range_inverts_witness:
  "(normalized_range rat_dec (Pubkey [11]) (Pubkey [10]) 2 4 :: (nat, rat \<times> rat) orchestration)
     = Inr (1 / 4, 1 / 2)"
proof -
  have "dec_repr (1 / id 2)" "dec_repr (1 / id 4)"
    by (rule dec_repr_frac [of 5 1] dec_repr_frac [of 25 2]; simp)+
  from normalized_range_inverts [where ?'s = nat, OF rat_dec_order rat_dec_exact key_order _ _ this]
  show ?thesis by auto
qed

end
