(* ===== verification/Orchestrator_Service.thy ===== *)
theory Orchestrator_Service
  imports Orchestrator
begin

text \<open>
  The command-line service \<open>services/raydium-clmm-orchestrator/src/main.rs\<close>: its arguments with
  their defaults, the choice of the pairs, the three commands, and the funding and recovery of
  the ephemeral users. The environment, the files, \<open>serde_json\<close> and the key library are parameters;
  a printed report is a value.
\<close>

section \<open>Errors\<close>

datatype 's service_error =
    Message string
  | Context string "'s service_error"
  | FromOrchestrator "'s orchestration_error"
  | FromSubmission "'s submission_error"
  | FromLibrary string

type_synonym ('s, 'a) service_result = "'s service_error fault + 'a"

abbreviation bail :: "string \<Rightarrow> ('s, 'a) service_result" where
  "bail t \<equiv> Inl (Raised (Message t))"

text \<open>\<open>with_context\<close>; a library call fails with a text.\<close>

definition with_context :: "string \<Rightarrow> ('s, 'a) service_result \<Rightarrow> ('s, 'a) service_result" where
  "with_context t r = map_err (map_fault (Context t)) r"

definition library :: "string + 'a \<Rightarrow> ('s, 'a) service_result" where
  "library r = map_err (\<lambda>t. Raised (FromLibrary t)) r"

definition of_orchestration :: "('s, 'a) orchestration \<Rightarrow> ('s, 'a) service_result" where
  "of_orchestration r = map_err (map_fault FromOrchestrator) r"

section \<open>Arguments\<close>

record transaction_args =
  xa_slippage :: u16
  xa_unit_limit :: u32
  xa_unit_price :: u64
  xa_commitment :: commitment

definition default_transaction_args :: transaction_args where
  "default_transaction_args =
     \<lparr>xa_slippage = 50, xa_unit_limit = 1400000, xa_unit_price = 0, xa_commitment = Confirmed\<rparr>"

record 'd create_pools_args =
  ca_rpc_url :: string
  ca_program :: "pubkey option"
  ca_program_env :: string
  ca_amm_config :: pubkey
  ca_mints :: "pubkey list"
  ca_payer_env :: string
  ca_initial_price :: 'd
  ca_open_time :: "u64 option"
  ca_transaction :: transaction_args

record 'd user_flow_args =
  ua_rpc_url :: string
  ua_program :: "pubkey option"
  ua_program_env :: string
  ua_amm_config :: pubkey
  ua_mints :: "pubkey list"
  ua_faucet_env :: string
  ua_authority_env :: string
  ua_recovery_dir :: string
  ua_lamports :: u64
  ua_funding_a :: 'd
  ua_funding_b :: 'd
  ua_lower_price :: 'd
  ua_upper_price :: 'd
  ua_open_amount :: 'd
  ua_increase_amount :: 'd
  ua_exact_in :: 'd
  ua_exact_out :: 'd
  ua_with_metadata :: bool
  ua_transaction :: transaction_args

record admin_args =
  aa_rpc_url :: string
  aa_program :: "pubkey option"
  aa_program_env :: string
  aa_admin_env :: string
  aa_index :: u16
  aa_tick_spacing :: u16
  aa_trade_fee :: u32
  aa_protocol_fee :: u32
  aa_fund_fee :: u32
  aa_unit_limit :: u32
  aa_unit_price :: u64
  aa_commitment :: commitment

definition orchestration_of :: "transaction_args \<Rightarrow> orchestration_config" where
  "orchestration_of x =
     \<lparr>oc_slippage = xa_slippage x, oc_unit_limit = xa_unit_limit x, oc_unit_price = xa_unit_price x,
      oc_commitment = xa_commitment x\<rparr>"

definition submission_of :: "transaction_args \<Rightarrow> submission_config" where
  "submission_of x = default_submission\<lparr>sc_unit_limit := xa_unit_limit x,
     sc_unit_price := xa_unit_price x, sc_commitment := xa_commitment x\<rparr>"

section \<open>What the service calls\<close>

text \<open>A report is what \<open>json!\<close> builds.\<close>

datatype report =
    RNull
  | RBool bool
  | RNum nat
  | RText string
  | RList "report list"
  | RObj "(string \<times> report) list"

datatype service_call =
    Acting pubkey client_call  \<comment> \<open>a call of the orchestrator that acts for a payer\<close>
  | Submits pubkey "instruction list" "pubkey list"  \<comment> \<open>fee payer, instructions, other signers\<close>
  | ReadsAccount pubkey
  | ReadsBalance pubkey
  | ReadsSlot
  | PreparesDir string
  | SavesKey pubkey string bool  \<comment> \<open>the key of a user, the path, whether the write succeeded\<close>
  | RemovesKey string
  | Prints report

record ('w, 'h, 's, 'b, 'd, 'f) service =
  sv_env :: "'b raydium_env"
  sv_node :: "('w, 'h, 's) clmm_node"
  sv_dec :: "('d, 'f) dec_ops"
  sv_parse_key :: "string \<Rightarrow> string + pubkey"  \<comment> \<open>\<open>Pubkey::from_str\<close>\<close>
  sv_var :: "string \<Rightarrow> string + string"  \<comment> \<open>\<open>env::var\<close>\<close>
  sv_json_bytes :: "string \<Rightarrow> string + u8 list"
  sv_keypair :: "u8 list \<Rightarrow> string + pubkey"  \<comment> \<open>\<open>Keypair::try_from\<close>\<close>
  sv_slot :: "'w \<Rightarrow> (string + u64) \<times> 'w"
  sv_account :: "pubkey \<Rightarrow> 'w \<Rightarrow> (string + account) \<times> 'w"
  sv_account_at :: "pubkey \<Rightarrow> commitment \<Rightarrow> 'w \<Rightarrow> (string + account option) \<times> 'w"
  sv_balance :: "pubkey \<Rightarrow> 'w \<Rightarrow> (string + u64) \<times> 'w"
  sv_create_dir :: "string \<Rightarrow> 'w \<Rightarrow> (string + unit) \<times> 'w"
  sv_restrict_dir :: "string \<Rightarrow> 'w \<Rightarrow> (string + unit) \<times> 'w"
  sv_create_file :: "string \<Rightarrow> 'w \<Rightarrow> (string + unit) \<times> 'w"
  sv_write_key :: "string \<Rightarrow> pubkey \<Rightarrow> 'w \<Rightarrow> (string + unit) \<times> 'w"
  sv_remove_file :: "string \<Rightarrow> 'w \<Rightarrow> (string + unit) \<times> 'w"
  sv_removed_path :: "pubkey \<Rightarrow> string"  \<comment> \<open>the \<open>recovery_path\<close> of the second loop, which the source does not bind\<close>
  sv_show_sig :: "'s \<Rightarrow> string"

type_synonym ('w, 's, 'a) service_run = "('w, 's service_error fault, service_call, 'a) run"

text \<open>A library call with its context, its recorded call, and a run of the orchestrator.\<close>

definition library_call ::
    "string \<Rightarrow> service_call list \<Rightarrow> ('w \<Rightarrow> (string + 'a) \<times> 'w) \<Rightarrow> ('w, 's, 'a) service_run" where
  "library_call t calls f = (\<lambda>w. let (r, w1) = f w in Some (with_context t (library r), w1, calls))"

definition acting :: "pubkey \<Rightarrow> ('w, 's, 'a) flow \<Rightarrow> ('w, 's, 'a) service_run" where
  "acting user m = (\<lambda>w.
     case m w of None \<Rightarrow> None | Some (r, w1, cs) \<Rightarrow> Some (of_orchestration r, w1, map (Acting user) cs))"

text \<open>A run whose error is kept as a value; a panic is not.\<close>

definition attempt :: "('w, 's, 'a) service_run \<Rightarrow> ('w, 's, 's service_error + 'a) service_run" where
  "attempt m = (\<lambda>w.
     case m w of
       None \<Rightarrow> None
     | Some (r, w1, cs) \<Rightarrow>
         Some (case r of Inl Panic \<Rightarrow> Inl Panic | Inl (Raised e) \<Rightarrow> Inr (Inl e) | Inr x \<Rightarrow> Inr (Inr x), w1, cs))"

definition raise :: "'s service_error + 'a \<Rightarrow> ('s, 'a) service_result" where
  "raise r = map_err Raised r"

definition print_report :: "report \<Rightarrow> ('w, 's, unit) service_run" where
  "print_report r = (\<lambda>w. Some (Inr (), w, [Prints r]))"

definition service_submit ::
    "('w, 'h, 's, 'b, 'd, 'f) service \<Rightarrow> instruction list \<Rightarrow> pubkey \<Rightarrow> pubkey list \<Rightarrow> submission_config
      \<Rightarrow> ('w, 's, 's outcome) service_run" where
  "service_submit V ixs payer signers c = (\<lambda>w.
     case submit (nd_rpc (sv_node V)) (nd_fuel (sv_node V)) ixs payer signers c w of
       None \<Rightarrow> None
     | Some (r, w1, _) \<Rightarrow>
         Some (map_err (\<lambda>e. Raised (FromSubmission e)) r, w1, [Submits payer ixs signers]))"

section \<open>Keys and mints\<close>

abbreviation sv_show :: "('w, 'h, 's, 'b, 'd, 'f) service \<Rightarrow> pubkey \<Rightarrow> string" where
  "sv_show V \<equiv> rv_show_key (sv_env V)"

definition keypair_from_encoded ::
    "('w, 'h, 's, 'b, 'd, 'f) service \<Rightarrow> string \<Rightarrow> ('s, pubkey) service_result" where
  "keypair_from_encoded V encoded =
     bindR (with_context ''keypair must be a JSON-encoded byte array'' (library (sv_json_bytes V encoded)))
       (\<lambda>bytes.
     if length bytes \<noteq> 64 then bail ''keypair must contain exactly 64 byte values''
     else with_context ''invalid keypair bytes'' (library (sv_keypair V bytes)))"

definition keypair_from_environment ::
    "('w, 'h, 's, 'b, 'd, 'f) service \<Rightarrow> string \<Rightarrow> ('s, pubkey) service_result" where
  "keypair_from_environment V name =
     bindR (with_context (''environment variable '' @ name @ '' is unset'') (library (sv_var V name)))
       (\<lambda>encoded. with_context (name @ '' is not a valid keypair'') (keypair_from_encoded V encoded))"

definition resolve_pubkey ::
    "('w, 'h, 's, 'b, 'd, 'f) service \<Rightarrow> pubkey option \<Rightarrow> string \<Rightarrow> string \<Rightarrow> ('s, pubkey) service_result" where
  "resolve_pubkey V value env label =
     (case value of
        Some k \<Rightarrow> Inr k
      | None \<Rightarrow> with_context (''derive '' @ label @ '' address from '' @ env) (keypair_from_environment V env))"

definition service_pubkey ::
    "('w, 'h, 's, 'b, 'd, 'f) service \<Rightarrow> string \<Rightarrow> ('s, pubkey) service_result" where
  "service_pubkey V t = with_context (''invalid public key '' @ t) (library (sv_parse_key V t))"

text \<open>A \<open>BTreeSet\<close> lists its keys in order, each once.\<close>

definition unique_mints :: "pubkey list \<Rightarrow> string \<Rightarrow> ('s, pubkey list) service_result" where
  "unique_mints mints source =
     (let distinct_mints = sorted_list_of_set (set mints) in
      if length distinct_mints < 2 then bail (source @ '' must provide at least two distinct mints'')
      else Inr distinct_mints)"

fun unordered_pairs :: "pubkey list \<Rightarrow> (pubkey \<times> pubkey) list" where
  "unordered_pairs [] = []"
| "unordered_pairs (a # rest) = map (\<lambda>b. (a, b)) rest @ unordered_pairs rest"

definition connected_chain ::
    "('w, 'h, 's, 'b, 'd, 'f) service \<Rightarrow> string \<Rightarrow> commitment \<Rightarrow> ('w, 's, unit) service_run" where
  "connected_chain V url level =
     bindA (pureA (library (parse_commitment (commitment_name level)))) (\<lambda>_.
     bindA (library_call (''connect to '' @ url) [ReadsSlot] (sv_slot V)) (\<lambda>_. pureA (Inr ())))"

section \<open>Instructions\<close>

definition system_transfer :: "pubkey \<Rightarrow> pubkey \<Rightarrow> u64 \<Rightarrow> instruction" where
  "system_transfer source destination lamports =
     Invoke \<lparr>ix_program = default_pubkey,
       ix_accounts = [writable_meta source True, writable_meta destination False],
       ix_data = le_bytes 4 2 @ u64_bytes lamports\<rparr>"

definition transfer_checked ::
    "pubkey \<Rightarrow> pubkey \<Rightarrow> pubkey \<Rightarrow> pubkey \<Rightarrow> pubkey \<Rightarrow> u64 \<Rightarrow> u8 \<Rightarrow> instruction" where
  "transfer_checked source mint destination authority program amount decimals =
     Invoke \<lparr>ix_program = program,
       ix_accounts = [writable_meta source False, readonly_meta mint False, writable_meta destination False,
         readonly_meta authority True],
       ix_data = 12 # u64_bytes amount @ [decimals]\<rparr>"

definition close_token_account :: "pubkey \<Rightarrow> pubkey \<Rightarrow> pubkey \<Rightarrow> pubkey \<Rightarrow> instruction" where
  "close_token_account token_account destination authority program =
     Invoke \<lparr>ix_program = program,
       ix_accounts = [writable_meta token_account False, writable_meta destination False,
         readonly_meta authority True],
       ix_data = [9]\<rparr>"

definition service_token_address ::
    "('w, 'h, 's, 'b, 'd, 'f) service \<Rightarrow> pubkey \<Rightarrow> pubkey \<Rightarrow> pubkey \<Rightarrow> ('s, pubkey) service_result" where
  "service_token_address V own mint program =
     bindR (service_pubkey V associated_program_id) (\<lambda>associated.
     Inr (rv_find_pda (sv_env V) [pk_bytes own, pk_bytes program, pk_bytes mint] associated))"

definition service_create_ata ::
    "('w, 'h, 's, 'b, 'd, 'f) service \<Rightarrow> pubkey \<Rightarrow> pubkey \<Rightarrow> pubkey \<Rightarrow> pubkey \<Rightarrow> pubkey
      \<Rightarrow> ('s, instruction) service_result" where
  "service_create_ata V payer own mint program ata =
     bindR (service_pubkey V associated_program_id) (\<lambda>associated.
     Inr (create_ata_raw associated payer own mint program ata))"

definition token_account_amount ::
    "('w, 'h, 's, 'b, 'd, 'f) service \<Rightarrow> u8 list \<Rightarrow> pubkey \<Rightarrow> ('s, u64) service_result" where
  "token_account_amount V data address =
     (if length data < 72 then
        bail (''token account '' @ sv_show V address @ '' is too short to contain a balance'')
      else Inr (of_nat (of_le_bytes (take 8 (drop 64 data)))))"

section \<open>Recovery\<close>

definition transfer_lamports ::
    "('w, 'h, 's, 'b, 'd, 'f) service \<Rightarrow> pubkey \<Rightarrow> pubkey \<Rightarrow> pubkey \<Rightarrow> u64 \<Rightarrow> submission_config
      \<Rightarrow> ('w, 's, 's outcome) service_run" where
  "transfer_lamports V fee_payer source destination lamports c =
     (if lamports = 0 then pureA (bail ''lamport transfer amount must be greater than zero'')
      else service_submit V [system_transfer source destination lamports] fee_payer [source] c)"

text \<open>What returns the tokens of a user: between the read of its account and the submission.\<close>

definition return_instructions ::
    "('w, 'h, 's, 'b, 'd, 'f) service \<Rightarrow> pubkey \<Rightarrow> pubkey \<Rightarrow> pubkey \<Rightarrow> account \<Rightarrow> pubkey \<Rightarrow> account
      \<Rightarrow> ('s, instruction list) service_result" where
  "return_instructions V faucet user mint mint_account source source_account =
     (let program = ac_owner mint_account in
      bindR (token_account_amount V (ac_data source_account) source) (\<lambda>amount.
      bindR (service_token_address V faucet mint program) (\<lambda>destination.
      bindR (if 44 < length (ac_data mint_account) then Inr (ac_data mint_account ! 44)
             else bail (''mint '' @ sv_show V mint @ '' is too short to contain decimals'')) (\<lambda>decimals.
      bindR (service_create_ata V faucet faucet mint program destination) (\<lambda>create.
      Inr ([create]
        @ (if 0 < amount then [transfer_checked source mint destination user program amount decimals] else [])
        @ [close_token_account source faucet user program]))))))"

definition return_token_balance ::
    "('w, 'h, 's, 'b, 'd, 'f) service \<Rightarrow> pubkey \<Rightarrow> pubkey \<Rightarrow> pubkey \<Rightarrow> submission_config
      \<Rightarrow> ('w, 's, 's outcome option) service_run" where
  "return_token_balance V faucet user mint c =
     bindA (library_call (''read mint '' @ sv_show V mint @ '' for recovery'') [ReadsAccount mint]
              (sv_account V mint)) (\<lambda>mint_account.
     bindA (pureA (service_token_address V user mint (ac_owner mint_account))) (\<lambda>source.
     bindA (library_call ''read ephemeral user token balance'' [ReadsAccount source]
              (sv_account_at V source (sc_commitment c))) (\<lambda>found.
     case found of
       None \<Rightarrow> pureA (Inr None)
     | Some source_account \<Rightarrow>
         bindA (pureA (return_instructions V faucet user mint mint_account source source_account)) (\<lambda>ixs.
         bindA (service_submit V ixs faucet [user] c) (\<lambda>t. pureA (Inr (Some t)))))))"

fun return_tokens ::
    "('w, 'h, 's, 'b, 'd, 'f) service \<Rightarrow> pubkey \<Rightarrow> pubkey \<Rightarrow> submission_config \<Rightarrow> pubkey list
      \<Rightarrow> 's outcome list \<Rightarrow> ('w, 's, 's outcome list) service_run" where
  "return_tokens V faucet user c [] acc = pureA (Inr acc)"
| "return_tokens V faucet user c (mint # mints) acc =
     bindA (return_token_balance V faucet user mint c) (\<lambda>t.
     return_tokens V faucet user c mints (case t of None \<Rightarrow> acc | Some x \<Rightarrow> acc @ [x]))"

definition reclaim_user_funds ::
    "('w, 'h, 's, 'b, 'd, 'f) service \<Rightarrow> pubkey \<Rightarrow> pubkey \<Rightarrow> pubkey list \<Rightarrow> submission_config
      \<Rightarrow> ('w, 's, 's outcome list \<times> u64 \<times> 's outcome option) service_run" where
  "reclaim_user_funds V faucet user mints c =
     bindA (return_tokens V faucet user c mints []) (\<lambda>token_returns.
     bindA (library_call ''read ephemeral user balance before recovery'' [ReadsBalance user] (sv_balance V user))
       (\<lambda>lamports.
     bindA (if lamports = 0 then pureA (Inr None)
            else bindA (transfer_lamports V faucet user faucet lamports c) (\<lambda>t. pureA (Inr (Some t)))) (\<lambda>t.
     pureA (Inr (token_returns, lamports, t)))))"

section \<open>Reports\<close>

definition transaction_json :: "('w, 'h, 's, 'b, 'd, 'f) service \<Rightarrow> 's outcome \<Rightarrow> report" where
  "transaction_json V t =
     RObj [(''signature'', RText (sv_show_sig V (out_signature t))),
       (''confirmationSlot'', RNum (unat (out_slot t))),
       (''simulatedComputeUnits'', RNum (unat (out_units t)))]"

definition optional_json :: "('a \<Rightarrow> report) \<Rightarrow> 'a option \<Rightarrow> report" where
  "optional_json f m = (case m of None \<Rightarrow> RNull | Some x \<Rightarrow> f x)"

definition pool_creation_json ::
    "('w, 'h, 's, 'b, 'd, 'f) service \<Rightarrow> ('s, 'd) create_pool_outcome \<Rightarrow> report" where
  "pool_creation_json V out =
     RObj [(''pool'', RText (sv_show V (pa_pool (cu_accounts out)))),
       (''mint0'', RText (sv_show V (cu_mint_0 out))), (''mint1'', RText (sv_show V (cu_mint_1 out))),
       (''create'', transaction_json V (cu_transaction out))]"

definition swap_json :: "('w, 'h, 's, 'b, 'd, 'f) service \<Rightarrow> 's swap_outcome \<Rightarrow> report" where
  "swap_json V out =
     RObj [(''transaction'', transaction_json V (wo_transaction out)),
       (''expectedInputRaw'', RNum (unat (sq_expected_input (wo_quote out)))),
       (''expectedOutputRaw'', RNum (unat (sq_expected_output (wo_quote out))))]"

definition user_flow_json ::
    "('w, 'h, 's, 'b, 'd, 'f) service \<Rightarrow> 's user_flow_outcome \<Rightarrow> report" where
  "user_flow_json V out =
     (let f = ut_funding out; opened = ut_open out in
      RObj
       [(''funding'', RObj [(''transaction'', transaction_json V (fo_transaction f)),
          (''tokenAccountA'', RText (sv_show V (fo_account_a f))),
          (''tokenAccountB'', RText (sv_show V (fo_account_b f))),
          (''amountARaw'', RNum (unat (fo_raw_a f))), (''amountBRaw'', RNum (unat (fo_raw_b f)))]),
        (''position'', RObj [(''nftMint'', RText (sv_show V (po_nft_mint (so_accounts opened)))),
          (''personalPosition'', RText (sv_show V (po_personal (so_accounts opened)))),
          (''open'', transaction_json V (so_transaction opened)),
          (''increase'', transaction_json V (so_transaction (ut_increase out))),
          (''decrease'', transaction_json V (so_transaction (ut_decrease out))),
          (''collect'', transaction_json V (fst (ut_collect out))),
          (''close'', transaction_json V (ce_transaction (ut_close out)))]),
        (''swaps'', RObj [(''exactIn'', swap_json V (ut_exact_in out)),
          (''exactOut'', swap_json V (ut_exact_out out))])])"

record user_pool =
  up_pool :: pubkey
  up_mint_a :: pubkey
  up_mint_b :: pubkey

record 's user_flow_run =
  ur_pool :: user_pool
  ur_user :: pubkey
  ur_startup :: "'s outcome"
  ur_outcome :: "'s user_flow_outcome"
  ur_token_returns :: "'s outcome list"
  ur_lamports :: u64
  ur_lamport_return :: "'s outcome option"

definition user_flow_run_json ::
    "('w, 'h, 's, 'b, 'd, 'f) service \<Rightarrow> 's user_flow_run \<Rightarrow> report" where
  "user_flow_run_json V r =
     RObj [(''pool'', RText (sv_show V (up_pool (ur_pool r)))),
       (''mintA'', RText (sv_show V (up_mint_a (ur_pool r)))),
       (''mintB'', RText (sv_show V (up_mint_b (ur_pool r)))),
       (''user'', RText (sv_show V (ur_user r))),
       (''startupFunding'', transaction_json V (ur_startup r)),
       (''fundsReturned'', RObj [(''lamports'', RNum (unat (ur_lamports r))),
          (''lamportTransaction'', optional_json (transaction_json V) (ur_lamport_return r)),
          (''tokenTransactions'', RList (map (transaction_json V) (ur_token_returns r)))]),
       (''flow'', user_flow_json V (ur_outcome r))]"

section \<open>Commands\<close>

text \<open>\<open>create-pools\<close>: one pool for each pair, in order, until one fails.\<close>

fun create_pools ::
    "('w, 'h, 's, 'b, 'd, 'f) service \<Rightarrow> ('w, 'h, 's, 'b, 'd, 'f) orchestrator \<Rightarrow> 'd create_pools_args
      \<Rightarrow> (pubkey \<times> pubkey) list \<Rightarrow> report list \<Rightarrow> ('w, 's, report list) service_run" where
  "create_pools V P x [] outcomes = pureA (Inr outcomes)"
| "create_pools V P x ((mint_a, mint_b) # pairs) outcomes =
     bindA (acting (cl_payer (or_client P)) (create_pool_flow P
       \<lparr>pc_amm_config = ca_amm_config x, pc_mint_a = mint_a, pc_mint_b = mint_b,
        pc_initial_price = ca_initial_price x, pc_open_time = ca_open_time x\<rparr>)) (\<lambda>out.
     create_pools V P x pairs (outcomes @ [pool_creation_json V out]))"

definition service_orchestrator ::
    "('w, 'h, 's, 'b, 'd, 'f) service \<Rightarrow> pubkey \<Rightarrow> pubkey \<Rightarrow> pubkey \<Rightarrow> orchestration_config
      \<Rightarrow> ('s, ('w, 'h, 's, 'b, 'd, 'f) orchestrator) service_result" where
  "service_orchestrator V program payer authority c =
     of_orchestration (orchestrator_new (sv_env V) (sv_node V) (sv_dec V) (sv_parse_key V)
       program payer authority c)"

definition create_all_pools ::
    "('w, 'h, 's, 'b, 'd, 'f) service \<Rightarrow> 'd create_pools_args \<Rightarrow> ('w, 's, unit) service_run" where
  "create_all_pools V x =
     bindA (pureA (keypair_from_environment V (ca_payer_env x))) (\<lambda>payer.
     bindA (pureA (resolve_pubkey V (ca_program x) (ca_program_env x) ''Raydium program'')) (\<lambda>program.
     bindA (pureA (unique_mints (ca_mints x) ''--mint'')) (\<lambda>mints.
     bindA (connected_chain V (ca_rpc_url x) (xa_commitment (ca_transaction x))) (\<lambda>_.
     bindA (pureA (service_orchestrator V program payer payer (orchestration_of (ca_transaction x)))) (\<lambda>P.
     bindA (create_pools V P x (unordered_pairs mints) []) (\<lambda>outcomes.
     print_report (RList outcomes)))))))"

text \<open>\<open>admin\<close>.\<close>

definition admin_report ::
    "('w, 'h, 's, 'b, 'd, 'f) service \<Rightarrow> pubkey \<Rightarrow> 's config_outcome \<Rightarrow> report" where
  "admin_report V program out =
     RObj [(''programId'', RText (sv_show V program)), (''admin'', RText (sv_show V (co_admin out))),
       (''ammConfig'', RText (sv_show V (co_amm_config out))), (''created'', RBool (co_created out)),
       (''transaction'', optional_json (transaction_json V) (co_transaction out))]"

definition run_admin ::
    "('w, 'h, 's, 'b, 'd, 'f) service \<Rightarrow> admin_args \<Rightarrow> ('w, 's, unit) service_run" where
  "run_admin V x =
     bindA (pureA (resolve_pubkey V (aa_program x) (aa_program_env x) ''Raydium program'')) (\<lambda>program.
     bindA (pureA (keypair_from_environment V (aa_admin_env x))) (\<lambda>admin.
     bindA (connected_chain V (aa_rpc_url x) (aa_commitment x)) (\<lambda>_.
     bindA (pureA (of_orchestration (admin_new (sv_env V) (sv_node V) (sv_dec V) program admin
              (aa_unit_limit x) (aa_unit_price x) (aa_commitment x)))) (\<lambda>A.
     bindA (acting admin (admin_ensure_config A
       \<lparr>ap_index = aa_index x, ap_tick_spacing = aa_tick_spacing x, ap_trade_fee = aa_trade_fee x,
        ap_protocol_fee = aa_protocol_fee x, ap_fund_fee = aa_fund_fee x\<rparr>)) (\<lambda>out.
     print_report (admin_report V (ao_program A) out))))))"

section \<open>User flows\<close>

text \<open>The file of a user's key: \<open>recovery_dir.join(format!("{user}.json"))\<close>.\<close>

definition recovery_path ::
    "('w, 'h, 's, 'b, 'd, 'f) service \<Rightarrow> 'd user_flow_args \<Rightarrow> pubkey \<Rightarrow> string" where
  "recovery_path V x user = ua_recovery_dir x @ ''/'' @ sv_show V user @ ''.json''"

definition user_pools ::
    "('w, 'h, 's, 'b, 'd, 'f) service \<Rightarrow> pubkey \<Rightarrow> 'd user_flow_args \<Rightarrow> pubkey list
      \<Rightarrow> ('s, user_pool list) service_result" where
  "user_pools V program x mints =
     traverseR (\<lambda>(mint_a, mint_b).
       bindR (of_orchestration (derive_pool_address_flow (sv_env V) program (ua_amm_config x) mint_a mint_b))
         (\<lambda>pool. Inr \<lparr>up_pool = pool, up_mint_a = mint_a, up_mint_b = mint_b\<rparr>)) (unordered_pairs mints)"

fun new_users ::
    "('w, 'h, 's, 'b, 'd, 'f) service \<Rightarrow> user_pool list \<Rightarrow> ('w, 's, (user_pool \<times> pubkey) list) service_run" where
  "new_users V [] = pureA (Inr [])"
| "new_users V (pool # pools) =
     bindA (\<lambda>w. let (k, w1) = nd_keypair (sv_node V) w in Some (Inr k, w1, [])) (\<lambda>user.
     bindA (new_users V pools) (\<lambda>users. pureA (Inr ((pool, user) # users))))"

text \<open>The file is created, then the key is written; the recorded call says whether the write succeeded.\<close>

definition save_key ::
    "('w, 'h, 's, 'b, 'd, 'f) service \<Rightarrow> pubkey \<Rightarrow> string \<Rightarrow> ('w, 's, unit) service_run" where
  "save_key V user path =
     bindA (library_call (''save recovery keypair to '' @ path) [] (sv_create_file V path)) (\<lambda>_ w.
     let (r, w1) = sv_write_key V path user w in
     Some (with_context (''write recovery keypair to '' @ path) (library r), w1,
       [SavesKey user path (\<not> isl r)]))"

definition pool_mints :: "user_pool \<Rightarrow> pubkey list" where
  "pool_mints p = [up_mint_a p, up_mint_b p]"

type_synonym 's funded = "user_pool \<times> pubkey \<times> 's outcome"

text \<open>The recovery of users whose funding went through; its results are dropped.\<close>

fun reclaim_all ::
    "('w, 'h, 's, 'b, 'd, 'f) service \<Rightarrow> pubkey \<Rightarrow> submission_config \<Rightarrow> 's funded list \<Rightarrow> ('w, 's, unit) service_run" where
  "reclaim_all V faucet c [] = pureA (Inr ())"
| "reclaim_all V faucet c ((pool, user, t) # rest) =
     bindA (attempt (reclaim_user_funds V faucet user (pool_mints pool) c)) (\<lambda>_. reclaim_all V faucet c rest)"

text \<open>The first loop: each user's key is saved, then the user is funded.\<close>

fun fund_users ::
    "('w, 'h, 's, 'b, 'd, 'f) service \<Rightarrow> pubkey \<Rightarrow> 'd user_flow_args \<Rightarrow> submission_config
      \<Rightarrow> (user_pool \<times> pubkey) list \<Rightarrow> 's funded list \<Rightarrow> ('w, 's, 's funded list) service_run" where
  "fund_users V faucet x c [] funded = pureA (Inr funded)"
| "fund_users V faucet x c ((pool, user) # users) funded =
     bindA (save_key V user (recovery_path V x user)) (\<lambda>_.
     bindA (attempt (transfer_lamports V faucet faucet user (ua_lamports x) c)) (\<lambda>r.
     case r of
       Inl e \<Rightarrow>
         bindA (reclaim_all V faucet c funded) (\<lambda>_.
         pureA (Inl (Raised (Context ''fund ephemeral user from KEYPAIR_FAUCET'' e))))
     | Inr t \<Rightarrow> fund_users V faucet x c users (funded @ [(pool, user, t)])))"

definition flow_params :: "'d user_flow_args \<Rightarrow> user_pool \<Rightarrow> 'd user_flow_params" where
  "flow_params x pool =
     \<lparr>uf_amm_config = ua_amm_config x, uf_pool = up_pool pool, uf_mint_a = up_mint_a pool,
      uf_mint_b = up_mint_b pool, uf_funding_a = ua_funding_a x, uf_funding_b = ua_funding_b x,
      uf_lower_price = ua_lower_price x, uf_upper_price = ua_upper_price x,
      uf_open_amount = ua_open_amount x, uf_increase_amount = ua_increase_amount x,
      uf_exact_in = ua_exact_in x, uf_exact_out = ua_exact_out x, uf_with_metadata = ua_with_metadata x\<rparr>"

text \<open>
  The end of a user's turn: the flow's error is reported before the recovery's, and the key file is
  removed only when neither failed. The source names the path of that file by \<open>recovery_path\<close>, which is
  bound in the body of the first loop only and is not in scope here, so the service does not compile
  as it stands; what the name stands for is the parameter \<open>sv_removed_path\<close> of the model.
\<close>

definition finish_user ::
    "('w, 'h, 's, 'b, 'd, 'f) service \<Rightarrow> 'd user_flow_args \<Rightarrow> 's funded
      \<Rightarrow> 's service_error + 's user_flow_outcome \<Rightarrow> 's service_error + 's outcome list \<times> u64 \<times> 's outcome option
      \<Rightarrow> ('w, 's, 's user_flow_run) service_run" where
  "finish_user V x = (\<lambda>(pool, user, startup) flow recovery.
     bindA (pureA (with_context ''run Raydium CLMM user flow'' (raise flow))) (\<lambda>out.
     bindA (pureA (with_context ''return ephemeral user funds to KEYPAIR_FAUCET'' (raise recovery)))
       (\<lambda>(token_returns, lamports, lamport_return).
     let path = sv_removed_path V user in
     bindA (library_call (''remove recovered keypair '' @ path) [RemovesKey path] (sv_remove_file V path)) (\<lambda>_.
     pureA (Inr \<lparr>ur_pool = pool, ur_user = user, ur_startup = startup, ur_outcome = out,
       ur_token_returns = token_returns, ur_lamports = lamports, ur_lamport_return = lamport_return\<rparr>)))))"

text \<open>One user of the second loop: the flow, then the recovery whatever the flow's result was.\<close>

definition run_user ::
    "('w, 'h, 's, 'b, 'd, 'f) service \<Rightarrow> pubkey \<Rightarrow> pubkey \<Rightarrow> pubkey \<Rightarrow> 'd user_flow_args \<Rightarrow> submission_config
      \<Rightarrow> 's funded \<Rightarrow> ('w, 's, 's user_flow_run) service_run" where
  "run_user V program faucet authority x c = (\<lambda>(pool, user, startup).
     bindA (pureA (service_orchestrator V program user authority (orchestration_of (ua_transaction x)))) (\<lambda>P.
     bindA (attempt (acting user (run_user_flow P (flow_params x pool)))) (\<lambda>flow.
     bindA (attempt (reclaim_user_funds V faucet user (pool_mints pool) c)) (\<lambda>recovery.
     finish_user V x (pool, user, startup) flow recovery))))"

fun run_users ::
    "('w, 'h, 's, 'b, 'd, 'f) service \<Rightarrow> pubkey \<Rightarrow> pubkey \<Rightarrow> pubkey \<Rightarrow> 'd user_flow_args \<Rightarrow> submission_config
      \<Rightarrow> 's funded list \<Rightarrow> ('w, 's, 's user_flow_run list) service_run" where
  "run_users V program faucet authority x c [] = pureA (Inr [])"
| "run_users V program faucet authority x c (u # us) =
     bindA (run_user V program faucet authority x c u) (\<lambda>r.
     bindA (run_users V program faucet authority x c us) (\<lambda>rs. pureA (Inr (r # rs))))"

definition execute_user_flows ::
    "('w, 'h, 's, 'b, 'd, 'f) service \<Rightarrow> 'd user_flow_args \<Rightarrow> ('w, 's, unit) service_run" where
  "execute_user_flows V x =
     bindA (pureA (keypair_from_environment V (ua_faucet_env x))) (\<lambda>faucet.
     bindA (pureA (keypair_from_environment V (ua_authority_env x))) (\<lambda>authority.
     bindA (pureA (resolve_pubkey V (ua_program x) (ua_program_env x) ''Raydium program'')) (\<lambda>program.
     bindA (pureA (bindR (unique_mints (ua_mints x) ''--mint'') (user_pools V program x))) (\<lambda>pools.
     bindA (connected_chain V (ua_rpc_url x) (xa_commitment (ua_transaction x))) (\<lambda>_.
     let c = submission_of (ua_transaction x); dir = ua_recovery_dir x in
     bindA (library_call (''create recovery directory '' @ dir) [PreparesDir dir] (sv_create_dir V dir)) (\<lambda>_.
     bindA (library_call (''restrict recovery directory '' @ dir) [] (sv_restrict_dir V dir)) (\<lambda>_.
     bindA (new_users V pools) (\<lambda>users.
     bindA (fund_users V faucet x c users []) (\<lambda>funded.
     bindA (run_users V program faucet authority x c funded) (\<lambda>runs.
     print_report (RList (map (user_flow_run_json V) runs))))))))))))"

end
