(* ===== verification/Service_Proofs.thy ===== *)
theory Service_Proofs
  imports Orchestrator_Service Orchestrator_Amounts
begin

text \<open>
  Lemmas on the service: the pairs it works on, and which of its runs return.
\<close>

section \<open>Pairs\<close>

lemma set_unordered_pairs:
  "sorted_wrt (<) ms \<Longrightarrow> set (unordered_pairs ms) = {(a, b). a \<in> set ms \<and> b \<in> set ms \<and> a < b}"
  by (induction ms) (auto dest: less_asym)

lemma distinct_unordered_pairs: "sorted_wrt (<) ms \<Longrightarrow> distinct (unordered_pairs ms)"
proof (induction ms)
  case (Cons a ms)
  then have "a \<notin> set ms" "distinct ms" by (auto simp: strict_sorted_iff)
  then show ?case using Cons by (auto simp: distinct_map inj_on_def set_unordered_pairs)
qed simp

lemma length_unordered_pairs: "2 * length (unordered_pairs ms) = length ms * (length ms - 1)"
proof (induction ms)
  case (Cons a ms)
  then show ?case by (cases ms) (simp_all add: algebra_simps)
qed simp

lemma unique_mints_Inr:
  "(unique_mints mints source :: ('s, pubkey list) service_result) = Inr ms \<longleftrightarrow>
     ms = sorted_list_of_set (set mints) \<and> 2 \<le> card (set mints)"
  by (auto simp: unique_mints_def Let_def)

lemma user_pool_Inr:
  "a < b \<Longrightarrow> (of_orchestration (derive_pool_address_flow W program amm a b) :: ('s, pubkey) service_result)
     = Inr (pool_address_for W program amm a b)"
  by (simp add: of_orchestration_def derive_pool_address_flow_def of_raydium_def derive_pool_address_def)

lemma user_pools_Inr:
  assumes "list_all (\<lambda>(a, b). a < b) (unordered_pairs ms)"
  shows "(user_pools V program x ms :: ('s, user_pool list) service_result) = Inr (map (\<lambda>(a, b).
    \<lparr>up_pool = pool_address_for (sv_env V) program (ua_amm_config x) a b, up_mint_a = a, up_mint_b = b\<rparr>)
      (unordered_pairs ms))"
proof -
  have "list_all (\<lambda>(a, b). a < b) ps \<Longrightarrow> (traverseR (\<lambda>(mint_a, mint_b).
       bindR (of_orchestration (derive_pool_address_flow (sv_env V) program (ua_amm_config x) mint_a mint_b))
         (\<lambda>pool. Inr \<lparr>up_pool = pool, up_mint_a = mint_a, up_mint_b = mint_b\<rparr>)) ps
       :: ('s, user_pool list) service_result)
    = Inr (map (\<lambda>(a, b). \<lparr>up_pool = pool_address_for (sv_env V) program (ua_amm_config x) a b,
        up_mint_a = a, up_mint_b = b\<rparr>) ps)" for ps
    by (induction ps) (auto simp: user_pool_Inr)
  then show ?thesis using assms by (simp add: user_pools_def)
qed

section \<open>Termination\<close>

named_theorems returns_intros

definition returns :: "('w, 'e, 'c, 'a) run \<Rightarrow> bool" where
  "returns m \<longleftrightarrow> (\<forall>w. m w \<noteq> None)"

lemma returns_pure [returns_intros]: "returns (pureA r)"
  by (simp add: returns_def pureA_def)

lemma returns_bind [returns_intros]: "returns m \<Longrightarrow> (\<And>x. returns (f x)) \<Longrightarrow> returns (bindA m f)"
  unfolding returns_def
proof
  fix w
  assume "\<forall>w. m w \<noteq> None" and f: "\<And>x. \<forall>w. f x w \<noteq> None"
  then obtain r w1 cs where "m w = Some (r, w1, cs)" by (metis option.exhaust prod_cases3)
  then show "bindA m f w \<noteq> None" using f by (cases r) (auto simp: bindA_def split: option.split)
qed

lemma returns_case [returns_intros]:
  "(\<And>x y. returns (f x y)) \<Longrightarrow> returns (case p of (x, y) \<Rightarrow> f x y)"
  "returns a \<Longrightarrow> (\<And>x. returns (g x)) \<Longrightarrow> returns (case m of None \<Rightarrow> a | Some x \<Rightarrow> g x)"
  "(\<And>e. returns (h e)) \<Longrightarrow> (\<And>x. returns (k x)) \<Longrightarrow> returns (case r of Inl e \<Rightarrow> h e | Inr x \<Rightarrow> k x)"
  "returns a \<Longrightarrow> returns b \<Longrightarrow> returns (if c then a else b)"
  by (cases p; cases m; cases r; simp)+

lemma returns_steps [returns_intros]:
  "returns (library_call t cs f)" "returns (print_report rep)"
  by (auto simp: returns_def library_call_def print_report_def split: prod.splits)

lemma returns_wrappers [returns_intros]:
  "returns m \<Longrightarrow> returns (attempt m)" "returns g \<Longrightarrow> returns (acting user g)"
  by (auto simp: returns_def attempt_def acting_def split: option.splits)

lemma returns_sends: "sends n m \<Longrightarrow> returns m"
  unfolding sends_def returns_def by (metis option.distinct(1))

lemma returns_new_key [returns_intros]:
  "returns (\<lambda>w. case nd_keypair N w of (k, w1) \<Rightarrow> Some (Inr k, w1, []))"
  by (simp add: returns_def split: prod.split)

text \<open>The service's submissions with a default polling interval and timeout return.\<close>

definition timed :: "submission_config \<Rightarrow> bool" where
  "timed c \<longleftrightarrow> sc_poll_interval c = 500 * 10 ^ 6 \<and> sc_confirmation_timeout c = 45 * 10 ^ 9"

definition keeps_time :: "('w, 'h, 's, 'b, 'd, 'f) service \<Rightarrow> bool" where
  "keeps_time V \<longleftrightarrow> time_passes (nd_rpc (sv_node V)) \<and> 91 \<le> nd_fuel (sv_node V)"

lemma timed_submission: "timed (submission_of x)"
  by (simp add: timed_def submission_of_def default_submission_def)

lemma returns_submit [returns_intros]:
  assumes "keeps_time V" and "timed c"
  shows "returns (service_submit V ixs payer signers c)"
proof -
  have "91 * (500 * 10 ^ 6) \<le> nd_fuel (sv_node V) * (500 * 10 ^ 6)"
    using assms(1) unfolding keeps_time_def by (intro mult_le_mono1) simp
  then have "45 * 10 ^ 9 + 500 * 10 ^ 6 \<le> nd_fuel (sv_node V) * (500 * 10 ^ 6)" by simp
  then have "submit (nd_rpc (sv_node V)) (nd_fuel (sv_node V)) ixs payer signers c w \<noteq> None" for w
    using assms unfolding keeps_time_def timed_def by (intro submit_not_None) simp_all
  then show ?thesis by (auto simp: returns_def service_submit_def split: option.splits)
qed

lemma returns_transfer [returns_intros]:
  "keeps_time V \<Longrightarrow> timed c \<Longrightarrow> returns (transfer_lamports V p a b l c)"
  by (auto simp: transfer_lamports_def intro!: returns_intros)

lemma returns_token_balance [returns_intros]:
  "keeps_time V \<Longrightarrow> timed c \<Longrightarrow> returns (return_token_balance V faucet user mint c)"
  by (auto simp: return_token_balance_def intro!: returns_intros)

lemma returns_tokens [returns_intros]:
  "keeps_time V \<Longrightarrow> timed c \<Longrightarrow> returns (return_tokens V faucet user c mints acc)"
  by (induction mints arbitrary: acc) (auto intro!: returns_intros)

lemma returns_reclaim [returns_intros]:
  "keeps_time V \<Longrightarrow> timed c \<Longrightarrow> returns (reclaim_user_funds V faucet user mints c)"
  by (auto simp: reclaim_user_funds_def intro!: returns_intros)

lemma returns_reclaim_all [returns_intros]:
  "keeps_time V \<Longrightarrow> timed c \<Longrightarrow> returns (reclaim_all V faucet c users)"
  by (induction users) (auto intro!: returns_intros)

lemma returns_save_key [returns_intros]: "returns (save_key V user path)"
  unfolding save_key_def by (rule returns_bind, rule returns_steps) (simp add: returns_def split: prod.split)

lemma returns_new_users [returns_intros]: "returns (new_users V pools)"
  by (induction pools) (auto intro!: returns_intros)

lemma returns_fund_users [returns_intros]:
  "keeps_time V \<Longrightarrow> timed c \<Longrightarrow> returns (fund_users V faucet x c users funded)"
  by (induction users arbitrary: funded) (auto intro!: returns_intros)

text \<open>An orchestrator that the service could build is ready.\<close>

lemma bind_orchestrator:
  assumes "keeps_time V"
    and "\<And>P. ready P \<Longrightarrow> returns (f P)"
  shows "returns (bindA (pureA (service_orchestrator V program payer authority c)) f)"
proof (cases "service_orchestrator V program payer authority c")
  case (Inl e)
  then show ?thesis by (simp add: returns_def bindA_def pureA_def)
next
  case (Inr P)
  then have "(orchestrator_new (sv_env V) (sv_node V) (sv_dec V) (sv_parse_key V) program payer authority c)
      = Inr P" by (simp add: service_orchestrator_def of_orchestration_def map_err_Inr)
  from ready_orchestrator [OF this] assms have "returns (f P)" unfolding keeps_time_def by blast
  then show ?thesis using Inr by (simp add: returns_def bindA_def pureA_def split: option.splits)
qed

lemma returns_flows [returns_intros]:
  "ready P \<Longrightarrow> returns (run_user_flow P p)" "ready P \<Longrightarrow> returns (create_pool_flow P q)"
  using sends_flows returns_sends by blast+

lemma returns_finish [returns_intros]: "returns (finish_user V x u flow recovery)"
  by (cases u) (auto simp: finish_user_def Let_def intro!: returns_intros)

lemma returns_run_user [returns_intros]:
  "keeps_time V \<Longrightarrow> timed c \<Longrightarrow> returns (run_user V program faucet authority x c u)"
  unfolding run_user_def
  by (cases u, simp, rule bind_orchestrator) (auto intro!: returns_intros)

lemma returns_run_users [returns_intros]:
  "keeps_time V \<Longrightarrow> timed c \<Longrightarrow> returns (run_users V program faucet authority x c us)"
  by (induction us) (auto intro!: returns_intros)

lemma returns_connected [returns_intros]: "returns (connected_chain V url level)"
  by (auto simp: connected_chain_def intro!: returns_intros)

lemma returns_create_pools [returns_intros]:
  "ready P \<Longrightarrow> returns (create_pools V P x pairs outcomes)"
  by (induction pairs arbitrary: outcomes) (auto intro!: returns_intros)

end
