(* ===== verification/Service_Sample.thy ===== *)
theory Service_Sample
  imports Service_Proofs
begin

text \<open>
  The service of the sample cluster: a faucet, a mint authority, a directory that accepts every
  file, and a user whose token account of the first mint still holds three units when it is
  recovered.
\<close>

definition left_over :: account where
  "left_over = \<lparr>ac_owner = Pubkey [1], ac_data = replicate 64 0 @ u64_bytes 3 @ replicate 93 0,
     ac_executable = False\<rparr>"

definition sample_service :: "(nat, nat, nat, unit, rat, rat) service" where
  "sample_service =
     \<lparr>sv_env = sample_env 1000, sv_node = sample_node, sv_dec = rat_dec, sv_parse_key = sample_ids,
      sv_var = Inr, sv_json_bytes = (\<lambda>t. Inr (replicate 64 (if t = ''faucet'' then 60 else 8))),
      sv_keypair = (\<lambda>bytes. Inr (if hd bytes = 60 then Pubkey [60] else Pubkey sample_authority)),
      sv_slot = (\<lambda>w. (Inr 0, w)),
      sv_account = (\<lambda>k w. (case sample_account w k of None \<Rightarrow> Inl ''none'' | Some a \<Rightarrow> Inr a, w)),
      sv_account_at = (\<lambda>k level w. (Inr (if k = Pubkey [5, 1, 10] then Some left_over else None), w)),
      sv_balance = (\<lambda>_ w. (Inr 7, w)), sv_create_dir = (\<lambda>_ w. (Inr (), w)),
      sv_restrict_dir = (\<lambda>_ w. (Inr (), w)), sv_create_file = (\<lambda>_ w. (Inr (), w)),
      sv_write_key = (\<lambda>_ _ w. (Inr (), w)), sv_remove_file = (\<lambda>_ w. (Inr (), w)),
      sv_removed_path = (\<lambda>_. ''keys/user.json''),
      sv_show_sig = (\<lambda>_. ''signature'')\<rparr>"

definition sample_args :: "rat user_flow_args" where
  "sample_args =
     \<lparr>ua_rpc_url = ''local'', ua_program = Some (Pubkey [9]), ua_program_env = ''program'',
      ua_amm_config = Pubkey [30, 0, 0], ua_mints = [Pubkey [11], Pubkey [10]],
      ua_faucet_env = ''faucet'', ua_authority_env = ''authority'', ua_recovery_dir = ''keys'',
      ua_lamports = 100, ua_funding_a = 10, ua_funding_b = 10, ua_lower_price = 1, ua_upper_price = 5,
      ua_open_amount = 10, ua_increase_amount = 10, ua_exact_in = 10, ua_exact_out = 1000,
      ua_with_metadata = False,
      ua_transaction = \<lparr>xa_slippage = 500, xa_unit_limit = 1400000, xa_unit_price = 0,
        xa_commitment = Confirmed\<rparr>\<rparr>"

definition sample_user_pool :: user_pool where
  "sample_user_pool = \<lparr>up_pool = Pubkey pool_bytes, up_mint_a = Pubkey [10], up_mint_b = Pubkey [11]\<rparr>"

lemma sample_service_parts:
  "sv_env sample_service = sample_env 1000" "sv_node sample_service = sample_node"
  "sv_dec sample_service = rat_dec" "sv_parse_key sample_service = sample_ids"
  "sv_slot sample_service w = (Inr 0, w)" "sv_balance sample_service k w = (Inr 7, w)"
  "sv_create_dir sample_service t w = (Inr (), w)" "sv_restrict_dir sample_service t w = (Inr (), w)"
  "sv_create_file sample_service t w = (Inr (), w)" "sv_write_key sample_service t k w = (Inr (), w)"
  "sv_remove_file sample_service t w = (Inr (), w)" "sv_removed_path sample_service k = ''keys/user.json''"
  by (simp_all add: sample_service_def)

lemma sample_args_parts:
  "ua_program sample_args = Some (Pubkey [9])" "ua_amm_config sample_args = Pubkey [30, 0, 0]"
  "ua_mints sample_args = [Pubkey [11], Pubkey [10]]" "ua_faucet_env sample_args = ''faucet''"
  "ua_authority_env sample_args = ''authority''" "ua_lamports sample_args = 100" "ua_recovery_dir sample_args = ''keys''"
  "orchestration_of (ua_transaction sample_args) = sample_settings"
  "submission_of (ua_transaction sample_args) = cl_submission (sample_client 1000)"
  by (simp_all add: sample_args_def orchestration_of_def submission_of_def sample_settings_def
      sample_client_def)

lemma sample_keys:
  "(keypair_from_environment sample_service ''faucet'' :: (nat, pubkey) service_result) = Inr (Pubkey [60])"
  "(keypair_from_environment sample_service ''authority'' :: (nat, pubkey) service_result)
     = Inr (Pubkey sample_authority)"
  by (simp_all add: keypair_from_environment_def keypair_from_encoded_def with_context_def library_def
      sample_service_def)

lemma sample_service_orchestrator:
  "(service_orchestrator sample_service (Pubkey [9]) (Pubkey [5]) (Pubkey sample_authority) sample_settings
     :: (nat, (nat, nat, nat, unit, rat, rat) orchestrator) service_result) = Inr (sample_orchestrator 1000)"
  by (simp add: service_orchestrator_def sample_service_parts sample_orchestrator_new of_orchestration_def)

lemma sample_flow_params: "flow_params sample_args sample_user_pool = sample_flow"
  by (simp add: flow_params_def sample_args_def sample_user_pool_def sample_flow_def)

lemma sample_service_submit:
  assumes "5 \<le> w"
  shows "\<exists>t. service_submit sample_service ixs payer signers (cl_submission (sample_client 1000)) w
    = Some (Inr t, w + 4, [Submits payer ixs signers])"
proof -
  have "nd_fuel sample_node = Suc 90" "nd_rpc sample_node = sample_rpc" by (simp_all add: sample_node_def)
  then show ?thesis using sample_confirmed [OF assms, of 90 ixs payer signers 1000]
    by (auto simp: service_submit_def sample_service_parts)
qed

section \<open>The recovery of the sample user\<close>

lemma sample_token_source:
  "(service_token_address sample_service (Pubkey [u]) (Pubkey [m]) (Pubkey [1]) :: (nat, pubkey) service_result)
     = Inr (Pubkey [u, 1, m])"
  by (simp add: service_token_address_def service_pubkey_def sample_service_parts sample_ids_def with_context_def
      library_def classic_token_id_def token_2022_id_def associated_program_id_def) (simp add: sample_env_def)

definition sample_return :: "instruction list" where
  "sample_return =
     [create_ata_raw (Pubkey [6]) (Pubkey [60]) (Pubkey [60]) (Pubkey [10]) (Pubkey [1]) (Pubkey [60, 1, 10]),
      transfer_checked (Pubkey [5, 1, 10]) (Pubkey [10]) (Pubkey [60, 1, 10]) (Pubkey [5]) (Pubkey [1]) 3 0,
      close_token_account (Pubkey [5, 1, 10]) (Pubkey [60]) (Pubkey [5]) (Pubkey [1])]"

lemma left_over_amount:
  "(token_account_amount V (ac_data left_over) k :: ('s, u64) service_result) = Inr 3"
proof -
  have "take 8 (drop 64 (ac_data left_over)) = u64_bytes 3" "72 \<le> length (ac_data left_over)"
    by (simp_all add: left_over_def u64_bytes_def)
  moreover have "of_le_bytes (u64_bytes 3) = 3"
    by (simp add: u64_bytes_def of_le_bytes_le_bytes)
  ultimately show ?thesis by (simp add: token_account_amount_def)
qed

lemma sample_service_ata:
  "(service_create_ata sample_service payer own mint program ata :: (nat, instruction) service_result)
     = Inr (create_ata_raw (Pubkey [6]) payer own mint program ata)"
  by (simp add: service_create_ata_def service_pubkey_def sample_service_parts sample_ids_def with_context_def
      library_def classic_token_id_def token_2022_id_def associated_program_id_def)

lemma sample_return_instructions:
  "(return_instructions sample_service (Pubkey [60]) (Pubkey [5]) (Pubkey [10])
      \<lparr>ac_owner = Pubkey [1], ac_data = mint_bytes, ac_executable = True\<rparr> (Pubkey [5, 1, 10]) left_over
      :: (nat, instruction list) service_result) = Inr sample_return"
  by (simp add: return_instructions_def Let_def left_over_amount sample_token_source sample_service_ata
      mint_bytes_parts sample_return_def)

lemma sample_reclaim:
  assumes "5 \<le> w"
  shows "\<exists>v. reclaim_user_funds sample_service (Pubkey [60]) (Pubkey [5]) [Pubkey [10], Pubkey [11]]
      (cl_submission (sample_client 1000)) w
    = Some (Inr v, w + 8,
       [ReadsAccount (Pubkey [10]), ReadsAccount (Pubkey [5, 1, 10]), Submits (Pubkey [60]) sample_return [Pubkey [5]],
        ReadsAccount (Pubkey [11]), ReadsAccount (Pubkey [5, 1, 11]), ReadsBalance (Pubkey [5]),
        Submits (Pubkey [60]) [system_transfer (Pubkey [5]) (Pubkey [60]) 7] [Pubkey [5]]])"
proof -
  let ?c = "cl_submission (sample_client 1000)"
  have mints: "sv_account sample_service (Pubkey [10]) w
      = (Inr \<lparr>ac_owner = Pubkey [1], ac_data = mint_bytes, ac_executable = True\<rparr>, w)"
    "sv_account sample_service (Pubkey [11]) w
      = (Inr \<lparr>ac_owner = Pubkey [1], ac_data = mint_bytes, ac_executable = True\<rparr>, w)" for w
    by (simp_all add: sample_service_def sample_data_def)
  have sources: "sv_account_at sample_service (Pubkey [5, 1, 10]) l w = (Inr (Some left_over), w)"
    "sv_account_at sample_service (Pubkey [5, 1, 11]) l w = (Inr None, w)" for l w
    by (simp_all add: sample_service_def)
  obtain t where t: "service_submit sample_service sample_return (Pubkey [60]) [Pubkey [5]] ?c w
      = Some (Inr t, w + 4, [Submits (Pubkey [60]) sample_return [Pubkey [5]]])"
    using sample_service_submit [OF assms] by blast
  obtain s where s: "service_submit sample_service [system_transfer (Pubkey [5]) (Pubkey [60]) 7] (Pubkey [60])
      [Pubkey [5]] ?c (w + 4) = Some (Inr s, w + 8,
        [Submits (Pubkey [60]) [system_transfer (Pubkey [5]) (Pubkey [60]) 7] [Pubkey [5]]])"
    using sample_service_submit [of "w + 4" "[system_transfer (Pubkey [5]) (Pubkey [60]) 7]" "Pubkey [60]"
      "[Pubkey [5]]"] assms by auto
  show ?thesis
    by (simp add: reclaim_user_funds_def return_token_balance_def transfer_lamports_def bindA_def pureA_def
        library_call_def with_context_def library_def mints sources sample_token_source
        sample_return_instructions sample_service_parts t s)
qed

section \<open>A run of the sample\<close>

lemma sample_mints:
  "(unique_mints [Pubkey [11], Pubkey [10]] source :: ('s, pubkey list) service_result)
     = Inr [Pubkey [10], Pubkey [11]]"
proof -
  have "sorted_wrt (<) [Pubkey [10], Pubkey [11]]" "set [Pubkey [10], Pubkey [11]] = {Pubkey [11], Pubkey [10]}"
    by auto
  then have "sorted_list_of_set {Pubkey [11], Pubkey [10]} = [Pubkey [10], Pubkey [11]]"
    by (metis sorted_list_of_set.idem_if_sorted_distinct strict_sorted_iff)
  then show ?thesis by (simp add: unique_mints_def)
qed

lemma sample_pools:
  "(user_pools sample_service (Pubkey [9]) sample_args [Pubkey [10], Pubkey [11]]
     :: (nat, user_pool list) service_result) = Inr [sample_user_pool]"
proof -
  have "pool_address_for (sample_env 1000) (Pubkey [9]) (Pubkey [30, 0, 0]) (Pubkey [10]) (Pubkey [11])
      = Pubkey pool_bytes" by (simp add: pool_address_for_def sample_env_def pool_bytes_def)
  then show ?thesis
    using user_pools_Inr [of "[Pubkey [10], Pubkey [11]]" sample_service "Pubkey [9]" sample_args]
    by (simp add: sample_service_parts sample_args_parts sample_user_pool_def)
qed

lemma sample_saved_key:
  "save_key sample_service user path w = Some (Inr (), w, [SavesKey user path True])"
  by (simp add: save_key_def library_call_def bindA_def with_context_def library_def sample_service_parts)

lemma sample_pool_mints: "pool_mints sample_user_pool = [Pubkey [10], Pubkey [11]]"
  by (simp add: pool_mints_def sample_user_pool_def)

lemma sample_turn:
  assumes "5 \<le> w" and "w \<le> 12"
  shows "\<exists>run flow_calls returned. run_user sample_service (Pubkey [9]) (Pubkey [60]) (Pubkey sample_authority) sample_args
      (cl_submission (sample_client 1000)) (sample_user_pool, Pubkey [5], startup) w
    = Some (Inr run, w + 40, map (Acting (Pubkey [5])) flow_calls @ returned
        @ [RemovesKey ''keys/user.json''])"
proof -
  obtain out cs where flow: "run_user_flow (sample_orchestrator 1000) sample_flow w = Some (Inr out, w + 32, cs)"
    using sample_flow_succeeds [OF assms] by blast
  obtain v1 v2 v3 returned where returned: "reclaim_user_funds sample_service (Pubkey [60]) (Pubkey [5])
      [Pubkey [10], Pubkey [11]] (cl_submission (sample_client 1000)) (w + 32) = Some (Inr (v1, v2, v3), w + 40, returned)"
    using sample_reclaim [of "w + 32"] assms by auto
  show ?thesis
    by (simp add: run_user_def finish_user_def Let_def bindA_def pureA_def attempt_def acting_def raise_def with_context_def
        library_def library_call_def of_orchestration_def sample_args_parts sample_service_orchestrator
        sample_flow_params flow sample_pool_mints returned sample_service_parts) blast
qed

lemma sample_execute:
  "\<exists>cs. execute_user_flows sample_service sample_args 5 = Some (Inr (), 49,
     [ReadsSlot, PreparesDir ''keys'', SavesKey (Pubkey [5]) (recovery_path sample_service sample_args (Pubkey [5])) True]
       @ Submits (Pubkey [60]) [system_transfer (Pubkey [60]) (Pubkey [5]) 100] [Pubkey [60]] # cs)"
proof -
  obtain t where t: "service_submit sample_service [system_transfer (Pubkey [60]) (Pubkey [5]) 100] (Pubkey [60])
      [Pubkey [60]] (cl_submission (sample_client 1000)) 5
    = Some (Inr t, 9, [Submits (Pubkey [60]) [system_transfer (Pubkey [60]) (Pubkey [5]) 100] [Pubkey [60]]])"
    using sample_service_submit [of 5 "[system_transfer (Pubkey [60]) (Pubkey [5]) 100]" "Pubkey [60]"
      "[Pubkey [60]]"] by auto
  obtain run cs where turn: "run_user sample_service (Pubkey [9]) (Pubkey [60]) (Pubkey sample_authority) sample_args
      (cl_submission (sample_client 1000)) (sample_user_pool, Pubkey [5], t) 9 = Some (Inr run, 49, cs)"
    using sample_turn [of 9 t] by auto
  have key: "nd_keypair sample_node 5 = (Pubkey [5], 5)" by (simp add: sample_node_def)
  have chain: "connected_chain sample_service url level w = Some (Inr (), w, [ReadsSlot])" for url level w
    by (cases level) (simp_all add: connected_chain_def bindA_def pureA_def library_call_def with_context_def
        library_def parse_commitment_def sample_service_parts)
  show ?thesis
    by (simp add: execute_user_flows_def Let_def bindA_def pureA_def sample_args_parts sample_keys
        resolve_pubkey_def sample_mints sample_pools chain library_call_def with_context_def library_def
        sample_service_parts key sample_saved_key transfer_lamports_def attempt_def t turn print_report_def)
qed

end
