(* ===== verification/Service_Safety.thy ===== *)
theory Service_Safety
  imports Service_Sample
begin

text \<open>
  The money and the keys of the ephemeral users: no user is paid before its key is on disk, a key is
  removed only after its user's funds came back, and what a recovery sends.
\<close>

section \<open>Which calls a run can make\<close>

definition emits :: "(service_call \<Rightarrow> bool) \<Rightarrow> ('w, 'e, service_call, 'a) run \<Rightarrow> bool" where
  "emits P m \<longleftrightarrow> (\<forall>w r w' cs. m w = Some (r, w', cs) \<longrightarrow> list_all P cs)"

named_theorems emits_intros

lemma emits_both:
  assumes "emits (\<lambda>c. P c \<and> Q c) m"
  shows "emits P m" and "emits Q m"
  using assms unfolding emits_def list_all_iff by blast+

lemma bindA_cases:
  assumes "bindA m f w = Some (r, w', cs)"
  obtains e where "m w = Some (Inl e, w', cs)" "r = Inl e"
  | x w1 c1 c2 where "m w = Some (Inr x, w1, c1)" "f x w1 = Some (r, w', c2)" "cs = c1 @ c2"
  using assms by (auto simp: bindA_def split: option.splits sum.splits prod.splits)

lemma emits_pure [emits_intros]: "emits P (pureA r)"
  by (simp add: emits_def pureA_def)

lemma emits_bind [emits_intros]:
  assumes "emits P m" and "\<And>x. emits P (f x)"
  shows "emits P (bindA m f)"
  unfolding emits_def
proof (intro allI impI)
  fix w r w' cs
  assume "bindA m f w = Some (r, w', cs)"
  then show "list_all P cs"
    by (cases rule: bindA_cases) (use assms in \<open>auto simp: emits_def\<close>)
qed

lemma emits_pure_bind:
  "(\<And>x. r = Inr x \<Longrightarrow> emits P (f x)) \<Longrightarrow> emits P (bindA (pureA r) f)"
  by (cases r) (auto simp: emits_def bindA_def pureA_def split: option.splits)

lemma emits_case [emits_intros]:
  "(\<And>x y. emits P (f x y)) \<Longrightarrow> emits P (case p of (x, y) \<Rightarrow> f x y)"
  "emits P a \<Longrightarrow> (\<And>x. emits P (g x)) \<Longrightarrow> emits P (case m of None \<Rightarrow> a | Some x \<Rightarrow> g x)"
  "(\<And>e. emits P (h e)) \<Longrightarrow> (\<And>x. emits P (k x)) \<Longrightarrow> emits P (case s of Inl e \<Rightarrow> h e | Inr x \<Rightarrow> k x)"
  "emits P a \<Longrightarrow> emits P b \<Longrightarrow> emits P (if c then a else b)"
  by (cases p; cases m; cases s; simp)+

lemma emits_attempt [emits_intros]: "emits P m \<Longrightarrow> emits P (attempt m)"
  by (auto simp: emits_def attempt_def split: option.splits prod.splits)

lemma emits_library [emits_intros]: "list_all P cs \<Longrightarrow> emits P (library_call t cs f)"
  by (auto simp: emits_def library_call_def split: prod.splits)

lemma emits_submit [emits_intros]: "P (Submits p ixs s) \<Longrightarrow> emits P (service_submit V ixs p s c)"
  by (auto simp: emits_def service_submit_def split: option.splits)

lemma emits_acting [emits_intros]: "(\<And>c. P (Acting user c)) \<Longrightarrow> emits P (acting user m)"
  by (auto simp: emits_def acting_def list_all_iff split: option.splits)

lemma emits_print [emits_intros]: "P (Prints rep) \<Longrightarrow> emits P (print_report rep)"
  by (simp add: emits_def print_report_def)

lemma emits_save [emits_intros]: "(\<And>wrote. P (SavesKey user path wrote)) \<Longrightarrow> emits P (save_key V user path)"
  unfolding save_key_def
  by (rule emits_bind, rule emits_library) (auto simp: emits_def split: prod.splits)

lemma emits_new_users [emits_intros]: "emits P (new_users V pools)"
proof (induction pools)
  case (Cons pool pools)
  have "emits P (\<lambda>w. case nd_keypair (sv_node V) w of (k, w1) \<Rightarrow> Some (Inr k, w1, []))"
    by (auto simp: emits_def split: prod.splits)
  then show ?case using Cons by (auto intro!: emits_bind emits_pure)
qed (simp add: emits_pure)

text \<open>The recovery of a user reads accounts and the user's balance, and submits.\<close>

fun recovering :: "pubkey \<Rightarrow> service_call \<Rightarrow> bool" where
  "recovering user (Submits p ixs s) = True"
| "recovering user (ReadsAccount k) = True"
| "recovering user (ReadsBalance k) = (k = user)"
| "recovering user c = False"

lemma emits_reclaim: "emits (recovering user) (reclaim_user_funds V F user mints c)"
proof -
  have "emits (recovering user) (return_token_balance V F user mint c)" for mint
    by (auto simp: return_token_balance_def intro!: emits_intros)
  then have "emits (recovering user) (return_tokens V F user c mints acc)" for acc
    by (induction mints arbitrary: acc) (auto intro!: emits_intros)
  then show ?thesis
    by (auto simp: reclaim_user_funds_def transfer_lamports_def intro!: emits_intros)
qed

section \<open>A key is saved before its user is paid\<close>

text \<open>
  In a run, the faucet \<open>F\<close> pays lamports only to users whose key was successfully written to their
  file earlier (the set \<open>K\<close>), or to itself, and pays nobody once a key file was removed.
\<close>

fun unpaid :: "pubkey \<Rightarrow> service_call \<Rightarrow> bool" where
  "unpaid F (Submits payer ixs signers) = (\<forall>user l. system_transfer F user l \<in> set ixs \<longrightarrow> user = F)"
| "unpaid F c = True"

fun saved_before_paid :: "pubkey \<Rightarrow> (pubkey \<Rightarrow> string) \<Rightarrow> pubkey set \<Rightarrow> service_call list \<Rightarrow> bool" where
  "saved_before_paid F path K [] = True"
| "saved_before_paid F path K (SavesKey user p wrote # cs) =
     saved_before_paid F path (if wrote \<and> p = path user then insert user K else K) cs"
| "saved_before_paid F path K (RemovesKey p # cs) = list_all (unpaid F) cs"
| "saved_before_paid F path K (Submits payer ixs signers # cs) =
     ((\<forall>user l. system_transfer F user l \<in> set ixs \<longrightarrow> user \<in> K \<or> user = F) \<and> saved_before_paid F path K cs)"
| "saved_before_paid F path K (c # cs) = saved_before_paid F path K cs"

lemma unpaid_saved: "list_all (unpaid F) cs \<Longrightarrow> saved_before_paid F path K cs"
  by (induction F path K cs rule: saved_before_paid.induct) auto

lemma saved_append:
  "saved_before_paid F path K cs \<Longrightarrow> (\<And>L. K \<subseteq> L \<Longrightarrow> saved_before_paid F path L ds) \<Longrightarrow>
     list_all (\<lambda>c. \<forall>p. c \<noteq> RemovesKey p) cs \<Longrightarrow> saved_before_paid F path K (cs @ ds)"
proof (induction F path K cs rule: saved_before_paid.induct)
  case (2 F path K user p wrote cs)
  let ?K = "if wrote \<and> p = path user then insert user K else K"
  have "saved_before_paid F path L ds" if "?K \<subseteq> L" for L
    using "2.prems"(2) [of L] that by (auto split: if_splits)
  then have "saved_before_paid F path ?K (cs @ ds)"
    using "2.prems" by (intro "2.IH") auto
  then show ?case by simp
qed auto

lemma saved_mono: "saved_before_paid F path K cs \<Longrightarrow> K \<subseteq> L \<Longrightarrow> saved_before_paid F path L cs"
proof (induction F path K cs arbitrary: L rule: saved_before_paid.induct)
  case (2 F path K user p wrote cs)
  let ?add = "\<lambda>M. if wrote \<and> p = path user then insert user M else M"
  have "?add K \<subseteq> ?add L" using "2.prems"(2) by auto
  then show ?case using "2.IH" [of "?add L"] "2.prems"(1) by simp
qed auto

text \<open>What stands before a payment.\<close>

lemma saved_split:
  "saved_before_paid F path K (before @ Submits payer ixs signers # after) \<Longrightarrow>
     system_transfer F user l \<in> set ixs \<Longrightarrow> user \<noteq> F \<Longrightarrow>
     (user \<in> K \<or> SavesKey user (path user) True \<in> set before) \<and> (\<forall>p. RemovesKey p \<notin> set before)"
proof (induction F path K before rule: saved_before_paid.induct)
  case (2 F path K other p wrote cs)
  then show ?case by (cases "wrote \<and> p = path other") auto
qed auto

definition careful ::
    "pubkey \<Rightarrow> (pubkey \<Rightarrow> string) \<Rightarrow> pubkey set \<Rightarrow> ('w, 'e, service_call, 'a) run \<Rightarrow> bool" where
  "careful F path K m \<longleftrightarrow> (\<forall>w r w' cs. m w = Some (r, w', cs) \<longrightarrow> saved_before_paid F path K cs)"

lemma careful_unpaid: "emits (unpaid F) m \<Longrightarrow> careful F path K m"
  unfolding careful_def emits_def using unpaid_saved by blast

lemma careful_mono: "careful F path K m \<Longrightarrow> K \<subseteq> L \<Longrightarrow> careful F path L m"
  unfolding careful_def using saved_mono by blast

text \<open>Steps that remove no key keep what was saved; after the others nobody is paid.\<close>

lemma careful_bind:
  assumes "careful F path K m" and "emits (\<lambda>c. \<forall>p. c \<noteq> RemovesKey p) m" and "\<And>x. careful F path K (f x)"
  shows "careful F path K (bindA m f)"
  unfolding careful_def
proof (intro allI impI)
  fix w r w' cs
  assume "bindA m f w = Some (r, w', cs)"
  then show "saved_before_paid F path K cs"
  proof (cases rule: bindA_cases)
    case (1 e)
    then show ?thesis using assms(1) by (simp add: careful_def)
  next
    case (2 x w1 c1 c2)
    have "saved_before_paid F path K c1" "list_all (\<lambda>c. \<forall>p. c \<noteq> RemovesKey p) c1"
      using assms(1,2) 2(1) unfolding careful_def emits_def by blast+
    moreover have "saved_before_paid F path L c2" if "K \<subseteq> L" for L
      using careful_mono [OF assms(3) that] 2(2) unfolding careful_def by blast
    ultimately show ?thesis using 2(3) saved_append by blast
  qed
qed

lemma careful_skip:
  "emits (\<lambda>c. unpaid F c \<and> (\<forall>p. c \<noteq> RemovesKey p)) m \<Longrightarrow> (\<And>x. careful F path K (f x)) \<Longrightarrow>
     careful F path K (bindA m f)"
  by (rule careful_bind [OF careful_unpaid [OF emits_both(1)] emits_both(2)])

lemma careful_pure_bind:
  "(\<And>x. r = Inr x \<Longrightarrow> careful F path K (f x)) \<Longrightarrow> careful F path K (bindA (pureA r) f)"
  by (cases r) (auto simp: careful_def bindA_def pureA_def split: option.splits)

lemma bindA_pure_Inr: "bindA (pureA (Inr x)) f = f x"
  by (rule ext) (simp add: bindA_def pureA_def split: option.split)

lemma system_transfer_eq [simp]:
  "system_transfer a b l = system_transfer a' b' l' \<longleftrightarrow> a = a' \<and> b = b' \<and> u64_bytes l = u64_bytes l'"
  by (auto simp: system_transfer_def writable_meta_def)

text \<open>What comes back to the faucet never pays anyone else.\<close>

lemma return_instructions_unpaid:
  "(return_instructions V F user mint a s b :: ('s, instruction list) service_result) = Inr ixs \<Longrightarrow>
     unpaid F (Submits payer ixs signers)"
  by (auto simp: return_instructions_def Let_def result_simps service_create_ata_def system_transfer_def
      create_ata_raw_def transfer_checked_def close_token_account_def split: if_splits)

lemma unpaid_reclaim: "emits (\<lambda>c. unpaid F c \<and> (\<forall>p. c \<noteq> RemovesKey p)) (reclaim_user_funds V F user mints c)"
  (is "emits ?P _")
proof -
  have "emits ?P (return_token_balance V F user mint c)" for mint
    unfolding return_token_balance_def
    by (rule emits_bind, simp add: emits_library, rule emits_pure_bind, rule emits_bind, simp add: emits_library,
        rule emits_case, rule emits_pure, rule emits_pure_bind, rule emits_bind, rule emits_submit,
        drule return_instructions_unpaid, blast, rule emits_pure)
  then have "emits ?P (return_tokens V F user c mints acc)" for acc
    by (induction mints arbitrary: acc) (auto intro!: emits_intros)
  then show ?thesis
    by (auto simp: reclaim_user_funds_def transfer_lamports_def intro!: emits_intros)
qed

lemma unpaid_reclaim_all: "emits (\<lambda>c. unpaid F c \<and> (\<forall>p. c \<noteq> RemovesKey p)) (reclaim_all V F c users)"
  by (induction users) (auto intro!: emits_intros unpaid_reclaim)

lemma unpaid_run_users: "emits (unpaid F) (run_users V program F authority x c us)"
proof -
  have "emits (unpaid F) (run_user V program F authority x c u)" for u
    by (cases u) (auto simp: run_user_def finish_user_def Let_def intro!: emits_intros emits_both(1) [OF unpaid_reclaim])
  then show ?thesis by (induction us) (auto intro!: emits_intros)
qed

text \<open>After the saving of its key a user may be paid.\<close>

lemma careful_save_then:
  assumes "careful F path (insert user K) m"
  shows "careful F path K (bindA (save_key V user (path user)) (\<lambda>_. m))"
  unfolding careful_def
proof (intro allI impI)
  fix w r w' cs
  assume "bindA (save_key V user (path user)) (\<lambda>_. m) w = Some (r, w', cs)"
  then show "saved_before_paid F path K cs"
  proof (cases rule: bindA_cases)
    case (1 e)
    then show ?thesis
      by (auto simp: save_key_def library_call_def bindA_def split: prod.splits sum.splits)
  next
    case (2 y w1 c1 c2)
    then have "c1 = [SavesKey user (path user) True]"
      by (auto simp: save_key_def library_call_def bindA_def with_context_def library_def map_err_Inr
          split: prod.splits sum.splits)
    then show ?thesis using 2 assms by (auto simp: careful_def)
  qed
qed

lemma careful_transfer:
  "dst \<in> K \<Longrightarrow> careful F path K (transfer_lamports V F F dst l c)"
  by (auto simp: transfer_lamports_def careful_def service_submit_def pureA_def split: option.splits)

lemma careful_fund_users: "careful F (recovery_path V x) K (fund_users V F x c users funded)"
proof (induction users arbitrary: K funded)
  case (Cons u users)
  obtain pool user where u: "u = (pool, user)" by (cases u)
  let ?K = "insert user K" and ?pay = "transfer_lamports V F F user (ua_lamports x) c"
  have pay: "careful F (recovery_path V x) ?K (attempt ?pay)"
    using careful_transfer [of user ?K F "recovery_path V x" V "ua_lamports x" c]
    by (auto simp: careful_def attempt_def split: option.splits)
  have keep: "emits (\<lambda>c. \<forall>p. c \<noteq> RemovesKey p) (attempt ?pay)"
    by (auto simp: transfer_lamports_def intro!: emits_intros)
  show ?case unfolding u fund_users.simps
    by (rule careful_save_then, rule careful_bind [OF pay keep])
       (auto intro!: careful_skip [OF unpaid_reclaim_all] Cons careful_unpaid [OF emits_pure] split: sum.split)
qed (simp add: careful_unpaid emits_pure)

lemma keep_fund_users: "emits (\<lambda>c. \<forall>p. c \<noteq> RemovesKey p) (fund_users V F x c users funded)"
proof (induction users arbitrary: funded)
  case (Cons u users)
  show ?case using Cons
    by (cases u) (auto simp: transfer_lamports_def intro!: emits_intros emits_both(2) [OF unpaid_reclaim_all])
qed (simp add: emits_pure)

text \<open>
  C14. No user is paid before its key is on disk. In every run of the user flows, whatever fails,
  before each transaction that the service submits with a transfer of lamports from the faucet to a
  user, this user's key was written to its own recovery file, the write succeeded, and no key file has been removed; so the
  lamports of a crashed run can be recovered.
\<close>

theorem key_saved_before_payment:
  fixes V :: "('w, 'h, 's, 'b, 'd, 'f) service"
  assumes "(keypair_from_environment V (ua_faucet_env x) :: ('s, pubkey) service_result) = Inr F"
    and "execute_user_flows V x w = Some (r, w', before @ Submits payer ixs signers # after)"
    and "system_transfer F user l \<in> set ixs" and "user \<noteq> F"
  shows "SavesKey user (recovery_path V x user) True \<in> set before \<and> (\<forall>path. RemovesKey path \<notin> set before)"
proof -
  let ?c = "submission_of (ua_transaction x)"
  have rest: "careful F (recovery_path V x) {} (bindA (fund_users V F x ?c users []) (\<lambda>funded.
     bindA (run_users V program F authority x ?c funded) (\<lambda>runs.
     print_report (RList (map (user_flow_run_json V) runs)))))" for users program authority
    by (rule careful_bind [OF careful_fund_users keep_fund_users], rule careful_unpaid)
       (auto intro!: emits_intros unpaid_run_users)
  have "careful F (recovery_path V x) {} (execute_user_flows V x)"
    unfolding execute_user_flows_def assms(1) Let_def connected_chain_def bindA_pure_Inr
    by ((rule careful_pure_bind)+, rule careful_skip, simp add: emits_intros, rule careful_skip,
        simp add: emits_library, rule careful_skip, simp add: emits_library, rule careful_skip,
        rule emits_new_users, rule rest)
  then show ?thesis using saved_split assms(2-) unfolding careful_def by blast
qed

theorem key_saved_before_payment_witness:
  "\<exists>before after. execute_user_flows sample_service sample_args 5 = Some (Inr (), 49,
       before @ Submits (Pubkey [60]) [system_transfer (Pubkey [60]) (Pubkey [5]) 100] [Pubkey [60]] # after)
     \<and> SavesKey (Pubkey [5]) (recovery_path sample_service sample_args (Pubkey [5])) True \<in> set before"
proof -
  obtain before after where run: "execute_user_flows sample_service sample_args 5 = Some (Inr (), 49,
      before @ Submits (Pubkey [60]) [system_transfer (Pubkey [60]) (Pubkey [5]) 100] [Pubkey [60]] # after)"
    using sample_execute by blast
  have "(keypair_from_environment sample_service (ua_faucet_env sample_args) :: (nat, pubkey) service_result)
      = Inr (Pubkey [60])" by (simp add: sample_args_parts sample_keys)
  from key_saved_before_payment [OF this run, of "Pubkey [5]" 100] run show ?thesis by auto
qed

section \<open>A key is removed after the recovery\<close>

lemma library_Inr: "with_context t (library r) = Inr x \<longleftrightarrow> r = Inr x"
  by (simp add: with_context_def library_def map_err_Inr)

lemma attempt_Some:
  "attempt m w = Some (Inr (Inr x), w', cs) \<longleftrightarrow> m w = Some (Inr x, w', cs)"
  by (auto simp: attempt_def split: option.splits prod.splits sum.splits fault.splits)

lemma raise_Inr: "with_context t (raise r) = Inr x \<longleftrightarrow> r = Inr x"
  by (simp add: with_context_def raise_def map_err_Inr)

lemma acting_Some: "acting user m w = Some (Inr x, w', cs) \<longleftrightarrow>
    (\<exists>ds. m w = Some (Inr x, w', ds) \<and> cs = map (Acting user) ds)"
  by (auto simp: acting_def of_orchestration_def map_err_Inr split: option.splits)

lemma pureA_run: "pureA r w = Some (s, w', cs) \<longleftrightarrow> s = r \<and> w' = w \<and> cs = []"
  by (auto simp: pureA_def)

lemma attempt_emits: "attempt m w = Some (r, w', cs) \<Longrightarrow> emits P m \<Longrightarrow> list_all P cs"
  using emits_attempt unfolding emits_def by blast

lemma finish_user_removes:
  assumes "finish_user V x (pool, user, startup) flow recovery w = Some (r, w', cs)"
    and "RemovesKey path \<in> set cs"
  shows "\<exists>out v. flow = Inr out \<and> recovery = Inr v \<and> cs = [RemovesKey path]"
  using assms
  by (cases flow; cases recovery)
     (auto simp: finish_user_def Let_def bindA_def pureA_def library_call_def raise_def with_context_def
        split: prod.splits sum.splits)

text \<open>What a user's turn does before its end never removes a key.\<close>

lemma keeps_key:
  "attempt (acting user m) w = Some (r, w', cs) \<Longrightarrow> RemovesKey path \<notin> set cs"
  "attempt (reclaim_user_funds V F user mints c) w = Some (s, w', cs) \<Longrightarrow> RemovesKey path \<notin> set cs"
proof -
  have "emits (\<lambda>c. c \<noteq> RemovesKey path) (acting user m)" by (rule emits_acting) simp
  then show "attempt (acting user m) w = Some (r, w', cs) \<Longrightarrow> RemovesKey path \<notin> set cs"
    by (fastforce dest: attempt_emits simp: list_all_iff)
  show "attempt (reclaim_user_funds V F user mints c) w = Some (s, w', cs) \<Longrightarrow> RemovesKey path \<notin> set cs"
    using attempt_emits [OF _ emits_reclaim] by (fastforce simp: list_all_iff)
qed

text \<open>
  C15. A key file is removed only after a recovery. If a user's turn removes a file,
  the removal is its last call and the only one, and before it the user's whole flow succeeded and the
  recovery of its tokens and lamports succeeded. This holds for whatever file the turn removes:
  the source names it by a variable that is not in scope, and the path is a parameter here.
\<close>

theorem key_removed_after_recovery:
  fixes V :: "('w, 'h, 's, 'b, 'd, 'f) service"
  assumes run: "run_user V program F authority x c (pool, user, startup) w = Some (r, w', cs)"
    and removed: "RemovesKey path \<in> set cs"
  shows "\<exists>P out flow_calls w1 v back w2.
      (service_orchestrator V program user authority (orchestration_of (ua_transaction x))
        :: ('s, ('w, 'h, 's, 'b, 'd, 'f) orchestrator) service_result) = Inr P
    \<and> run_user_flow P (flow_params x pool) w = Some (Inr out, w1, flow_calls)
    \<and> reclaim_user_funds V F user (pool_mints pool) c w1 = Some (Inr v, w2, back)
    \<and> cs = map (Acting user) flow_calls @ back @ [RemovesKey path]
    \<and> (\<forall>other. RemovesKey other \<notin> set (map (Acting user) flow_calls @ back))"
proof -
  obtain P where P: "(service_orchestrator V program user authority (orchestration_of (ua_transaction x))
        :: ('s, ('w, 'h, 's, 'b, 'd, 'f) orchestrator) service_result) = Inr P"
    using run removed by (cases "service_orchestrator V program user authority (orchestration_of (ua_transaction x))
        :: ('s, ('w, 'h, 's, 'b, 'd, 'f) orchestrator) service_result")
      (auto simp: run_user_def bindA_def pureA_def)
  have run: "bindA (attempt (acting user (run_user_flow P (flow_params x pool)))) (\<lambda>flow.
     bindA (attempt (reclaim_user_funds V F user (pool_mints pool) c)) (\<lambda>recovery.
     finish_user V x (pool, user, startup) flow recovery)) w = Some (r, w', cs)"
    using run P unfolding run_user_def by (auto simp: bindA_def pureA_def split: option.splits)
  from run show ?thesis
  proof (cases rule: bindA_cases)
    case (1 e)
    then show ?thesis using keeps_key(1) [OF 1(1), of path] removed by simp
  next
    case (2 flow w1 c1 c')
    note flow = this
    from flow(2) show ?thesis
    proof (cases rule: bindA_cases)
      case (1 e)
      then show ?thesis
        using keeps_key(1) [OF flow(1), of path] keeps_key(2) [OF 1(1), of path] removed flow(3) by simp
    next
      case (2 recovery w2 c2 c3)
      then have "RemovesKey path \<in> set c3"
        using removed flow(3) keeps_key(1) [OF flow(1)] keeps_key(2) [OF 2(1)] by simp
      from finish_user_removes [OF 2(2) this] show ?thesis
        using flow 2 P keeps_key(2) [OF 2(1)] by (auto simp: attempt_Some acting_Some)
    qed
  qed
qed

theorem key_removed_after_recovery_witness:
  "\<exists>out w1 flow_calls. run_user_flow (sample_orchestrator 1000) (flow_params sample_args sample_user_pool) 5
     = Some (Inr out, w1, flow_calls)"
proof -
  obtain run flow_calls returned where run: "run_user sample_service (Pubkey [9]) (Pubkey [60]) (Pubkey sample_authority) sample_args
      (cl_submission (sample_client 1000)) (sample_user_pool, Pubkey [5], \<lparr>out_signature = 0, out_slot = 0, out_units = 0\<rparr>) 5
    = Some (Inr run, 5 + 40, map (Acting (Pubkey [5])) flow_calls @ returned
        @ [RemovesKey ''keys/user.json''])"
    using sample_turn [of 5 "\<lparr>out_signature = 0, out_slot = 0, out_units = 0\<rparr>"] by auto
  have removed: "RemovesKey ''keys/user.json''
      \<in> set (map (Acting (Pubkey [5])) flow_calls @ returned
        @ [RemovesKey ''keys/user.json''])"
    by simp
  from key_removed_after_recovery [OF run removed]
  show ?thesis by (auto simp: sample_args_parts sample_service_orchestrator)
qed

end
