(* ===== verification/Service_Recovery.thy ===== *)
theory Service_Recovery
  imports Service_Safety
begin

text \<open>
  The commands as a whole: the pairs they work on, that they return, what a recovery gives back,
  and which funded users a failed run leaves behind.
\<close>

section \<open>The commands\<close>

text \<open>
  The pairs of a command. The distinct mints, of which there are at least two, are taken in
  ascending order, and every unordered pair of them is worked on exactly once, the smaller mint
  first: \<open>n (n - 1) / 2\<close> pairs. So the pool of each pair exists as an address (the derivation
  cannot fail) and is the canonical one.
\<close>

theorem service_pairs:
  assumes "(unique_mints mints source :: ('s, pubkey list) service_result) = Inr ms"
  shows "set (unordered_pairs ms) = {(a, b). a \<in> set mints \<and> b \<in> set mints \<and> a < b}
    \<and> distinct (unordered_pairs ms)
    \<and> 2 * length (unordered_pairs ms) = card (set mints) * (card (set mints) - 1)
    \<and> (user_pools V program x ms :: ('s, user_pool list) service_result) = Inr (map (\<lambda>(a, b).
        \<lparr>up_pool = pool_address_for (sv_env V) program (ua_amm_config x) a b, up_mint_a = a, up_mint_b = b\<rparr>)
          (unordered_pairs ms))"
proof -
  from assms have ms: "ms = sorted_list_of_set (set mints)" by (simp add: unique_mints_Inr)
  then have s: "sorted_wrt (<) ms" "set ms = set mints" "length ms = card (set mints)" by simp_all
  then have "list_all (\<lambda>(a, b). a < b) (unordered_pairs ms)"
    by (auto simp: list_all_iff set_unordered_pairs)
  then show ?thesis
    using s set_unordered_pairs [OF s(1)] distinct_unordered_pairs [OF s(1)] length_unordered_pairs [of ms]
    by (simp add: user_pools_Inr)
qed

theorem service_pairs_witness:
  "set (unordered_pairs [Pubkey [10], Pubkey [11]]) = {(Pubkey [10], Pubkey [11])}"
proof -
  have "(unique_mints [Pubkey [11], Pubkey [10]] ''--mint'' :: (nat, pubkey list) service_result)
      = Inr [Pubkey [10], Pubkey [11]]" by (rule sample_mints)
  from service_pairs [OF this, of sample_service "Pubkey [9]" sample_args]
  have "set (unordered_pairs [Pubkey [10], Pubkey [11]])
      = {(a, b). a \<in> {Pubkey [10], Pubkey [11]} \<and> b \<in> {Pubkey [10], Pubkey [11]} \<and> a < b}" by auto
  then show ?thesis by auto
qed

text \<open>
  The commands return: with a clock that advances, creating pools and running user flows end,
  with a report or an error, for any number of mints and whatever the cluster, the file system
  and the environment answer.
\<close>

theorem service_returns:
  assumes "keeps_time V"
  shows "returns (create_all_pools V x) \<and> returns (execute_user_flows V y)"
proof
  show "returns (create_all_pools V x)"
    unfolding create_all_pools_def
    by (intro returns_bind [OF returns_pure] returns_bind [OF returns_connected] bind_orchestrator [OF assms]
        returns_bind [OF returns_create_pools] returns_steps)
  show "returns (execute_user_flows V y)"
    using assms timed_submission
    by (auto simp: execute_user_flows_def Let_def intro!: returns_intros)
qed

theorem service_returns_witness: "returns (execute_user_flows sample_service sample_args)"
proof -
  have "keeps_time sample_service"
    by (simp add: keeps_time_def sample_service_parts sample_node_def sample_time)
  from service_returns [OF this] show ?thesis by blast
qed

section \<open>What a recovery gives back\<close>

fun submitted :: "service_call list \<Rightarrow> (pubkey \<times> instruction list \<times> pubkey list) list" where
  "submitted [] = []"
| "submitted (Submits payer ixs signers # cs) = (payer, ixs, signers) # submitted cs"
| "submitted (c # cs) = submitted cs"

lemma submitted_append [simp]: "submitted (cs @ ds) = submitted cs @ submitted ds"
  by (induction cs rule: submitted.induct) auto

definition holding :: "account \<Rightarrow> u64" where
  "holding a = of_nat (of_le_bytes (take 8 (drop 64 (ac_data a))))"

definition held_at ::
    "('w, 'h, 's, 'b, 'd, 'f) service \<Rightarrow> pubkey \<Rightarrow> pubkey \<Rightarrow> pubkey \<Rightarrow> pubkey \<Rightarrow> pubkey" where
  "held_at V associated own mint program =
     rv_find_pda (sv_env V) [pk_bytes own, pk_bytes program, pk_bytes mint] associated"

text \<open>
  The transaction that empties a user's token account: it creates the faucet's account, moves the whole
  holding there when there is one, and closes the account in favour of the faucet.
\<close>

definition emptying ::
    "('w, 'h, 's, 'b, 'd, 'f) service \<Rightarrow> pubkey \<Rightarrow> pubkey \<Rightarrow> pubkey \<Rightarrow> pubkey \<Rightarrow> account \<Rightarrow> account
      \<Rightarrow> instruction list" where
  "emptying V associated F user mint a s =
     (let program = ac_owner a; source = held_at V associated user mint program;
          destination = held_at V associated F mint program
      in [create_ata_raw associated F F mint program destination]
        @ (if 0 < holding s
           then [transfer_checked source mint destination user program (holding s) (ac_data a ! 44)] else [])
        @ [close_token_account source F user program])"

text \<open>
  The tokens given back from one world to another: for each mint in turn its account is read, then the
  user's associated account of that mint at the commitment; when there is one, the transaction that
  empties what was just read is sent, paid for by the faucet and signed by the user, and confirmed.
\<close>

fun tokens_given_back ::
    "('w, 'h, 's, 'b, 'd, 'f) service \<Rightarrow> pubkey \<Rightarrow> pubkey \<Rightarrow> submission_config \<Rightarrow> pubkey list
      \<Rightarrow> instruction list list \<Rightarrow> 's outcome list \<Rightarrow> 'w \<Rightarrow> 'w \<Rightarrow> bool" where
  "tokens_given_back V F user c [] txs ts w w' \<longleftrightarrow> txs = [] \<and> ts = [] \<and> w' = w"
| "tokens_given_back V F user c (mint # mints) txs ts w w' \<longleftrightarrow>
     (\<exists>a w1 associated held w2.
         sv_account V mint w = (Inr a, w1)
       \<and> sv_parse_key V associated_program_id = Inr associated
       \<and> sv_account_at V (held_at V associated user mint (ac_owner a)) (sc_commitment c) w1 = (Inr held, w2)
       \<and> (case held of
            None \<Rightarrow> tokens_given_back V F user c mints txs ts w2 w'
          | Some s \<Rightarrow> (\<exists>t sent_calls w3 later us.
                72 \<le> length (ac_data s) \<and> 44 < length (ac_data a)
              \<and> submit (nd_rpc (sv_node V)) (nd_fuel (sv_node V)) (emptying V associated F user mint a s) F [user] c w2
                  = Some (Inr t, w3, sent_calls)
              \<and> txs = emptying V associated F user mint a s # later \<and> ts = t # us
              \<and> tokens_given_back V F user c mints later us w3 w')))"

lemma service_pubkey_Inr: "(service_pubkey V t :: ('s, pubkey) service_result) = Inr k \<longleftrightarrow> sv_parse_key V t = Inr k"
  by (simp add: service_pubkey_def library_Inr)

lemma token_address_Inr: "(service_token_address V own mint program :: ('s, pubkey) service_result) = Inr k \<longleftrightarrow>
    (\<exists>associated. sv_parse_key V associated_program_id = Inr associated
      \<and> k = rv_find_pda (sv_env V) [pk_bytes own, pk_bytes program, pk_bytes mint] associated)"
  by (auto simp: service_token_address_def result_simps service_pubkey_Inr)

lemma library_call_run:
  "library_call t cs f w = Some (Inr x, w', ds) \<longleftrightarrow> f w = (Inr x, w') \<and> ds = cs"
  by (auto simp: library_call_def library_Inr split: prod.splits)

lemma bindA_Inr:
  "bindA m f w = Some (Inr y, w', cs) \<longleftrightarrow>
     (\<exists>x w1 c1 c2. m w = Some (Inr x, w1, c1) \<and> f x w1 = Some (Inr y, w', c2) \<and> cs = c1 @ c2)"
  by (auto simp: bindA_def split: option.splits sum.splits prod.splits)

lemma service_submit_Inr:
  "service_submit V ixs payer signers c w = Some (Inr t, w', cs) \<longleftrightarrow> cs = [Submits payer ixs signers]
     \<and> (\<exists>calls. submit (nd_rpc (sv_node V)) (nd_fuel (sv_node V)) ixs payer signers c w = Some (Inr t, w', calls))"
  by (auto simp: service_submit_def map_err_Inr split: option.splits)

lemma pureA_Inr: "pureA r w = Some (Inr x, w', cs) \<longleftrightarrow> r = Inr x \<and> w' = w \<and> cs = []"
  by (auto simp: pureA_def)

lemma return_instructions_Inr:
  assumes "(return_instructions V F user mint a k s :: ('s, instruction list) service_result) = Inr ixs"
    and "sv_parse_key V associated_program_id = Inr associated" and "k = held_at V associated user mint (ac_owner a)"
  shows "ixs = emptying V associated F user mint a s \<and> 72 \<le> length (ac_data s) \<and> 44 < length (ac_data a)"
  using assms
  by (auto simp: return_instructions_def Let_def result_simps token_address_Inr service_create_ata_def
      service_pubkey_Inr token_account_amount_def emptying_def holding_def held_at_def split: if_splits)

lemma return_token_balance_run:
  fixes V :: "('w, 'h, 's, 'b, 'd, 'f) service"
  assumes "return_token_balance V F user mint c w = Some (Inr t, w', cs)"
  obtains a w1 associated held w2 where "sv_account V mint w = (Inr a, w1)"
    "sv_parse_key V associated_program_id = Inr associated"
    "sv_account_at V (held_at V associated user mint (ac_owner a)) (sc_commitment c) w1 = (Inr held, w2)"
    "held = None \<Longrightarrow> t = None \<and> w' = w2 \<and> submitted cs = []"
    "\<And>s. held = Some s \<Longrightarrow> 72 \<le> length (ac_data s) \<and> 44 < length (ac_data a)
       \<and> submitted cs = [(F, emptying V associated F user mint a s, [user])]
       \<and> (\<exists>out calls. t = Some out
         \<and> submit (nd_rpc (sv_node V)) (nd_fuel (sv_node V)) (emptying V associated F user mint a s) F [user] c w2
             = Some (Inr out, w', calls))"
proof -
  from assms obtain a w1 k held w2 c3 where a: "sv_account V mint w = (Inr a, w1)"
    and k: "(service_token_address V user mint (ac_owner a) :: ('s, pubkey) service_result) = Inr k"
    and held: "sv_account_at V k (sc_commitment c) w1 = (Inr held, w2)"
    and rest: "(case held of None \<Rightarrow> pureA (Inr None)
       | Some s \<Rightarrow> bindA (pureA (return_instructions V F user mint a k s)) (\<lambda>ixs.
           bindA (service_submit V ixs F [user] c) (\<lambda>t. pureA (Inr (Some t))))) w2 = Some (Inr t, w', c3)"
    and cs: "cs = [ReadsAccount mint, ReadsAccount k] @ c3"
    by (fastforce simp: return_token_balance_def bindA_Inr library_call_run pureA_Inr)
  from k obtain associated where p: "sv_parse_key V associated_program_id = Inr associated"
    and k': "k = held_at V associated user mint (ac_owner a)" by (auto simp: token_address_Inr held_at_def)
  show thesis
  proof (rule that [OF a p held [unfolded k']])
    show "held = None \<Longrightarrow> t = None \<and> w' = w2 \<and> submitted cs = []" using rest cs by (simp add: pureA_Inr)
  next
    fix s assume "held = Some s"
    with rest obtain ixs out calls
      where ixs: "(return_instructions V F user mint a k s :: ('s, instruction list) service_result) = Inr ixs"
      and sends: "submit (nd_rpc (sv_node V)) (nd_fuel (sv_node V)) ixs F [user] c w2 = Some (Inr out, w', calls)"
      and c3: "c3 = [Submits F ixs [user]]" "t = Some out"
      by (auto simp: bindA_Inr pureA_Inr service_submit_Inr)
    with return_instructions_Inr [OF ixs p k'] cs
    show "72 \<le> length (ac_data s) \<and> 44 < length (ac_data a)
       \<and> submitted cs = [(F, emptying V associated F user mint a s, [user])]
       \<and> (\<exists>out calls. t = Some out
         \<and> submit (nd_rpc (sv_node V)) (nd_fuel (sv_node V)) (emptying V associated F user mint a s) F [user] c w2
             = Some (Inr out, w', calls))" by auto
  qed
qed

lemma return_tokens_run:
  "return_tokens V F user c mints acc w = Some (Inr ts, w', cs) \<Longrightarrow>
     \<exists>txs us. tokens_given_back V F user c mints txs us w w' \<and> ts = acc @ us
       \<and> submitted cs = map (\<lambda>ixs. (F, ixs, [user])) txs"
proof (induction mints arbitrary: acc w cs)
  case Nil
  then show ?case by (simp add: pureA_Inr)
next
  case (Cons mint mints)
  from Cons.prems obtain t w1 c1 c2 where t: "return_token_balance V F user mint c w = Some (Inr t, w1, c1)"
    and rest: "return_tokens V F user c mints (case t of None \<Rightarrow> acc | Some x \<Rightarrow> acc @ [x]) w1 = Some (Inr ts, w', c2)"
    and cs: "cs = c1 @ c2" by (auto simp: bindA_Inr)
  from Cons.IH [OF rest] obtain txs us where later: "tokens_given_back V F user c mints txs us w1 w'"
    "ts = (case t of None \<Rightarrow> acc | Some x \<Rightarrow> acc @ [x]) @ us"
    "submitted c2 = map (\<lambda>ixs. (F, ixs, [user])) txs" by blast
  from t show ?case
  proof (cases rule: return_token_balance_run)
    case (1 a u1 associated held u2)
    show ?thesis
    proof (cases held)
      case None
      with 1 have "t = None" "w1 = u2" "submitted c1 = []" by auto
      then show ?thesis using 1(1-3) None later cs by (intro exI [of _ txs] exI [of _ us]) fastforce
    next
      case (Some s)
      let ?tx = "emptying V associated F user mint a s"
      from 1(5) [OF Some] obtain out calls where one: "72 \<le> length (ac_data s)" "44 < length (ac_data a)"
        "submitted c1 = [(F, ?tx, [user])]" "t = Some out"
        "submit (nd_rpc (sv_node V)) (nd_fuel (sv_node V)) ?tx F [user] c u2 = Some (Inr out, w1, calls)" by blast
      have "tokens_given_back V F user c (mint # mints) (?tx # txs) (out # us) w w'"
        unfolding tokens_given_back.simps using 1(1-3) Some one later(1)
        by (intro exI [of _ a] exI [of _ u1] exI [of _ associated] exI [of _ held] exI [of _ u2]) auto
      then show ?thesis using later(2,3) one(3,4) cs
        by (intro exI [of _ "?tx # txs"] exI [of _ "out # us"]) simp
    qed
  qed
qed

text \<open>
  C16. A recovery gives back all it finds. When it succeeds it has read, for each given mint in order, the
  user's token account and, when there is one, sent a confirmed transaction that moves the whole
  balance just read to the faucet and closes the account. It has then read the user's lamports, in the
  state those transactions left, and unless they were zero its last transaction, confirmed too, moves
  exactly the lamports read, which are the ones it reports. It sent nothing else; every transaction
  is paid for by the faucet and signed by the user, and their outcomes are the ones it returns.
\<close>

theorem recovery_returns_everything:
  fixes V :: "('w, 'h, 's, 'b, 'd, 'f) service"
  assumes "reclaim_user_funds V F user mints c w = Some (Inr (ts, l, t), w', cs)"
  shows "\<exists>txs w1 w2. tokens_given_back V F user c mints txs ts w w1 \<and> sv_balance V user w1 = (Inr l, w2)
    \<and> submitted cs = map (\<lambda>ixs. (F, ixs, [user])) txs
        @ (if l = 0 then [] else [(F, [system_transfer user F l], [user])])
    \<and> (if l = 0 then t = None \<and> w' = w2
       else (\<exists>out calls. t = Some out
         \<and> submit (nd_rpc (sv_node V)) (nd_fuel (sv_node V)) [system_transfer user F l] F [user] c w2
             = Some (Inr out, w', calls)))"
proof -
  from assms obtain w1 c1 w2 c2 where tokens: "return_tokens V F user c mints [] w = Some (Inr ts, w1, c1)"
    and read: "sv_balance V user w1 = (Inr l, w2)"
    and last: "(if l = 0 then pureA (Inr None)
      else bindA (transfer_lamports V F user F l c) (\<lambda>t. pureA (Inr (Some t)))) w2 = Some (Inr t, w', c2)"
    and cs: "cs = c1 @ [ReadsBalance user] @ c2"
    by (fastforce simp: reclaim_user_funds_def bindA_Inr library_call_run pureA_Inr)
  from return_tokens_run [OF tokens] obtain txs where txs: "tokens_given_back V F user c mints txs ts w w1"
    "submitted c1 = map (\<lambda>ixs. (F, ixs, [user])) txs" by auto
  show ?thesis
  proof (intro exI conjI)
    show "tokens_given_back V F user c mints txs ts w w1" "sv_balance V user w1 = (Inr l, w2)" by fact+
    show "submitted cs = map (\<lambda>ixs. (F, ixs, [user])) txs
        @ (if l = 0 then [] else [(F, [system_transfer user F l], [user])])"
      using last txs cs by (cases "l = 0") (auto simp: pureA_Inr bindA_Inr transfer_lamports_def service_submit_Inr)
    show "if l = 0 then t = None \<and> w' = w2
       else (\<exists>out calls. t = Some out
         \<and> submit (nd_rpc (sv_node V)) (nd_fuel (sv_node V)) [system_transfer user F l] F [user] c w2
             = Some (Inr out, w', calls))"
      using last by (cases "l = 0") (auto simp: pureA_Inr bindA_Inr transfer_lamports_def service_submit_Inr)
  qed
qed

theorem recovery_returns_everything_witness:
  "\<exists>ts l t cs txs. reclaim_user_funds sample_service (Pubkey [60]) (Pubkey [5]) [Pubkey [10], Pubkey [11]]
      (cl_submission (sample_client 1000)) 5 = Some (Inr (ts, l, t), 13, cs)
     \<and> l = 7 \<and> t \<noteq> None \<and> submitted cs = map (\<lambda>ixs. (Pubkey [60], ixs, [Pubkey [5]])) (txs
         @ [[system_transfer (Pubkey [5]) (Pubkey [60]) 7]])"
proof -
  obtain ts l t cs where run: "reclaim_user_funds sample_service (Pubkey [60]) (Pubkey [5]) [Pubkey [10], Pubkey [11]]
      (cl_submission (sample_client 1000)) 5 = Some (Inr (ts, l, t), 13, cs)"
    using sample_reclaim [of 5] by auto
  from recovery_returns_everything [OF this] obtain txs where "l = 7"
    "submitted cs = map (\<lambda>ixs. (Pubkey [60], ixs, [Pubkey [5]])) (txs @ [[system_transfer (Pubkey [5]) (Pubkey [60]) 7]])"
    "t \<noteq> None" by (auto simp: sample_service_parts)
  with run show ?thesis by blast
qed

section \<open>Users left behind\<close>

lemma run_users_fails:
  assumes "run_user V program F authority x c u w = Some (Inl e, w', cs)"
  shows "run_users V program F authority x c (u # us) w = Some (Inl e, w', cs)"
  using assms by (simp add: bindA_def)

lemma emits_run:
  "m w = Some (r, w', cs) \<Longrightarrow> emits P m \<Longrightarrow> list_all P cs"
  by (auto simp: emits_def)

text \<open>The recovery never panics.\<close>

definition calm :: "('w, 'e fault, 'c, 'a) run \<Rightarrow> bool" where
  "calm m \<longleftrightarrow> (\<forall>w r w' cs. m w = Some (r, w', cs) \<longrightarrow> r \<noteq> Inl Panic)"

lemma attempt_calm:
  assumes "calm m" and "m w = Some (r, w', cs)"
  shows "\<exists>kept. attempt m w = Some (Inr kept, w', cs)"
proof (cases r)
  case (Inl f)
  then show ?thesis using assms by (cases f) (auto simp: calm_def attempt_def)
qed (simp add: attempt_def assms)

named_theorems calm_intros

lemma calm_pure [calm_intros]: "r \<noteq> Inl Panic \<Longrightarrow> calm (pureA r)"
  by (simp add: calm_def pureA_def)

lemma calm_bind [calm_intros]:
  assumes "calm m" and "\<And>x. calm (f x)"
  shows "calm (bindA m f)"
  unfolding calm_def
proof (intro allI impI)
  fix w r w' cs
  assume "bindA m f w = Some (r, w', cs)"
  then show "r \<noteq> Inl Panic" by (cases rule: bindA_cases) (use assms in \<open>unfold calm_def, blast+\<close>)
qed

lemma calm_case [calm_intros]:
  "calm a \<Longrightarrow> (\<And>x. calm (g x)) \<Longrightarrow> calm (case m of None \<Rightarrow> a | Some x \<Rightarrow> g x)"
  "calm a \<Longrightarrow> calm b \<Longrightarrow> calm (if c then a else b)"
  by (cases m; simp)+

lemma library_calm [simp]: "with_context t (library r) \<noteq> Inl Panic"
  by (cases r) (simp_all add: with_context_def library_def)

lemma raised_calm [simp]: "map_err (\<lambda>e. Raised (g e)) s \<noteq> Inl Panic"
  by (cases s) simp_all

lemma calm_steps [calm_intros]:
  "calm (library_call t cs f)" "calm (service_submit V ixs payer signers c)"
  by (auto simp: calm_def library_call_def service_submit_def split: prod.splits option.splits)

lemma bindR_calm: "r \<noteq> Inl Panic \<Longrightarrow> (\<And>x. f x \<noteq> Inl Panic) \<Longrightarrow> bindR r f \<noteq> Inl Panic"
  by (cases r) auto

lemma service_texts_calm:
  "(service_token_address V own mint program :: ('s, pubkey) service_result) \<noteq> Inl Panic"
  "(service_create_ata V payer own mint program ata :: ('s, instruction) service_result) \<noteq> Inl Panic"
  "(token_account_amount V data address :: ('s, u64) service_result) \<noteq> Inl Panic"
  "(return_instructions V F user mint a k s :: ('s, instruction list) service_result) \<noteq> Inl Panic"
proof -
  show one: "(service_token_address V own mint program :: ('s, pubkey) service_result) \<noteq> Inl Panic" for own program
    unfolding service_token_address_def service_pubkey_def by (rule bindR_calm) simp_all
  show two: "(service_create_ata V payer own mint program ata :: ('s, instruction) service_result) \<noteq> Inl Panic"
    for payer own program ata
    unfolding service_create_ata_def service_pubkey_def by (rule bindR_calm) simp_all
  show three: "(token_account_amount V data address :: ('s, u64) service_result) \<noteq> Inl Panic" for data address
    by (simp add: token_account_amount_def)
  show "(return_instructions V F user mint a k s :: ('s, instruction list) service_result) \<noteq> Inl Panic"
    unfolding return_instructions_def Let_def by (intro bindR_calm one two three) simp_all
qed

lemma calm_reclaim: "calm (reclaim_user_funds V F user mints c)"
proof -
  have "calm (return_token_balance V F user mint c)" for mint
    unfolding return_token_balance_def by (intro calm_intros service_texts_calm) simp_all
  then have "calm (return_tokens V F user c mints acc)" for acc
    by (induction mints arbitrary: acc) (auto intro!: calm_intros)
  then show ?thesis
    unfolding reclaim_user_funds_def transfer_lamports_def by (intro calm_intros) simp_all
qed

lemma turn_calls:
  assumes "run_user V program F authority x c (pool, user, startup) w = Some (r, w', cs)"
  shows "list_all (\<lambda>d. \<forall>other. other \<noteq> user \<longrightarrow> d \<noteq> ReadsBalance other) cs"
proof -
  let ?P = "\<lambda>d. \<forall>other. other \<noteq> user \<longrightarrow> d \<noteq> ReadsBalance other"
  have "emits ?P (reclaim_user_funds V F user mints c)" for mints
    unfolding emits_def
  proof (intro allI impI)
    fix w r w' cs
    assume "reclaim_user_funds V F user mints c w = Some (r, w', cs)"
    from emits_run [OF this emits_reclaim] show "list_all ?P cs"
      by (auto simp: list_all_iff elim: recovering.elims)
  qed
  then have "emits ?P (run_user V program F authority x c (pool, user, startup))"
    by (auto simp: run_user_def finish_user_def Let_def intro!: emits_intros)
  then show ?thesis using assms unfolding emits_def by blast
qed

text \<open>
  C40. A failed flow strands the users after it. When the flow of a funded user fails, the recovery of
  its own funds is still attempted, but the run ends there, with exactly the flow's error (whatever
  the recovery answered): for no later user is even a balance read, so what the faucet sent them
  stays in their accounts.
\<close>

theorem failed_flow_strands_users:
  fixes V :: "('w, 'h, 's, 'b, 'd, 'f) service"
  assumes "(service_orchestrator V program user authority (orchestration_of (ua_transaction x))
        :: ('s, ('w, 'h, 's, 'b, 'd, 'f) orchestrator) service_result) = Inr P"
    and "run_user_flow P (flow_params x pool) w = Some (Inl (Raised e), w1, flow_calls)"
    and "run_users V program F authority x c ((pool, user, startup) # us) w = Some (r, w', cs)"
  shows "r = Inl (Raised (Context ''run Raydium CLMM user flow'' (FromOrchestrator e)))
    \<and> (\<forall>(p, other, s) \<in> set us. other \<noteq> user \<longrightarrow> ReadsBalance other \<notin> set cs)
    \<and> (\<exists>recovery rec_calls. reclaim_user_funds V F user (pool_mints pool) c w1 = Some (recovery, w', rec_calls)
        \<and> cs = map (Acting user) flow_calls @ rec_calls)"
proof -
  have flow: "attempt (acting user (run_user_flow P (flow_params x pool))) w
      = Some (Inr (Inl (FromOrchestrator e)), w1, map (Acting user) flow_calls)"
    using assms(2) by (simp add: attempt_def acting_def of_orchestration_def)
  obtain recovery w2 rec_calls where recovers:
    "reclaim_user_funds V F user (pool_mints pool) c w1 = Some (recovery, w2, rec_calls)"
  proof (cases "reclaim_user_funds V F user (pool_mints pool) c w1")
    case None
    then show ?thesis using assms(1,3) flow by (simp add: run_user_def bindA_def pureA_def attempt_def)
  next
    case (Some v)
    then show ?thesis using that by (cases v) auto
  qed
  from attempt_calm [OF calm_reclaim recovers] obtain kept where
    "attempt (reclaim_user_funds V F user (pool_mints pool) c) w1 = Some (Inr kept, w2, rec_calls)" ..
  then have turn: "run_user V program F authority x c (pool, user, startup) w
      = Some (Inl (Raised (Context ''run Raydium CLMM user flow'' (FromOrchestrator e))), w2,
          map (Acting user) flow_calls @ rec_calls)"
    using assms(1) flow by (simp add: run_user_def finish_user_def bindA_def pureA_def raise_def with_context_def)
  from run_users_fails [OF this, of us] assms(3)
  have "r = Inl (Raised (Context ''run Raydium CLMM user flow'' (FromOrchestrator e)))" "w' = w2"
    "cs = map (Acting user) flow_calls @ rec_calls" by simp_all
  then show ?thesis using recovers turn_calls [OF turn] by (auto simp: list_all_iff)
qed

definition failing_args :: "rat user_flow_args" where
  "failing_args = sample_args\<lparr>ua_open_amount := 0\<rparr>"

definition sample_funded :: "nat funded list" where
  "sample_funded =
     [(sample_user_pool, Pubkey [5], \<lparr>out_signature = 1, out_slot = 1, out_units = 0\<rparr>),
      (sample_user_pool, Pubkey [7], \<lparr>out_signature = 2, out_slot = 2, out_units = 0\<rparr>)]"

theorem failed_flow_strands_users_witness:
  "\<exists>r w' cs. run_users sample_service (Pubkey [9]) (Pubkey [60]) (Pubkey sample_authority) failing_args
      (cl_submission (sample_client 1000)) sample_funded 5
      = Some (r, w', cs) \<and> ReadsBalance (Pubkey [7]) \<notin> set cs"
proof -
  let ?x = failing_args
  have x: "orchestration_of (ua_transaction ?x) = sample_settings"
    using sample_args_parts by (simp add: failing_args_def)
  have P: "(service_orchestrator sample_service (Pubkey [9]) (Pubkey [5]) (Pubkey sample_authority)
      (orchestration_of (ua_transaction ?x)) :: (nat, (nat, nat, nat, unit, rat, rat) orchestrator) service_result)
      = Inr (sample_orchestrator 1000)" by (simp add: x sample_service_orchestrator)
  obtain e where flow: "run_user_flow (sample_orchestrator 1000) (flow_params ?x sample_user_pool) 5 = Some (Inl (Raised e), 5, [])"
    by (simp add: run_user_flow_def Let_def bindA_def pureA_def flow_params_def failing_args_def sample_args_def
        sample_user_pool_def validate_user_flow_params_def flow_positive_def sample_orchestrator_def sample_client_def
        rat_dec_def)
  have "keeps_time sample_service" "timed (cl_submission (sample_client 1000))"
    using timed_submission [of "ua_transaction sample_args"]
    by (simp_all add: keeps_time_def sample_service_parts sample_node_def sample_time sample_args_parts)
  from returns_run_users [OF this] obtain r w' cs where run:
    "run_users sample_service (Pubkey [9]) (Pubkey [60]) (Pubkey sample_authority) ?x
      (cl_submission (sample_client 1000)) sample_funded 5
      = Some (r, w', cs)"
    unfolding returns_def by (metis option.exhaust prod_cases3)
  from failed_flow_strands_users [OF P flow run [unfolded sample_funded_def]] run show ?thesis by auto
qed

end
