(* ===== verification/Service_Main.thy ===== *)
theory Service_Main
  imports Service_Recovery
begin

text \<open>
  \<open>main\<close> of the orchestrator's service: the choice of the command. Parsing the command line is
  \<open>clap\<close>'s, setting up telemetry a parameter.
\<close>

section \<open>Dispatch\<close>

datatype 'd command =
    CreatePools "'d create_pools_args"
  | UserFlow "'d user_flow_args"
  | Admin admin_args

definition service_main ::
    "('w, 'h, 's, 'b, 'd, 'f) service \<Rightarrow> (string \<Rightarrow> string + unit) \<Rightarrow> 'd command \<Rightarrow> ('w, 's, unit) service_run" where
  "service_main V telemetry cmd =
     bindA (pureA (library (telemetry ''raydium-clmm-orchestrator''))) (\<lambda>_.
     case cmd of
       CreatePools x \<Rightarrow> create_all_pools V x
     | UserFlow x \<Rightarrow> execute_user_flows V x
     | Admin x \<Rightarrow> run_admin V x)"

section \<open>Every command returns\<close>

lemma returns_reader: "reader m \<Longrightarrow> returns m"
  unfolding reader_def returns_def by (metis option.distinct(1))

lemma returns_submit_action: "live S \<Longrightarrow> returns (submit_action S ixs extra)"
  unfolding live_def returns_def submit_action_def by (auto split: option.split)

lemma returns_ensure_config:
  assumes "live S"
  shows "returns (ensure_amm_config S p)"
  unfolding ensure_amm_config_def Let_def
  by (intro returns_intros returns_reader [OF reader_fetch] returns_submit_action [OF assms])

lemma returns_lift: "returns m \<Longrightarrow> returns (lift_action m)"
  unfolding returns_def lift_action_def by (auto split: option.split)

lemma admin_live:
  assumes "keeps_time V"
    and "(admin_new (sv_env V) (sv_node V) (sv_dec V) program admin units price level) = Inr A"
  shows "live (ao_client A)"
proof -
  obtain S where S: "clmm_new (sv_env V) (sv_node V) (sv_dec V) program admin 0 units price level = Inr S"
    and "ao_client A = S"
    using assms(2) by (auto simp: admin_new_def result_simps of_raydium_Inr)
  with live_client [OF S] assms(1) show ?thesis by (simp add: keeps_time_def)
qed

lemma returns_admin:
  assumes "keeps_time V"
  shows "returns (run_admin V x)"
proof -
  have step: "returns (bindA (pureA (of_orchestration (admin_new (sv_env V) (sv_node V) (sv_dec V) program admin
      units price level))) f)" if "\<And>A. live (ao_client A) \<Longrightarrow> returns (f A)" for program admin units price level f
  proof (cases "admin_new (sv_env V) (sv_node V) (sv_dec V) program admin units price level")
    case (Inl e)
    then show ?thesis by (simp add: returns_def bindA_def pureA_def of_orchestration_def)
  next
    case (Inr A)
    then show ?thesis using that [OF admin_live [OF assms Inr]]
      by (simp add: returns_def bindA_def pureA_def of_orchestration_def split: option.splits)
  qed
  show ?thesis unfolding run_admin_def
    by (intro returns_bind [OF returns_pure] returns_bind [OF returns_connected] step
        returns_bind [OF returns_wrappers(2)] returns_steps)
      (auto simp: admin_ensure_config_def intro!: returns_lift returns_ensure_config)
qed

text \<open>
  C31. The service returns, whichever command it is given: with a clock that advances, creating pools,
  running user flows and administering a configuration end, with a report or an error, for any
  number of mints and whatever the cluster, the file system and the environment answer.
\<close>

theorem service_main_returns:
  assumes "keeps_time V"
  shows "returns (service_main V telemetry cmd)"
  unfolding service_main_def
  using service_returns [OF assms] returns_admin [OF assms]
  by (cases cmd) (auto intro!: returns_bind returns_pure)

theorem service_main_returns_witness:
  "returns (service_main sample_service (\<lambda>_. Inr ()) (UserFlow sample_args))"
proof -
  have "keeps_time sample_service"
    by (simp add: keeps_time_def sample_service_parts sample_node_def sample_time)
  then show ?thesis by (rule service_main_returns)
qed

end
