(* ===== verification/Spec2Isabelle.thy ===== *)
theory Spec2Isabelle
  imports Prelude Rust_Text Externals Price Oracle_Types Oracle_Config Feeds Pricing_Engine
    Pricing_Proofs Pricing_Rules App_State Oracle_Run Oracle_Typing Oracle_Api Feed_Clients Feed_Agreement
    Config_Load Oracle_Service Config_Layers Solana_Types Adapter Key_Files Chain Chain_Liveness Quote_Swap
    Clmm_Math Clmm_World Clmm_Client Clmm_Actions Clmm_Sample Clmm_Safety Clmm_Loading
    Clmm_Swaps Orchestrator Orchestrator_Flow Orchestrator_Amounts Orchestrator_Service
    Service_Proofs Service_Sample Service_Safety Service_Recovery Service_Main
begin

text \<open>
  A verification development of a Rust workspace that makes traffic for a test network: a price
  oracle (\<open>services/oracle\<close>), the submission of Solana transactions (\<open>crates/mtm-chain\<close>), a
  client of the Raydium concentrated-liquidity program (\<open>crates/raydium-clmm-client\<close>), and an
  orchestrator that exercises it (\<open>crates\<close> and \<open>services/raydium-clmm-orchestrator\<close>).

  \<^bold>\<open>How the parts interact.\<close> Feed tasks poll Hermes and CoinGecko or listen to Binance and send
  price points over a channel to the engine; the engine evaluates the instruments that depend on
  the observed feed (or on the clock), and stores what it publishes in a shared state; the HTTP
  interface answers from this state and the typed client of \<open>crates/oracle-client\<close> decodes the
  answers. On the other side the orchestrator's service reads keys and arguments, funds one
  ephemeral user for each pair of mints, runs a user flow through the orchestrator, and recovers the
  funds; the orchestrator sequences actions of the Raydium client; every action reads accounts,
  checks them, computes a quote, and submits at most one transaction through \<open>mtm-chain\<close>.

  \<^bold>\<open>Theories and code.\<close>
  \<^item> \<open>Prelude\<close>, \<open>Rust_Text\<close>, \<open>Externals\<close>: results and panics (\<open>fault\<close>), checked and saturating
    arithmetic, the locales \<open>codec\<close> and \<open>keyed_store\<close>; Rust's parsing and printing of integers;
    the interfaces of \<open>rust_decimal\<close> (\<open>dec_ops\<close>) and of floating point (\<open>f64_ops\<close>), parameters
    with their documented laws and a model on the rationals that satisfies them.
  \<^item> \<open>Price\<close>: \<open>crates/mtm-math/src/lib.rs\<close>.
  \<^item> \<open>Oracle_Types\<close>: \<open>mtm-common/src/types.rs\<close> and \<open>oracle-client\<close>: points, their wire form, the HTTP
    client.
  \<^item> \<open>Oracle_Config\<close>, \<open>Feeds\<close>, \<open>Feed_Clients\<close>: \<open>services/oracle/src/{config,pricing/spec}.rs\<close>, and
    \<open>{hermes,feed_task,coingecko,binance}.rs\<close> with \<open>crates/mtm-feeds\<close>: one tick, then the clients, the
    decoding of answers, and the tasks. \<open>Feed_Agreement\<close> shows that the two Hermes clients of the
    workspace read the same prices.
  \<^item> \<open>Pricing_Engine\<close> with \<open>Pricing_Proofs\<close>, \<open>Pricing_Rules\<close>: \<open>services/oracle/src/pricing/mod.rs\<close>.
  \<^item> \<open>App_State\<close>, \<open>Oracle_Run\<close>: \<open>state.rs\<close>, \<open>api.rs\<close>, and the wiring of \<open>lib.rs\<close> with the engine task.
    \<open>Oracle_Typing\<close> keeps the values of the engine in their Rust types; \<open>Oracle_Api\<close> joins the service
    with its typed client over HTTP and the websocket.
  \<^item> \<open>Config_Load\<close>, \<open>Oracle_Service\<close>: \<open>mtm-common/src/config.rs\<close>, the deserialisers of the
    configuration, \<open>main.rs\<close>; the whole service, from its files and its feed servers to what it
    broadcasts, and the configuration in \<open>config/\<close>. \<open>Config_Layers\<close> shows which layer of the
    configuration a setting comes from.
  \<^item> \<open>Solana_Types\<close>, \<open>Adapter\<close>, \<open>Key_Files\<close>, \<open>Chain\<close>, \<open>Chain_Liveness\<close>: keys, instructions and bytes with
    the conversions of \<open>raydium-clmm-client/src/adapter.rs\<close>; \<open>crates/mtm-chain/src/{lib,tx,keys}.rs\<close>.
  \<^item> \<open>Quote_Swap\<close>: \<open>raydium-clmm-client/src/quote.rs\<close>.
  \<^item> \<open>Clmm_Math\<close>, \<open>Clmm_World\<close>, \<open>Clmm_Client\<close>, \<open>Clmm_Actions\<close>: \<open>raydium-clmm-client/src/lib.rs\<close> in the
    order amounts and addresses, the client with its reads and submission, the loading and checking
    of accounts with the quotes, the public actions. \<open>Clmm_Sample\<close> is a small cluster on which
    every action is evaluated; \<open>Clmm_Safety\<close>, \<open>Clmm_Loading\<close>, \<open>Clmm_Swaps\<close> hold the properties.
  \<^item> \<open>Orchestrator\<close> with \<open>Orchestrator_Flow\<close>, \<open>Orchestrator_Amounts\<close>:
    \<open>crates/raydium-clmm-orchestrator/src/lib.rs\<close>.
  \<^item> \<open>Orchestrator_Service\<close> with \<open>Service_Proofs\<close>, \<open>Service_Sample\<close>, \<open>Service_Safety\<close>,
    \<open>Service_Recovery\<close>, \<open>Service_Main\<close>: \<open>services/raydium-clmm-orchestrator/src/main.rs\<close>.

  \<^bold>\<open>State and effects.\<close> A struct is a record, an enum a datatype, a machine integer a word of its
  width or an integer with its range written out. A fallible function returns a sum; a panic is an
  error value of its own (\<open>Panic\<close>), so that a theorem that excludes it says that the code does
  not panic. The engine, the shared state and the feed tasks are explicit states with one step
  function per event; the order in which \<open>select!\<close> serves events is any list of events. A chain, a
  clock, a file system are one abstract world \<open>'w\<close> that each call may change; a run returns
  \<open>None\<close> (not returned within the fuel) or the result, the new world and the list of the calls made,
  on which the safety properties are stated.

  \<^bold>\<open>What the lemmas show.\<close> Prices: scaling, text, decimal and wire forms, exact or with the error
  stated. Engine: start-up accepts the valid configurations, an observation touches only the
  instruments that use its feed, no panic in any run, sources are marked derived when they must be,
  clock-driven instruments respect their interval, the lag transform reports the newest expired
  sample. Feeds: a failed poll loses only itself, whatever a server answers becomes a typed tick of a
  configured symbol or none. Service: typed from its files to its broadcasts, a client reads the
  latest point of each symbol, the websocket delivers what was published, the shipped
  configuration starts. Chain: one signed transaction however often it is sent, success only for a
  confirmed status, return for every behaviour of the node, success on a cooperative one. Client: a loaded pool and position are what their
  addresses say, an action sends at most one transaction, amounts and ranges are inside their
  limits. Orchestrator: the order of the flow, the funding, the units. Service: keys are successfully
  saved before users are paid and removed only after a recovery, a recovery gives back what it
  finds, the commands return.

  \<^bold>\<open>Bounds and fuel.\<close> The quote loop has the 64 steps of the code's own \<open>for\<close> loop. The
  confirmation loop takes fuel: it polls every 500 ms with a deadline of 45 s, so 91 polls are
  enough once the clock advances with each sleep (\<open>time_passes\<close>), which \<open>submit_returns\<close> proves.
  The loops over tick arrays have the code's constants (24 discovered, 6 used). Everything else
  recurses on its data.

  \<^bold>\<open>Parameters.\<close> Decimal and float arithmetic, the RPC node, the codecs of the on-chain accounts
  and the tick arithmetic of the Raydium interface crate, address derivation, the key library, the
  file system and the environment are not in the repository; each is a record of functions, and a
  property that needs a law of one names it as a hypothesis and has a witness on a concrete instance.
  One parameter stands for a name of the code: \<open>main.rs\<close> of the orchestrator's service removes the
  file \<open>recovery_path\<close> in its second loop, where no variable of this name is in scope (the service does
  not compile as it stands); which path it is, is \<open>sv_removed_path\<close>, and no property depends on it.

  \<^bold>\<open>Not modelled.\<close> Logging and metrics (\<open>mtm-telemetry\<close>, a parameter where it can fail, and the
  \<open>run\<close> wrapper of the client, which returns what it is given), the pusher (a stub that logs), the trait
  \<open>PriceFeed\<close> of \<open>mtm-feeds\<close> (no implementation), binding and serving of the listener, parsing of the
  command line (done by \<open>clap\<close>), \<open>serde\<close>'s positional form of structs, tests.
\<close>

end
